(* ===== verification/Prelude.thy ===== *)
theory Prelude
  imports Main "HOL-Library.Word"
begin

text \<open>
  Shared vocabulary of the development: results and state-passing programs with Rust's
  early-return discipline, the clock and the random sources a request handler reads, mutexes
  that can be poisoned, 64-bit wrap-around, and the string operations of Rust's standard
  library that the sources use, with the lemmas the component theories share.

  An Isabelle \<open>char\<close> is an 8-bit byte. Rust's \<open>str\<close> is its UTF-8 bytes and a \<open>Vec<u8>\<close> is a
  byte sequence, so both are character lists here and \<open>str::as_bytes\<close> is the identity.
  Only the status lists compute with bytes; they use \<open>8 word\<close>.
\<close>

unbundle bit_operations_syntax

named_theorems result_inv \<open>when a result or a program returns successfully\<close>
named_theorems run_simps \<open>running the primitive programs\<close>

type_synonym bytes = string
type_synonym url = string
type_synonym u8 = "8 word"
type_synonym instant = int
type_synonym ('s, 'e, 'a) prog = "'s \<Rightarrow> ('e + 'a) \<times> 's"

section \<open>Results\<close>

text \<open>\<open>Result<T, E>\<close> is \<open>'e + 'a\<close> with \<open>Inl\<close> the error; the question mark operator is \<open>bindR\<close>.\<close>

definition bindR :: "'e + 'a \<Rightarrow> ('a \<Rightarrow> 'e + 'b) \<Rightarrow> 'e + 'b" where
  "bindR r f = (case r of Inl e \<Rightarrow> Inl e | Inr x \<Rightarrow> f x)"

definition ok_or :: "'e \<Rightarrow> 'a option \<Rightarrow> 'e + 'a" where
  "ok_or e v = (case v of None \<Rightarrow> Inl e | Some x \<Rightarrow> Inr x)"

definition ensure :: "bool \<Rightarrow> 'e \<Rightarrow> 'e + unit" where
  "ensure b e = (if b then Inr () else Inl e)"

definition map_err :: "('e \<Rightarrow> 'f) \<Rightarrow> 'e + 'a \<Rightarrow> 'f + 'a" where
  "map_err f r = (case r of Inl e \<Rightarrow> Inl (f e) | Inr x \<Rightarrow> Inr x)"

definition is_ok :: "'e + 'a \<Rightarrow> bool" where
  "is_ok r = (case r of Inl _ \<Rightarrow> False | Inr _ \<Rightarrow> True)"

text \<open>\<open>Iterator::collect\<close> into a \<open>Result<Vec<_>, _>\<close>: stops at the first error.\<close>

fun mapR :: "('a \<Rightarrow> 'e + 'b) \<Rightarrow> 'a list \<Rightarrow> 'e + 'b list" where
  "mapR f [] = Inr []"
| "mapR f (x # xs) = bindR (f x) (\<lambda>y. bindR (mapR f xs) (\<lambda>ys. Inr (y # ys)))"

lemma bindR_simps [simp]:
  "bindR (Inl e) f = Inl e"
  "bindR (Inr x) f = f x"
  by (simp_all add: bindR_def)

lemma ok_or_simps [simp]:
  "ok_or e None = Inl e"
  "ok_or e (Some x) = Inr x"
  by (simp_all add: ok_or_def)

lemma map_err_simps [simp]:
  "map_err f (Inl e) = Inl (f e)"
  "map_err f (Inr x) = Inr x"
  by (simp_all add: map_err_def)

lemma is_ok_simps [simp]:
  "is_ok (Inl e) = False"
  "is_ok (Inr x) = True"
  by (simp_all add: is_ok_def)

lemma is_ok_iff: "is_ok r \<longleftrightarrow> (\<exists>x. r = Inr x)"
  by (cases r) auto

lemma ensure_simps [simp]:
  "ensure True e = Inr ()"
  "ensure False e = Inl e"
  by (simp_all add: ensure_def)

lemma bindR_Inr [result_inv]: "bindR r f = Inr y \<longleftrightarrow> (\<exists>x. r = Inr x \<and> f x = Inr y)"
  by (cases r) auto

lemma bindR_Inl: "bindR r f = Inl e \<longleftrightarrow> r = Inl e \<or> (\<exists>x. r = Inr x \<and> f x = Inl e)"
  by (cases r) auto

lemma ok_or_Inr [result_inv]: "ok_or e v = Inr x \<longleftrightarrow> v = Some x"
  by (cases v) auto

lemma ensure_Inr [result_inv]: "ensure b e = Inr u \<longleftrightarrow> b"
  by (cases b) auto

lemma map_err_Inr [result_inv]: "map_err f r = Inr x \<longleftrightarrow> r = Inr x"
  by (cases r) auto

lemma bindR_cong [fundef_cong]:
  assumes "r = r'" and "\<And>x. r' = Inr x \<Longrightarrow> f x = g x"
  shows "bindR r f = bindR r' g"
  using assms by (cases r') auto

lemma mapR_Inr:
  "mapR f xs = Inr ys \<longleftrightarrow> list_all2 (\<lambda>x y. f x = Inr y) xs ys"
  by (induction xs arbitrary: ys) (auto simp: result_inv list_all2_Cons1)

section \<open>Programs over a mutable state\<close>

text \<open>
  A function that takes \<open>&self\<close> state and returns a \<open>Result\<close> is a \<open>prog\<close>: an early return keeps
  every effect that came before it, so an error also carries the state it left behind.
\<close>

definition ret :: "'a \<Rightarrow> ('s, 'e, 'a) prog" where
  "ret x = (\<lambda>s. (Inr x, s))"

definition liftR :: "'e + 'a \<Rightarrow> ('s, 'e, 'a) prog" where
  "liftR r = (\<lambda>s. (r, s))"

definition bindP :: "('s, 'e, 'a) prog \<Rightarrow> ('a \<Rightarrow> ('s, 'e, 'b) prog) \<Rightarrow> ('s, 'e, 'b) prog" where
  "bindP m f = (\<lambda>s. case m s of (Inl e, s') \<Rightarrow> (Inl e, s') | (Inr x, s') \<Rightarrow> f x s')"

definition errP :: "('e \<Rightarrow> 'f) \<Rightarrow> ('s, 'e, 'a) prog \<Rightarrow> ('s, 'f, 'a) prog" where
  "errP f m = (\<lambda>s. case m s of (r, s') \<Rightarrow> (map_err f r, s'))"

fun mapP :: "('a \<Rightarrow> ('s, 'e, 'b) prog) \<Rightarrow> 'a list \<Rightarrow> ('s, 'e, 'b list) prog" where
  "mapP f [] = ret []"
| "mapP f (x # xs) = bindP (f x) (\<lambda>y. bindP (mapP f xs) (\<lambda>ys. ret (y # ys)))"

lemma ret_run [run_simps]: "ret x s = (Inr x, s)"
  by (simp add: ret_def)

lemma liftR_run [run_simps]: "liftR r s = (r, s)"
  by (simp add: liftR_def)

lemma bindP_run [run_simps]:
  "m s = (Inl e, s') \<Longrightarrow> bindP m f s = (Inl e, s')"
  "m s = (Inr x, s') \<Longrightarrow> bindP m f s = f x s'"
  by (simp_all add: bindP_def)

lemma errP_run [run_simps]: "m s = (r, s') \<Longrightarrow> errP f m s = (map_err f r, s')"
  by (simp add: errP_def)

lemma bindP_Inr [result_inv]:
  "bindP m f s = (Inr y, s') \<longleftrightarrow> (\<exists>x t. m s = (Inr x, t) \<and> f x t = (Inr y, s'))"
  by (auto simp: bindP_def split: prod.splits sum.splits)

lemma errP_Inr [result_inv]: "errP f m s = (Inr y, s') \<longleftrightarrow> m s = (Inr y, s')"
  by (auto simp: errP_def result_inv split: prod.splits)

lemma liftR_Inr [result_inv]: "liftR r s = (Inr y, s') \<longleftrightarrow> r = Inr y \<and> s' = s"
  by (auto simp: liftR_def)

lemma ret_Inr [result_inv]: "ret x s = (Inr y, s') \<longleftrightarrow> y = x \<and> s' = s"
  by (auto simp: ret_def)

lemma mapP_all2:
  "mapP f xs s = (Inr ys, s') \<Longrightarrow> list_all2 (\<lambda>x y. \<exists>t t'. f x t = (Inr y, t')) xs ys"
  by (induction xs arbitrary: s ys) (auto simp: ret_Inr bindP_Inr)

text \<open>A state predicate that every run of a program keeps, whether it succeeds or fails.\<close>

definition keeps :: "('s \<Rightarrow> 's \<Rightarrow> bool) \<Rightarrow> ('s, 'e, 'a) prog \<Rightarrow> bool" where
  "keeps R m \<longleftrightarrow> (\<forall>s. R s (snd (m s)))"

lemma keepsD: "keeps R m \<Longrightarrow> m s = (r, s') \<Longrightarrow> R s s'"
  by (auto simp: keeps_def dest: spec [of _ s])

lemma keeps_ret [intro]: "(\<And>s. R s s) \<Longrightarrow> keeps R (ret x)"
  by (simp add: keeps_def ret_def)

lemma keeps_liftR [intro]: "(\<And>s. R s s) \<Longrightarrow> keeps R (liftR r)"
  by (simp add: keeps_def liftR_def)

lemma keeps_errP [intro]: "keeps R m \<Longrightarrow> keeps R (errP f m)"
  by (auto simp: keeps_def errP_def split: prod.splits) (metis snd_conv)

lemma keeps_bindP [intro]:
  assumes trans: "\<And>s t u. R s t \<Longrightarrow> R t u \<Longrightarrow> R s u"
    and m: "keeps R m" and f: "\<And>x. keeps R (f x)"
  shows "keeps R (bindP m f)"
  unfolding keeps_def
proof
  fix s
  show "R s (snd (bindP m f s))"
  proof (cases "m s")
    case (Pair r t)
    then have st: "R s t" using keepsD [OF m] by blast
    show ?thesis
    proof (cases r)
      case (Inl e)
      with Pair st show ?thesis by (simp add: bindP_def)
    next
      case (Inr x)
      have "R t (snd (f x t))" using f [of x] by (simp add: keeps_def)
      with trans [OF st] Pair Inr show ?thesis by (simp add: bindP_def)
    qed
  qed
qed

lemma keeps_mapP:
  assumes "\<And>s. R s s" and "\<And>s t u. R s t \<Longrightarrow> R t u \<Longrightarrow> R s u" and "\<And>x. keeps R (f x)"
  shows "keeps R (mapP f xs)"
  by (induction xs) (use assms in \<open>auto intro!: keeps_bindP keeps_ret\<close>)

section \<open>Clock and random sources\<close>

text \<open>
  \<open>chrono::Utc::now\<close>, \<open>Uuid::new_v4\<close> and \<open>rand::random\<close> are outside the sources. A run reads
  them from sequences: the n-th reading of the clock, the n-th UUID and so on. Nothing is
  assumed of the sequences here; a property that needs UUIDs to be distinct says so.
  An \<open>instant\<close> counts nanoseconds since the Unix epoch, chrono's resolution.
\<close>

record env =
  clock_at :: "nat \<Rightarrow> instant"
  clock_reads :: nat
  uuid_at :: "nat \<Rightarrow> string"
  uuids_used :: nat
  salt_at :: "nat \<Rightarrow> bytes"
  salts_used :: nat
  draw_at :: "nat \<Rightarrow> nat"
  draws_used :: nat

definition utc_now :: "('x env_scheme, 'e, instant) prog" where
  "utc_now = (\<lambda>s. (Inr (clock_at s (clock_reads s)), s\<lparr>clock_reads := Suc (clock_reads s)\<rparr>))"

definition new_uuid :: "('x env_scheme, 'e, string) prog" where
  "new_uuid = (\<lambda>s. (Inr (uuid_at s (uuids_used s)), s\<lparr>uuids_used := Suc (uuids_used s)\<rparr>))"

definition new_salt :: "('x env_scheme, 'e, bytes) prog" where
  "new_salt = (\<lambda>s. (Inr (salt_at s (salts_used s)), s\<lparr>salts_used := Suc (salts_used s)\<rparr>))"

lemma utc_now_run [run_simps]:
  "utc_now s = (Inr (clock_at s (clock_reads s)), s\<lparr>clock_reads := Suc (clock_reads s)\<rparr>)"
  by (simp add: utc_now_def)

lemma new_uuid_run [run_simps]:
  "new_uuid s = (Inr (uuid_at s (uuids_used s)), s\<lparr>uuids_used := Suc (uuids_used s)\<rparr>)"
  by (simp add: new_uuid_def)

lemma new_salt_run [run_simps]:
  "new_salt s = (Inr (salt_at s (salts_used s)), s\<lparr>salts_used := Suc (salts_used s)\<rparr>)"
  by (simp add: new_salt_def)

text \<open>Two runs of the environment agree on what the sources will deliver.\<close>

definition same_sources :: "'x env_scheme \<Rightarrow> 'x env_scheme \<Rightarrow> bool" where
  "same_sources s t \<longleftrightarrow> clock_at t = clock_at s \<and> uuid_at t = uuid_at s \<and>
     salt_at t = salt_at s \<and> draw_at t = draw_at s"

definition second :: int where
  "second = 1000000000"

definition timestamp :: "instant \<Rightarrow> int" where
  "timestamp t = t div second"

text \<open>chrono's \<open>num_seconds\<close> and \<open>num_milliseconds\<close> truncate towards zero.\<close>

definition trunc_div :: "int \<Rightarrow> int \<Rightarrow> int" where
  "trunc_div a b = sgn a * sgn b * (\<bar>a\<bar> div \<bar>b\<bar>)"

definition num_seconds :: "int \<Rightarrow> int" where
  "num_seconds d = trunc_div d second"

definition num_milliseconds :: "int \<Rightarrow> int" where
  "num_milliseconds d = trunc_div d 1000000"

lemma trunc_div_nonneg: "0 \<le> a \<Longrightarrow> 0 < b \<Longrightarrow> trunc_div a b = a div b"
  by (cases "a = 0") (simp_all add: trunc_div_def sgn_if)

lemma div_le_imp_less:
  fixes d k t :: int
  assumes "0 < k" and "d div k \<le> t"
  shows "d < (t + 1) * k"
proof -
  have "d = k * (d div k) + d mod k" and "d mod k < k" using assms(1) by simp_all
  moreover have "k * (d div k) \<le> k * t" using assms by (simp add: mult_left_mono)
  moreover have "(t + 1) * k = k * t + k" by (simp add: algebra_simps)
  ultimately show ?thesis by linarith
qed

section \<open>Mutexes\<close>

text \<open>
  A \<open>Mutex\<close> whose holder panicked is poisoned: \<open>lock()\<close> then fails for good, and its content is
  out of reach for code that, like these sources, maps the failure to an error.
\<close>

datatype 'a mutex = Unlocked 'a | Poisoned

text \<open>\<open>field.lock().map_err(|_| err)?\<close> and what is done under the lock.\<close>

definition with_lock :: "'e \<Rightarrow> ('s \<Rightarrow> 'm mutex) \<Rightarrow> ('m \<Rightarrow> ('s, 'e, 'a) prog) \<Rightarrow> ('s, 'e, 'a) prog" where
  "with_lock err field f = (\<lambda>s. case field s of Poisoned \<Rightarrow> (Inl err, s) | Unlocked m \<Rightarrow> f m s)"

lemma with_lock_run [run_simps]:
  "field s = Poisoned \<Longrightarrow> with_lock err field f s = (Inl err, s)"
  "field s = Unlocked m \<Longrightarrow> with_lock err field f s = f m s"
  by (simp_all add: with_lock_def)

lemma with_lock_Inr [result_inv]:
  "with_lock err field f s = (Inr x, s') \<longleftrightarrow> (\<exists>m. field s = Unlocked m \<and> f m s = (Inr x, s'))"
  by (auto simp: with_lock_def split: mutex.splits)

section \<open>Machine integers\<close>

text \<open>
  \<open>i64\<close> and \<open>u64\<close> arithmetic as a release build does it (the workspace sets no profile, so
  overflow checks are off): the result wraps around.
\<close>

definition wrap_i64 :: "int \<Rightarrow> int" where
  "wrap_i64 x = (x + 9223372036854775808) mod 18446744073709551616 - 9223372036854775808"

definition as_u64 :: "int \<Rightarrow> nat" where
  "as_u64 x = nat (x mod 18446744073709551616)"

definition in_i64 :: "int \<Rightarrow> bool" where
  "in_i64 x \<longleftrightarrow> -9223372036854775808 \<le> x \<and> x \<le> 9223372036854775807"

lemma wrap_i64_id: "in_i64 x \<Longrightarrow> wrap_i64 x = x"
  by (simp add: wrap_i64_def in_i64_def mod_pos_pos_trivial)

lemma wrap_i64_range: "in_i64 (wrap_i64 x)"
proof -
  have "0 \<le> (x + 9223372036854775808) mod 18446744073709551616"
    and "(x + 9223372036854775808) mod 18446744073709551616 < 18446744073709551616"
    by simp_all
  then show ?thesis by (simp add: wrap_i64_def in_i64_def)
qed

text \<open>
  chrono: \<open>Duration::seconds\<close> panics when the milliseconds do not fit an \<open>i64\<close>, and adding a
  duration to a date panics beyond the dates it can represent (the years -262143 to 262142).
\<close>

definition duration_seconds :: "int \<Rightarrow> int option" where
  "duration_seconds s = (if \<bar>s\<bar> \<le> 9223372036854775 then Some (s * second) else None)"

definition date_plus :: "instant \<Rightarrow> int \<Rightarrow> instant option" where
  "date_plus t d =
     (if -8334601228800 * second \<le> t + d \<and> t + d < 8210266876800 * second then Some (t + d) else None)"

text \<open>\<open>now + Duration::seconds(ttl as i64)\<close> for a \<open>u64\<close>, \<open>None\<close> when it panics.\<close>

definition expiry :: "instant \<Rightarrow> nat \<Rightarrow> instant option" where
  "expiry now ttl = Option.bind (duration_seconds (wrap_i64 (int ttl))) (date_plus now)"

lemma expiry_Some:
  assumes "expiry now ttl = Some e" and "ttl < 9223372036854775808"
  shows "e = now + int ttl * second"
proof -
  have "wrap_i64 (int ttl) = int ttl" using assms(2) by (intro wrap_i64_id) (simp add: in_i64_def)
  with assms(1) show ?thesis
    by (auto simp: expiry_def duration_seconds_def date_plus_def split: if_splits)
qed

section \<open>Strings\<close>

fun split_on :: "char \<Rightarrow> string \<Rightarrow> string list" where
  "split_on c [] = [[]]"
| "split_on c (x # xs) =
     (if x = c then [] # split_on c xs
      else (case split_on c xs of [] \<Rightarrow> [[x]] | p # ps \<Rightarrow> (x # p) # ps))"

fun join_with :: "string \<Rightarrow> string list \<Rightarrow> string" where
  "join_with sep [] = []"
| "join_with sep [p] = p"
| "join_with sep (p # q # ps) = p @ sep @ join_with sep (q # ps)"

fun split_once :: "char \<Rightarrow> string \<Rightarrow> (string \<times> string) option" where
  "split_once c [] = None"
| "split_once c (x # xs) =
     (if x = c then Some ([], xs) else map_option (\<lambda>(a, b). (x # a, b)) (split_once c xs))"

fun splitn :: "nat \<Rightarrow> char \<Rightarrow> string \<Rightarrow> string list" where
  "splitn 0 c s = []"
| "splitn (Suc 0) c s = [s]"
| "splitn (Suc (Suc n)) c s =
     (case split_once c s of None \<Rightarrow> [s] | Some (a, b) \<Rightarrow> a # splitn (Suc n) c b)"

definition trim_end_matches :: "char \<Rightarrow> string \<Rightarrow> string" where
  "trim_end_matches c s = rev (dropWhile (\<lambda>x. x = c) (rev s))"

definition starts_with :: "string \<Rightarrow> string \<Rightarrow> bool" where
  "starts_with p s \<longleftrightarrow> take (length p) s = p"

fun contains_str :: "string \<Rightarrow> string \<Rightarrow> bool" where
  "contains_str p [] = (p = [])"
| "contains_str p (x # xs) = (starts_with p (x # xs) \<or> contains_str p xs)"

definition strip_prefix :: "string \<Rightarrow> string \<Rightarrow> string option" where
  "strip_prefix p s = (if starts_with p s then Some (drop (length p) s) else None)"

definition strip_suffix :: "string \<Rightarrow> string \<Rightarrow> string option" where
  "strip_suffix p s =
     (if length p \<le> length s \<and> drop (length s - length p) s = p
      then Some (take (length s - length p) s) else None)"

text \<open>Up to and including the last occurrence of \<open>c\<close>, the whole string when there is none.\<close>

definition upto_last :: "char \<Rightarrow> string \<Rightarrow> string" where
  "upto_last c s = (if c \<in> set s then rev (dropWhile (\<lambda>x. x \<noteq> c) (rev s)) else s)"

text \<open>
  White space is what Unicode says, in UTF-8: six characters of ASCII, U+0085, U+00A0, U+1680,
  U+2000 to U+200A, U+2028, U+2029, U+202F, U+205F and U+3000.
\<close>

definition white_space :: "string list" where
  "white_space = [[CHR 0x20], [CHR 0x09], [CHR 0x0A], [CHR 0x0B], [CHR 0x0C], [CHR 0x0D],
     [CHR 0xC2, CHR 0x85], [CHR 0xC2, CHR 0xA0], [CHR 0xE1, CHR 0x9A, CHR 0x80],
     [CHR 0xE2, CHR 0x80, CHR 0x80], [CHR 0xE2, CHR 0x80, CHR 0x81], [CHR 0xE2, CHR 0x80, CHR 0x82],
     [CHR 0xE2, CHR 0x80, CHR 0x83], [CHR 0xE2, CHR 0x80, CHR 0x84], [CHR 0xE2, CHR 0x80, CHR 0x85],
     [CHR 0xE2, CHR 0x80, CHR 0x86], [CHR 0xE2, CHR 0x80, CHR 0x87], [CHR 0xE2, CHR 0x80, CHR 0x88],
     [CHR 0xE2, CHR 0x80, CHR 0x89], [CHR 0xE2, CHR 0x80, CHR 0x8A], [CHR 0xE2, CHR 0x80, CHR 0xA8],
     [CHR 0xE2, CHR 0x80, CHR 0xA9], [CHR 0xE2, CHR 0x80, CHR 0xAF], [CHR 0xE2, CHR 0x81, CHR 0x9F],
     [CHR 0xE3, CHR 0x80, CHR 0x80]]"

text \<open>The length of the first of \<open>ws\<close> that the text starts with, 0 for none.\<close>

definition prefix_length :: "string list \<Rightarrow> string \<Rightarrow> nat" where
  "prefix_length ws s = (case find (\<lambda>w. starts_with w s) ws of Some w \<Rightarrow> length w | None \<Rightarrow> 0)"

lemma prefix_length_le: "prefix_length ws s \<le> length s"
proof (cases "find (\<lambda>w. starts_with w s) ws")
  case (Some w)
  then have "take (length w) s = w" by (auto simp: find_Some_iff starts_with_def)
  then have "length w \<le> length s" by (metis length_take min.cobounded1)
  with Some show ?thesis by (simp add: prefix_length_def)
qed (simp add: prefix_length_def)

function trim_start_of :: "string list \<Rightarrow> string \<Rightarrow> string" where
  "trim_start_of ws s = (let n = prefix_length ws s in if n = 0 then s else trim_start_of ws (drop n s))"
  by pat_completeness auto
termination
proof (relation "measure (length \<circ> snd)", simp)
  fix ws s n
  assume "n = prefix_length ws s" "n \<noteq> 0"
  with prefix_length_le [of ws s] show "((ws, drop n s), ws, s) \<in> measure (length \<circ> snd)" by simp
qed

declare trim_start_of.simps [simp del]

text \<open>\<open>str::trim\<close>. From the end, the white space is read backwards.\<close>

definition trim_str :: "string \<Rightarrow> string" where
  "trim_str s = rev (trim_start_of (map rev white_space) (rev (trim_start_of white_space s)))"

text \<open>\<open>str::split_whitespace\<close>: each white space becomes a blank.\<close>

function blank_spaces :: "string \<Rightarrow> string" where
  "blank_spaces [] = []"
| "blank_spaces (c # s) =
     (let n = prefix_length white_space (c # s)
      in if n = 0 then c # blank_spaces s else CHR '' '' # blank_spaces (drop n (c # s)))"
  by pat_completeness auto
termination by (relation "measure length") (auto simp: less_Suc_eq_le)

declare blank_spaces.simps(2) [simp del]

definition split_whitespace :: "string \<Rightarrow> string list" where
  "split_whitespace s = filter (\<lambda>p. p \<noteq> []) (split_on (CHR '' '') (blank_spaces s))"

text \<open>Visible ASCII is not white space.\<close>

definition graphic :: "char \<Rightarrow> bool" where
  "graphic c \<longleftrightarrow> (let n = (of_char c :: nat) in 33 \<le> n \<and> n \<le> 126)"

lemma prefix_length_0: "(\<And>w. w \<in> set ws \<Longrightarrow> w \<noteq> [] \<and> hd w \<noteq> c) \<Longrightarrow> prefix_length ws (c # s) = 0"
proof -
  assume h: "\<And>w. w \<in> set ws \<Longrightarrow> w \<noteq> [] \<and> hd w \<noteq> c"
  have "\<not> starts_with w (c # s)" if "w \<in> set ws" for w
    using h [OF that] by (cases w) (auto simp: starts_with_def)
  then have "find (\<lambda>w. starts_with w (c # s)) ws = None" by (simp add: find_None_iff)
  then show ?thesis by (simp add: prefix_length_def)
qed

lemma white_space_bytes:
  "list_all (\<lambda>w. w \<noteq> [] \<and> \<not> graphic (hd w) \<and> \<not> graphic (last w)) white_space"
  by (simp add: white_space_def graphic_def)

lemma no_white_prefix:
  assumes "graphic c"
  shows "prefix_length white_space (c # s) = 0" "prefix_length (map rev white_space) (c # s) = 0"
  using white_space_bytes assms by (auto simp: list_all_iff hd_rev intro!: prefix_length_0)

lemma trim_graphic:
  assumes "s \<noteq> []" and "graphic (hd s)" and "graphic (last s)"
  shows "trim_str s = s"
proof -
  have "trim_start_of white_space s = s"
    using assms(1,2) by (cases s) (simp_all add: trim_start_of.simps [of _ "_ # _"] no_white_prefix)
  moreover have "trim_start_of (map rev white_space) (rev s) = rev s"
    using assms(1,3)
    by (cases s rule: rev_cases) (simp_all add: trim_start_of.simps [of _ "_ # _"] no_white_prefix)
  ultimately show ?thesis by (simp add: trim_str_def)
qed

lemma blank_graphic: "list_all (\<lambda>c. graphic c \<or> c = CHR '' '') s \<Longrightarrow> blank_spaces s = s"
proof (induction s)
  case (Cons c s)
  have "prefix_length white_space (CHR '' '' # s) = 1"
    by (simp add: prefix_length_def white_space_def starts_with_def)
  with Cons show ?case by (auto simp: blank_spaces.simps(2) no_white_prefix)
qed simp

fun show_nat :: "nat \<Rightarrow> string" where
  "show_nat n = (if n < 10 then [char_of (48 + n)]
                 else show_nat (n div 10) @ [char_of (48 + n mod 10)])"

declare show_nat.simps [simp del]

lemma split_on_not_Nil [simp]: "split_on c s \<noteq> []"
  by (cases s) (auto split: list.splits)

lemma split_on_no_sep: "c \<notin> set s \<Longrightarrow> split_on c s = [s]"
  by (induction s) auto

lemma split_on_append:
  "c \<notin> set p \<Longrightarrow> split_on c (p @ c # s) = p # split_on c s"
  by (induction p) auto

lemma split_join:
  assumes "ps \<noteq> []" and "\<And>p. p \<in> set ps \<Longrightarrow> c \<notin> set p"
  shows "split_on c (join_with [c] ps) = ps"
  using assms
  by (induction "[c]" ps rule: join_with.induct)
    (auto simp: split_on_no_sep split_on_append)

lemma split_on_pieces: "p \<in> set (split_on c s) \<Longrightarrow> c \<notin> set p"
proof (induction s arbitrary: p)
  case Nil
  then show ?case by simp
next
  case (Cons x xs)
  then show ?case
    by (cases "split_on c xs") (auto split: if_splits)
qed

lemma join_split: "join_with [c] (split_on c s) = s"
proof (induction s)
  case Nil
  then show ?case by simp
next
  case (Cons x xs)
  obtain p ps where ps: "split_on c xs = p # ps" by (cases "split_on c xs") auto
  show ?case
  proof (cases "x = c")
    case True
    with Cons ps show ?thesis by simp
  next
    case False
    with Cons ps show ?thesis by (cases ps) auto
  qed
qed

lemma split_once_append: "c \<notin> set p \<Longrightarrow> split_once c (p @ c # s) = Some (p, s)"
  by (induction p) auto

lemma split_once_None: "c \<notin> set s \<Longrightarrow> split_once c s = None"
  by (induction s) auto

lemma split_once_Some: "split_once c s = Some (a, b) \<Longrightarrow> s = a @ c # b \<and> c \<notin> set a"
  by (induction s arbitrary: a) (auto split: if_splits)

lemma trim_end_matches_idem [simp]:
  "trim_end_matches c (trim_end_matches c s) = trim_end_matches c s"
proof -
  have "dropWhile (\<lambda>x. x = c) (dropWhile (\<lambda>x. x = c) xs) = dropWhile (\<lambda>x. x = c) xs" for xs
    by (induction xs) auto
  then show ?thesis by (simp add: trim_end_matches_def)
qed

lemma strip_suffix_append [simp]: "strip_suffix p (s @ p) = Some s"
  by (simp add: strip_suffix_def)

lemma strip_suffix_Some: "strip_suffix p s = Some r \<longleftrightarrow> s = r @ p"
  by (auto simp: strip_suffix_def)
     (metis append_take_drop_id)

lemma upto_last_append: "c \<notin> set p \<Longrightarrow> upto_last c (s @ c # p) = s @ [c]"
proof -
  assume "c \<notin> set p"
  then have "dropWhile (\<lambda>x. x \<noteq> c) (rev p @ c # rev s) = dropWhile (\<lambda>x. x \<noteq> c) (c # rev s)"
    by (intro dropWhile_append2) auto
  then show ?thesis by (simp add: upto_last_def)
qed

text \<open>Decimal printing is injective, since reading the digits back gives the number.\<close>

definition digit_value :: "char \<Rightarrow> nat" where
  "digit_value c = of_char c - 48"

definition read_nat :: "string \<Rightarrow> nat" where
  "read_nat s = foldl (\<lambda>acc c. acc * 10 + digit_value c) 0 s"

lemma digit_value_char [simp]: "d < 10 \<Longrightarrow> digit_value (char_of (48 + d)) = d"
  by (simp add: digit_value_def)

lemma read_show_nat: "read_nat (show_nat n) = n"
proof (induction n rule: show_nat.induct)
  case (1 n)
  show ?case
  proof (cases "n < 10")
    case True
    then show ?thesis by (simp add: read_nat_def show_nat.simps [of n])
  next
    case False
    with 1 have "read_nat (show_nat (n div 10)) = n div 10" by simp
    with False show ?thesis by (simp add: read_nat_def show_nat.simps [of n])
  qed
qed

lemma show_nat_inj: "show_nat m = show_nat n \<longleftrightarrow> m = n"
  by (metis read_show_nat)

section \<open>A concrete environment\<close>

text \<open>For the witnesses: the clock stands still and the other sources count.\<close>

definition sample_env :: env where
  "sample_env = \<lparr> clock_at = (\<lambda>n. 0), clock_reads = 0, uuid_at = show_nat, uuids_used = 0,
     salt_at = (\<lambda>n. ''salt''), salts_used = 0, draw_at = (\<lambda>n. n), draws_used = 0 \<rparr>"

lemma sample_env_sources [simp]:
  "clock_at sample_env = (\<lambda>n. 0)" "salt_at sample_env = (\<lambda>n. ''salt'')" "uuid_at sample_env = show_nat"
  "uuids_used sample_env = 0"
  by (simp_all add: sample_env_def)

end
