(* ===== verification/Protocol_Errors.thy ===== *)
theory Protocol_Errors
  imports Prelude
begin

text \<open>
  The unified protocol errors of crates/types/src/error.rs, with their printed text, error code,
  HTTP status and response body, and the two ways in which crates/server/src/middleware.rs turns
  an error into a response body: \<open>AppError\<close> and \<open>json_error\<close> with its character filter.
\<close>

section \<open>Oid4vcError\<close>

datatype oid4vc_error =
    OvInvalidCredentialRequest string
  | OvUnsupportedCredentialType string
  | OvUnsupportedCredentialFormat string
  | OvInvalidProof string
  | OvInvalidNonce
  | OvIssuanceDenied
  | OvInvalidRequest string
  | OvInvalidGrant string
  | OvInvalidClient string
  | OvUnauthorizedClient
  | OvUnsupportedGrantType string
  | OvInvalidScope string
  | OvInvalidPresentation string
  | OvVpTokenValidationFailed string
  | OvSessionNotFound string
  | OvCryptoError string
  | OvInvalidSignature
  | OvKeyNotFound string
  | OvCredentialRevoked
  | OvCredentialSuspended
  | OvStatusListError string
  | OvInternal string
  | OvConfiguration string

fun oid4vc_error_to_string :: "oid4vc_error \<Rightarrow> string" where
  "oid4vc_error_to_string (OvInvalidCredentialRequest e) = ''invalid credential request: '' @ e"
| "oid4vc_error_to_string (OvUnsupportedCredentialType e) = ''unsupported credential type: '' @ e"
| "oid4vc_error_to_string (OvUnsupportedCredentialFormat e) = ''unsupported credential format: '' @ e"
| "oid4vc_error_to_string (OvInvalidProof e) = ''invalid proof: '' @ e"
| "oid4vc_error_to_string OvInvalidNonce = ''invalid or expired c_nonce''"
| "oid4vc_error_to_string OvIssuanceDenied = ''credential issuance denied''"
| "oid4vc_error_to_string (OvInvalidRequest e) = ''invalid request: '' @ e"
| "oid4vc_error_to_string (OvInvalidGrant e) = ''invalid grant: '' @ e"
| "oid4vc_error_to_string (OvInvalidClient e) = ''invalid client: '' @ e"
| "oid4vc_error_to_string OvUnauthorizedClient = ''unauthorized client''"
| "oid4vc_error_to_string (OvUnsupportedGrantType e) = ''unsupported grant type: '' @ e"
| "oid4vc_error_to_string (OvInvalidScope e) = ''invalid scope: '' @ e"
| "oid4vc_error_to_string (OvInvalidPresentation e) = ''invalid presentation: '' @ e"
| "oid4vc_error_to_string (OvVpTokenValidationFailed e) = ''vp_token validation failed: '' @ e"
| "oid4vc_error_to_string (OvSessionNotFound e) = ''session not found or expired: '' @ e"
| "oid4vc_error_to_string (OvCryptoError e) = ''cryptographic operation failed: '' @ e"
| "oid4vc_error_to_string OvInvalidSignature = ''invalid signature''"
| "oid4vc_error_to_string (OvKeyNotFound e) = ''key not found: '' @ e"
| "oid4vc_error_to_string OvCredentialRevoked = ''credential is revoked''"
| "oid4vc_error_to_string OvCredentialSuspended = ''credential is suspended''"
| "oid4vc_error_to_string (OvStatusListError e) = ''status list error: '' @ e"
| "oid4vc_error_to_string (OvInternal e) = ''internal server error: '' @ e"
| "oid4vc_error_to_string (OvConfiguration e) = ''configuration error: '' @ e"

fun error_code :: "oid4vc_error \<Rightarrow> string" where
  "error_code (OvInvalidCredentialRequest e) = ''invalid_credential_request''"
| "error_code (OvUnsupportedCredentialType e) = ''unsupported_credential_type''"
| "error_code (OvUnsupportedCredentialFormat e) = ''unsupported_credential_format''"
| "error_code (OvInvalidProof e) = ''invalid_proof''"
| "error_code OvInvalidNonce = ''invalid_proof''"
| "error_code OvIssuanceDenied = ''issuance_denied''"
| "error_code (OvInvalidRequest e) = ''invalid_request''"
| "error_code (OvInvalidGrant e) = ''invalid_grant''"
| "error_code (OvInvalidClient e) = ''invalid_client''"
| "error_code OvUnauthorizedClient = ''unauthorized_client''"
| "error_code (OvUnsupportedGrantType e) = ''unsupported_grant_type''"
| "error_code (OvInvalidScope e) = ''invalid_scope''"
| "error_code (OvInvalidPresentation e) = ''invalid_presentation''"
| "error_code (OvVpTokenValidationFailed e) = ''invalid_presentation''"
| "error_code (OvSessionNotFound e) = ''invalid_request''"
| "error_code (OvCryptoError e) = ''server_error''"
| "error_code OvInvalidSignature = ''invalid_proof''"
| "error_code (OvKeyNotFound e) = ''server_error''"
| "error_code OvCredentialRevoked = ''credential_revoked''"
| "error_code OvCredentialSuspended = ''credential_suspended''"
| "error_code (OvStatusListError e) = ''server_error''"
| "error_code (OvInternal e) = ''server_error''"
| "error_code (OvConfiguration e) = ''server_error''"

fun http_status_code :: "oid4vc_error \<Rightarrow> nat" where
  "http_status_code (OvInvalidCredentialRequest e) = 400"
| "http_status_code (OvUnsupportedCredentialType e) = 400"
| "http_status_code (OvUnsupportedCredentialFormat e) = 400"
| "http_status_code (OvInvalidProof e) = 400"
| "http_status_code OvInvalidNonce = 400"
| "http_status_code (OvInvalidRequest e) = 400"
| "http_status_code (OvInvalidGrant e) = 400"
| "http_status_code (OvUnsupportedGrantType e) = 400"
| "http_status_code (OvInvalidScope e) = 400"
| "http_status_code (OvInvalidPresentation e) = 400"
| "http_status_code (OvVpTokenValidationFailed e) = 400"
| "http_status_code (OvSessionNotFound e) = 400"
| "http_status_code (OvInvalidClient e) = 401"
| "http_status_code OvUnauthorizedClient = 401"
| "http_status_code OvInvalidSignature = 401"
| "http_status_code OvIssuanceDenied = 403"
| "http_status_code OvCredentialRevoked = 403"
| "http_status_code OvCredentialSuspended = 403"
| "http_status_code (OvKeyNotFound e) = 404"
| "http_status_code (OvCryptoError e) = 500"
| "http_status_code (OvStatusListError e) = 500"
| "http_status_code (OvInternal e) = 500"
| "http_status_code (OvConfiguration e) = 500"

record error_response =
  er_error :: string
  er_error_description :: "string option"
  er_c_nonce :: "string option"
  er_c_nonce_expires_in :: "nat option"

definition to_error_response :: "oid4vc_error \<Rightarrow> error_response" where
  "to_error_response e =
     \<lparr> er_error = error_code e, er_error_description = Some (oid4vc_error_to_string e),
       er_c_nonce = None, er_c_nonce_expires_in = None \<rparr>"

section \<open>Responses\<close>

text \<open>
  An axum response: the status, the header lines and the body. \<open>Json(value)\<close> keeps its value,
  of the type that the handler serializes; an error body, a page and a plain body are the other
  three that the routes send.
\<close>

datatype 'b body = JsonBody 'b | ErrorBody error_response | HtmlBody string | TextBody string | NoBody

record 'b response =
  rs_status :: nat
  rs_headers :: "(string \<times> string) list"
  rs_body :: "'b body"

text \<open>\<open>StatusCode::from_u16\<close> accepts 100 to 999; \<open>AppError::into_response\<close> falls back to 500.\<close>

definition status_from_u16 :: "nat \<Rightarrow> nat option" where
  "status_from_u16 n = (if 100 \<le> n \<and> n < 1000 then Some n else None)"

definition app_error :: "oid4vc_error \<Rightarrow> 'b response" where
  "app_error e =
     \<lparr> rs_status = (case status_from_u16 (http_status_code e) of Some n \<Rightarrow> n | None \<Rightarrow> 500),
       rs_headers = [], rs_body = ErrorBody (to_error_response e) \<rparr>"

text \<open>
  \<open>json_error\<close> replaces each character of the description. A string is its UTF-8 bytes here:
  the continuation bytes of a character go, and its first byte is replaced.
\<close>

definition continuation_byte :: "char \<Rightarrow> bool" where
  "continuation_byte c \<longleftrightarrow> 128 \<le> (of_char c :: nat) \<and> (of_char c :: nat) < 192"

definition description_char :: "char \<Rightarrow> char" where
  "description_char c =
     (if c = CHR 0x22 then CHR 0x27
      else if c = CHR 0x5C then CHR ''/''
      else if 32 \<le> (of_char c :: nat) \<and> (of_char c :: nat) \<le> 126 then c
      else CHR ''?'')"

definition json_error_description :: "string \<Rightarrow> string" where
  "json_error_description d = map description_char (filter (\<lambda>c. \<not> continuation_byte c) d)"

definition json_error :: "nat \<Rightarrow> string \<Rightarrow> string \<Rightarrow> 'b response" where
  "json_error status err description =
     \<lparr> rs_status = status, rs_headers = [],
       rs_body = ErrorBody \<lparr> er_error = err, er_error_description = Some (json_error_description description),
         er_c_nonce = None, er_c_nonce_expires_in = None \<rparr> \<rparr>"

section \<open>Conforming error bodies\<close>

text \<open>The characters RFC 6749 section 5.2 allows in an \<open>error_description\<close>.\<close>

definition rfc6749_char :: "char \<Rightarrow> bool" where
  "rfc6749_char c \<longleftrightarrow> (let n = (of_char c :: nat) in n = 32 \<or> n = 33 \<or> 35 \<le> n \<and> n \<le> 91 \<or> 93 \<le> n \<and> n \<le> 126)"

lemma rfc6749_description_char: "rfc6749_char (description_char c)"
proof -
  have "n = 32 \<or> n = 33 \<or> 35 \<le> n \<and> n \<le> 91 \<or> 93 \<le> n \<and> n \<le> 126"
    if "32 \<le> n" "n \<le> 126" "n \<noteq> 34" "n \<noteq> 92" for n :: nat
    using that by arith
  moreover have "(of_char c :: nat) \<noteq> 34" if "c \<noteq> CHR 0x22"
    using that of_char_eq_iff [of c "CHR 0x22", where 'a = nat] by (simp del: of_char_eq_iff)
  moreover have "(of_char c :: nat) \<noteq> 92" if "c \<noteq> CHR 0x5C"
    using that of_char_eq_iff [of c "CHR 0x5C", where 'a = nat] by (simp del: of_char_eq_iff)
  ultimately show ?thesis by (auto simp: description_char_def rfc6749_char_def Let_def)
qed

lemma description_conforms: "list_all rfc6749_char (json_error_description d)"
  by (simp add: json_error_description_def list_all_iff rfc6749_description_char)

lemma description_kept:
  assumes "list_all rfc6749_char d"
  shows "json_error_description d = d"
proof -
  have c: "\<not> continuation_byte c \<and> description_char c = c" if "rfc6749_char c" for c
  proof -
    have "c \<noteq> CHR 0x22" "c \<noteq> CHR 0x5C" using that by (auto simp: rfc6749_char_def)
    with that show ?thesis by (auto simp: rfc6749_char_def continuation_byte_def description_char_def Let_def)
  qed
  with assms show ?thesis by (induction d) (auto simp: json_error_description_def)
qed

text \<open>
  A response that a client may be shown: a status of the success or error classes and, when it
  carries an error body, a description in the permitted characters.
\<close>

definition response_conforms :: "'b response \<Rightarrow> bool" where
  "response_conforms r \<longleftrightarrow>
     (case rs_body r of
        ErrorBody e \<Rightarrow> 400 \<le> rs_status r \<and> rs_status r < 600 \<and>
          list_all rfc6749_char (case er_error_description e of Some d \<Rightarrow> d | None \<Rightarrow> [])
      | _ \<Rightarrow> True)"

lemma json_error_conforms [intro]: "400 \<le> status \<Longrightarrow> status < 600 \<Longrightarrow> response_conforms (json_error status err d)"
  by (simp add: response_conforms_def json_error_def description_conforms)

lemma http_status_code_range: "http_status_code e \<in> {400, 401, 403, 404, 500}"
  by (cases e) simp_all

text \<open>
  An error is the server's fault in its status exactly when its code says so, but for a missing
  key, which is 404 with \<open>server_error\<close>.
\<close>

theorem error_class_agrees:
  "rs_status (app_error e) = 500 \<longleftrightarrow> error_code e = ''server_error'' \<and> (\<nexists>k. e = OvKeyNotFound k)"
  by (cases e) (simp_all add: app_error_def status_from_u16_def)

end
