(* ===== verification/Externals.thy ===== *)
theory Externals
  imports Prelude "HOL-Library.List_Lexorder" "HOL-Library.Char_ord"
begin

text \<open>
  The data that crosses the boundary to third-party crates, and the crates' functions as one
  record of parameters, \<open>libs\<close>: base64ct, sha2, serde_json with the derived serializers,
  p256, ed25519-dalek, flate2, url, urlencoding and chrono's RFC 3339 printer. A definition that calls such
  code takes \<open>libs\<close> as an argument. What the sources rely on is stated by the predicates at the
  end, each a documented property of one crate; \<open>hex_libs\<close> is a concrete record that has them.
  A third-party failure is \<open>Inl\<close> with the error's printed text.
\<close>

section \<open>JSON values\<close>

text \<open>
  \<open>serde_json::Value\<close>. Integers are those of \<open>i64\<close> and \<open>u64\<close>; a number that is neither keeps its
  text. Objects are the key-sorted association lists of serde_json's default map.
\<close>

datatype json =
    JNull
  | JBool bool
  | JInt int
  | JFloat string
  | JStr string
  | JArr "json list"
  | JObj "(string \<times> json) list"

fun json_get :: "string \<Rightarrow> json \<Rightarrow> json option" where
  "json_get k (JObj kvs) = map_of kvs k"
| "json_get k _ = None"

fun as_str :: "json \<Rightarrow> string option" where
  "as_str (JStr s) = Some s"
| "as_str _ = None"

fun as_i64 :: "json \<Rightarrow> int option" where
  "as_i64 (JInt i) = (if in_i64 i then Some i else None)"
| "as_i64 _ = None"

fun as_array :: "json \<Rightarrow> json list option" where
  "as_array (JArr a) = Some a"
| "as_array _ = None"

lemma as_str_Some: "as_str v = Some s \<longleftrightarrow> v = JStr s"
  by (cases v) auto

lemma as_array_Some: "as_array v = Some a \<longleftrightarrow> v = JArr a"
  by (cases v) auto

definition str_claim :: "string \<Rightarrow> json \<Rightarrow> string option" where
  "str_claim k v = Option.bind (json_get k v) as_str"

definition int_claim :: "string \<Rightarrow> json \<Rightarrow> int option" where
  "int_claim k v = Option.bind (json_get k v) as_i64"

text \<open>
  The value a reader gets for a text that lists members in any order: keys sorted bytewise, the
  last of two members with one name kept, at every level.
\<close>

fun put_member :: "string \<Rightarrow> json \<Rightarrow> (string \<times> json) list \<Rightarrow> (string \<times> json) list" where
  "put_member k v [] = [(k, v)]"
| "put_member k v ((k', v') # ms) =
     (if k = k' then (k, v) # ms
      else if k < k' then (k, v) # (k', v') # ms
      else (k', v') # put_member k v ms)"

definition put_members :: "(string \<times> json) list \<Rightarrow> (string \<times> json) list" where
  "put_members kvs = foldl (\<lambda>ms (k, v). put_member k v ms) [] kvs"

primrec json_norm :: "json \<Rightarrow> json" where
  "json_norm JNull = JNull"
| "json_norm (JBool b) = JBool b"
| "json_norm (JInt i) = JInt i"
| "json_norm (JFloat s) = JFloat s"
| "json_norm (JStr s) = JStr s"
| "json_norm (JArr vs) = JArr (map json_norm vs)"
| "json_norm (JObj kvs) = JObj (put_members (map (map_prod id json_norm) kvs))"

lemma map_of_put_member [simp]: "map_of (put_member k v ms) = (map_of ms)(k \<mapsto> v)"
  by (induction ms) (auto simp: fun_upd_twist)

lemma map_of_put_members: "map_of (put_members kvs) k = map_of (rev kvs) k"
proof -
  have "map_of (foldl (\<lambda>ms (k, v). put_member k v ms) ms kvs) = map_of ms ++ map_of (rev kvs)" for ms
    by (induction kvs arbitrary: ms) (auto simp: map_add_def fun_eq_iff split: option.splits)
  then show ?thesis by (simp add: put_members_def)
qed

lemma map_of_map_prod: "map_of (map (map_prod id f) kvs) k = map_option f (map_of kvs k)"
  by (induction kvs) auto

lemma json_get_norm: "json_get k (json_norm (JObj kvs)) = map_option json_norm (map_of (rev kvs) k)"
  by (simp add: map_of_put_members rev_map map_of_map_prod)

lemma put_member_keys: "fst ` set (put_member k v ms) = insert k (fst ` set ms)"
proof (induction ms)
  case (Cons m ms)
  then show ?case by (cases m) (simp, blast)
qed simp

lemma put_member_sorted:
  "sorted_wrt (<) (map fst ms) \<Longrightarrow> sorted_wrt (<) (map fst (put_member k v ms))"
proof (induction ms)
  case Nil
  then show ?case by simp
next
  case (Cons m ms)
  obtain k' v' where m: "m = (k', v')" by fastforce
  have keys: "set (map fst (put_member k v ms)) = insert k (set (map fst ms))"
    using put_member_keys by simp
  show ?case
  proof (cases "k = k' \<or> k < k'")
    case True
    with Cons.prems m show ?thesis by auto
  next
    case False
    with Cons m have "sorted_wrt (<) (map fst (put_member k v ms))" and "k' < k" by auto
    moreover have "\<forall>x\<in>set (map fst (put_member k v ms)). k' < x"
      using Cons.prems m keys \<open>k' < k\<close> by auto
    ultimately show ?thesis using False m by simp
  qed
qed

lemma put_members_distinct: "distinct (map fst (put_members kvs))"
proof -
  have "sorted_wrt (<) (map fst ms) \<Longrightarrow>
      sorted_wrt (<) (map fst (foldl (\<lambda>ms (k, v). put_member k v ms) ms kvs))" for ms
    by (induction kvs arbitrary: ms) (auto simp: put_member_sorted)
  from this [of "[]"] show ?thesis
    unfolding put_members_def strict_sorted_iff by simp
qed

lemma map_of_rev_distinct: "distinct (map fst kvs) \<Longrightarrow> map_of (rev kvs) = map_of kvs"
  by (rule map_of_inject_set [THEN iffD2]) (simp_all add: rev_map [symmetric])

lemma int_claim_range: "int_claim k v = Some i \<Longrightarrow> in_i64 i"
  by (cases "json_get k v") (auto simp: int_claim_def elim!: as_i64.elims split: if_splits)

text \<open>A field with \<open>skip_serializing_if = Option::is_none\<close>.\<close>

definition opt_member :: "string \<Rightarrow> ('a \<Rightarrow> json) \<Rightarrow> 'a option \<Rightarrow> (string \<times> json) list" where
  "opt_member name f v = (case v of None \<Rightarrow> [] | Some x \<Rightarrow> [(name, f x)])"

section \<open>Keys and headers\<close>

text \<open>\<open>Jwk\<close> of crates/crypto/src/jwk.rs.\<close>

record jwk =
  kty :: string
  crv :: "string option"
  jwk_x :: "string option"
  jwk_y :: "string option"
  jwk_d :: "string option"
  jwk_alg :: "string option"
  jwk_kid :: "string option"
  jwk_use :: "string option"

text \<open>\<open>JwsHeader\<close> of crates/crypto/src/jws.rs.\<close>

record jws_header =
  h_alg :: string
  h_typ :: "string option"
  h_kid :: "string option"
  h_jwk :: "jwk option"
  h_x5c :: "string list option"

section \<open>Third-party functions\<close>

record libs =
  b64url_encode :: "bytes \<Rightarrow> string"
  b64url_decode :: "string \<Rightarrow> string + bytes"
  sha256 :: "bytes \<Rightarrow> bytes"
  json_parse :: "bytes \<Rightarrow> string + json"
  json_print :: "json \<Rightarrow> bytes"
  header_parse :: "bytes \<Rightarrow> string + jws_header"
  header_print :: "jws_header \<Rightarrow> bytes"
  jwk_of_json :: "json \<Rightarrow> jwk option"
  json_of_jwk :: "jwk \<Rightarrow> json"
  p256_public :: "bytes \<Rightarrow> bytes"
  p256_point :: "bytes \<Rightarrow> bytes \<times> bytes"
  p256_key :: "bytes \<Rightarrow> bytes \<Rightarrow> string + bytes"
  p256_signature :: "bytes \<Rightarrow> string + bytes"
  p256_sign :: "bytes \<Rightarrow> bytes \<Rightarrow> string + bytes"
  p256_verify :: "bytes \<Rightarrow> bytes \<Rightarrow> bytes \<Rightarrow> string + unit"
  ed25519_public :: "bytes \<Rightarrow> bytes"
  ed25519_key :: "bytes \<Rightarrow> string + bytes"
  ed25519_sign :: "bytes \<Rightarrow> bytes \<Rightarrow> string + bytes"
  ed25519_verify :: "bytes \<Rightarrow> bytes \<Rightarrow> bytes \<Rightarrow> string + unit"
  gzip :: "bytes \<Rightarrow> string + bytes"
  gunzip :: "bytes \<Rightarrow> string + bytes"
  zlib :: "bytes \<Rightarrow> string + bytes"
  unzlib :: "bytes \<Rightarrow> string + bytes"
  url_parse :: "string \<Rightarrow> url option"
  url_join :: "url \<Rightarrow> string \<Rightarrow> url option"
  url_without_query :: "url \<Rightarrow> url"
  percent_encode :: "string \<Rightarrow> string"
  rfc3339 :: "instant \<Rightarrow> string"

section \<open>Documented properties\<close>

text \<open>base64ct: decoding undoes encoding, and both sides use the URL-safe alphabet only.\<close>

definition b64url_char :: "char \<Rightarrow> bool" where
  "b64url_char c \<longleftrightarrow> (let n = (of_char c :: nat) in
     65 \<le> n \<and> n \<le> 90 \<or> 97 \<le> n \<and> n \<le> 122 \<or> 48 \<le> n \<and> n \<le> 57 \<or> n = 45 \<or> n = 95)"

definition b64url_law :: "libs \<Rightarrow> bool" where
  "b64url_law L \<longleftrightarrow>
     (\<forall>b. b64url_decode L (b64url_encode L b) = Inr b) \<and>
     (\<forall>b. list_all b64url_char (b64url_encode L b)) \<and>
     (\<forall>b. b64url_encode L b = [] \<longrightarrow> b = []) \<and>
     (\<forall>s b. b64url_decode L s = Inr b \<longrightarrow> list_all b64url_char s)"

text \<open>
  url: joining an absolute path fails only on a base that cannot be one, whatever the path. The
  paths of the program start with a slash and a letter, or with \<open>/.well-known\<close>.
\<close>

fun is_path :: "string \<Rightarrow> bool" where
  "is_path (s # c # r) = (s = CHR ''/'' \<and> (c = CHR ''.'' \<or> 97 \<le> (of_char c :: nat) \<and> (of_char c :: nat) \<le> 122))"
| "is_path _ = False"

definition joins :: "libs \<Rightarrow> url \<Rightarrow> bool" where
  "joins L u \<longleftrightarrow> (\<forall>p. is_path p \<longrightarrow> (\<exists>v. url_join L u p = Some v))"

definition url_law :: "libs \<Rightarrow> bool" where
  "url_law L \<longleftrightarrow> (\<forall>u p v. is_path p \<longrightarrow> url_join L u p = Some v \<longrightarrow> joins L u)"

lemma joinsD: "joins L u \<Longrightarrow> is_path p \<Longrightarrow> \<exists>v. url_join L u p = Some v"
  by (simp add: joins_def)

text \<open>flate2: decompression undoes compression.\<close>

definition gzip_law :: "libs \<Rightarrow> bool" where
  "gzip_law L \<longleftrightarrow> (\<forall>b c. gzip L b = Inr c \<longrightarrow> gunzip L c = Inr b)"

definition zlib_law :: "libs \<Rightarrow> bool" where
  "zlib_law L \<longleftrightarrow> (\<forall>b c. zlib L b = Inr c \<longrightarrow> unzlib L c = Inr b)"

text \<open>
  p256 and ed25519-dalek: coordinates and points are 32 bytes, a public key survives its
  encoding, a signature has the length its parser wants, and it verifies.
\<close>

definition p256_law :: "libs \<Rightarrow> bool" where
  "p256_law L \<longleftrightarrow>
     (\<forall>k. length (fst (p256_point L (p256_public L k))) = 32 \<and>
          length (snd (p256_point L (p256_public L k))) = 32 \<and>
          p256_key L (fst (p256_point L (p256_public L k))) (snd (p256_point L (p256_public L k)))
            = Inr (p256_public L k)) \<and>
     (\<forall>k m s. p256_sign L k m = Inr s \<longrightarrow>
        (\<exists>g. p256_signature L s = Inr g \<and> p256_verify L (p256_public L k) m g = Inr ()))"

definition ed25519_law :: "libs \<Rightarrow> bool" where
  "ed25519_law L \<longleftrightarrow>
     (\<forall>k. length (ed25519_public L k) = 32 \<and>
          ed25519_key L (ed25519_public L k) = Inr (ed25519_public L k)) \<and>
     (\<forall>k m s. ed25519_sign L k m = Inr s \<longrightarrow>
        length s = 64 \<and> ed25519_verify L (ed25519_public L k) m s = Inr ())"

text \<open>
  serde_json with the derived implementations: a value survives printing and reading, up to
  the order of members and the names printed twice.
\<close>

definition header_codec :: "libs \<Rightarrow> jws_header \<Rightarrow> bool" where
  "header_codec L h \<longleftrightarrow> header_parse L (header_print L h) = Inr h"

definition json_codec :: "libs \<Rightarrow> json \<Rightarrow> bool" where
  "json_codec L v \<longleftrightarrow> json_parse L (json_print L v) = Inr (json_norm v) \<and> json_print L v \<noteq> []"

lemmas library_laws = b64url_law_def gzip_law_def zlib_law_def p256_law_def ed25519_law_def

text \<open>The separators of compact serializations and quotes are outside the alphabet.\<close>

lemma b64url_char_special [simp]:
  "\<not> b64url_char (CHR ''.'')"
  "\<not> b64url_char (CHR ''~'')"
  "\<not> b64url_char (CHR 0x22)"
  by (simp_all add: b64url_char_def)

lemma b64url_encode_free:
  "b64url_law L \<Longrightarrow> \<not> b64url_char c \<Longrightarrow> c \<notin> set (b64url_encode L b)"
  by (auto simp: b64url_law_def list_all_iff)

lemma b64url_decode_free:
  "b64url_law L \<Longrightarrow> b64url_decode L s = Inr b \<Longrightarrow> \<not> b64url_char c \<Longrightarrow> c \<notin> set s"
  by (auto simp: b64url_law_def list_all_iff)

section \<open>A concrete instance\<close>

text \<open>
  Base-16 with the letters A to P for base64, the identity for compression, one fixed key and
  signature: functions that compute and satisfy the properties above. The witnesses use it,
  with the JSON functions set to what each needs.
\<close>

definition hex_encode :: "bytes \<Rightarrow> string" where
  "hex_encode b =
     concat (map (\<lambda>c. let n = (of_char c :: nat) in [char_of (65 + n div 16), char_of (65 + n mod 16)]) b)"

definition hex_digit :: "char \<Rightarrow> nat option" where
  "hex_digit c = (let n = (of_char c :: nat) in if 65 \<le> n \<and> n \<le> 80 then Some (n - 65) else None)"

fun hex_decode :: "string \<Rightarrow> string + bytes" where
  "hex_decode [] = Inr []"
| "hex_decode [c] = Inl ''invalid Base64 length''"
| "hex_decode (a # b # s) =
     (case (hex_digit a, hex_digit b) of
        (Some i, Some j) \<Rightarrow> bindR (hex_decode s) (\<lambda>r. Inr (char_of (16 * i + j) # r))
      | _ \<Rightarrow> Inl ''invalid Base64 encoding'')"

lemma hex_digit_char [simp]: "d < 16 \<Longrightarrow> hex_digit (char_of (65 + d)) = Some d"
  by (simp add: hex_digit_def)

lemma hex_digit_b64: "hex_digit c = Some i \<Longrightarrow> b64url_char c"
  by (auto simp: hex_digit_def b64url_char_def Let_def split: if_splits)

lemma hex_round: "hex_decode (hex_encode b) = Inr b"
proof (induction b)
  case Nil
  then show ?case by (simp add: hex_encode_def)
next
  case (Cons c b)
  have "(of_char c :: nat) div 16 < 16" by (simp add: less_mult_imp_div_less)
  moreover have "16 * ((of_char c :: nat) div 16) + of_char c mod 16 = of_char c"
    by (simp add: mult_div_mod_eq)
  ultimately show ?case using Cons by (simp add: hex_encode_def Let_def)
qed

lemma hex_encode_inj: "hex_encode a = hex_encode b \<longleftrightarrow> a = b"
  by (metis hex_round sum.inject(2))

lemma hex_decode_alphabet: "hex_decode s = Inr b \<Longrightarrow> list_all b64url_char s"
  by (induction s arbitrary: b rule: hex_decode.induct)
    (auto simp: result_inv hex_digit_b64 split: option.splits)

lemma hex_encode_Nil: "hex_encode b = [] \<Longrightarrow> b = []"
  by (cases b) (simp_all add: hex_encode_def Let_def)

lemma hex_encode_alphabet: "list_all b64url_char (hex_encode b)"
  by (rule hex_decode_alphabet [OF hex_round])

definition hex_libs :: libs where
  "hex_libs =
     \<lparr> b64url_encode = hex_encode, b64url_decode = hex_decode, sha256 = (\<lambda>b. b),
       json_parse = (\<lambda>b. Inl ''EOF while parsing a value''), json_print = (\<lambda>v. []),
       header_parse = (\<lambda>b. Inl ''EOF while parsing a value''), header_print = (\<lambda>h. []),
       jwk_of_json = (\<lambda>v. None), json_of_jwk = (\<lambda>k. JNull),
       p256_public = (\<lambda>k. replicate 64 (CHR ''k'')),
       p256_point = (\<lambda>k. (replicate 32 (CHR ''k''), replicate 32 (CHR ''k''))),
       p256_key = (\<lambda>x y. Inr (x @ y)),
       p256_signature = (\<lambda>s. if length s = 64 then Inr s else Inl ''signature error''),
       p256_sign = (\<lambda>k m. Inr (replicate 64 (CHR ''s''))),
       p256_verify = (\<lambda>k m g. if g = replicate 64 (CHR ''s'') then Inr () else Inl ''signature error''),
       ed25519_public = (\<lambda>k. replicate 32 (CHR ''k'')),
       ed25519_key = (\<lambda>x. Inr x),
       ed25519_sign = (\<lambda>k m. Inr (replicate 64 (CHR ''s''))),
       ed25519_verify = (\<lambda>k m g. if g = replicate 64 (CHR ''s'') then Inr () else Inl ''signature error''),
       gzip = (\<lambda>b. Inr b), gunzip = (\<lambda>b. Inr b), zlib = (\<lambda>b. Inr b), unzlib = (\<lambda>b. Inr b),
       url_parse = (\<lambda>s. Some s), url_join = (\<lambda>u p. Some (trim_end_matches (CHR ''/'') u @ p)),
       url_without_query = (\<lambda>u. u), percent_encode = (\<lambda>s. s), rfc3339 = (\<lambda>t. ''1970-01-01T00:00:00+00:00'') \<rparr>"

lemma replicate_64: "replicate 32 c @ replicate 32 c = replicate 64 c"
  by (simp flip: replicate_add)

lemma hex_url_join [simp]: "url_join hex_libs u p = Some (trim_end_matches (CHR ''/'') u @ p)"
  by (simp add: hex_libs_def)

lemma hex_libs_joins: "joins hex_libs u" "url_law hex_libs"
  by (simp_all add: joins_def url_law_def hex_libs_def)

lemma hex_libs_laws:
  "b64url_law hex_libs" "gzip_law hex_libs" "zlib_law hex_libs" "p256_law hex_libs"
  "ed25519_law hex_libs"
  using hex_round hex_encode_alphabet hex_decode_alphabet hex_encode_Nil
  by (auto simp: library_laws hex_libs_def replicate_64)

end
