(* ===== verification/Oid4vp_Types.thy ===== *)
theory Oid4vp_Types
  imports Externals
begin

text \<open>
  The messages of OID4VP, from crates/types/src/oid4vp.rs, with the derived JSON writer of the
  authorization request, which the verifier signs.
\<close>

section \<open>DCQL\<close>

record claim_query =
  lq_path :: "string list"
  lq_namespace :: "string option"
  lq_id :: "string option"
  lq_values :: "json list option"

record credential_query =
  qy_id :: string
  qy_format :: string
  qy_vct :: "string option"
  qy_doctype :: "string option"
  qy_claims :: "claim_query list option"

record dcql_query =
  dq_credentials :: "credential_query list"

section \<open>Authorization requests\<close>

record format_algorithms =
  fa_alg :: "string list option"

record vp_formats_supported =
  vf_sd_jwt_vc :: "format_algorithms option"
  vf_mso_mdoc :: "format_algorithms option"

record client_metadata =
  mc_vp_formats :: "vp_formats_supported option"
  mc_client_name :: "string option"
  mc_logo_uri :: "string option"

record authorization_request =
  ar_response_type :: string
  ar_client_id :: string
  ar_client_id_scheme :: "string option"
  ar_response_uri :: url
  ar_response_mode :: "string option"
  ar_nonce :: string
  ar_state :: "string option"
  ar_dcql_query :: "dcql_query option"
  ar_presentation_definition :: "json option"
  ar_client_metadata :: "client_metadata option"

section \<open>Authorization responses\<close>

datatype descriptor_map_entry =
  DescriptorMapEntry (de_id: string) (de_format: string) (de_path: string)
    (de_path_nested: "descriptor_map_entry option")

record presentation_submission =
  pb_id :: string
  pb_definition_id :: string
  pb_descriptor_map :: "descriptor_map_entry list"

record authorization_response =
  rp_vp_token :: "json option"
  rp_presentation_submission :: "presentation_submission option"
  rp_state :: "string option"

section \<open>Verifier sessions\<close>

record verifier_session =
  ve_id :: string
  ve_nonce :: string
  ve_state :: string
  ve_request :: authorization_request
  ve_created_at :: instant
  ve_expires_at :: instant

section \<open>The derived JSON writers\<close>

definition strings_to_json :: "string list \<Rightarrow> json" where
  "strings_to_json xs = JArr (map JStr xs)"

definition claim_query_to_json :: "claim_query \<Rightarrow> json" where
  "claim_query_to_json c =
     JObj ([(''path'', strings_to_json (lq_path c))] @ opt_member ''namespace'' JStr (lq_namespace c) @
           opt_member ''id'' JStr (lq_id c) @ opt_member ''values'' JArr (lq_values c))"

definition credential_query_to_json :: "credential_query \<Rightarrow> json" where
  "credential_query_to_json q =
     JObj ([(''id'', JStr (qy_id q)), (''format'', JStr (qy_format q))] @
           opt_member ''vct'' JStr (qy_vct q) @ opt_member ''doctype'' JStr (qy_doctype q) @
           opt_member ''claims'' (\<lambda>cs. JArr (map claim_query_to_json cs)) (qy_claims q))"

definition dcql_query_to_json :: "dcql_query \<Rightarrow> json" where
  "dcql_query_to_json q = JObj [(''credentials'', JArr (map credential_query_to_json (dq_credentials q)))]"

definition format_algorithms_to_json :: "format_algorithms \<Rightarrow> json" where
  "format_algorithms_to_json a = JObj (opt_member ''alg'' strings_to_json (fa_alg a))"

definition vp_formats_to_json :: "vp_formats_supported \<Rightarrow> json" where
  "vp_formats_to_json f =
     JObj (opt_member ''dc+sd-jwt'' format_algorithms_to_json (vf_sd_jwt_vc f) @
           opt_member ''mso_mdoc'' format_algorithms_to_json (vf_mso_mdoc f))"

definition client_metadata_to_json :: "client_metadata \<Rightarrow> json" where
  "client_metadata_to_json m =
     JObj (opt_member ''vp_formats'' vp_formats_to_json (mc_vp_formats m) @
           opt_member ''client_name'' JStr (mc_client_name m) @ opt_member ''logo_uri'' JStr (mc_logo_uri m))"

definition authorization_request_to_json :: "authorization_request \<Rightarrow> json" where
  "authorization_request_to_json r =
     JObj ([(''response_type'', JStr (ar_response_type r)), (''client_id'', JStr (ar_client_id r))] @
           opt_member ''client_id_scheme'' JStr (ar_client_id_scheme r) @
           [(''response_uri'', JStr (ar_response_uri r))] @
           opt_member ''response_mode'' JStr (ar_response_mode r) @ [(''nonce'', JStr (ar_nonce r))] @
           opt_member ''state'' JStr (ar_state r) @
           opt_member ''dcql_query'' dcql_query_to_json (ar_dcql_query r) @
           opt_member ''presentation_definition'' (\<lambda>v. v) (ar_presentation_definition r) @
           opt_member ''client_metadata'' client_metadata_to_json (ar_client_metadata r))"

end
