(* ===== verification/Keys.thy ===== *)
theory Keys
  imports Externals
begin

text \<open>
  Keys: the JWK types and lookup of crates/crypto/src/jwk.rs, and from crates/crypto/src/keys.rs
  the algorithms, the \<open>KeyPair\<close> trait with its P-256 and Ed25519 implementations, verification
  under a bare JWK and the RFC 7638 thumbprint. The locale \<open>signer\<close> is the contract of the
  trait: what a key pair signs verifies under it and under its public JWK. Both
  implementations interpret it, relative to the documented properties of their crates.
\<close>

section \<open>Types\<close>

datatype key_error =
    GenerationFailed string
  | SigningFailed string
  | VerificationFailed string
  | InvalidKeyMaterial string

fun key_error_to_string :: "key_error \<Rightarrow> string" where
  "key_error_to_string (GenerationFailed e) = ''key generation failed: '' @ e"
| "key_error_to_string (SigningFailed e) = ''signing failed: '' @ e"
| "key_error_to_string (VerificationFailed e) = ''verification failed: '' @ e"
| "key_error_to_string (InvalidKeyMaterial e) = ''invalid key material: '' @ e"

datatype algorithm = ES256 | EdDSA

fun alg_as_str :: "algorithm \<Rightarrow> string" where
  "alg_as_str ES256 = ''ES256''"
| "alg_as_str EdDSA = ''EdDSA''"

record jwks =
  jwks_keys :: "jwk list"

definition find_by_kid :: "jwks \<Rightarrow> string \<Rightarrow> jwk option" where
  "find_by_kid js kid = find (\<lambda>k. jwk_kid k = Some kid) (jwks_keys js)"

text \<open>The \<open>KeyPair\<close> trait as the record of its methods.\<close>

record key_pair =
  kp_algorithm :: algorithm
  kp_key_id :: string
  kp_sign :: "bytes \<Rightarrow> key_error + bytes"
  kp_verify :: "bytes \<Rightarrow> bytes \<Rightarrow> key_error + unit"
  kp_public_jwk :: jwk

section \<open>Thumbprints\<close>

definition quoted :: "string \<Rightarrow> string" where
  "quoted s = [CHR 0x22] @ s @ [CHR 0x22]"

definition unwrap_str :: "string option \<Rightarrow> string" where
  "unwrap_str v = (case v of None \<Rightarrow> [] | Some s \<Rightarrow> s)"

text \<open>The JSON text that is hashed: the required members, in lexicographic order.\<close>

definition jwk_canonical :: "jwk \<Rightarrow> string" where
  "jwk_canonical k =
     (if kty k = ''EC'' then
        ''{'' @ quoted ''crv'' @ '':'' @ quoted (unwrap_str (crv k)) @ '','' @
        quoted ''kty'' @ '':'' @ quoted ''EC'' @ '','' @
        quoted ''x'' @ '':'' @ quoted (unwrap_str (jwk_x k)) @ '','' @
        quoted ''y'' @ '':'' @ quoted (unwrap_str (jwk_y k)) @ ''}''
      else if kty k = ''OKP'' then
        ''{'' @ quoted ''crv'' @ '':'' @ quoted (unwrap_str (crv k)) @ '','' @
        quoted ''kty'' @ '':'' @ quoted ''OKP'' @ '','' @
        quoted ''x'' @ '':'' @ quoted (unwrap_str (jwk_x k)) @ ''}''
      else ''{'' @ quoted ''kty'' @ '':'' @ quoted (kty k) @ ''}'')"

definition compute_thumbprint :: "libs \<Rightarrow> jwk \<Rightarrow> string" where
  "compute_thumbprint L k = b64url_encode L (sha256 L (jwk_canonical k))"

section \<open>P-256\<close>

record ecdsa_p256_key_pair =
  ec_signing_key :: bytes
  ec_verifying_key :: bytes
  ec_key_id :: string

definition ec_build_public_jwk :: "libs \<Rightarrow> bytes \<Rightarrow> string \<Rightarrow> jwk" where
  "ec_build_public_jwk L key kid =
     (let point = p256_point L key
      in \<lparr> kty = ''EC'', crv = Some ''P-256'',
           jwk_x = Some (b64url_encode L (fst point)), jwk_y = Some (b64url_encode L (snd point)),
           jwk_d = None, jwk_alg = Some ''ES256'', jwk_kid = Some kid, jwk_use = Some ''sig'' \<rparr>)"

text \<open>\<open>generate\<close> and \<open>from_pkcs8_pem\<close>, from the signing key that was drawn or read.\<close>

definition ec_from_signing_key :: "libs \<Rightarrow> bytes \<Rightarrow> ecdsa_p256_key_pair" where
  "ec_from_signing_key L sk =
     (let vk = p256_public L sk
      in \<lparr> ec_signing_key = sk, ec_verifying_key = vk,
           ec_key_id = compute_thumbprint L (ec_build_public_jwk L vk []) \<rparr>)"

definition ec_key_pair :: "libs \<Rightarrow> ecdsa_p256_key_pair \<Rightarrow> key_pair" where
  "ec_key_pair L k =
     \<lparr> kp_algorithm = ES256, kp_key_id = ec_key_id k,
       kp_sign = (\<lambda>m. map_err SigningFailed (p256_sign L (ec_signing_key k) m)),
       kp_verify = (\<lambda>m s.
         bindR (map_err VerificationFailed (p256_signature L s)) (\<lambda>sig.
         map_err VerificationFailed (p256_verify L (ec_verifying_key k) m sig))),
       kp_public_jwk = ec_build_public_jwk L (ec_verifying_key k) (ec_key_id k) \<rparr>"

section \<open>Ed25519\<close>

record ed25519_key_pair =
  ed_signing_key :: bytes
  ed_verifying_key :: bytes
  ed_key_id :: string

definition ed_build_public_jwk :: "libs \<Rightarrow> bytes \<Rightarrow> string \<Rightarrow> jwk" where
  "ed_build_public_jwk L key kid =
     \<lparr> kty = ''OKP'', crv = Some ''Ed25519'', jwk_x = Some (b64url_encode L key), jwk_y = None,
       jwk_d = None, jwk_alg = Some ''EdDSA'', jwk_kid = Some kid, jwk_use = Some ''sig'' \<rparr>"

definition ed_from_signing_key :: "libs \<Rightarrow> bytes \<Rightarrow> ed25519_key_pair" where
  "ed_from_signing_key L sk =
     (let vk = ed25519_public L sk
      in \<lparr> ed_signing_key = sk, ed_verifying_key = vk,
           ed_key_id = compute_thumbprint L (ed_build_public_jwk L vk []) \<rparr>)"

definition ed_key_pair :: "libs \<Rightarrow> ed25519_key_pair \<Rightarrow> key_pair" where
  "ed_key_pair L k =
     \<lparr> kp_algorithm = EdDSA, kp_key_id = ed_key_id k,
       kp_sign = (\<lambda>m. map_err SigningFailed (ed25519_sign L (ed_signing_key k) m)),
       kp_verify = (\<lambda>m s.
         if length s \<noteq> 64 then Inl (VerificationFailed ''invalid signature length'')
         else map_err VerificationFailed (ed25519_verify L (ed_verifying_key k) m s)),
       kp_public_jwk = ed_build_public_jwk L (ed_verifying_key k) (ed_key_id k) \<rparr>"

section \<open>Verification from a bare JWK\<close>

definition decode_coordinate :: "libs \<Rightarrow> string option \<Rightarrow> string \<Rightarrow> key_error + bytes" where
  "decode_coordinate L v name =
     bindR (ok_or (InvalidKeyMaterial (''JWK is missing '' @ [CHR 0x27] @ name @ [CHR 0x27])) v) (\<lambda>encoded.
     map_err (\<lambda>e. InvalidKeyMaterial (''invalid '' @ [CHR 0x27] @ name @ [CHR 0x27] @ '': '' @ e))
       (b64url_decode L encoded))"

definition unsupported_key :: "jwk \<Rightarrow> key_error" where
  "unsupported_key k =
     InvalidKeyMaterial (''unsupported JWK key type: kty='' @ kty k @ '', crv='' @
       (case crv k of None \<Rightarrow> ''none'' | Some c \<Rightarrow> c))"

definition verify_with_jwk :: "libs \<Rightarrow> jwk \<Rightarrow> bytes \<Rightarrow> bytes \<Rightarrow> key_error + unit" where
  "verify_with_jwk L k message signature =
     (if kty k = ''EC'' \<and> crv k = Some ''P-256'' then
        bindR (decode_coordinate L (jwk_x k) ''x'') (\<lambda>x.
        bindR (decode_coordinate L (jwk_y k) ''y'') (\<lambda>y.
        bindR (ensure (length x = 32 \<and> length y = 32)
                 (InvalidKeyMaterial ''P-256 coordinates must be 32 bytes'')) (\<lambda>_.
        bindR (map_err InvalidKeyMaterial (p256_key L x y)) (\<lambda>key.
        bindR (map_err VerificationFailed (p256_signature L signature)) (\<lambda>sig.
        map_err VerificationFailed (p256_verify L key message sig))))))
      else if kty k = ''OKP'' \<and> crv k = Some ''Ed25519'' then
        bindR (decode_coordinate L (jwk_x k) ''x'') (\<lambda>x.
        bindR (ensure (length x = 32)
                 (InvalidKeyMaterial ''Ed25519 public key must be 32 bytes'')) (\<lambda>_.
        bindR (map_err InvalidKeyMaterial (ed25519_key L x)) (\<lambda>key.
        bindR (ensure (length signature = 64)
                 (VerificationFailed ''invalid signature length'')) (\<lambda>_.
        map_err VerificationFailed (ed25519_verify L key message signature)))))
      else Inl (unsupported_key k))"

definition algorithm_for_jwk :: "jwk \<Rightarrow> key_error + algorithm" where
  "algorithm_for_jwk k =
     (if kty k = ''EC'' \<and> crv k = Some ''P-256'' then Inr ES256
      else if kty k = ''OKP'' \<and> crv k = Some ''Ed25519'' then Inr EdDSA
      else Inl (unsupported_key k))"

section \<open>The contract of a key pair\<close>

locale signer =
  fixes lawful :: "libs \<Rightarrow> bool"
    and make :: "libs \<Rightarrow> bytes \<Rightarrow> key_pair"
  assumes sign_verify: "lawful L \<Longrightarrow> kp_sign (make L sk) m = Inr s \<Longrightarrow> kp_verify (make L sk) m s = Inr ()"
    and sign_jwk: "lawful L \<Longrightarrow> kp_sign (make L sk) m = Inr s \<Longrightarrow>
           verify_with_jwk L (kp_public_jwk (make L sk)) m s = Inr ()"
    and jwk_algorithm: "algorithm_for_jwk (kp_public_jwk (make L sk)) = Inr (kp_algorithm (make L sk))"
    and jwk_public: "jwk_d (kp_public_jwk (make L sk)) = None"
    and key_id: "kp_key_id (make L sk) = compute_thumbprint L (kp_public_jwk (make L sk))"

definition ec_make :: "libs \<Rightarrow> bytes \<Rightarrow> key_pair" where
  "ec_make L sk = ec_key_pair L (ec_from_signing_key L sk)"

definition ed_make :: "libs \<Rightarrow> bytes \<Rightarrow> key_pair" where
  "ed_make L sk = ed_key_pair L (ed_from_signing_key L sk)"

definition es256_lawful :: "libs \<Rightarrow> bool" where
  "es256_lawful L \<longleftrightarrow> b64url_law L \<and> p256_law L"

definition eddsa_lawful :: "libs \<Rightarrow> bool" where
  "eddsa_lawful L \<longleftrightarrow> b64url_law L \<and> ed25519_law L"

lemma b64url_round: "b64url_law L \<Longrightarrow> b64url_decode L (b64url_encode L b) = Inr b"
  by (simp add: b64url_law_def)

interpretation es256: signer es256_lawful ec_make
proof (unfold_locales, goal_cases)
  case (1 L sk m s)
  then have p: "p256_sign L sk m = Inr s" and l: "p256_law L"
    by (auto simp: es256_lawful_def ec_make_def ec_key_pair_def ec_from_signing_key_def Let_def map_err_Inr)
  from l p obtain g where "p256_signature L s = Inr g" "p256_verify L (p256_public L sk) m g = Inr ()"
    unfolding p256_law_def by blast
  then show ?case by (simp add: ec_make_def ec_key_pair_def ec_from_signing_key_def Let_def)
next
  case (2 L sk m s)
  then have p: "p256_sign L sk m = Inr s" and b: "b64url_law L" and l: "p256_law L"
    by (auto simp: es256_lawful_def ec_make_def ec_key_pair_def ec_from_signing_key_def Let_def map_err_Inr)
  from l p obtain g where "p256_signature L s = Inr g" "p256_verify L (p256_public L sk) m g = Inr ()"
    unfolding p256_law_def by blast
  with l b show ?case
    by (simp add: verify_with_jwk_def ec_make_def ec_key_pair_def ec_from_signing_key_def Let_def
        ec_build_public_jwk_def decode_coordinate_def b64url_round p256_law_def)
qed (simp_all add: algorithm_for_jwk_def ec_make_def ec_key_pair_def ec_from_signing_key_def Let_def
      ec_build_public_jwk_def compute_thumbprint_def jwk_canonical_def)

interpretation eddsa: signer eddsa_lawful ed_make
proof (unfold_locales, goal_cases)
  case (1 L sk m s)
  then show ?case
    by (auto simp: eddsa_lawful_def ed25519_law_def ed_make_def ed_key_pair_def ed_from_signing_key_def
        Let_def map_err_Inr)
next
  case (2 L sk m s)
  then show ?case
    by (auto simp: eddsa_lawful_def ed25519_law_def verify_with_jwk_def ed_make_def ed_key_pair_def
        ed_from_signing_key_def Let_def ed_build_public_jwk_def decode_coordinate_def b64url_round
        map_err_Inr)
qed (simp_all add: algorithm_for_jwk_def ed_make_def ed_key_pair_def ed_from_signing_key_def Let_def
      ed_build_public_jwk_def compute_thumbprint_def jwk_canonical_def)

section \<open>What a verified JWK is\<close>

lemma decode_coordinate_Inr:
  "decode_coordinate L v n = Inr b \<longleftrightarrow> (\<exists>s. v = Some s \<and> b64url_decode L s = Inr b)"
  by (auto simp: decode_coordinate_def result_inv)

lemma verify_with_jwk_algorithm:
  "verify_with_jwk L k m s = Inr u \<Longrightarrow> \<exists>a. algorithm_for_jwk k = Inr a"
  by (auto simp: verify_with_jwk_def algorithm_for_jwk_def split: if_splits)

text \<open>A key under which something verified has coordinates in the base64url alphabet.\<close>

lemma verified_coordinates:
  assumes "b64url_law L" and "verify_with_jwk L k m s = Inr u"
  shows "(kty k = ''EC'' \<and> crv k = Some ''P-256'' \<and> (\<exists>x y. jwk_x k = Some x \<and> jwk_y k = Some y \<and>
            CHR 0x22 \<notin> set x \<and> CHR 0x22 \<notin> set y))
       \<or> (kty k = ''OKP'' \<and> crv k = Some ''Ed25519'' \<and> (\<exists>x. jwk_x k = Some x \<and> CHR 0x22 \<notin> set x))"
proof -
  have free: "b64url_decode L s = Inr b \<Longrightarrow> CHR 0x22 \<notin> set s" for s b
    by (rule b64url_decode_free [OF assms(1)]) simp_all
  from assms(2) consider
      (ec) x y a b where "kty k = ''EC''" "crv k = Some ''P-256''" "jwk_x k = Some x"
        "b64url_decode L x = Inr a" "jwk_y k = Some y" "b64url_decode L y = Inr b"
    | (okp) x a where "kty k = ''OKP''" "crv k = Some ''Ed25519''" "jwk_x k = Some x"
        "b64url_decode L x = Inr a"
    by (auto simp: verify_with_jwk_def result_inv decode_coordinate_Inr split: if_splits)
  then show ?thesis
  proof cases
    case ec
    with free [OF ec(4)] free [OF ec(6)] show ?thesis by simp
  next
    case okp
    with free [OF okp(4)] show ?thesis by simp
  qed
qed

lemma quote_split:
  assumes "CHR 0x22 \<notin> set a" and "CHR 0x22 \<notin> set b"
  shows "a @ CHR 0x22 # s = b @ CHR 0x22 # t \<longleftrightarrow> a = b \<and> s = t"
  using split_once_append [OF assms(1), of s] split_once_append [OF assms(2), of t]
  by (metis option.inject prod.inject)

definition ec_text :: "string \<Rightarrow> string \<Rightarrow> string" where
  "ec_text x y = ''P-256'' @ CHR 0x22 # '','' @ quoted ''kty'' @ '':'' @ quoted ''EC'' @ '','' @
     quoted ''x'' @ '':'' @ CHR 0x22 # x @ CHR 0x22 # '','' @ quoted ''y'' @ '':'' @ CHR 0x22 # y @ CHR 0x22 # ''}''"

definition okp_text :: "string \<Rightarrow> string" where
  "okp_text x = ''Ed25519'' @ CHR 0x22 # '','' @ quoted ''kty'' @ '':'' @ quoted ''OKP'' @ '','' @
     quoted ''x'' @ '':'' @ CHR 0x22 # x @ CHR 0x22 # ''}''"

lemma ec_text_inj:
  assumes "CHR 0x22 \<notin> set x" "CHR 0x22 \<notin> set y" "CHR 0x22 \<notin> set x'" "CHR 0x22 \<notin> set y'"
  shows "ec_text x y = ec_text x' y' \<longleftrightarrow> x = x' \<and> y = y'"
  by (simp add: ec_text_def quoted_def quote_split [OF assms(1,3)] quote_split [OF assms(2,4)])

lemma okp_text_inj:
  "CHR 0x22 \<notin> set x \<Longrightarrow> CHR 0x22 \<notin> set x' \<Longrightarrow> okp_text x = okp_text x' \<longleftrightarrow> x = x'"
  by (simp add: okp_text_def quoted_def quote_split)

lemma ec_okp_text: "ec_text x y \<noteq> okp_text z" "okp_text z \<noteq> ec_text x y"
  by (simp_all add: ec_text_def okp_text_def)

definition canonical_of :: "string \<Rightarrow> string" where
  "canonical_of t = ''{'' @ quoted ''crv'' @ '':'' @ CHR 0x22 # t"

lemma verified_canonical:
  assumes "b64url_law L" and "verify_with_jwk L k m s = Inr u"
  shows "\<exists>x y. CHR 0x22 \<notin> set x \<and> CHR 0x22 \<notin> set y \<and> jwk_x k = Some x \<and>
     (kty k = ''EC'' \<and> crv k = Some ''P-256'' \<and> jwk_y k = Some y \<and>
        jwk_canonical k = canonical_of (ec_text x y)
      \<or> kty k = ''OKP'' \<and> crv k = Some ''Ed25519'' \<and> jwk_canonical k = canonical_of (okp_text x))"
  using verified_coordinates [OF assms]
proof (elim disjE conjE exE)
  fix x y
  assume "kty k = ''EC''" "crv k = Some ''P-256''" "jwk_x k = Some x" "jwk_y k = Some y"
    "CHR 0x22 \<notin> set x" "CHR 0x22 \<notin> set y"
  then show ?thesis
    by (intro exI [of _ x] exI [of _ y])
      (simp add: jwk_canonical_def canonical_of_def ec_text_def quoted_def unwrap_str_def)
next
  fix x
  assume "kty k = ''OKP''" "crv k = Some ''Ed25519''" "jwk_x k = Some x" "CHR 0x22 \<notin> set x"
  then show ?thesis
    by (intro exI [of _ x])
      (simp add: jwk_canonical_def canonical_of_def okp_text_def quoted_def unwrap_str_def)
qed

lemma canonical_of_inj: "canonical_of s = canonical_of t \<longleftrightarrow> s = t"
  by (simp add: canonical_of_def)

text \<open>
  A thumbprint identifies the key: two JWKs under which signatures verified and whose
  hashed texts are equal have the same type, curve and coordinates, although the text is
  assembled without escaping.
\<close>

theorem thumbprint_text_injective:
  assumes "b64url_law L"
    and "verify_with_jwk L k m s = Inr ()" and "verify_with_jwk L k' m' s' = Inr ()"
    and "jwk_canonical k = jwk_canonical k'"
  shows "kty k = kty k' \<and> crv k = crv k' \<and> jwk_x k = jwk_x k' \<and> (kty k = ''EC'' \<longrightarrow> jwk_y k = jwk_y k')"
  using verified_canonical [OF assms(1,2)] verified_canonical [OF assms(1,3)] assms(4)
  by (elim exE conjE disjE) (simp_all add: canonical_of_inj ec_text_inj okp_text_inj ec_okp_text)

theorem thumbprint_text_injective_witness:
  "\<exists>k k'. jwk_kid k \<noteq> jwk_kid k' \<and> jwk_canonical k = jwk_canonical k' \<and>
     verify_with_jwk hex_libs k ''m'' (replicate 64 (CHR ''s'')) = Inr () \<and> jwk_y k = jwk_y k'"
proof -
  let ?k = "kp_public_jwk (ec_make hex_libs ''sk'')"
  let ?k' = "?k\<lparr>jwk_kid := None\<rparr>" and ?s = "replicate 64 (CHR ''s'')"
  have law: "es256_lawful hex_libs" by (simp add: es256_lawful_def hex_libs_laws)
  have "kp_sign (ec_make hex_libs ''sk'') ''m'' = Inr ?s"
    by (simp add: ec_make_def ec_key_pair_def hex_libs_def)
  from es256.sign_jwk [OF law this] have v: "verify_with_jwk hex_libs ?k ''m'' ?s = Inr ()" .
  moreover have "verify_with_jwk hex_libs ?k' = verify_with_jwk hex_libs ?k"
    by (intro ext) (simp add: verify_with_jwk_def unsupported_key_def)
  ultimately have v': "verify_with_jwk hex_libs ?k' ''m'' ?s = Inr ()" by simp
  have c: "jwk_canonical ?k = jwk_canonical ?k'" by (simp add: jwk_canonical_def)
  have kid: "jwk_kid ?k \<noteq> jwk_kid ?k'" by (simp add: ec_make_def ec_key_pair_def ec_build_public_jwk_def Let_def)
  have "kty ?k = ''EC''" by (simp add: ec_make_def ec_key_pair_def ec_build_public_jwk_def Let_def)
  with thumbprint_text_injective [OF hex_libs_laws(1) v v' c] have "jwk_y ?k = jwk_y ?k'" by simp
  with v c kid show ?thesis by blast
qed

end
