(* ===== verification/X509.thy ===== *)
theory X509
  imports Keys
begin

text \<open>
  Certificates and chain validation, from crates/crypto/src/x509.rs. Parsing a DER certificate
  is the x509-cert crate's and a parameter; a \<open>certificate\<close> holds the parts that the sources
  read, names as their DER encodings. The PEM reader and writer are the sources' own.
\<close>

section \<open>Certificates\<close>

record certificate =
  ct_subject :: bytes
  ct_issuer :: bytes
  ct_subject_text :: string
  ct_subject_rdns :: "(string \<times> string option) list list"
  ct_not_before :: nat
  ct_not_after :: nat
  ct_key_algorithm :: string
  ct_key_curve :: "string option"
  ct_public_key :: bytes
  ct_extensions :: "(string \<times> bytes) list"
  ct_signature_algorithm :: string
  ct_signature :: bytes
  ct_tbs :: "string + bytes"

text \<open>
  The crates' functions: the parser, the \<open>cA\<close> flag of an encoded BasicConstraints, SEC1 points
  and DER signatures of p256, base64ct's \<open>Base64\<close>, and chrono's \<open>Display\<close> of an instant.
\<close>

record x509_libs =
  x_parse :: "bytes \<Rightarrow> string + certificate"
  x_basic_constraints :: "bytes \<Rightarrow> bool option"
  x_sec1_key :: "bytes \<Rightarrow> string + bytes"
  x_der_signature :: "bytes \<Rightarrow> bytes option"
  b64_encode :: "bytes \<Rightarrow> string"
  b64_decode :: "string \<Rightarrow> string + bytes"
  x_show_time :: "instant \<Rightarrow> string"

datatype x509_error =
    CertificateGeneration string
  | InvalidPem string
  | InvalidCertificate string
  | CertificateKeyMismatch
  | Untrusted string

fun x509_error_to_string :: "x509_error \<Rightarrow> string" where
  "x509_error_to_string (CertificateGeneration e) = ''certificate generation failed: '' @ e"
| "x509_error_to_string (InvalidPem e) = ''invalid PEM: '' @ e"
| "x509_error_to_string (InvalidCertificate e) = ''invalid certificate: '' @ e"
| "x509_error_to_string CertificateKeyMismatch =
     ''the certificate does not certify the issuer'' @ [CHR 0x27] @ ''s signing key''"
| "x509_error_to_string (Untrusted e) = ''certificate chain is not trusted: '' @ e"

definition parse_certificate :: "x509_libs \<Rightarrow> bytes \<Rightarrow> x509_error + certificate" where
  "parse_certificate X der = map_err InvalidCertificate (x_parse X der)"

text \<open>\<open>DateTime::from_timestamp\<close> of the seconds as an \<open>i64\<close>, or the epoch when out of range.\<close>

definition from_timestamp :: "int \<Rightarrow> instant option" where
  "from_timestamp secs = (if - 8334601228800 \<le> secs \<and> secs \<le> 8210266876799 then Some (secs * second) else None)"

definition to_datetime :: "nat \<Rightarrow> instant" where
  "to_datetime secs = (case from_timestamp (wrap_i64 (int secs)) of Some t \<Rightarrow> t | None \<Rightarrow> 0)"

definition check_cert_validity :: "x509_libs \<Rightarrow> certificate \<Rightarrow> instant \<Rightarrow> x509_error + unit" where
  "check_cert_validity X cert at =
     ensure (\<not> (at < to_datetime (ct_not_before cert) \<or> to_datetime (ct_not_after cert) < at))
       (Untrusted (''certificate '' @ [CHR 0x27] @ ct_subject_text cert @ [CHR 0x27] @ '' is not valid at '' @
          x_show_time X at))"

definition BASIC_CONSTRAINTS :: string where "BASIC_CONSTRAINTS = ''2.5.29.19''"
definition ECDSA_WITH_SHA_256 :: string where "ECDSA_WITH_SHA_256 = ''1.2.840.10045.4.3.2''"
definition ID_EC_PUBLIC_KEY :: string where "ID_EC_PUBLIC_KEY = ''1.2.840.10045.2.1''"
definition SECP_256_R_1 :: string where "SECP_256_R_1 = ''1.2.840.10045.3.1.7''"
definition COUNTRY_NAME :: string where "COUNTRY_NAME = ''2.5.4.6''"

definition is_ca :: "x509_libs \<Rightarrow> certificate \<Rightarrow> bool" where
  "is_ca X cert =
     (case Option.bind (find (\<lambda>(oid, _). oid = BASIC_CONSTRAINTS) (ct_extensions cert))
             (\<lambda>(_, v). x_basic_constraints X v) of
        Some ca \<Rightarrow> ca | None \<Rightarrow> False)"

definition p256_verifying_key :: "x509_libs \<Rightarrow> certificate \<Rightarrow> x509_error + bytes" where
  "p256_verifying_key X cert =
     (if ct_key_algorithm cert \<noteq> ID_EC_PUBLIC_KEY \<or> ct_key_curve cert \<noteq> Some SECP_256_R_1
      then Inl (Untrusted ''only P-256 keys are supported'')
      else map_err InvalidCertificate (x_sec1_key X (ct_public_key cert)))"

definition verify_issued_by :: "libs \<Rightarrow> x509_libs \<Rightarrow> certificate \<Rightarrow> certificate \<Rightarrow> x509_error + unit" where
  "verify_issued_by L X cert issuer =
     bindR (ensure (ct_issuer cert = ct_subject issuer)
              (Untrusted ''issuer name does not match the issuing certificate'')) (\<lambda>_.
     bindR (ensure (ct_signature_algorithm cert = ECDSA_WITH_SHA_256)
              (Untrusted ''only ecdsa-with-SHA256 certificate signatures are supported'')) (\<lambda>_.
     bindR (p256_verifying_key X issuer) (\<lambda>key.
     bindR (ok_or (Untrusted ''malformed certificate signature'') (x_der_signature X (ct_signature cert))) (\<lambda>signature.
     bindR (map_err InvalidCertificate (ct_tbs cert)) (\<lambda>tbs.
     map_err (\<lambda>_. Untrusted ''certificate signature does not verify'') (p256_verify L key tbs signature))))))"

definition p256_jwk :: "libs \<Rightarrow> x509_libs \<Rightarrow> bytes \<Rightarrow> x509_error + jwk" where
  "p256_jwk L X point =
     bindR (map_err InvalidCertificate (x_sec1_key X point)) (\<lambda>key.
     Inr \<lparr> kty = ''EC'', crv = Some ''P-256'', jwk_x = Some (b64url_encode L (fst (p256_point L key))),
           jwk_y = Some (b64url_encode L (snd (p256_point L key))), jwk_d = None, jwk_alg = None,
           jwk_kid = None, jwk_use = None \<rparr>)"

section \<open>Chains\<close>

text \<open>The loop over the chain: each certificate is valid and signed by the next, which is a CA.\<close>

fun check_links :: "libs \<Rightarrow> x509_libs \<Rightarrow> instant \<Rightarrow> nat \<Rightarrow> certificate list \<Rightarrow> x509_error + unit" where
  "check_links L X at i [] = Inr ()"
| "check_links L X at i (cert # rest) =
     bindR (check_cert_validity X cert at) (\<lambda>_.
     bindR (case rest of
              [] \<Rightarrow> Inr ()
            | issuer # _ \<Rightarrow>
                bindR (ensure (is_ca X issuer)
                         (Untrusted (''certificate '' @ show_nat (Suc i) @ '' issued certificate '' @ show_nat i @
                            '' but is not a CA''))) (\<lambda>_.
                verify_issued_by L X cert issuer)) (\<lambda>_.
     check_links L X at (Suc i) rest))"

definition anchored_by :: "libs \<Rightarrow> x509_libs \<Rightarrow> instant \<Rightarrow> certificate \<Rightarrow> bytes \<Rightarrow> bytes \<Rightarrow> bool" where
  "anchored_by L X at tip tip_der anchor_der \<longleftrightarrow>
     (if anchor_der = tip_der then True
      else (case parse_certificate X anchor_der of
              Inl _ \<Rightarrow> False
            | Inr anchor \<Rightarrow> is_ok (check_cert_validity X anchor at) \<and> is_ok (verify_issued_by L X tip anchor)))"

definition validate_chain ::
    "libs \<Rightarrow> x509_libs \<Rightarrow> bytes list \<Rightarrow> bytes list \<Rightarrow> instant \<Rightarrow> x509_error + jwk" where
  "validate_chain L X chain trust_anchors at =
     bindR (mapR (parse_certificate X) chain) (\<lambda>certs.
     case certs of
       [] \<Rightarrow> Inl (Untrusted ''the chain is empty'')
     | leaf # _ \<Rightarrow>
         bindR (check_links L X at 0 certs) (\<lambda>_.
         bindR (ensure (list_ex (anchored_by L X at (last certs) (last chain)) trust_anchors)
                  (Untrusted (''no trust anchor issued the chain'' @ [CHR 0x27] @ ''s top certificate''))) (\<lambda>_.
         p256_jwk L X (ct_public_key leaf))))"

section \<open>PEM\<close>

text \<open>\<open>str::lines\<close>: line feeds end lines, a carriage return before one goes.\<close>

definition str_lines :: "string \<Rightarrow> string list" where
  "str_lines s =
     (let ls = split_on (CHR 0x0A) s; ls = (if last ls = [] then butlast ls else ls)
      in map (\<lambda>l. case strip_suffix [CHR 0x0D] l of Some l' \<Rightarrow> l' | None \<Rightarrow> l) ls)"

definition pem_begin :: "string \<Rightarrow> string" where
  "pem_begin label = ''-----BEGIN '' @ label @ ''-----''"

definition pem_end :: "string \<Rightarrow> string" where
  "pem_end label = ''-----END '' @ label @ ''-----''"

fun pem_scan :: "x509_libs \<Rightarrow> string \<Rightarrow> string option \<Rightarrow> string list \<Rightarrow> bytes list" where
  "pem_scan X label body [] = []"
| "pem_scan X label body (line # rest) =
     (if line = pem_begin label then pem_scan X label (Some []) rest
      else if line = pem_end label then
        (case body of
           Some b64 \<Rightarrow> (case b64_decode X b64 of
                          Inr der \<Rightarrow> der # pem_scan X label None rest
                        | Inl _ \<Rightarrow> pem_scan X label None rest)
         | None \<Rightarrow> pem_scan X label None rest)
      else (case body of
              Some b64 \<Rightarrow> pem_scan X label (Some (b64 @ line)) rest
            | None \<Rightarrow> pem_scan X label None rest))"

definition pem_blocks :: "x509_libs \<Rightarrow> string \<Rightarrow> string \<Rightarrow> bytes list" where
  "pem_blocks X pem label = pem_scan X label None (map trim_str (str_lines pem))"

text \<open>\<open>chunks(64)\<close> of the encoding, one per line.\<close>

function chunks :: "nat \<Rightarrow> 'a list \<Rightarrow> 'a list list" where
  "chunks n xs = (if xs = [] then [] else if n = 0 then [xs] else take n xs # chunks n (drop n xs))"
  by pat_completeness auto
termination by (relation "measure (length \<circ> snd)") auto

declare chunks.simps [simp del]

definition der_to_pem :: "x509_libs \<Rightarrow> bytes \<Rightarrow> string \<Rightarrow> string" where
  "der_to_pem X der label =
     pem_begin label @ [CHR 0x0A] @ concat (map (\<lambda>c. c @ [CHR 0x0A]) (chunks 64 (b64_encode X der))) @
     pem_end label @ [CHR 0x0A]"

section \<open>The issuer's certificates\<close>

record issuer_certificate =
  xc_der :: bytes

definition certificate_from_der :: "x509_libs \<Rightarrow> bytes \<Rightarrow> bytes \<Rightarrow> x509_error + issuer_certificate" where
  "certificate_from_der X der public_key =
     bindR (parse_certificate X der) (\<lambda>cert.
     bindR (ensure (ct_public_key cert = public_key) CertificateKeyMismatch) (\<lambda>_.
     Inr \<lparr> xc_der = der \<rparr>))"

definition certificate_from_pem :: "x509_libs \<Rightarrow> string \<Rightarrow> bytes \<Rightarrow> x509_error + issuer_certificate" where
  "certificate_from_pem X pem public_key =
     bindR (case pem_blocks X pem ''CERTIFICATE'' of
              der # _ \<Rightarrow> Inr der | [] \<Rightarrow> Inl (InvalidPem ''no CERTIFICATE block'')) (\<lambda>der.
     certificate_from_der X der public_key)"

definition certificate_x5c :: "x509_libs \<Rightarrow> issuer_certificate \<Rightarrow> string list" where
  "certificate_x5c X c = [b64_encode X (xc_der c)]"

definition certificate_to_pem :: "x509_libs \<Rightarrow> issuer_certificate \<Rightarrow> string" where
  "certificate_to_pem X c = der_to_pem X (xc_der c) ''CERTIFICATE''"

text \<open>\<open>not_after\<close> panics (\<open>None\<close>) on bytes that do not parse; a loaded certificate parsed.\<close>

definition certificate_not_after :: "x509_libs \<Rightarrow> issuer_certificate \<Rightarrow> instant option" where
  "certificate_not_after X c =
     (case parse_certificate X (xc_der c) of
        Inr cert \<Rightarrow> Some (to_datetime (ct_not_after cert)) | Inl _ \<Rightarrow> None)"

text \<open>The first country, printable as Annex B requires, in the first name part that has one.\<close>

fun find_map :: "('a \<Rightarrow> 'b option) \<Rightarrow> 'a list \<Rightarrow> 'b option" where
  "find_map f [] = None"
| "find_map f (x # xs) = (case f x of Some y \<Rightarrow> Some y | None \<Rightarrow> find_map f xs)"

definition certificate_subject_country :: "x509_libs \<Rightarrow> issuer_certificate \<Rightarrow> string option" where
  "certificate_subject_country X c =
     (case parse_certificate X (xc_der c) of
        Inl _ \<Rightarrow> None
      | Inr cert \<Rightarrow> find_map (find_map (\<lambda>(oid, v). if oid = COUNTRY_NAME then v else None)) (ct_subject_rdns cert))"

record issuer_pki =
  pki_trust_anchor :: bytes
  pki_leaf :: issuer_certificate
  pki_mdoc_signer :: issuer_certificate
  pki_mdoc_status_signer :: issuer_certificate
  pki_crl :: bytes

definition pki_trust_anchor_pem :: "x509_libs \<Rightarrow> issuer_pki \<Rightarrow> string" where
  "pki_trust_anchor_pem X p = der_to_pem X (pki_trust_anchor p) ''CERTIFICATE''"

definition pki_to_pem :: "x509_libs \<Rightarrow> issuer_pki \<Rightarrow> string" where
  "pki_to_pem X p =
     concat [certificate_to_pem X (pki_leaf p), certificate_to_pem X (pki_mdoc_signer p),
       certificate_to_pem X (pki_mdoc_status_signer p), pki_trust_anchor_pem X p, der_to_pem X (pki_crl p) ''X509 CRL'']"

fun validate_leaves ::
    "libs \<Rightarrow> x509_libs \<Rightarrow> bytes list \<Rightarrow> issuer_certificate list \<Rightarrow> ('x env_scheme, x509_error, unit) prog" where
  "validate_leaves L X anchors [] = ret ()"
| "validate_leaves L X anchors (c # cs) =
     bindP utc_now (\<lambda>now.
     bindP (liftR (validate_chain L X [xc_der c] anchors now)) (\<lambda>_.
     validate_leaves L X anchors cs))"

definition pki_from_pem ::
    "libs \<Rightarrow> x509_libs \<Rightarrow> string \<Rightarrow> bytes \<Rightarrow> ('x env_scheme, x509_error, issuer_pki) prog" where
  "pki_from_pem L X pem public_key =
     bindP (liftR (case pem_blocks X pem ''CERTIFICATE'' of
              [l, m, s, a] \<Rightarrow> Inr (l, m, s, a)
            | certs \<Rightarrow> Inl (InvalidPem (''expected 4 certificates (leaf, mdoc signer, mdoc status signer, trust anchor), found '' @
                show_nat (length certs))))) (\<lambda>(leaf, mdoc_signer, mdoc_status_signer, trust_anchor).
     bindP (liftR (case pem_blocks X pem ''X509 CRL'' of
              crl # _ \<Rightarrow> Inr crl | [] \<Rightarrow> Inl (InvalidPem ''no X509 CRL block''))) (\<lambda>crl.
     bindP (liftR (certificate_from_der X leaf public_key)) (\<lambda>leaf.
     bindP (liftR (certificate_from_der X mdoc_signer public_key)) (\<lambda>mdoc_signer.
     bindP (liftR (certificate_from_der X mdoc_status_signer public_key)) (\<lambda>mdoc_status_signer.
     bindP (validate_leaves L X [trust_anchor] [leaf, mdoc_signer, mdoc_status_signer]) (\<lambda>_.
     ret \<lparr> pki_trust_anchor = trust_anchor, pki_leaf = leaf, pki_mdoc_signer = mdoc_signer,
           pki_mdoc_status_signer = mdoc_status_signer, pki_crl = crl \<rparr>))))))"

section \<open>PEM reads back\<close>

text \<open>base64ct's standard alphabet: letters, digits, plus, slash and the padding sign.\<close>

definition b64_char :: "char \<Rightarrow> bool" where
  "b64_char c \<longleftrightarrow> (let n = (of_char c :: nat) in
     65 \<le> n \<and> n \<le> 90 \<or> 97 \<le> n \<and> n \<le> 122 \<or> 47 \<le> n \<and> n \<le> 57 \<or> n = 43 \<or> n = 61)"

definition b64_law :: "x509_libs \<Rightarrow> bool" where
  "b64_law X \<longleftrightarrow>
     (\<forall>b. b64_decode X (b64_encode X b) = Inr b) \<and> (\<forall>b. list_all b64_char (b64_encode X b))"

lemma b64_char_special [simp]:
  "\<not> b64_char (CHR 0x0A)" "\<not> b64_char (CHR 0x0D)" "\<not> b64_char (CHR ''-'')" "b64_char c \<Longrightarrow> graphic c"
  by (auto simp: b64_char_def graphic_def Let_def)

text \<open>Lines that survive: no line end inside, visible ASCII at both ends.\<close>

definition plain_line :: "string \<Rightarrow> bool" where
  "plain_line l \<longleftrightarrow> CHR 0x0A \<notin> set l \<and> l \<noteq> [] \<and> graphic (hd l) \<and> graphic (last l)"

lemma plain_trim: "plain_line l \<Longrightarrow> trim_str l = l"
  by (simp add: plain_line_def trim_graphic)

lemma plain_cr: "plain_line l \<Longrightarrow> strip_suffix [CHR 0x0D] l = None"
  by (rule ccontr) (auto simp: strip_suffix_Some plain_line_def graphic_def)

lemma split_lines: "list_all plain_line ls \<Longrightarrow> split_on (CHR 0x0A) (concat (map (\<lambda>l. l @ [CHR 0x0A]) ls)) = ls @ [[]]"
proof (induction ls)
  case (Cons l ls)
  then show ?case using split_on_append [of "CHR 0x0A" l "concat (map (\<lambda>l. l @ [CHR 0x0A]) ls)"]
    by (simp add: plain_line_def)
qed simp

lemma lines_of_plain:
  assumes "list_all plain_line ls"
  shows "map trim_str (str_lines (concat (map (\<lambda>l. l @ [CHR 0x0A]) ls))) = ls"
proof -
  have "str_lines (concat (map (\<lambda>l. l @ [CHR 0x0A]) ls)) = map (\<lambda>l. case strip_suffix [CHR 0x0D] l of Some l' \<Rightarrow> l' | None \<Rightarrow> l) ls"
    by (simp add: str_lines_def split_lines [OF assms])
  also have "\<dots> = ls" using assms by (induction ls) (simp_all add: plain_cr)
  finally have "str_lines (concat (map (\<lambda>l. l @ [CHR 0x0A]) ls)) = ls" .
  moreover have "map trim_str ls = ls" using assms by (induction ls) (simp_all add: plain_trim)
  ultimately show ?thesis by simp
qed

lemma chunks_concat: "concat (chunks n xs) = xs"
  by (induction n xs rule: chunks.induct) (subst chunks.simps, auto)

lemma chunks_pieces: "0 < n \<Longrightarrow> c \<in> set (chunks n xs) \<Longrightarrow> c \<noteq> [] \<and> set c \<subseteq> set xs"
proof (induction n xs rule: chunks.induct)
  case (1 n xs)
  show ?case
  proof (cases "xs = []")
    case True
    with 1 show ?thesis by (simp add: chunks.simps)
  next
    case False
    with 1 have "c = take n xs \<or> c \<in> set (chunks n (drop n xs))" by (simp add: chunks.simps [of n xs])
    with 1 False show ?thesis by (auto dest: in_set_takeD in_set_dropD)
  qed
qed

definition pem_label :: "string \<Rightarrow> bool" where
  "pem_label l \<longleftrightarrow> CHR 0x0A \<notin> set l"

definition pem_lines :: "x509_libs \<Rightarrow> bytes \<times> string \<Rightarrow> string list" where
  "pem_lines X = (\<lambda>(der, label). pem_begin label # chunks 64 (b64_encode X der) @ [pem_end label])"

lemma der_to_pem_lines: "der_to_pem X der label = concat (map (\<lambda>l. l @ [CHR 0x0A]) (pem_lines X (der, label)))"
  by (simp add: der_to_pem_def pem_lines_def)

lemma b64_lines:
  assumes "b64_law X" and "c \<in> set (chunks 64 (b64_encode X der))"
  shows "plain_line c" and "hd c \<noteq> CHR ''-''"
proof -
  have c: "c \<noteq> []" "list_all b64_char c"
    using chunks_pieces [of 64 c "b64_encode X der"] assms by (auto simp: b64_law_def list_all_iff)
  have a: "b64_char x" if "x \<in> set c" for x using c(2) that by (simp add: list_all_iff)
  have h: "b64_char (hd c)" "b64_char (last c)" using c(1) a by simp_all
  have "CHR 0x0A \<notin> set c" using a b64_char_special(1) by blast
  then show "plain_line c" using c(1) h by (simp add: plain_line_def)
  show "hd c \<noteq> CHR ''-''" using h(1) b64_char_special(3) by metis
qed

lemma pem_lines_plain: "b64_law X \<Longrightarrow> pem_label l \<Longrightarrow> list_all plain_line (pem_lines X (der, l))"
proof -
  assume law: "b64_law X" and l: "pem_label l"
  have "plain_line (pem_begin l)" "plain_line (pem_end l)"
    using l by (simp_all add: plain_line_def pem_begin_def pem_end_def graphic_def pem_label_def)
  then show ?thesis using b64_lines(1) [OF law] by (auto simp: pem_lines_def list_all_iff)
qed

lemma pem_marks [simp]:
  "pem_begin a = pem_begin b \<longleftrightarrow> a = b" "pem_end a = pem_end b \<longleftrightarrow> a = b" "pem_begin a \<noteq> pem_end b" "pem_end b \<noteq> pem_begin a"
  by (auto simp: pem_begin_def pem_end_def)

lemma scan_body:
  assumes "\<And>c. c \<in> set cs \<Longrightarrow> c \<noteq> [] \<and> hd c \<noteq> CHR ''-''"
  shows "pem_scan X label (Some b) (cs @ ls) = pem_scan X label (Some (b @ concat cs)) ls"
    and "pem_scan X label None (cs @ ls) = pem_scan X label None ls"
proof -
  have n: "c \<noteq> [] \<and> hd c \<noteq> CHR ''-'' \<Longrightarrow> c \<noteq> pem_begin label \<and> c \<noteq> pem_end label" for c
    by (auto simp: pem_begin_def pem_end_def)
  show "pem_scan X label (Some b) (cs @ ls) = pem_scan X label (Some (b @ concat cs)) ls"
    using assms by (induction cs arbitrary: b) (use n in auto)
  show "pem_scan X label None (cs @ ls) = pem_scan X label None ls"
    using assms by (induction cs) (use n in auto)
qed

lemma scan_block:
  assumes "b64_law X"
  shows "pem_scan X label None (pem_lines X (der, l) @ ls) =
    (if l = label then der # pem_scan X label None ls else pem_scan X label None ls)"
proof -
  have c: "\<And>c. c \<in> set (chunks 64 (b64_encode X der)) \<Longrightarrow> c \<noteq> [] \<and> hd c \<noteq> CHR ''-''"
    using b64_lines [OF assms] by (auto simp: plain_line_def)
  have "b64_decode X (b64_encode X der) = Inr der" using assms by (simp add: b64_law_def)
  then show ?thesis by (simp add: pem_lines_def scan_body [OF c] chunks_concat)
qed

lemma pem_blocks_concat:
  assumes "b64_law X" and "\<And>d l. (d, l) \<in> set bs \<Longrightarrow> pem_label l"
  shows "pem_blocks X (concat (map (\<lambda>(d, l). der_to_pem X d l) bs)) label = map fst (filter (\<lambda>(d, l). l = label) bs)"
proof -
  have "list_all plain_line (concat (map (pem_lines X) bs))"
    using assms(2) pem_lines_plain [OF assms(1)] by (force simp: list_all_iff)
  moreover have "concat (map (\<lambda>(d, l). der_to_pem X d l) bs) = concat (map (\<lambda>l. l @ [CHR 0x0A]) (concat (map (pem_lines X) bs)))"
    by (induction bs) (auto simp: der_to_pem_lines)
  ultimately have "pem_blocks X (concat (map (\<lambda>(d, l). der_to_pem X d l) bs)) label =
      pem_scan X label None (concat (map (pem_lines X) bs))"
    by (simp add: pem_blocks_def lines_of_plain del: map_concat)
  also have "\<dots> = map fst (filter (\<lambda>(d, l). l = label) bs)"
    by (induction bs) (auto simp: scan_block [OF assms(1)])
  finally show ?thesis .
qed

section \<open>What an accepted chain is\<close>

lemma verify_issued_by_Inr:
  "verify_issued_by L X cert issuer = Inr u \<longleftrightarrow>
     (\<exists>key sig tbs. ct_issuer cert = ct_subject issuer \<and> ct_signature_algorithm cert = ECDSA_WITH_SHA_256 \<and>
        p256_verifying_key X issuer = Inr key \<and> x_der_signature X (ct_signature cert) = Some sig \<and>
        ct_tbs cert = Inr tbs \<and> p256_verify L key tbs sig = Inr ())"
  by (auto simp: verify_issued_by_def result_inv)

text \<open>
  \<open>cert\<close> is signed by the P-256 key of \<open>issuer\<close> and names it.
\<close>

definition signed_by_cert :: "libs \<Rightarrow> x509_libs \<Rightarrow> certificate \<Rightarrow> certificate \<Rightarrow> bool" where
  "signed_by_cert L X cert issuer \<longleftrightarrow> is_ok (verify_issued_by L X cert issuer)"

definition valid_at :: "instant \<Rightarrow> certificate \<Rightarrow> bool" where
  "valid_at at cert \<longleftrightarrow> to_datetime (ct_not_before cert) \<le> at \<and> at \<le> to_datetime (ct_not_after cert)"

lemma check_cert_validity_Inr: "check_cert_validity X cert at = Inr u \<longleftrightarrow> valid_at at cert"
  by (auto simp: check_cert_validity_def ensure_Inr valid_at_def)

fun linked :: "libs \<Rightarrow> x509_libs \<Rightarrow> certificate list \<Rightarrow> bool" where
  "linked L X (c # i # rest) \<longleftrightarrow> is_ca X i \<and> signed_by_cert L X c i \<and> linked L X (i # rest)"
| "linked L X _ \<longleftrightarrow> True"

lemma check_links_Inr: "check_links L X at n certs = Inr u \<longleftrightarrow> list_all (valid_at at) certs \<and> linked L X certs"
proof (induction certs arbitrary: n)
  case (Cons c cs)
  then show ?case
    by (cases cs) (auto simp: result_inv check_cert_validity_Inr signed_by_cert_def is_ok_iff)
qed simp

lemma mapR_parse: "mapR (parse_certificate X) chain = Inr certs \<longleftrightarrow> map (x_parse X) chain = map Inr certs"
  by (auto simp: mapR_Inr parse_certificate_def map_err_Inr list_all2_conv_all_nth list_eq_iff_nth_eq)

lemma anchored_by_iff: "anchored_by L X at tip tip_der a \<longleftrightarrow> a = tip_der \<or>
    (\<exists>anchor. x_parse X a = Inr anchor \<and> valid_at at anchor \<and> signed_by_cert L X tip anchor)"
  by (cases "x_parse X a")
    (simp_all add: anchored_by_def parse_certificate_def is_ok_iff check_cert_validity_Inr signed_by_cert_def)

text \<open>
  A chain is accepted exactly when every certificate parses and is within its period at the
  given time, each is signed by the next, which is a CA, and the last one is an anchor or signed
  by a valid one; the result is then the P-256 key of the first. An anchor's own CA flag, path
  length and key usage are not looked at.
\<close>

lemma validate_chain_Inr:
  "validate_chain L X chain anchors at = Inr k \<longleftrightarrow>
     (\<exists>certs. map (x_parse X) chain = map Inr certs \<and> certs \<noteq> [] \<and> list_all (valid_at at) certs \<and>
        linked L X certs \<and>
        (last chain \<in> set anchors \<or>
         (\<exists>a\<in>set anchors. \<exists>anchor. x_parse X a = Inr anchor \<and> valid_at at anchor \<and> signed_by_cert L X (last certs) anchor)) \<and>
        p256_jwk L X (ct_public_key (hd certs)) = Inr k)" (is "?l \<longleftrightarrow> ?r")
proof -
  have a: "list_ex (anchored_by L X at tip tip_der) anchors \<longleftrightarrow> tip_der \<in> set anchors \<or>
      (\<exists>a\<in>set anchors. \<exists>anchor. x_parse X a = Inr anchor \<and> valid_at at anchor \<and> signed_by_cert L X tip anchor)"
    for tip tip_der
    by (auto simp: list_ex_iff anchored_by_iff)
  have "(case certs of [] \<Rightarrow> Inl (Untrusted ''the chain is empty'') | leaf # _ \<Rightarrow>
         bindR (check_links L X at 0 certs) (\<lambda>_.
         bindR (ensure (list_ex (anchored_by L X at (last certs) (last chain)) anchors)
                  (Untrusted (''no trust anchor issued the chain'' @ [CHR 0x27] @ ''s top certificate''))) (\<lambda>_.
         p256_jwk L X (ct_public_key leaf)))) = Inr k \<longleftrightarrow>
      certs \<noteq> [] \<and> list_all (valid_at at) certs \<and> linked L X certs \<and>
      list_ex (anchored_by L X at (last certs) (last chain)) anchors \<and> p256_jwk L X (ct_public_key (hd certs)) = Inr k"
    for certs
    by (cases certs) (simp_all add: bindR_Inr ensure_Inr check_links_Inr del: check_links.simps linked.simps)
  then show ?thesis unfolding validate_chain_def bindR_Inr mapR_parse a by (simp only: )
qed

lemma validate_chain_same_key:
  assumes "validate_chain L X chain anchors at = Inr k" and "validate_chain L X chain anchors' at' = Inr k'"
  shows "k' = k"
proof -
  have inj: "map Inr xs = map Inr ys \<Longrightarrow> xs = ys" for xs ys :: "certificate list"
    by (metis list.inj_map sum.inject(2) injI injD)
  from assms show ?thesis
    unfolding validate_chain_Inr by (elim exE conjE) (metis inj sum.inject(2))
qed

definition anchored_top :: "libs \<Rightarrow> x509_libs \<Rightarrow> instant \<Rightarrow> bytes list \<Rightarrow> bytes \<Rightarrow> certificate \<Rightarrow> bool" where
  "anchored_top L X at anchors top_der top_cert \<longleftrightarrow> top_der \<in> set anchors \<or>
     (\<exists>a\<in>set anchors. \<exists>anchor. x_parse X a = Inr anchor \<and> valid_at at anchor \<and> signed_by_cert L X top_cert anchor)"

text \<open>
  C36. A certificate chain is accepted exactly when every certificate parses and is within its
  period, each is signed by the next, which is a CA, and the last one is a trust anchor or signed
  by a valid trust anchor; the result is the first certificate's P-256 key. Nothing is asked of
  the anchor itself: it need not be a CA, and no path length or key usage is looked at.
\<close>

theorem chain_accepted_iff:
  "validate_chain L X chain anchors at = Inr k \<longleftrightarrow>
     (\<exists>certs. map (x_parse X) chain = map Inr certs \<and> certs \<noteq> [] \<and> list_all (valid_at at) certs \<and>
        linked L X certs \<and> anchored_top L X at anchors (last chain) (last certs) \<and>
        p256_jwk L X (ct_public_key (hd certs)) = Inr k)"
  unfolding validate_chain_Inr anchored_top_def ..

text \<open>
  A certificate bundle that the issuer wrote loads again, for a key its leaves certify,
  while they are valid.
\<close>

lemma bundle_loads:
  assumes "b64_law X"
    and "\<And>c. c \<in> {pki_leaf p, pki_mdoc_signer p, pki_mdoc_status_signer p} \<Longrightarrow>
           certificate_from_der X (xc_der c) key = Inr c"
    and "\<And>c n. c \<in> {pki_leaf p, pki_mdoc_signer p, pki_mdoc_status_signer p} \<Longrightarrow>
           is_ok (validate_chain L X [xc_der c] [pki_trust_anchor p] (clock_at s n))"
  shows "fst (pki_from_pem L X (pki_to_pem X p) key s) = Inr p"
proof -
  let ?cs = "[pki_leaf p, pki_mdoc_signer p, pki_mdoc_status_signer p]"
  define bs where "bs = [(xc_der (pki_leaf p), ''CERTIFICATE''), (xc_der (pki_mdoc_signer p), ''CERTIFICATE''),
    (xc_der (pki_mdoc_status_signer p), ''CERTIFICATE''), (pki_trust_anchor p, ''CERTIFICATE''), (pki_crl p, ''X509 CRL'')]"
  have "pki_to_pem X p = concat (map (\<lambda>(d, l). der_to_pem X d l) bs)" 
    by (simp add: pki_to_pem_def bs_def certificate_to_pem_def pki_trust_anchor_pem_def)
  moreover have "\<And>d l. (d, l) \<in> set bs \<Longrightarrow> pem_label l" by (auto simp: bs_def pem_label_def)
  ultimately have blocks: "pem_blocks X (pki_to_pem X p) label = map fst (filter (\<lambda>(d, l). l = label) bs)" for label
    using pem_blocks_concat [OF assms(1)] by simp
  have ok: "\<exists>k. validate_chain L X [xc_der c] [pki_trust_anchor p] (clock_at s n) = Inr k" if "c \<in> set ?cs" for c n
    using assms(3) [of c n] that by (auto simp: is_ok_iff)
  have "\<exists>s'. validate_leaves L X [pki_trust_anchor p] cs t = (Inr (), s')"
    if "set cs \<subseteq> set ?cs" "clock_at t = clock_at s" for cs t
    using that
  proof (induction cs arbitrary: t)
    case (Cons c cs)
    obtain k where "validate_chain L X [xc_der c] [pki_trust_anchor p] (clock_at t (clock_reads t)) = Inr k"
      using ok [of c] Cons.prems by auto
    with Cons show ?case by (simp add: bindP_def utc_now_run liftR_run)
  qed (simp add: ret_def)
  from this [of ?cs s] obtain s' where "validate_leaves L X [pki_trust_anchor p] ?cs s = (Inr (), s')" by auto
  then show ?thesis
    by (simp add: pki_from_pem_def blocks bs_def bindP_def liftR_run ret_def assms(2) del: validate_leaves.simps)
qed

end
