(* ===== verification/Status_Lists.thy ===== *)
theory Status_Lists
  imports Externals
begin

text \<open>
  The two published status formats: the W3C bitstring list of
  crates/status/src/status_list_2021.rs (one bit per credential, most significant bit first)
  and the IETF Token Status List of crates/status/src/token_status_list.rs (1, 2, 4 or 8 bits
  per entry, least significant first), with the status values of crates/types/src/status.rs.
  Both are byte vectors addressed by an index. The locale \<open>status_array\<close> is their common
  contract; each format interprets it, so both refine a map from indices to status values.

  \<open>SlPanic\<close> and \<open>TslPanic\<close> are not Rust values: they mark the panic of a slice index that is out
  of range, which a list decoded from short data can reach.
\<close>

section \<open>Status values\<close>

datatype status_purpose = Revocation | Suspension

fun status_purpose_to_string :: "status_purpose \<Rightarrow> string" where
  "status_purpose_to_string Revocation = ''revocation''"
| "status_purpose_to_string Suspension = ''suspension''"

datatype token_status = Valid | Invalid | Suspended

fun token_status_byte :: "token_status \<Rightarrow> u8" where
  "token_status_byte Valid = 0"
| "token_status_byte Invalid = 1"
| "token_status_byte Suspended = 2"

definition from_byte :: "u8 \<Rightarrow> token_status option" where
  "from_byte v = (if v = 0 then Some Valid else if v = 1 then Some Invalid
                  else if v = 2 then Some Suspended else None)"

lemma from_byte_round [simp]: "from_byte (token_status_byte s) = Some s"
  by (cases s) (simp_all add: from_byte_def)

text \<open>Bytes as characters, where a list is handed to the compressor.\<close>

definition byte_char :: "u8 \<Rightarrow> char" where
  "byte_char w = char_of (unat w)"

definition char_byte :: "char \<Rightarrow> u8" where
  "char_byte c = word_of_nat (of_char c)"

lemma char_byte_char [simp]: "char_byte (byte_char w) = w"
proof -
  have "unat w < 256" using unsigned_less [of w, where ?'a = nat] by simp
  then show ?thesis by (simp add: char_byte_def byte_char_def)
qed

lemma byte_char_byte [simp]: "byte_char (char_byte c) = c"
  by (simp add: char_byte_def byte_char_def unat_of_nat)

lemma map_byte_char_byte [simp]: "map byte_char (map char_byte cs) = cs"
  by (induction cs) auto

lemma map_char_byte_char [simp]: "map char_byte (map byte_char ws) = ws"
  by (induction ws) auto

section \<open>StatusList2021\<close>

datatype status_list_error =
    SlCompression string
  | SlDecompression string
  | SlIndexOutOfBounds nat nat
  | SlBase64Error string
  | SlPanic

fun status_list_error_to_string :: "status_list_error \<Rightarrow> string" where
  "status_list_error_to_string (SlCompression e) = ''compression error: '' @ e"
| "status_list_error_to_string (SlDecompression e) = ''decompression error: '' @ e"
| "status_list_error_to_string (SlIndexOutOfBounds i n) =
     ''index out of bounds: '' @ show_nat i @ '' >= '' @ show_nat n"
| "status_list_error_to_string (SlBase64Error e) = ''base64 decode error: '' @ e"
| "status_list_error_to_string SlPanic = []"

record status_list =
  sl_bits :: "u8 list"
  sl_size :: nat

definition sl_new :: "nat \<Rightarrow> status_list" where
  "sl_new n = \<lparr> sl_bits = replicate ((n + 7) div 8) 0, sl_size = n \<rparr>"

definition sl_get :: "status_list \<Rightarrow> nat \<Rightarrow> status_list_error + bool" where
  "sl_get l i =
     (if sl_size l \<le> i then Inl (SlIndexOutOfBounds i (sl_size l))
      else let byte_index = i div 8; bit_index = i mod 8
           in if length (sl_bits l) \<le> byte_index then Inl SlPanic
              else Inr ((sl_bits l ! byte_index) AND push_bit (7 - bit_index) 1 \<noteq> 0))"

definition sl_set :: "status_list \<Rightarrow> nat \<Rightarrow> bool \<Rightarrow> status_list_error + status_list" where
  "sl_set l i v =
     (if sl_size l \<le> i then Inl (SlIndexOutOfBounds i (sl_size l))
      else let byte_index = i div 8; bit_index = i mod 8; byte = sl_bits l ! byte_index
           in if length (sl_bits l) \<le> byte_index then Inl SlPanic
              else if v then Inr (l\<lparr>sl_bits := (sl_bits l)[byte_index := byte OR push_bit (7 - bit_index) 1]\<rparr>)
              else Inr (l\<lparr>sl_bits := (sl_bits l)[byte_index := byte AND NOT (push_bit (7 - bit_index) 1)]\<rparr>))"

definition sl_encode :: "libs \<Rightarrow> status_list \<Rightarrow> status_list_error + string" where
  "sl_encode L l =
     bindR (map_err SlCompression (gzip L (map byte_char (sl_bits l)))) (\<lambda>compressed.
     Inr (b64url_encode L compressed))"

definition sl_decode :: "libs \<Rightarrow> string \<Rightarrow> nat \<Rightarrow> status_list_error + status_list" where
  "sl_decode L encoded n =
     bindR (map_err SlBase64Error (b64url_decode L encoded)) (\<lambda>compressed.
     bindR (map_err SlDecompression (gunzip L compressed)) (\<lambda>bits.
     Inr \<lparr> sl_bits = map char_byte bits, sl_size = n \<rparr>))"

text \<open>\<open>allocate_index\<close>: the first index whose bit is clear; a failed read counts as taken.\<close>

fun sl_scan :: "status_list \<Rightarrow> nat list \<Rightarrow> status_list_error + nat option" where
  "sl_scan l [] = Inr None"
| "sl_scan l (i # is) =
     (case sl_get l i of
        Inl SlPanic \<Rightarrow> Inl SlPanic
      | Inl _ \<Rightarrow> sl_scan l is
      | Inr taken \<Rightarrow> if taken then sl_scan l is else Inr (Some i))"

definition sl_allocate_index :: "status_list \<Rightarrow> status_list_error + nat option" where
  "sl_allocate_index l = sl_scan l [0..<sl_size l]"

section \<open>Token Status List\<close>

datatype token_status_list_error =
    InvalidBitsPerStatus nat
  | TslIndexOutOfBounds nat
  | TslCompression string
  | TslDecompression string
  | TslBase64Error string
  | InvalidStatus u8
  | TslPanic

fun token_status_list_error_to_string :: "token_status_list_error \<Rightarrow> string" where
  "token_status_list_error_to_string (InvalidBitsPerStatus b) =
     ''invalid bits_per_status: '' @ show_nat b @ '' (must be 1, 2, 4, or 8)''"
| "token_status_list_error_to_string (TslIndexOutOfBounds i) = ''index out of bounds: '' @ show_nat i"
| "token_status_list_error_to_string (TslCompression e) = ''compression error: '' @ e"
| "token_status_list_error_to_string (TslDecompression e) = ''decompression error: '' @ e"
| "token_status_list_error_to_string (TslBase64Error e) = ''base64 decode error: '' @ e"
| "token_status_list_error_to_string (InvalidStatus v) = ''invalid status value: '' @ show_nat (unat v)"
| "token_status_list_error_to_string TslPanic = []"

record token_status_list =
  tsl_data :: "u8 list"
  bits_per_status :: nat
  tsl_capacity :: nat

definition tsl_new :: "nat \<Rightarrow> nat \<Rightarrow> token_status_list_error + token_status_list" where
  "tsl_new cap b =
     (if b \<notin> {1, 2, 4, 8} then Inl (InvalidBitsPerStatus b)
      else let entries_per_byte = 8 div b
           in Inr \<lparr> tsl_data = replicate ((cap + entries_per_byte - 1) div entries_per_byte) 0,
                    bits_per_status = b, tsl_capacity = cap \<rparr>)"

text \<open>\<open>((1u16 << bits_per_status) - 1) as u8\<close>.\<close>

definition tsl_mask :: "nat \<Rightarrow> u8" where
  "tsl_mask b = ucast ((push_bit b 1 :: 16 word) - 1)"

definition tsl_get :: "token_status_list \<Rightarrow> nat \<Rightarrow> token_status_list_error + u8" where
  "tsl_get l i =
     (if tsl_capacity l \<le> i then Inl (TslIndexOutOfBounds i)
      else let entries_per_byte = 8 div bits_per_status l;
               byte_index = i div entries_per_byte;
               bit_offset = (i mod entries_per_byte) * bits_per_status l
           in if length (tsl_data l) \<le> byte_index then Inl TslPanic
              else Inr (drop_bit bit_offset (tsl_data l ! byte_index) AND tsl_mask (bits_per_status l)))"

definition tsl_set :: "token_status_list \<Rightarrow> nat \<Rightarrow> u8 \<Rightarrow> token_status_list_error + token_status_list" where
  "tsl_set l i v =
     (if tsl_capacity l \<le> i then Inl (TslIndexOutOfBounds i)
      else if tsl_mask (bits_per_status l) < v then Inl (InvalidStatus v)
      else let entries_per_byte = 8 div bits_per_status l;
               byte_index = i div entries_per_byte;
               bit_offset = (i mod entries_per_byte) * bits_per_status l;
               byte = tsl_data l ! byte_index
           in if length (tsl_data l) \<le> byte_index then Inl TslPanic
              else Inr (l\<lparr>tsl_data := (tsl_data l)[byte_index :=
                     (byte AND NOT (push_bit bit_offset (tsl_mask (bits_per_status l))))
                     OR push_bit bit_offset v]\<rparr>))"

definition tsl_get_status :: "token_status_list \<Rightarrow> nat \<Rightarrow> token_status_list_error + token_status" where
  "tsl_get_status l i = bindR (tsl_get l i) (\<lambda>v. ok_or (InvalidStatus v) (from_byte v))"

definition tsl_set_status ::
    "token_status_list \<Rightarrow> nat \<Rightarrow> token_status \<Rightarrow> token_status_list_error + token_status_list" where
  "tsl_set_status l i s = tsl_set l i (token_status_byte s)"

definition tsl_compress :: "libs \<Rightarrow> token_status_list \<Rightarrow> token_status_list_error + bytes" where
  "tsl_compress L l = map_err TslCompression (zlib L (map byte_char (tsl_data l)))"

definition tsl_encode :: "libs \<Rightarrow> token_status_list \<Rightarrow> token_status_list_error + string" where
  "tsl_encode L l = bindR (tsl_compress L l) (\<lambda>c. Inr (b64url_encode L c))"

definition tsl_decode ::
    "libs \<Rightarrow> string \<Rightarrow> nat \<Rightarrow> nat \<Rightarrow> token_status_list_error + token_status_list" where
  "tsl_decode L encoded cap b =
     (if b \<notin> {1, 2, 4, 8} then Inl (InvalidBitsPerStatus b)
      else bindR (map_err TslBase64Error (b64url_decode L encoded)) (\<lambda>compressed.
           bindR (map_err TslDecompression (unzlib L compressed)) (\<lambda>data.
           Inr \<lparr> tsl_data = map char_byte data, bits_per_status = b, tsl_capacity = cap \<rparr>)))"

section \<open>The common contract\<close>

text \<open>A batch of writes, stopping at the first failure.\<close>

fun writes :: "('l \<Rightarrow> nat \<Rightarrow> 'v \<Rightarrow> 'e + 'l) \<Rightarrow> 'l \<Rightarrow> (nat \<times> 'v) list \<Rightarrow> 'e + 'l" where
  "writes put l [] = Inr l"
| "writes put l ((i, v) # ws) = bindR (put l i v) (\<lambda>l'. writes put l' ws)"

locale status_array =
  fixes get :: "'l \<Rightarrow> nat \<Rightarrow> 'e + 'v"
    and put :: "'l \<Rightarrow> nat \<Rightarrow> 'v \<Rightarrow> 'e + 'l"
    and size_of :: "'l \<Rightarrow> nat"
    and fits :: "'l \<Rightarrow> 'v \<Rightarrow> bool"
    and wf :: "'l \<Rightarrow> bool"
  assumes get_total: "wf l \<Longrightarrow> i < size_of l \<Longrightarrow> \<exists>v. get l i = Inr v"
    and get_bounded: "get l i = Inr v \<Longrightarrow> i < size_of l"
    and put_total: "wf l \<Longrightarrow> i < size_of l \<Longrightarrow> fits l v \<Longrightarrow> \<exists>l'. put l i v = Inr l'"
    and put_fits: "put l i v = Inr l' \<Longrightarrow> i < size_of l \<and> fits l v"
    and put_wf: "wf l \<Longrightarrow> put l i v = Inr l' \<Longrightarrow> wf l' \<and> size_of l' = size_of l \<and> fits l' = fits l"
    and put_same: "wf l \<Longrightarrow> put l i v = Inr l' \<Longrightarrow> get l' i = Inr v"
    and put_other: "wf l \<Longrightarrow> put l i v = Inr l' \<Longrightarrow> j \<noteq> i \<Longrightarrow> get l' j = get l j"
begin

lemma writes_wf: "wf l \<Longrightarrow> writes put l ws = Inr l' \<Longrightarrow> wf l' \<and> size_of l' = size_of l"
proof (induction ws arbitrary: l)
  case Nil
  then show ?case by simp
next
  case (Cons w ws)
  obtain i v where w: "w = (i, v)" by (cases w)
  with Cons.prems obtain m where m: "put l i v = Inr m" and rest: "writes put m ws = Inr l'"
    by (auto simp: result_inv)
  from put_wf [OF Cons.prems(1) m] have "wf m" and "size_of m = size_of l" by auto
  with Cons.IH [OF _ rest] show ?case by simp
qed

text \<open>A list after a batch of writes is the map that the batch writes.\<close>

lemma writes_get:
  assumes "wf l" and "writes put l ws = Inr l'"
  shows "get l' j = (case map_of (rev ws) j of Some v \<Rightarrow> Inr v | None \<Rightarrow> get l j)"
  using assms
proof (induction ws arbitrary: l)
  case Nil
  then show ?case by simp
next
  case (Cons w ws)
  obtain i v where w: "w = (i, v)" by (cases w)
  with Cons.prems obtain m where m: "put l i v = Inr m" and rest: "writes put m ws = Inr l'"
    by (auto simp: result_inv)
  from put_wf [OF Cons.prems(1) m] have "wf m" by simp
  from Cons.IH [OF this rest]
  have IH: "get l' j = (case map_of (rev ws) j of Some v \<Rightarrow> Inr v | None \<Rightarrow> get m j)" .
  have "get m j = (if j = i then Inr v else get l j)"
    using put_same [OF Cons.prems(1) m] put_other [OF Cons.prems(1) m] by simp
  with IH w show ?case by (auto simp: map_add_def split: option.splits)
qed

lemma writes_total:
  assumes "wf l" and "\<And>i v. (i, v) \<in> set ws \<Longrightarrow> i < size_of l \<and> fits l v"
  shows "\<exists>l'. writes put l ws = Inr l'"
  using assms
proof (induction ws arbitrary: l)
  case Nil
  then show ?case by simp
next
  case (Cons w ws)
  obtain i v where w: "w = (i, v)" by (cases w)
  with Cons.prems have "i < size_of l" and "fits l v" by auto
  with Cons.prems(1) obtain m where m: "put l i v = Inr m" using put_total by blast
  from put_wf [OF Cons.prems(1) m] have "wf m" "size_of m = size_of l" "fits m = fits l" by auto
  with Cons.prems(2) have "\<exists>l'. writes put m ws = Inr l'" by (intro Cons.IH) auto
  with m w show ?case by simp
qed

end

section \<open>Both formats meet the contract\<close>

definition sl_wf :: "status_list \<Rightarrow> bool" where
  "sl_wf l \<longleftrightarrow> sl_size l \<le> 8 * length (sl_bits l)"

lemma sl_index: "sl_wf l \<Longrightarrow> i < sl_size l \<Longrightarrow> i div 8 < length (sl_bits l)"
  by (auto simp: sl_wf_def less_mult_imp_div_less mult.commute)

lemma sl_get_bit:
  "sl_wf l \<Longrightarrow> i < sl_size l \<Longrightarrow> sl_get l i = Inr (bit (sl_bits l ! (i div 8)) (7 - i mod 8))"
  by (simp add: sl_get_def Let_def not_le sl_index bit_iff_and_push_bit_not_eq_0)

lemma sl_set_bits:
  "sl_wf l \<Longrightarrow> i < sl_size l \<Longrightarrow> sl_set l i v =
     Inr (l\<lparr>sl_bits := (sl_bits l)[i div 8 :=
            (if v then set_bit (7 - i mod 8) (sl_bits l ! (i div 8))
             else unset_bit (7 - i mod 8) (sl_bits l ! (i div 8)))]\<rparr>)"
  by (simp add: sl_set_def Let_def not_le sl_index set_bit_eq_or unset_bit_eq_and_not)

lemma sl_set_Inr: "sl_set l i v = Inr l' \<Longrightarrow> i < sl_size l"
  by (auto simp: sl_set_def split: if_splits)

lemma div_mod_eq_8: "(i::nat) div 8 = j div 8 \<Longrightarrow> 7 - i mod 8 = 7 - j mod 8 \<Longrightarrow> i = j"
proof -
  assume d: "i div 8 = j div 8" and m: "7 - i mod 8 = 7 - j mod 8"
  have "i mod 8 < 8" "j mod 8 < 8" by simp_all
  with m have "i mod 8 = j mod 8" by linarith
  with d show "i = j" by (metis div_mult_mod_eq)
qed

interpretation sl: status_array sl_get sl_set sl_size "\<lambda>_ _. True" sl_wf
proof (unfold_locales, goal_cases)
  case (1 l i)
  then show ?case by (simp add: sl_get_bit)
next
  case (2 l i v)
  then show ?case by (auto simp: sl_get_def split: if_splits)
next
  case (3 l i v)
  then show ?case by (simp add: sl_set_bits)
next
  case (4 l i v l')
  then show ?case by (simp add: sl_set_Inr)
next
  case (5 l i v l')
  then show ?case using sl_set_Inr [OF 5(2)] by (auto simp: sl_set_bits sl_wf_def)
next
  case (6 l i v l')
  then have i: "i < sl_size l" using sl_set_Inr by blast
  with 6 have l': "sl_wf l'" "i < sl_size l'" by (auto simp: sl_set_bits sl_wf_def)
  from i 6 have "i div 8 < length (sl_bits l)" by (simp add: sl_index)
  moreover have "7 - i mod 8 < 8" by simp
  ultimately show ?case using i 6 l'
    by (auto simp: sl_set_bits sl_get_bit bit_set_bit_iff bit_unset_bit_iff split: if_splits)
next
  case (7 l i v l' j)
  then have i: "i < sl_size l" using sl_set_Inr by blast
  show ?case
  proof (cases "j < sl_size l")
    case True
    with i 7 have l': "sl_wf l'" "j < sl_size l'" by (auto simp: sl_set_bits sl_wf_def)
    show ?thesis
      using i 7 l' True div_mod_eq_8 [of i j]
      by (cases "i div 8 = j div 8")
        (auto simp: sl_set_bits sl_get_bit bit_set_bit_iff bit_unset_bit_iff sl_index split: if_splits)
  next
    case False
    with i 7 show ?thesis by (auto simp: sl_set_bits sl_get_def)
  qed
qed

definition tsl_wf :: "token_status_list \<Rightarrow> bool" where
  "tsl_wf l \<longleftrightarrow> bits_per_status l \<in> {1, 2, 4, 8} \<and>
     tsl_capacity l \<le> (8 div bits_per_status l) * length (tsl_data l)"

definition tsl_fits :: "token_status_list \<Rightarrow> u8 \<Rightarrow> bool" where
  "tsl_fits l v \<longleftrightarrow> v \<le> tsl_mask (bits_per_status l)"

lemma tsl_mask_eq: "b \<in> {1, 2, 4, 8} \<Longrightarrow> tsl_mask b = mask b"
  by (auto simp: tsl_mask_def mask_eq_exp_minus_1)

lemma fits_take_bit: "b \<in> {1, 2, 4, 8} \<Longrightarrow> v \<le> tsl_mask b \<Longrightarrow> take_bit b v = (v :: u8)"
proof -
  assume b: "b \<in> {1, 2, 4, 8}" and v: "v \<le> tsl_mask b"
  have "unat (tsl_mask b) < 2 ^ b" using b by (auto simp: tsl_mask_def)
  moreover have "unat v \<le> unat (tsl_mask b)" using v by (simp add: word_le_nat_alt)
  ultimately have "unat v < 2 ^ b" by simp
  then have "take_bit b (unat v) = unat v" by (simp add: take_bit_nat_eq_self)
  then show "take_bit b v = v" by (metis unsigned_take_bit_eq word_unat_eq_iff)
qed

lemma entry_index:
  "tsl_wf l \<Longrightarrow> i < tsl_capacity l \<Longrightarrow> i div (8 div bits_per_status l) < length (tsl_data l)"
  by (auto simp: tsl_wf_def less_mult_imp_div_less mult.commute)

lemma tsl_get_take:
  "tsl_wf l \<Longrightarrow> i < tsl_capacity l \<Longrightarrow> tsl_get l i =
     Inr (take_bit (bits_per_status l)
            (drop_bit (i mod (8 div bits_per_status l) * bits_per_status l)
               (tsl_data l ! (i div (8 div bits_per_status l)))))"
  using entry_index [of l i] tsl_mask_eq [of "bits_per_status l"]
  by (simp add: tsl_get_def Let_def not_le tsl_wf_def take_bit_eq_mask del: insert_iff)

lemma tsl_set_Inr:
  "tsl_set l i v = Inr l' \<Longrightarrow> i < tsl_capacity l \<and> tsl_fits l v"
  by (auto simp: tsl_set_def tsl_fits_def split: if_splits)

lemma tsl_set_ok:
  "tsl_wf l \<Longrightarrow> i < tsl_capacity l \<Longrightarrow> tsl_fits l v \<Longrightarrow> tsl_set l i v =
     Inr (l\<lparr>tsl_data := (tsl_data l)[i div (8 div bits_per_status l) :=
       ((tsl_data l ! (i div (8 div bits_per_status l)))
          AND NOT (push_bit (i mod (8 div bits_per_status l) * bits_per_status l) (tsl_mask (bits_per_status l))))
        OR push_bit (i mod (8 div bits_per_status l) * bits_per_status l) v]\<rparr>)"
  using entry_index [of l i] by (simp add: tsl_set_def Let_def not_le tsl_fits_def)

text \<open>The bit arithmetic of one byte: a write is read back, and leaves disjoint ranges alone.\<close>

lemma byte_write_same:
  fixes w v :: u8
  assumes b: "b \<in> {1, 2, 4, 8}" and off: "off + b \<le> 8" and v: "take_bit b v = v"
  shows "take_bit b (drop_bit off ((w AND NOT (push_bit off (tsl_mask b))) OR push_bit off v)) = v"
proof (rule bit_eqI)
  fix n
  assume n: "possible_bit TYPE(8 word) n"
  have vb: "bit v n \<Longrightarrow> n < b" by (metis bit_take_bit_iff v)
  show "bit (take_bit b (drop_bit off ((w AND NOT (push_bit off (tsl_mask b))) OR push_bit off v))) n
          = bit v n"
    using off vb n
    by (auto simp: tsl_mask_eq [OF b] bit_simps)
qed

lemma byte_write_other:
  fixes w v :: u8
  assumes b: "b \<in> {1, 2, 4, 8}" and v: "take_bit b v = v"
    and disj: "off + b \<le> off' \<or> off' + b \<le> off"
  shows "take_bit b (drop_bit off' ((w AND NOT (push_bit off (tsl_mask b))) OR push_bit off v))
           = take_bit b (drop_bit off' w)"
proof (rule bit_eqI)
  fix n
  assume n: "possible_bit TYPE(8 word) n"
  have vb: "bit v k \<Longrightarrow> k < b" for k by (metis bit_take_bit_iff v)
  have wb: "bit w k \<Longrightarrow> k < 8" for k using bit_imp_le_length [of w k] by simp
  show "bit (take_bit b (drop_bit off' ((w AND NOT (push_bit off (tsl_mask b))) OR push_bit off v))) n
          = bit (take_bit b (drop_bit off' w)) n"
    using disj vb [of "off' + n - off"] wb [of "off' + n"]
    by (auto simp: tsl_mask_eq [OF b] bit_simps)
qed

lemma offset_bound: "b \<in> {1, 2, 4, 8} \<Longrightarrow> (i mod (8 div b)) * b + b \<le> (8::nat)"
proof -
  assume b: "b \<in> {1, 2, 4, 8}"
  then have "i mod (8 div b) + 1 \<le> 8 div b" and "(8 div b) * b = 8" by auto
  then show ?thesis by (metis add_mult_distrib mult_le_mono1 mult_1)
qed

lemma offset_disjoint:
  "(m::nat) \<noteq> n \<Longrightarrow> m * b + b \<le> n * b \<or> n * b + b \<le> m * b"
proof -
  assume "m \<noteq> n"
  then have "m + 1 \<le> n \<or> n + 1 \<le> m" by auto
  then show ?thesis by (metis add_mult_distrib mult_le_mono1 mult_1)
qed

interpretation tsl: status_array tsl_get tsl_set tsl_capacity tsl_fits tsl_wf
proof (unfold_locales, goal_cases)
  case (1 l i)
  then show ?case by (simp add: tsl_get_take)
next
  case (2 l i v)
  then show ?case by (auto simp: tsl_get_def split: if_splits)
next
  case (3 l i v)
  then show ?case by (simp add: tsl_set_ok)
next
  case (4 l i v l')
  then show ?case by (rule tsl_set_Inr)
next
  case (5 l i v l')
  then show ?case using tsl_set_Inr [OF 5(2)]
    by (auto simp: tsl_set_ok tsl_wf_def tsl_fits_def fun_eq_iff)
next
  case (6 l i v l')
  let ?b = "bits_per_status l"
  from 6 have i: "i < tsl_capacity l" and f: "tsl_fits l v" using tsl_set_Inr by blast+
  from 6 have b: "?b \<in> {1, 2, 4, 8}" by (simp add: tsl_wf_def)
  from 6 i f have l': "tsl_wf l'" "i < tsl_capacity l'" "bits_per_status l' = ?b"
    by (auto simp: tsl_set_ok tsl_wf_def)
  have v: "take_bit ?b v = v" using fits_take_bit [OF b] f by (simp add: tsl_fits_def)
  show ?case
    using 6 i f l' byte_write_same [OF b offset_bound [OF b, of i] v] entry_index [OF 6(1) i]
    by (auto simp: tsl_set_ok tsl_get_take)
next
  case (7 l i v l' j)
  let ?b = "bits_per_status l" and ?e = "8 div bits_per_status l"
  from 7 have i: "i < tsl_capacity l" and f: "tsl_fits l v" using tsl_set_Inr by blast+
  from 7 have b: "?b \<in> {1, 2, 4, 8}" by (simp add: tsl_wf_def)
  have v: "take_bit ?b v = v" using fits_take_bit [OF b] f by (simp add: tsl_fits_def)
  show ?case
  proof (cases "j < tsl_capacity l")
    case True
    from 7 i f True have l': "tsl_wf l'" "j < tsl_capacity l'" "bits_per_status l' = ?b"
      by (auto simp: tsl_set_ok tsl_wf_def)
    have "i div ?e = j div ?e \<Longrightarrow> i mod ?e \<noteq> j mod ?e" using 7(3) by (metis div_mult_mod_eq)
    then show ?thesis
      using 7 i f l' True entry_index [OF 7(1) i] byte_write_other [OF b v offset_disjoint]
      by (cases "i div ?e = j div ?e") (auto simp: tsl_set_ok tsl_get_take)
  next
    case False
    with i f 7 show ?thesis by (auto simp: tsl_set_ok tsl_get_def)
  qed
qed

section \<open>Creation, encoding and allocation\<close>

lemma ceil_div: "0 < (e::nat) \<Longrightarrow> n \<le> e * ((n + e - 1) div e)"
proof -
  assume e: "0 < e"
  have "(n + e - 1) mod e \<le> e - 1" using e by (simp add: Suc_leI less_Suc_eq_le [symmetric])
  moreover have "e * ((n + e - 1) div e) + (n + e - 1) mod e = n + e - 1" by simp
  ultimately show ?thesis using e by linarith
qed

lemma sl_new_wf: "sl_wf (sl_new n)"
  using ceil_div [of 8 n] by (simp add: sl_wf_def sl_new_def)

lemma sl_new_size [simp]: "sl_size (sl_new n) = n"
  by (simp add: sl_new_def)

lemma sl_new_get: "i < n \<Longrightarrow> sl_get (sl_new n) i = Inr False"
  using sl_index [OF sl_new_wf, of i n] sl_get_bit [OF sl_new_wf, of i n]
  by (simp add: sl_new_def)

lemma tsl_new_wf: "tsl_new cap b = Inr l \<Longrightarrow> tsl_wf l \<and> tsl_capacity l = cap \<and> bits_per_status l = b"
  using ceil_div [of "8 div b" cap] by (auto simp: tsl_new_def tsl_wf_def Let_def split: if_splits)

lemma tsl_new_get: "tsl_new cap b = Inr l \<Longrightarrow> i < cap \<Longrightarrow> tsl_get l i = Inr 0"
proof -
  assume l: "tsl_new cap b = Inr l" and i: "i < cap"
  from tsl_new_wf [OF l] i have wf: "tsl_wf l" and il: "i < tsl_capacity l" by simp_all
  from l have "\<exists>k. tsl_data l = replicate k 0" by (auto simp: tsl_new_def Let_def split: if_splits)
  with entry_index [OF wf il] tsl_get_take [OF wf il] show ?thesis by auto
qed

text \<open>The two-bit lists take every \<open>TokenStatus\<close>; a one-bit list does not take \<open>Suspended\<close>.\<close>

lemma token_status_fits: "bits_per_status l = 2 \<Longrightarrow> tsl_fits l (token_status_byte st)"
  by (cases st) (simp_all add: tsl_fits_def tsl_mask_def)

lemma tsl_set_get_status:
  "tsl_wf l \<Longrightarrow> tsl_set_status l i st = Inr l' \<Longrightarrow> tsl_get_status l' i = Inr st"
  using tsl.put_same by (auto simp: tsl_set_status_def tsl_get_status_def)

lemma tsl_set_get_status_other:
  "tsl_wf l \<Longrightarrow> tsl_set_status l i st = Inr l' \<Longrightarrow> j \<noteq> i \<Longrightarrow> tsl_get_status l' j = tsl_get_status l j"
  using tsl.put_other by (auto simp: tsl_set_status_def tsl_get_status_def)

lemma sl_scan_first:
  assumes "sl_wf l" and "\<And>i. i \<in> set is \<Longrightarrow> i < sl_size l"
  shows "sl_scan l is = Inr (find (\<lambda>i. sl_get l i = Inr False) is)"
  using assms(2) by (induction "is") (auto simp: sl_get_bit [OF assms(1)])

lemma find_upt_Some:
  "find P [0..<n] = Some i \<Longrightarrow> i < n \<and> P i \<and> (\<forall>j<i. \<not> P j)"
  by (auto simp: find_Some_iff)

lemma find_upt_None: "find P [0..<n] = None \<longleftrightarrow> (\<forall>j<n. \<not> P j)"
  by (auto simp: find_None_iff)

text \<open>
  C39. A Token Status List of any legal width is a map: after any batch of writes that the list
  accepts, an entry reads the last value written to it, or what it held before.
\<close>

theorem tsl_refines_map:
  assumes "tsl_wf l" and "writes tsl_set l ws = Inr l'"
  shows "tsl_get l' j = (case map_of (rev ws) j of Some v \<Rightarrow> Inr v | None \<Rightarrow> tsl_get l j)"
  using assms by (rule tsl.writes_get)

theorem tsl_refines_map_witness:
  "\<exists>l'. writes tsl_set \<lparr>tsl_data = [0, 255], bits_per_status = 2, tsl_capacity = 8\<rparr> [(1, 2), (5, 0), (1, 3)] = Inr l'
     \<and> tsl_get l' 1 = Inr 3 \<and> tsl_get l' 5 = Inr 0 \<and> tsl_get l' 4 = Inr 3"
proof -
  let ?l = "\<lparr>tsl_data = [0, 255], bits_per_status = 2, tsl_capacity = 8\<rparr>"
  let ?ws = "[(1, 2), (5, 0), (1, 3)] :: (nat \<times> u8) list"
  have wf: "tsl_wf ?l" by (simp add: tsl_wf_def)
  have "\<And>i v. (i, v) \<in> set ?ws \<Longrightarrow> i < tsl_capacity ?l \<and> tsl_fits ?l v"
    by (auto simp: tsl_fits_def tsl_mask_def)
  from tsl.writes_total [OF wf this] obtain l' where l': "writes tsl_set ?l ?ws = Inr l'" by blast
  have "tsl_get ?l 4 = Inr 3" by (simp add: tsl_get_def tsl_mask_def)
  with tsl_refines_map [OF wf l', of 1] tsl_refines_map [OF wf l', of 5]
    tsl_refines_map [OF wf l', of 4]
  have "tsl_get l' 1 = Inr 3 \<and> tsl_get l' 5 = Inr 0 \<and> tsl_get l' 4 = Inr 3" by simp
  with l' show ?thesis by blast
qed

text \<open>
  A StatusList2021 bitstring is a map from indices to flags in the same sense, and a write
  never fails or panics for an index below the size.
\<close>

theorem sl_refines_map:
  assumes "sl_wf l" and "fst ` set ws \<subseteq> {..<sl_size l}"
  shows "\<exists>l'. writes sl_set l ws = Inr l' \<and> sl_size l' = sl_size l \<and>
    (\<forall>j. sl_get l' j = (case map_of (rev ws) j of Some v \<Rightarrow> Inr v | None \<Rightarrow> sl_get l j))"
proof -
  from sl.writes_total [OF assms(1), of ws] assms(2)
  have "\<exists>l'. writes sl_set l ws = Inr l'" by force
  then obtain l' where l': "writes sl_set l ws = Inr l'" by blast
  with sl.writes_get [OF assms(1) l'] sl.writes_wf [OF assms(1) l'] show ?thesis by auto
qed

theorem sl_refines_map_witness:
  "\<exists>l'. writes sl_set (sl_new 20) [(3, True), (17, True), (3, False)] = Inr l' \<and> sl_size l' = 20 \<and>
     sl_get l' 3 = Inr False \<and> sl_get l' 17 = Inr True \<and> sl_get l' 4 = Inr False"
proof -
  let ?ws = "[(3, True), (17, True), (3, False)] :: (nat \<times> bool) list"
  have "fst ` set ?ws \<subseteq> {..<sl_size (sl_new 20)}" by auto
  from sl_refines_map [where ws = ?ws, OF sl_new_wf this] obtain l' where
    w: "writes sl_set (sl_new 20) ?ws = Inr l'" "sl_size l' = 20"
    and r: "\<forall>j. sl_get l' j = (case map_of (rev ?ws) j of
           Some v \<Rightarrow> Inr v | None \<Rightarrow> sl_get (sl_new 20) j)" unfolding sl_new_size by blast
  from r [rule_format, of 3] r [rule_format, of 17] r [rule_format, of 4]
  have "sl_get l' 3 = Inr False \<and> sl_get l' 17 = Inr True \<and> sl_get l' 4 = Inr False"
    by (simp add: sl_new_get)
  with w show ?thesis by blast
qed

lemma tsl_decode_encoded:
  assumes "b64url_law L" and "zlib_law L" and "tsl_wf l" and "tsl_encode L l = Inr s"
  shows "tsl_decode L s (tsl_capacity l) (bits_per_status l) = Inr l"
proof -
  from assms(4) obtain c where c: "zlib L (map byte_char (tsl_data l)) = Inr c" "s = b64url_encode L c"
    by (auto simp: tsl_encode_def tsl_compress_def result_inv)
  with assms(1,2) have "b64url_decode L s = Inr c" "unzlib L c = Inr (map byte_char (tsl_data l))"
    by (auto simp: b64url_law_def zlib_law_def)
  moreover have "bits_per_status l \<in> {1, 2, 4, 8}" using assms(3) by (simp add: tsl_wf_def)
  ultimately show ?thesis by (simp add: tsl_decode_def del: insert_iff map_map)
qed

text \<open>
  Publishing and reading back a Token Status List gives the same list, for any compressor
  and base64 codec that undo themselves.
\<close>

theorem tsl_decode_encode:
  assumes "b64url_law L" and "zlib_law L" and "tsl_wf l" and "tsl_encode L l = Inr s"
  shows "tsl_decode L s (tsl_capacity l) (bits_per_status l) = Inr l"
  using assms by (rule tsl_decode_encoded)

theorem tsl_decode_encode_witness:
  "tsl_decode hex_libs (hex_encode ''hi'') 16 1
     = Inr \<lparr>tsl_data = map char_byte ''hi'', bits_per_status = 1, tsl_capacity = 16\<rparr>"
proof -
  let ?l = "\<lparr>tsl_data = map char_byte ''hi'', bits_per_status = 1, tsl_capacity = 16\<rparr>"
  have "tsl_wf ?l" by (simp add: tsl_wf_def)
  moreover have "tsl_encode hex_libs ?l = Inr (hex_encode ''hi'')"
    by (simp add: tsl_encode_def tsl_compress_def hex_libs_def)
  ultimately show ?thesis
    using tsl_decode_encode [OF hex_libs_laws(1,3), of ?l] by simp
qed

text \<open>
  \<open>StatusList::allocate_index\<close> returns the least index whose bit is clear, and \<open>None\<close>
  exactly when every bit is set.
\<close>

theorem sl_allocate_first_clear:
  assumes "sl_wf l"
  shows "(\<exists>i. sl_allocate_index l = Inr (Some i) \<and> i < sl_size l \<and> sl_get l i = Inr False \<and>
            (\<forall>j<i. sl_get l j = Inr True))
       \<or> (sl_allocate_index l = Inr None \<and> (\<forall>j < sl_size l. sl_get l j = Inr True))"
proof -
  have bits: "j < sl_size l \<Longrightarrow> sl_get l j \<noteq> Inr False \<longleftrightarrow> sl_get l j = Inr True" for j
    by (simp add: sl_get_bit [OF assms])
  have eq: "sl_allocate_index l = Inr (find (\<lambda>i. sl_get l i = Inr False) [0..<sl_size l])"
    unfolding sl_allocate_index_def by (rule sl_scan_first [OF assms]) simp
  show ?thesis
  proof (cases "find (\<lambda>i. sl_get l i = Inr False) [0..<sl_size l]")
    case None
    with eq bits show ?thesis by (simp add: find_upt_None)
  next
    case (Some i)
    from find_upt_Some [OF this] bits eq Some show ?thesis by (metis less_trans)
  qed
qed

theorem sl_allocate_first_clear_witness:
  "sl_allocate_index \<lparr>sl_bits = [224], sl_size = 8\<rparr> = Inr (Some 3)"
proof -
  let ?l = "\<lparr>sl_bits = [224 :: u8], sl_size = 8\<rparr>"
  have wf: "sl_wf ?l" by (simp add: sl_wf_def)
  have g: "sl_get ?l 0 = Inr True" "sl_get ?l 1 = Inr True" "sl_get ?l 2 = Inr True" "sl_get ?l 3 = Inr False"
    by (simp_all add: sl_get_def)
  from sl_allocate_first_clear [OF wf] obtain i where
    i: "sl_allocate_index ?l = Inr (Some i)" "sl_get ?l i = Inr False" "\<forall>j<i. sl_get ?l j = Inr True"
    using g(4) by fastforce
  have "i = 3"
  proof (rule ccontr)
    assume "i \<noteq> 3"
    then have "i = 0 \<or> i = 1 \<or> i = 2 \<or> 3 < i" by arith
    with i g show False by auto
  qed
  with i show ?thesis by simp
qed

text \<open>
  A decoded list is not checked against its size: reading past the decoded bytes, at an
  index the size check lets through, panics.
\<close>

theorem sl_decode_short_panics:
  assumes "sl_decode L s n = Inr l" and "length (sl_bits l) * 8 \<le> i" and "i < n"
  shows "sl_get l i = Inl SlPanic"
proof -
  have "sl_size l = n" using assms(1) by (auto simp: sl_decode_def result_inv)
  moreover have "length (sl_bits l) \<le> i div 8" using assms(2) by (simp add: less_eq_div_iff_mult_less_eq)
  ultimately show ?thesis using assms(3) by (simp add: sl_get_def)
qed

theorem sl_decode_short_panics_witness:
  "\<exists>l. sl_decode hex_libs (hex_encode ''h'') 20 = Inr l \<and> sl_get l 9 = Inl SlPanic"
proof -
  have d: "sl_decode hex_libs (hex_encode ''h'') 20 = Inr \<lparr>sl_bits = map char_byte ''h'', sl_size = 20\<rparr>"
    by (simp add: sl_decode_def hex_libs_def hex_round)
  from sl_decode_short_panics [OF d, of 9] d show ?thesis by simp
qed

end
