(* ===== verification/Drawing.thy ===== *)
theory Drawing
  imports Prelude
begin

text \<open>
  The loop that draws random numbers until one is unused, as the status manager does for list
  indices and the mdoc issuer for digest IDs. It is a \<open>partial_function\<close>: \<open>None\<close> when no draw ever
  hits an unused number.
\<close>

partial_function (option) draw_loop ::
    "nat set \<Rightarrow> nat \<Rightarrow> (nat \<Rightarrow> nat) \<Rightarrow> nat \<Rightarrow> (nat \<times> nat) option" where
  "draw_loop used cap rnd pos =
     (let candidate = rnd pos mod cap
      in if candidate \<notin> used then Some (candidate, Suc pos)
         else draw_loop used cap rnd (Suc pos))"

lemma draw_loop_Some:
  assumes "draw_loop used cap rnd pos = Some (i, pos')"
  shows "i \<notin> used \<and> pos < pos' \<and> i = rnd (pos' - 1) mod cap \<and>
    (\<forall>k. pos \<le> k \<and> k < pos' - 1 \<longrightarrow> rnd k mod cap \<in> used)"
proof -
  have "\<And>r. draw_loop used cap rnd pos = Some r \<Longrightarrow>
      fst r \<notin> used \<and> pos < snd r \<and> fst r = rnd (snd r - 1) mod cap \<and>
      (\<forall>k. pos \<le> k \<and> k < snd r - 1 \<longrightarrow> rnd k mod cap \<in> used)"
  proof (rule draw_loop.raw_induct [where P = "\<lambda>used cap rnd pos r.
      fst r \<notin> used \<and> pos < snd r \<and> fst r = rnd (snd r - 1) mod cap \<and>
      (\<forall>k. pos \<le> k \<and> k < snd r - 1 \<longrightarrow> rnd k mod cap \<in> used)"])
    fix f and used :: "nat set" and cap rnd pos r
    assume IH: "\<And>used cap rnd pos r. f used cap rnd pos = Some r \<Longrightarrow>
      fst r \<notin> used \<and> pos < snd r \<and> fst r = rnd (snd r - 1) mod cap \<and>
      (\<forall>k. pos \<le> k \<and> k < snd r - 1 \<longrightarrow> rnd k mod cap \<in> used)"
      and eq: "(let candidate = rnd pos mod cap in if candidate \<notin> used then Some (candidate, Suc pos)
                else f used cap rnd (Suc pos)) = Some r"
    show "fst r \<notin> used \<and> pos < snd r \<and> fst r = rnd (snd r - 1) mod cap \<and>
      (\<forall>k. pos \<le> k \<and> k < snd r - 1 \<longrightarrow> rnd k mod cap \<in> used)"
    proof (cases "rnd pos mod cap \<in> used")
      case True
      with eq have "f used cap rnd (Suc pos) = Some r" by (simp add: Let_def)
      from IH [OF this] True show ?thesis
        by (metis Suc_leI Suc_lessD le_neq_implies_less)
    next
      case False
      with eq show ?thesis by (auto simp: Let_def)
    qed
  qed
  with assms show ?thesis by fastforce
qed

lemma draw_loop_total:
  assumes "pos \<le> k" and "rnd k mod cap \<notin> used"
  shows "\<exists>r. draw_loop used cap rnd pos = Some r"
  using assms
proof (induction "k - pos" arbitrary: pos)
  case 0
  then show ?case by (simp add: draw_loop.simps [of used cap rnd pos])
next
  case (Suc n)
  show ?case
  proof (cases "rnd pos mod cap \<in> used")
    case True
    with Suc.prems have "pos \<noteq> k" by auto
    with Suc have "\<exists>r. draw_loop used cap rnd (Suc pos) = Some r"
      by (metis Suc_leI diff_Suc_1 diff_diff_left le_neq_implies_less plus_1_eq_Suc add.commute)
    with True show ?thesis by (simp add: draw_loop.simps [of used cap rnd pos])
  next
    case False
    then show ?thesis by (simp add: draw_loop.simps [of used cap rnd pos])
  qed
qed

end
