(* ===== verification/Status_Manager.thy ===== *)
theory Status_Manager
  imports Status_Lists Drawing
begin

text \<open>
  The status manager of crates/status/src/manager.rs: one StatusList2021 and one Token Status
  List per purpose, kept in step, a one-bit list for mdocs, and the random allocation of
  unused indices. Its public operations are the steps of a machine whose invariant says that
  the two formats agree at every index.

  \<open>rand::random\<close> is a sequence of draws with a position; the drawing loop is a
  \<open>partial_function\<close>, \<open>None\<close> when no draw ever hits an unused index. \<open>ManagerPanic\<close> marks a
  panic, which poisons the mutex that was held. A URL to which no path can be joined is one cause;
  the properties that need the lists unpoisoned say so with \<open>joins\<close>.
\<close>

section \<open>State\<close>

datatype manager_error =
    ListNotFound string
  | ListError string
  | NoAvailableIndex
  | ManagerLockPoisoned
  | ManagerPanic

definition LIST_CAPACITY :: nat where
  "LIST_CAPACITY = 100000"

record managed_list =
  ml_sl2021 :: status_list
  ml_tsl :: token_status_list
  ml_purpose :: status_purpose
  ml_capacity :: nat
  ml_allocated :: "nat set"

record mdoc_list =
  mdoc_tsl :: token_status_list
  mdoc_allocated :: "nat set"

record status_manager =
  sm_lists :: "(string \<rightharpoonup> managed_list) mutex"
  sm_mdoc :: "mdoc_list mutex"
  sm_issuer_url :: url

text \<open>\<open>StatusList2021Entry\<close> of crates/types/src/status.rs, embedded in a credential.\<close>

record status_entry =
  se_id :: url
  se_type :: string
  se_purpose :: status_purpose
  se_list_credential :: url
  se_list_index :: string

text \<open>\<open>StatusList2021Credential\<close> with its subject, and \<open>TokenStatusList\<close>, as published.\<close>

record status_list_subject =
  ss_id :: url
  ss_type :: string
  ss_purpose :: status_purpose
  ss_encoded_list :: string

record status_list_credential =
  sc_id :: url
  sc_type :: "string list"
  sc_issuer :: string
  sc_valid_from :: string
  sc_subject :: status_list_subject

record published_token_list =
  pt_bits :: nat
  pt_lst :: string

section \<open>Operations\<close>

text \<open>The result, the indices in use afterwards and the position in the draws.\<close>

definition draw_index ::
    "nat set \<Rightarrow> nat \<Rightarrow> (nat \<Rightarrow> nat) \<Rightarrow> nat \<Rightarrow> ((manager_error + nat) \<times> nat set \<times> nat) option" where
  "draw_index used cap rnd pos =
     (if cap \<le> card used then Some (Inl NoAvailableIndex, used, pos)
      else map_option (\<lambda>(candidate, pos'). (Inr candidate, insert candidate used, pos'))
             (draw_loop used cap rnd pos))"

definition new_list :: "status_purpose \<Rightarrow> managed_list" where
  "new_list p =
     \<lparr> ml_sl2021 = sl_new LIST_CAPACITY, ml_tsl = projr (tsl_new LIST_CAPACITY 2),
       ml_purpose = p, ml_capacity = LIST_CAPACITY, ml_allocated = {} \<rparr>"

definition manager_new :: "url \<Rightarrow> status_manager" where
  "manager_new issuer_url =
     \<lparr> sm_lists = Unlocked [''revocation'' \<mapsto> new_list Revocation, ''suspension'' \<mapsto> new_list Suspension],
       sm_mdoc = Unlocked \<lparr> mdoc_tsl = projr (tsl_new LIST_CAPACITY 1), mdoc_allocated = {} \<rparr>,
       sm_issuer_url = issuer_url \<rparr>"

definition allocate_entry ::
    "libs \<Rightarrow> status_purpose \<Rightarrow> (nat \<Rightarrow> nat) \<Rightarrow> nat \<Rightarrow> status_manager
       \<Rightarrow> ((manager_error + status_entry) \<times> status_manager \<times> nat) option" where
  "allocate_entry L purpose rnd pos m =
     (let list_id = status_purpose_to_string purpose in
      case sm_lists m of
        Poisoned \<Rightarrow> Some (Inl ManagerLockPoisoned, m, pos)
      | Unlocked ls \<Rightarrow>
          (case ls list_id of
             None \<Rightarrow> Some (Inl (ListNotFound list_id), m, pos)
           | Some managed \<Rightarrow>
               (case draw_index (ml_allocated managed) (ml_capacity managed) rnd pos of
                  None \<Rightarrow> None
                | Some (Inl e, used, pos') \<Rightarrow> Some (Inl e, m, pos')
                | Some (Inr index, used, pos') \<Rightarrow>
                    (case (url_join L (sm_issuer_url m) (''/status/'' @ list_id),
                           url_join L (sm_issuer_url m) (''/status/'' @ list_id @ ''#'' @ show_nat index)) of
                       (Some status_list_url, Some entry_id) \<Rightarrow>
                         Some (Inr \<lparr> se_id = entry_id, se_type = ''StatusList2021Entry'', se_purpose = purpose,
                                 se_list_credential = status_list_url, se_list_index = show_nat index \<rparr>,
                               m\<lparr>sm_lists := Unlocked (ls(list_id \<mapsto> managed\<lparr>ml_allocated := used\<rparr>))\<rparr>, pos')
                     | _ \<Rightarrow> Some (Inl ManagerPanic, m\<lparr>sm_lists := Poisoned\<rparr>, pos')))))"

definition update_status ::
    "string \<Rightarrow> nat \<Rightarrow> bool \<Rightarrow> (status_manager, manager_error, unit) prog" where
  "update_status list_id index v = (\<lambda>m.
     case sm_lists m of
       Poisoned \<Rightarrow> (Inl ManagerLockPoisoned, m)
     | Unlocked ls \<Rightarrow>
         (case ls list_id of
            None \<Rightarrow> (Inl (ListNotFound list_id), m)
          | Some managed \<Rightarrow>
              (case sl_set (ml_sl2021 managed) index v of
                 Inl SlPanic \<Rightarrow> (Inl ManagerPanic, m\<lparr>sm_lists := Poisoned\<rparr>)
               | Inl e \<Rightarrow> (Inl (ListError (status_list_error_to_string e)), m)
               | Inr bits \<Rightarrow>
                   (let managed = managed\<lparr>ml_sl2021 := bits\<rparr>;
                        status = (if v then (if list_id = ''revocation'' then Invalid else Suspended)
                                  else Valid)
                    in case tsl_set_status (ml_tsl managed) index status of
                         Inl TslPanic \<Rightarrow> (Inl ManagerPanic, m\<lparr>sm_lists := Poisoned\<rparr>)
                       | Inl e \<Rightarrow>
                           (Inl (ListError (token_status_list_error_to_string e)),
                            m\<lparr>sm_lists := Unlocked (ls(list_id \<mapsto> managed))\<rparr>)
                       | Inr tsl \<Rightarrow>
                           (Inr (), m\<lparr>sm_lists := Unlocked (ls(list_id \<mapsto> managed\<lparr>ml_tsl := tsl\<rparr>))\<rparr>)))))"

definition revoke :: "nat \<Rightarrow> (status_manager, manager_error, unit) prog" where
  "revoke index = update_status ''revocation'' index True"

definition suspend :: "nat \<Rightarrow> (status_manager, manager_error, unit) prog" where
  "suspend index = update_status ''suspension'' index True"

definition reinstate :: "nat \<Rightarrow> (status_manager, manager_error, unit) prog" where
  "reinstate index = update_status ''suspension'' index False"

definition allocate_mdoc_index ::
    "(nat \<Rightarrow> nat) \<Rightarrow> nat \<Rightarrow> status_manager \<Rightarrow> ((manager_error + nat) \<times> status_manager \<times> nat) option" where
  "allocate_mdoc_index rnd pos m =
     (case sm_mdoc m of
        Poisoned \<Rightarrow> Some (Inl ManagerLockPoisoned, m, pos)
      | Unlocked d \<Rightarrow>
          (case draw_index (mdoc_allocated d) LIST_CAPACITY rnd pos of
             None \<Rightarrow> None
           | Some (r, used, pos') \<Rightarrow>
               Some (r, m\<lparr>sm_mdoc := Unlocked (d\<lparr>mdoc_allocated := used\<rparr>)\<rparr>, pos')))"

definition revoke_mdoc :: "nat \<Rightarrow> (status_manager, manager_error, unit) prog" where
  "revoke_mdoc index = (\<lambda>m.
     case sm_mdoc m of
       Poisoned \<Rightarrow> (Inl ManagerLockPoisoned, m)
     | Unlocked d \<Rightarrow>
         (case tsl_set (mdoc_tsl d) index 1 of
            Inl TslPanic \<Rightarrow> (Inl ManagerPanic, m\<lparr>sm_mdoc := Poisoned\<rparr>)
          | Inl e \<Rightarrow> (Inl (ListError (token_status_list_error_to_string e)), m)
          | Inr tsl \<Rightarrow> (Inr (), m\<lparr>sm_mdoc := Unlocked (d\<lparr>mdoc_tsl := tsl\<rparr>)\<rparr>)))"

definition mdoc_status_list :: "libs \<Rightarrow> status_manager \<Rightarrow> manager_error + (nat \<times> bytes)" where
  "mdoc_status_list L m =
     (case sm_mdoc m of
        Poisoned \<Rightarrow> Inl ManagerLockPoisoned
      | Unlocked d \<Rightarrow>
          bindR (map_err (\<lambda>e. ListError (token_status_list_error_to_string e)) (tsl_compress L (mdoc_tsl d)))
            (\<lambda>lst. Inr (bits_per_status (mdoc_tsl d), lst)))"

definition build_status_list_credential ::
    "libs \<Rightarrow> string \<Rightarrow> string \<Rightarrow> instant \<Rightarrow> (status_manager, manager_error, status_list_credential) prog" where
  "build_status_list_credential L list_id issuer now =
     with_lock ManagerLockPoisoned sm_lists (\<lambda>ls.
     bindP (liftR (ok_or (ListNotFound list_id) (ls list_id))) (\<lambda>managed.
     bindP (liftR (map_err (\<lambda>e. ListError (status_list_error_to_string e)) (sl_encode L (ml_sl2021 managed)))) (\<lambda>encoded m.
     case url_join L (sm_issuer_url m) (''/status/'' @ list_id) of
       None \<Rightarrow> (Inl ManagerPanic, m\<lparr>sm_lists := Poisoned\<rparr>)
     | Some credential_url \<Rightarrow>
         (Inr \<lparr> sc_id = credential_url,
                sc_type = [''VerifiableCredential'', ''StatusList2021Credential''],
                sc_issuer = issuer, sc_valid_from = rfc3339 L now,
                sc_subject = \<lparr> ss_id = credential_url, ss_type = ''StatusList2021'',
                               ss_purpose = ml_purpose managed, ss_encoded_list = encoded \<rparr> \<rparr>, m))))"

definition build_token_status_list ::
    "libs \<Rightarrow> string \<Rightarrow> status_manager \<Rightarrow> manager_error + published_token_list" where
  "build_token_status_list L list_id m =
     (case sm_lists m of
        Poisoned \<Rightarrow> Inl ManagerLockPoisoned
      | Unlocked ls \<Rightarrow>
          bindR (ok_or (ListNotFound list_id) (ls list_id)) (\<lambda>managed.
          bindR (map_err (\<lambda>e. ListError (token_status_list_error_to_string e)) (tsl_encode L (ml_tsl managed)))
            (\<lambda>encoded.
          Inr \<lparr> pt_bits = bits_per_status (ml_tsl managed), pt_lst = encoded \<rparr>)))"

section \<open>Drawing an index\<close>

lemma draw_index_used:
  assumes "draw_index used cap rnd pos = Some (r, used', pos')"
  shows "(\<forall>e. r = Inl e \<longrightarrow> used' = used) \<and>
    (\<forall>i. r = Inr i \<longrightarrow> i \<notin> used \<and> used' = insert i used \<and> (0 < cap \<longrightarrow> i < cap) \<and> card used < cap)"
  using assms
  by (auto simp: draw_index_def split: if_splits dest!: draw_loop_Some)

section \<open>The invariant\<close>

fun flagged :: "status_purpose \<Rightarrow> token_status" where
  "flagged Revocation = Invalid"
| "flagged Suspension = Suspended"

definition ml_ok :: "status_purpose \<Rightarrow> managed_list \<Rightarrow> bool" where
  "ml_ok p l \<longleftrightarrow>
     sl_wf (ml_sl2021 l) \<and> sl_size (ml_sl2021 l) = LIST_CAPACITY \<and>
     tsl_wf (ml_tsl l) \<and> tsl_capacity (ml_tsl l) = LIST_CAPACITY \<and> bits_per_status (ml_tsl l) = 2 \<and>
     ml_purpose l = p \<and> ml_capacity l = LIST_CAPACITY \<and> ml_allocated l \<subseteq> {..<LIST_CAPACITY} \<and>
     (\<forall>i b. sl_get (ml_sl2021 l) i = Inr b \<longrightarrow>
        tsl_get_status (ml_tsl l) i = Inr (if b then flagged p else Valid))"

definition mdoc_ok :: "mdoc_list \<Rightarrow> bool" where
  "mdoc_ok d \<longleftrightarrow> tsl_wf (mdoc_tsl d) \<and> tsl_capacity (mdoc_tsl d) = LIST_CAPACITY \<and>
     bits_per_status (mdoc_tsl d) = 1 \<and> mdoc_allocated d \<subseteq> {..<LIST_CAPACITY}"

definition manager_inv :: "status_manager \<Rightarrow> bool" where
  "manager_inv m \<longleftrightarrow>
     (\<exists>ls d. sm_lists m = Unlocked ls \<and> sm_mdoc m = Unlocked d \<and> mdoc_ok d \<and>
        (\<forall>p. \<exists>l. ls (status_purpose_to_string p) = Some l \<and> ml_ok p l))"

text \<open>The list of a purpose.\<close>

definition list_of :: "status_manager \<Rightarrow> status_purpose \<Rightarrow> managed_list" where
  "list_of m p = (case sm_lists m of Unlocked ls \<Rightarrow> the (ls (status_purpose_to_string p)))"

definition is_flagged :: "status_purpose \<Rightarrow> nat \<Rightarrow> status_manager \<Rightarrow> bool" where
  "is_flagged p i m \<longleftrightarrow> sl_get (ml_sl2021 (list_of m p)) i = Inr True"

definition mdoc_of :: "status_manager \<Rightarrow> mdoc_list" where
  "mdoc_of m = (case sm_mdoc m of Unlocked d \<Rightarrow> d)"

lemma purpose_string_inj [simp]: "status_purpose_to_string p = status_purpose_to_string q \<longleftrightarrow> p = q"
  by (cases p; cases q) auto

lemma manager_invE:
  assumes "manager_inv m"
  obtains ls d where "sm_lists m = Unlocked ls" "sm_mdoc m = Unlocked d" "mdoc_ok d"
    "\<forall>p. ls (status_purpose_to_string p) = Some (list_of m p)" "\<forall>p. ml_ok p (list_of m p)"
proof -
  from assms obtain ls d where ls: "sm_lists m = Unlocked ls" "sm_mdoc m = Unlocked d" "mdoc_ok d"
    "\<forall>p. \<exists>l. ls (status_purpose_to_string p) = Some l \<and> ml_ok p l" by (auto simp: manager_inv_def)
  moreover have "ls (status_purpose_to_string p) = Some (list_of m p) \<and> ml_ok p (list_of m p)" for p
    using ls(4) [rule_format, of p] ls(1) by (auto simp: list_of_def)
  ultimately show thesis using that by blast
qed

lemma tsl_new_two: "\<exists>l. tsl_new LIST_CAPACITY 2 = Inr l" and tsl_new_one: "\<exists>l. tsl_new LIST_CAPACITY 1 = Inr l"
  by (simp_all add: tsl_new_def Let_def)

lemma new_list_ok: "ml_ok p (new_list p)"
proof -
  from tsl_new_two obtain t where t: "tsl_new LIST_CAPACITY 2 = Inr t" by blast
  have "tsl_get_status t i = Inr Valid" if "i < LIST_CAPACITY" for i
    using tsl_new_get [OF t that] by (simp add: tsl_get_status_def from_byte_def)
  moreover have "sl_get (sl_new LIST_CAPACITY) i = Inr b \<Longrightarrow> i < LIST_CAPACITY \<and> \<not> b" for i b
    using sl.get_bounded [of "sl_new LIST_CAPACITY" i b] by (auto simp: sl_new_get)
  ultimately show ?thesis
    using t tsl_new_wf [OF t] sl_new_wf [of LIST_CAPACITY] by (auto simp: ml_ok_def new_list_def)
qed

lemma manager_new_inv: "manager_inv (manager_new u)"
proof -
  from tsl_new_one obtain t where t: "tsl_new LIST_CAPACITY 1 = Inr t" by blast
  have "ls (status_purpose_to_string p) = Some (new_list p)"
    if "ls = [''revocation'' \<mapsto> new_list Revocation, ''suspension'' \<mapsto> new_list Suspension]" for p ls
    using that by (cases p) auto
  then show ?thesis
    using t tsl_new_wf [OF t] new_list_ok
    by (auto simp: manager_inv_def manager_new_def mdoc_ok_def)
qed

text \<open>Writing one status through both formats keeps them in agreement.\<close>

lemma ml_ok_write:
  assumes "ml_ok p l" and "i < LIST_CAPACITY"
  shows "\<exists>s t. sl_set (ml_sl2021 l) i v = Inr s \<and>
    tsl_set_status (ml_tsl l) i (if v then flagged p else Valid) = Inr t \<and>
    ml_ok p (l\<lparr>ml_sl2021 := s, ml_tsl := t\<rparr>) \<and>
    sl_get s i = Inr v \<and> (\<forall>j. j \<noteq> i \<longrightarrow> sl_get s j = sl_get (ml_sl2021 l) j)"
proof -
  let ?st = "if v then flagged p else Valid"
  from assms obtain s where s: "sl_set (ml_sl2021 l) i v = Inr s"
    using sl.put_total by (fastforce simp: ml_ok_def)
  from assms obtain t where t: "tsl_set_status (ml_tsl l) i ?st = Inr t"
    using tsl.put_total token_status_fits by (fastforce simp: ml_ok_def tsl_set_status_def)
  have wf: "sl_wf (ml_sl2021 l)" "tsl_wf (ml_tsl l)" using assms by (auto simp: ml_ok_def)
  have b: "bits_per_status t = bits_per_status (ml_tsl l)"
    using t by (auto simp: tsl_set_status_def tsl_set_def Let_def split: if_splits)
  have "tsl_get_status t j = Inr (if c then flagged p else Valid)" if "sl_get s j = Inr c" for j c
    using that assms(1) sl.put_same [OF wf(1) s] sl.put_other [OF wf(1) s, of j]
      tsl_set_get_status [OF wf(2) t] tsl_set_get_status_other [OF wf(2) t, of j]
    by (cases "j = i") (auto simp: ml_ok_def)
  moreover have "sl_wf s \<and> sl_size s = sl_size (ml_sl2021 l)" using sl.put_wf [OF wf(1) s] by simp
  moreover have "tsl_wf t \<and> tsl_capacity t = tsl_capacity (ml_tsl l)"
    using tsl.put_wf [OF wf(2)] t by (auto simp: tsl_set_status_def)
  ultimately have "ml_ok p (l\<lparr>ml_sl2021 := s, ml_tsl := t\<rparr>)"
    using assms(1) b by (auto simp: ml_ok_def)
  with s t sl.put_same [OF wf(1) s] sl.put_other [OF wf(1) s] show ?thesis by blast
qed

text \<open>What \<open>update_status\<close> does on a manager that satisfies the invariant.\<close>

lemma update_status_in:
  assumes inv: "manager_inv m" and i: "i < LIST_CAPACITY"
  shows "\<exists>m'. update_status (status_purpose_to_string p) i v m = (Inr (), m') \<and> manager_inv m' \<and>
    is_flagged p i m' = v \<and> (\<forall>q j. (q, j) \<noteq> (p, i) \<longrightarrow> is_flagged q j m' = is_flagged q j m) \<and>
    (\<forall>q. ml_allocated (list_of m' q) = ml_allocated (list_of m q)) \<and> sm_mdoc m' = sm_mdoc m"
proof -
  from inv obtain ls d where ls: "sm_lists m = Unlocked ls" "sm_mdoc m = Unlocked d" "mdoc_ok d"
    "\<forall>p. ls (status_purpose_to_string p) = Some (list_of m p)" "\<forall>p. ml_ok p (list_of m p)"
    by (rule manager_invE)
  from ml_ok_write [OF ls(5) [rule_format] i, of p v] obtain s t where st:
    "sl_set (ml_sl2021 (list_of m p)) i v = Inr s"
    "tsl_set_status (ml_tsl (list_of m p)) i (if v then flagged p else Valid) = Inr t"
    "ml_ok p ((list_of m p)\<lparr>ml_sl2021 := s, ml_tsl := t\<rparr>)"
    "sl_get s i = Inr v" "\<forall>j. j \<noteq> i \<longrightarrow> sl_get s j = sl_get (ml_sl2021 (list_of m p)) j" by blast
  let ?l = "(list_of m p)\<lparr>ml_sl2021 := s, ml_tsl := t\<rparr>"
  let ?m = "m\<lparr>sm_lists := Unlocked (ls(status_purpose_to_string p \<mapsto> ?l))\<rparr>"
  have flag: "(if v then (if status_purpose_to_string p = ''revocation'' then Invalid else Suspended) else Valid)
      = (if v then flagged p else Valid)" by (cases p) auto
  have "update_status (status_purpose_to_string p) i v m = (Inr (), ?m)"
    using ls(1,4) st(1,2) by (simp add: update_status_def flag Let_def)
  moreover have lo: "list_of ?m q = (if q = p then ?l else list_of m q)" for q
    using ls(1,4) by (auto simp: list_of_def)
  moreover have "manager_inv ?m" using ls st(3) by (auto simp: manager_inv_def)
  ultimately show ?thesis using st(4,5) by (auto simp: is_flagged_def)
qed

lemma update_status_out:
  assumes inv: "manager_inv m" and i: "LIST_CAPACITY \<le> i"
  shows "\<exists>e. update_status (status_purpose_to_string p) i v m = (Inl (ListError e), m)"
proof -
  from inv obtain ls d where ls: "sm_lists m = Unlocked ls" "sm_mdoc m = Unlocked d" "mdoc_ok d"
    "\<forall>p. ls (status_purpose_to_string p) = Some (list_of m p)" "\<forall>p. ml_ok p (list_of m p)"
    by (rule manager_invE)
  have "sl_set (ml_sl2021 (list_of m p)) i v = Inl (SlIndexOutOfBounds i LIST_CAPACITY)"
    using ls(5) [rule_format, of p] i by (simp add: sl_set_def ml_ok_def)
  with ls(1,4) show ?thesis by (simp add: update_status_def)
qed

text \<open>Allocation touches the set of used indices only.\<close>

lemma allocate_entry_url: "allocate_entry L p rnd pos m = Some (r, m', pos') \<Longrightarrow> sm_issuer_url m' = sm_issuer_url m"
  by (auto simp: allocate_entry_def Let_def split: mutex.splits option.splits sum.splits)

text \<open>A URL that takes no path poisons the lists.\<close>

lemma status_paths: "is_path (''/status/'' @ p)"
  by simp

lemma allocate_entry_panic:
  assumes inv: "manager_inv m" and run: "allocate_entry L p rnd pos m = Some (Inl ManagerPanic, m', pos')"
  shows "sm_lists m' = Poisoned \<and> \<not> joins L (sm_issuer_url m)"
proof -
  from inv obtain ls d where ls: "sm_lists m = Unlocked ls" "sm_mdoc m = Unlocked d" "mdoc_ok d"
    "\<forall>p. ls (status_purpose_to_string p) = Some (list_of m p)" "\<forall>p. ml_ok p (list_of m p)"
    by (rule manager_invE)
  from run ls(1,4) have "sm_lists m' = Poisoned" and "\<exists>q. url_join L (sm_issuer_url m) (''/status/'' @ q) = None"
    by (auto simp: allocate_entry_def draw_index_def Let_def split: option.splits sum.splits if_splits prod.splits)
  then show ?thesis using joinsD [OF _ status_paths, of L "sm_issuer_url m"] by (metis option.distinct(1))
qed

lemma allocate_entry_effect:
  assumes inv: "manager_inv m" and run: "allocate_entry L p rnd pos m = Some (r, m', pos')"
    and returned: "r \<noteq> Inl ManagerPanic"
  shows "manager_inv m' \<and> (\<forall>q j. is_flagged q j m' = is_flagged q j m) \<and> sm_mdoc m' = sm_mdoc m \<and>
    (\<forall>q. q \<noteq> p \<longrightarrow> list_of m' q = list_of m q) \<and>
    (case r of
       Inl e \<Rightarrow> e = NoAvailableIndex \<and> card (ml_allocated (list_of m p)) = LIST_CAPACITY \<and>
                ml_allocated (list_of m' p) = ml_allocated (list_of m p)
     | Inr en \<Rightarrow> (\<exists>i. i < LIST_CAPACITY \<and> i \<notin> ml_allocated (list_of m p) \<and>
                 ml_allocated (list_of m' p) = insert i (ml_allocated (list_of m p)) \<and>
                 se_list_index en = show_nat i))"
proof -
  from inv obtain ls d where ls: "sm_lists m = Unlocked ls" "sm_mdoc m = Unlocked d" "mdoc_ok d"
    "\<forall>p. ls (status_purpose_to_string p) = Some (list_of m p)" "\<forall>p. ml_ok p (list_of m p)"
    by (rule manager_invE)
  have cap: "ml_capacity (list_of m p) = LIST_CAPACITY" "0 < LIST_CAPACITY"
    and sub: "ml_allocated (list_of m p) \<subseteq> {..<LIST_CAPACITY}"
    using ls(5) [rule_format, of p] by (auto simp: ml_ok_def LIST_CAPACITY_def)
  have card: "card (ml_allocated (list_of m p)) \<le> LIST_CAPACITY"
    using card_mono [OF _ sub] by simp
  from run ls(1,4) obtain ir used where
    d: "draw_index (ml_allocated (list_of m p)) LIST_CAPACITY rnd pos = Some (ir, used, pos')"
    by (auto simp: allocate_entry_def Let_def cap split: option.splits sum.splits)
  show ?thesis
  proof (cases ir)
    case (Inl e)
    with d card have "e = NoAvailableIndex" "card (ml_allocated (list_of m p)) = LIST_CAPACITY"
      by (auto simp: draw_index_def split: if_splits)
    moreover have "r = Inl e" "m' = m" using run ls(1,4) d Inl by (simp_all add: allocate_entry_def Let_def cap)
    ultimately show ?thesis using inv by simp
  next
    case (Inr i)
    note fresh = draw_index_used [OF d, THEN conjunct2, rule_format, OF Inr]
    from run ls(1,4) d Inr returned obtain en where r: "r = Inr en" "se_list_index en = show_nat i"
      and m': "m' = m\<lparr>sm_lists := Unlocked (ls(status_purpose_to_string p \<mapsto> (list_of m p)\<lparr>ml_allocated := used\<rparr>))\<rparr>"
      by (auto simp: allocate_entry_def Let_def cap split: option.splits)
    have lo: "list_of m' q = (if q = p then (list_of m p)\<lparr>ml_allocated := used\<rparr> else list_of m q)" for q
      using ls(1,4) m' by (auto simp: list_of_def)
    have "ml_ok p ((list_of m p)\<lparr>ml_allocated := used\<rparr>)"
      using ls(5) [rule_format, of p] fresh sub cap(2) by (auto simp: ml_ok_def)
    with ls m' have "manager_inv m'" by (auto simp: manager_inv_def)
    moreover have "is_flagged q j m' = is_flagged q j m" for q j by (simp add: is_flagged_def lo)
    ultimately show ?thesis using r lo fresh cap(2) m' by auto
  qed
qed

lemma allocate_mdoc_effect:
  assumes inv: "manager_inv m" and run: "allocate_mdoc_index rnd pos m = Some (r, m', pos')"
  shows "manager_inv m' \<and> sm_lists m' = sm_lists m \<and> mdoc_tsl (mdoc_of m') = mdoc_tsl (mdoc_of m)"
proof -
  from inv obtain ls d where ls: "sm_lists m = Unlocked ls" "sm_mdoc m = Unlocked d" "mdoc_ok d"
    "\<forall>p. ls (status_purpose_to_string p) = Some (list_of m p)" "\<forall>p. ml_ok p (list_of m p)"
    by (rule manager_invE)
  from run ls(2) obtain used where d: "draw_index (mdoc_allocated d) LIST_CAPACITY rnd pos = Some (r, used, pos')"
    and m': "m' = m\<lparr>sm_mdoc := Unlocked (d\<lparr>mdoc_allocated := used\<rparr>)\<rparr>"
    by (auto simp: allocate_mdoc_index_def split: option.splits)
  have "used \<subseteq> {..<LIST_CAPACITY}"
    using draw_index_used [OF d] ls(3) by (cases r) (auto simp: mdoc_ok_def LIST_CAPACITY_def)
  with ls m' have "manager_inv m'" by (auto simp: manager_inv_def mdoc_ok_def)
  with m' ls(2) show ?thesis by (simp add: mdoc_of_def)
qed

lemma revoke_mdoc_in:
  assumes inv: "manager_inv m" and i: "i < LIST_CAPACITY"
  shows "\<exists>m'. revoke_mdoc i m = (Inr (), m') \<and> manager_inv m' \<and> sm_lists m' = sm_lists m \<and>
    tsl_get (mdoc_tsl (mdoc_of m')) i = Inr 1 \<and>
    (\<forall>j. j \<noteq> i \<longrightarrow> tsl_get (mdoc_tsl (mdoc_of m')) j = tsl_get (mdoc_tsl (mdoc_of m)) j)"
proof -
  from inv obtain ls d where ls: "sm_lists m = Unlocked ls" "sm_mdoc m = Unlocked d" "mdoc_ok d"
    "\<forall>p. ls (status_purpose_to_string p) = Some (list_of m p)" "\<forall>p. ml_ok p (list_of m p)"
    by (rule manager_invE)
  have wf: "tsl_wf (mdoc_tsl d)" and fit: "tsl_fits (mdoc_tsl d) 1"
    using ls(3) by (simp_all add: mdoc_ok_def tsl_fits_def tsl_mask_def)
  from tsl.put_total [OF wf _ fit, of i] ls(3) i obtain t where t: "tsl_set (mdoc_tsl d) i 1 = Inr t"
    by (auto simp: mdoc_ok_def)
  have "bits_per_status t = bits_per_status (mdoc_tsl d)"
    using t by (auto simp: tsl_set_def Let_def split: if_splits)
  with ls tsl.put_wf [OF wf t] have "manager_inv (m\<lparr>sm_mdoc := Unlocked (d\<lparr>mdoc_tsl := t\<rparr>)\<rparr>)"
    by (auto simp: manager_inv_def mdoc_ok_def)
  with ls(2) t tsl.put_same [OF wf t] tsl.put_other [OF wf t] show ?thesis
    by (simp add: revoke_mdoc_def mdoc_of_def)
qed

lemma revoke_mdoc_out:
  "manager_inv m \<Longrightarrow> LIST_CAPACITY \<le> i \<Longrightarrow> \<exists>e. revoke_mdoc i m = (Inl (ListError e), m)"
  by (auto simp: manager_inv_def mdoc_ok_def revoke_mdoc_def tsl_set_def)

section \<open>The manager as a machine\<close>

inductive manager_step :: "libs \<Rightarrow> status_manager \<Rightarrow> status_manager \<Rightarrow> bool" for L where
  allocate: "allocate_entry L p rnd pos m = Some (r, m', pos') \<Longrightarrow> manager_step L m m'"
| revoke: "revoke i m = (res, m') \<Longrightarrow> manager_step L m m'"
| suspend: "suspend i m = (res, m') \<Longrightarrow> manager_step L m m'"
| reinstate: "reinstate i m = (res, m') \<Longrightarrow> manager_step L m m'"
| allocate_mdoc: "allocate_mdoc_index rnd pos m = Some (ir, m', pos') \<Longrightarrow> manager_step L m m'"
| revoke_mdoc: "revoke_mdoc i m = (res, m') \<Longrightarrow> manager_step L m m'"
| publish: "build_status_list_credential L list_id issuer now m = (published, m') \<Longrightarrow> manager_step L m m'"

inductive_cases manager_stepE: "manager_step L m m'"

definition manager_steps :: "libs \<Rightarrow> status_manager \<Rightarrow> status_manager \<Rightarrow> bool" where
  "manager_steps L = (manager_step L)\<^sup>*\<^sup>*"

lemma update_status_run:
  assumes "manager_inv m" and "update_status (status_purpose_to_string p) i v m = (res, m')"
  shows "manager_inv m' \<and>
    (\<forall>q j. (q, j) \<noteq> (p, i) \<longrightarrow> is_flagged q j m' = is_flagged q j m) \<and>
    (is_flagged p i m' = is_flagged p i m \<or> is_flagged p i m' = v) \<and>
    (\<forall>q. ml_allocated (list_of m' q) = ml_allocated (list_of m q))"
proof (cases "i < LIST_CAPACITY")
  case True
  from update_status_in [OF assms(1) True, of p v] assms(2) show ?thesis by auto
next
  case False
  with update_status_out [OF assms(1), of i p v] assms show ?thesis by auto
qed

lemma revoke_mdoc_run:
  assumes "manager_inv m" and "revoke_mdoc i m = (res, m')"
  shows "manager_inv m' \<and> sm_lists m' = sm_lists m"
proof (cases "i < LIST_CAPACITY")
  case True
  from revoke_mdoc_in [OF assms(1) True] assms(2) show ?thesis by auto
next
  case False
  with revoke_mdoc_out [OF assms(1), of i] assms show ?thesis by auto
qed

lemma same_lists: "sm_lists m' = sm_lists m \<Longrightarrow> list_of m' = list_of m"
  by (simp add: list_of_def fun_eq_iff)

lemma publish_effect:
  assumes "build_status_list_credential L list_id issuer now m = (published, m')"
  shows "m' = m \<or> sm_lists m' = Poisoned \<and> sm_issuer_url m' = sm_issuer_url m \<and> \<not> joins L (sm_issuer_url m)"
  using assms joinsD [of L "sm_issuer_url m" "''/status/'' @ list_id"]
  by (auto simp: build_status_list_credential_def with_lock_def bindP_def liftR_def split: mutex.splits option.splits sum.splits prod.splits)

lemma update_status_url: "update_status l i v m = (res, m') \<Longrightarrow> sm_issuer_url m' = sm_issuer_url m"
  by (auto simp: update_status_def Let_def split: mutex.splits option.splits sum.splits status_list_error.splits
      token_status_list_error.splits)

lemma manager_step_url: "manager_step L m m' \<Longrightarrow> sm_issuer_url m' = sm_issuer_url m"
proof (induction rule: manager_step.induct)
  case (allocate_mdoc rnd pos m ir m' pos')
  then show ?case by (auto simp: allocate_mdoc_index_def split: mutex.splits option.splits)
next
  case (revoke_mdoc i m res m')
  then show ?case by (auto simp: revoke_mdoc_def split: mutex.splits sum.splits token_status_list_error.splits)
qed (auto simp: revoke_def suspend_def reinstate_def dest: allocate_entry_url update_status_url publish_effect)

text \<open>One step: the invariant, no revocation undone, no index given back, unless a URL could not be joined.\<close>

lemma manager_step_cases:
  assumes "manager_step L m m'" and inv: "manager_inv m"
  shows "manager_inv m' \<and> (is_flagged Revocation j m \<longrightarrow> is_flagged Revocation j m') \<and>
    (\<forall>q. ml_allocated (list_of m q) \<subseteq> ml_allocated (list_of m' q)) \<or>
    sm_lists m' = Poisoned \<and> \<not> joins L (sm_issuer_url m)"
  using assms(1)
proof cases
  case (allocate p rnd pos r pos')
  show ?thesis
  proof (cases "r = Inl ManagerPanic")
    case True
    with allocate_entry_panic [OF inv] allocate show ?thesis by blast
  next
    case False
    from allocate_entry_effect [OF inv allocate False]
    have e: "manager_inv m'" "\<forall>q j. is_flagged q j m' = is_flagged q j m"
      "\<forall>q. q \<noteq> p \<longrightarrow> list_of m' q = list_of m q"
      and "ml_allocated (list_of m p) \<subseteq> ml_allocated (list_of m' p)"
      by (auto split: sum.splits)
    then show ?thesis by (metis order_refl)
  qed
next
  case (revoke i res)
  then show ?thesis using update_status_run [OF inv, of Revocation i True]
    by (auto simp: revoke_def)
next
  case (suspend i res)
  then show ?thesis using update_status_run [OF inv, of Suspension i True]
    by (auto simp: suspend_def)
next
  case (reinstate i res)
  then show ?thesis using update_status_run [OF inv, of Suspension i False]
    by (auto simp: reinstate_def)
next
  case (allocate_mdoc rnd pos ir pos')
  then have "manager_inv m'" "list_of m' = list_of m"
    using allocate_mdoc_effect [OF inv] same_lists by blast+
  then show ?thesis by (simp add: is_flagged_def)
next
  case (revoke_mdoc i res)
  then have "manager_inv m'" "list_of m' = list_of m"
    using revoke_mdoc_run [OF inv] same_lists by blast+
  then show ?thesis by (simp add: is_flagged_def)
next
  case publish
  from publish_effect [OF this] inv show ?thesis by auto
qed

text \<open>The managers that are sound and whose URL takes the paths of the lists.\<close>

definition manager_ok :: "libs \<Rightarrow> status_manager \<Rightarrow> bool" where
  "manager_ok L m \<longleftrightarrow> manager_inv m \<and> joins L (sm_issuer_url m)"

lemma manager_ok_inv: "manager_ok L m \<Longrightarrow> manager_inv m"
  by (simp add: manager_ok_def)

lemma manager_new_ok: "joins L u \<Longrightarrow> manager_ok L (manager_new u)"
  by (simp add: manager_ok_def manager_new_inv) (simp add: manager_new_def)

lemma manager_steps_keep:
  assumes "manager_steps L m m'" and "manager_ok L m"
  shows "manager_ok L m' \<and> (is_flagged Revocation j m \<longrightarrow> is_flagged Revocation j m') \<and>
    (\<forall>q. ml_allocated (list_of m q) \<subseteq> ml_allocated (list_of m' q))"
  using assms(1) unfolding manager_steps_def
proof (induction rule: rtranclp_induct)
  case base
  with assms(2) show ?case by simp
next
  case (step y z)
  then have "manager_inv z \<and> (is_flagged Revocation j y \<longrightarrow> is_flagged Revocation j z) \<and>
      (\<forall>q. ml_allocated (list_of y q) \<subseteq> ml_allocated (list_of z q))"
    using manager_step_cases [of L y z j] unfolding manager_ok_def by blast
  with step.IH manager_step_url [OF step.hyps(2)] show ?case unfolding manager_ok_def by (metis order_trans)
qed

text \<open>Without that assumption the lists may be poisoned; then they stay so.\<close>

lemma manager_step_poisoned: "manager_step L m m' \<Longrightarrow> sm_lists m = Poisoned \<Longrightarrow> sm_lists m' = Poisoned"
proof (induction rule: manager_step.induct)
  case (allocate_mdoc rnd pos m ir m' pos')
  then show ?case by (auto simp: allocate_mdoc_index_def split: mutex.splits option.splits)
next
  case (revoke_mdoc i m res m')
  then show ?case by (auto simp: revoke_mdoc_def split: mutex.splits sum.splits token_status_list_error.splits)
qed (auto simp: allocate_entry_def revoke_def suspend_def reinstate_def update_status_def
    build_status_list_credential_def with_lock_def Let_def)

lemma manager_steps_cases:
  assumes "manager_steps L m m'" and "manager_inv m"
  shows "sm_lists m' = Poisoned \<or>
    manager_inv m' \<and> (\<forall>q. ml_allocated (list_of m q) \<subseteq> ml_allocated (list_of m' q))"
  using assms(1) unfolding manager_steps_def
proof (induction rule: rtranclp_induct)
  case base
  with assms(2) show ?case by simp
next
  case (step y z)
  show ?case
  proof (cases "sm_lists y = Poisoned")
    case True
    with manager_step_poisoned [OF step.hyps(2)] show ?thesis by simp
  next
    case False
    with step.IH have y: "manager_inv y" "\<forall>q. ml_allocated (list_of m q) \<subseteq> ml_allocated (list_of y q)" by simp_all
    from manager_step_cases [OF step.hyps(2) y(1)] y(2) show ?thesis by (metis order_trans)
  qed
qed

lemma allocated_unpoisoned:
  "allocate_entry L p rnd pos m = Some (Inr en, m', pos') \<Longrightarrow> sm_lists m \<noteq> Poisoned"
  by (auto simp: allocate_entry_def Let_def)

lemma allocate_entry_returned:
  "manager_ok L m \<Longrightarrow> allocate_entry L p rnd pos m = Some (r, m', pos') \<Longrightarrow> r \<noteq> Inl ManagerPanic"
  using allocate_entry_panic unfolding manager_ok_def by blast

lemma formats_agree:
  assumes "manager_inv m" and "i < LIST_CAPACITY"
  shows "tsl_get_status (ml_tsl (list_of m p)) i = Inr (if is_flagged p i m then flagged p else Valid)"
proof -
  from assms(1) have ok: "ml_ok p (list_of m p)" by (rule manager_invE) blast
  with assms(2) obtain b where b: "sl_get (ml_sl2021 (list_of m p)) i = Inr b"
    using sl.get_total by (fastforce simp: ml_ok_def)
  with ok show ?thesis by (auto simp: ml_ok_def is_flagged_def)
qed

section \<open>Properties\<close>

text \<open>
  C37. In every state that a manager reaches whose URL takes the paths of the lists (no start
  succeeds with another), whatever its operations and their arguments, no mutex is poisoned and the StatusList2021 bit and the Token Status List entry of every index agree.
\<close>

theorem manager_formats_agree:
  assumes "manager_steps L (manager_new u) m" and "joins L u" and "i < LIST_CAPACITY"
  shows "sm_lists m \<noteq> Poisoned \<and> sm_mdoc m \<noteq> Poisoned \<and>
    tsl_get_status (ml_tsl (list_of m p)) i = Inr (if is_flagged p i m then flagged p else Valid)"
proof -
  have inv: "manager_inv m" using manager_steps_keep [OF assms(1) manager_new_ok [OF assms(2)]] manager_ok_inv by blast
  from formats_agree [OF inv assms(3)] inv show ?thesis by (auto simp: manager_inv_def)
qed

theorem manager_formats_agree_witness:
  "\<exists>m. revoke 7 (manager_new ''https://i/'') = (Inr (), m) \<and>
     tsl_get_status (ml_tsl (list_of m Revocation)) 7 = Inr Invalid"
proof -
  have seven: "7 < LIST_CAPACITY" by (simp add: LIST_CAPACITY_def)
  from update_status_in [OF manager_new_inv [of "''https://i/''"] seven, where p = Revocation and v = True]
  obtain m where m: "revoke 7 (manager_new ''https://i/'') = (Inr (), m)" "is_flagged Revocation 7 m"
    by (auto simp: revoke_def)
  then have "manager_steps hex_libs (manager_new ''https://i/'') m"
    by (auto simp: manager_steps_def intro: manager_step.revoke)
  from manager_formats_agree [OF this hex_libs_joins(1) seven, of Revocation] m show ?thesis by auto
qed

text \<open>
  Revocation is permanent: once the revocation bit of an index is set, no sequence of
  public operations clears it.
\<close>

theorem revocation_permanent:
  assumes "manager_steps L (manager_new u) m" and "joins L u" and "is_flagged Revocation i m"
    and "manager_steps L m m'"
  shows "is_flagged Revocation i m'"
  using manager_steps_keep [OF assms(1) manager_new_ok [OF assms(2)]] manager_steps_keep [OF assms(4)] assms(3)
  by blast

theorem revocation_permanent_witness:
  "\<exists>m m'. revoke 3 (manager_new ''https://i/'') = (Inr (), m) \<and> reinstate 3 m = (Inr (), m') \<and>
     is_flagged Revocation 3 m'"
proof -
  have three: "3 < LIST_CAPACITY" by (simp add: LIST_CAPACITY_def)
  from update_status_in [OF manager_new_inv [of "''https://i/''"] three, where p = Revocation and v = True]
  obtain m where m: "revoke 3 (manager_new ''https://i/'') = (Inr (), m)" "manager_inv m"
    "is_flagged Revocation 3 m" by (auto simp: revoke_def)
  from update_status_in [OF m(2) three, where p = Suspension and v = False]
  obtain m' where m': "reinstate 3 m = (Inr (), m')" by (auto simp: reinstate_def)
  have "manager_steps hex_libs (manager_new ''https://i/'') m" "manager_steps hex_libs m m'"
    using m m' by (auto simp: manager_steps_def intro: manager_step.revoke manager_step.reinstate)
  from revocation_permanent [OF this(1) hex_libs_joins(1) m(3) this(2)] m m' show ?thesis by blast
qed

text \<open>The published token list is the one that the manager holds.\<close>

lemma published_decodes:
  assumes "b64url_law L" and "zlib_law L" and "manager_inv m"
    and pub: "build_token_status_list L ''revocation'' m = Inr pub"
  shows "tsl_decode L (pt_lst pub) LIST_CAPACITY (pt_bits pub) = Inr (ml_tsl (list_of m Revocation))"
proof -
  let ?t = "ml_tsl (list_of m Revocation)"
  from assms(3) obtain ls d where ls: "sm_lists m = Unlocked ls" "sm_mdoc m = Unlocked d" "mdoc_ok d"
    "\<forall>p. ls (status_purpose_to_string p) = Some (list_of m p)" "\<forall>p. ml_ok p (list_of m p)"
    by (rule manager_invE)
  have t: "tsl_wf ?t" "tsl_capacity ?t = LIST_CAPACITY"
    using ls(5) [rule_format, of Revocation] by (auto simp: ml_ok_def)
  have "ls ''revocation'' = Some (list_of m Revocation)" using ls(4) [rule_format, of Revocation] by simp
  with pub ls(1) obtain e where "tsl_encode L ?t = Inr e" "pub = \<lparr>pt_bits = bits_per_status ?t, pt_lst = e\<rparr>"
    by (auto simp: build_token_status_list_def result_inv)
  with tsl_decode_encoded [OF assms(1,2) t(1)] t(2) show ?thesis by simp
qed

text \<open>
  Revoking an index in range always succeeds, and the Token Status List published afterwards
  decodes to a list in which that index is invalid and every other index is as before.
\<close>

theorem revoke_published:
  assumes "b64url_law L" and "zlib_law L" and reach: "manager_steps L (manager_new u) m"
    and url: "joins L u" and i: "i < LIST_CAPACITY"
  shows "\<exists>m'. revoke i m = (Inr (), m') \<and>
    (\<forall>pub. build_token_status_list L ''revocation'' m' = Inr pub \<longrightarrow>
       (\<exists>t. tsl_decode L (pt_lst pub) LIST_CAPACITY (pt_bits pub) = Inr t \<and>
            tsl_get_status t i = Inr Invalid \<and>
            (\<forall>j < LIST_CAPACITY. j \<noteq> i \<longrightarrow>
               tsl_get_status t j = tsl_get_status (ml_tsl (list_of m Revocation)) j)))"
proof -
  have inv: "manager_inv m" using manager_steps_keep [OF reach manager_new_ok [OF url]] manager_ok_inv by blast
  from update_status_in [OF inv i, of Revocation True] obtain m' where
    m': "revoke i m = (Inr (), m')" "manager_inv m'" "is_flagged Revocation i m'"
    and other: "\<forall>j. j \<noteq> i \<longrightarrow> is_flagged Revocation j m' = is_flagged Revocation j m"
    by (auto simp: revoke_def)
  let ?t = "ml_tsl (list_of m' Revocation)"
  have "tsl_decode L (pt_lst pub) LIST_CAPACITY (pt_bits pub) = Inr ?t"
    if "build_token_status_list L ''revocation'' m' = Inr pub" for pub
    by (rule published_decodes [OF assms(1,2) m'(2) that])
  moreover have "tsl_get_status ?t i = Inr Invalid"
    using formats_agree [OF m'(2) i, of Revocation] m'(3) by simp
  moreover have "tsl_get_status ?t j = tsl_get_status (ml_tsl (list_of m Revocation)) j"
    if "j < LIST_CAPACITY" "j \<noteq> i" for j
    using formats_agree [OF m'(2) that(1), of Revocation] formats_agree [OF inv that(1), of Revocation]
      other that(2) by simp
  ultimately show ?thesis using m'(1) by blast
qed

theorem revoke_published_witness:
  "\<exists>m pub t. revoke 5 (manager_new ''https://i/'') = (Inr (), m) \<and>
     build_token_status_list hex_libs ''revocation'' m = Inr pub \<and>
     tsl_decode hex_libs (pt_lst pub) LIST_CAPACITY (pt_bits pub) = Inr t \<and>
     tsl_get_status t 5 = Inr Invalid"
proof -
  have five: "5 < LIST_CAPACITY" by (simp add: LIST_CAPACITY_def)
  have start: "manager_steps hex_libs (manager_new ''https://i/'') (manager_new ''https://i/'')"
    by (simp add: manager_steps_def)
  from update_status_in [OF manager_new_inv [of "''https://i/''"] five, where p = Revocation and v = True]
  obtain m where m: "revoke 5 (manager_new ''https://i/'') = (Inr (), m)" "manager_inv m"
    by (auto simp: revoke_def)
  from m(2) obtain ls d where ls: "sm_lists m = Unlocked ls" "sm_mdoc m = Unlocked d" "mdoc_ok d"
    "\<forall>p. ls (status_purpose_to_string p) = Some (list_of m p)" "\<forall>p. ml_ok p (list_of m p)"
    by (rule manager_invE)
  have "ls ''revocation'' = Some (list_of m Revocation)" using ls(4) [rule_format, of Revocation] by simp
  with ls(1) obtain pub where pub: "build_token_status_list hex_libs ''revocation'' m = Inr pub"
    by (simp add: build_token_status_list_def tsl_encode_def tsl_compress_def hex_libs_def)
  from revoke_published [OF hex_libs_laws(1,3) start hex_libs_joins(1) five] m(1) pub
  obtain t where "tsl_decode hex_libs (pt_lst pub) LIST_CAPACITY (pt_bits pub) = Inr t"
    "tsl_get_status t 5 = Inr Invalid" by auto
  with m(1) pub show ?thesis by blast
qed

text \<open>
  C38. No status index is handed out twice for one purpose, whatever happens in between: two
  credentials never share a revocation handle.
\<close>

theorem allocation_unique:
  assumes reach: "manager_steps L (manager_new u) m"
    and one: "allocate_entry L p rnd pos m = Some (Inr en, m1, pos1)"
    and between: "manager_steps L m1 m2"
    and two: "allocate_entry L p rnd' pos' m2 = Some (Inr en', m3, pos2)"
  shows "se_list_index en \<noteq> se_list_index en'"
proof -
  have inv: "manager_inv m" using manager_steps_cases [OF reach manager_new_inv] allocated_unpoisoned [OF one] by blast
  from allocate_entry_effect [OF inv one] obtain i where i: "se_list_index en = show_nat i"
    "i \<in> ml_allocated (list_of m1 p)" and inv1: "manager_inv m1" by auto
  from manager_steps_cases [OF between inv1] i(2) allocated_unpoisoned [OF two] have inv2: "manager_inv m2"
    and i2: "i \<in> ml_allocated (list_of m2 p)" by blast+
  from allocate_entry_effect [OF inv2 two] obtain j where "se_list_index en' = show_nat j"
    "j \<notin> ml_allocated (list_of m2 p)" by auto
  with i(1) i2 show ?thesis by (auto simp: show_nat_inj)
qed

lemma draw_index_total:
  assumes "card used < cap" and "used \<subseteq> {..<cap}"
    and fair: "\<And>i. i < cap \<Longrightarrow> \<exists>k\<ge>pos. rnd k mod cap = i"
  shows "\<exists>i used' pos'. draw_index used cap rnd pos = Some (Inr i, used', pos')"
proof -
  have "\<exists>i<cap. i \<notin> used"
  proof (rule ccontr)
    assume "\<not> (\<exists>i<cap. i \<notin> used)"
    then have "{..<cap} \<subseteq> used" by auto
    with assms(2) have "used = {..<cap}" by blast
    with assms(1) show False by simp
  qed
  then obtain i where "i < cap" "i \<notin> used" by blast
  with fair obtain k where "pos \<le> k" "rnd k mod cap \<notin> used" by metis
  then have "\<exists>r. draw_loop used cap rnd pos = Some r" by (rule draw_loop_total)
  with assms(1) show ?thesis by (auto simp: draw_index_def)
qed

text \<open>
  C40. The drawing loop ends: while the list has room and the random source goes on to draw
  every residue, allocation returns an entry; the only failure is a list that is full. The
  manager's URL is one that takes the paths of the lists.
\<close>

theorem allocation_returns:
  assumes reach: "manager_steps L (manager_new u) m" and url: "joins L u"
    and fair: "\<And>i. i < LIST_CAPACITY \<Longrightarrow> \<exists>k\<ge>pos. rnd k mod LIST_CAPACITY = i"
  shows "\<exists>r m' pos'. allocate_entry L p rnd pos m = Some (r, m', pos') \<and>
    (r = Inl NoAvailableIndex \<longleftrightarrow> card (ml_allocated (list_of m p)) = LIST_CAPACITY) \<and>
    (r \<noteq> Inl NoAvailableIndex \<longrightarrow> is_ok r)"
proof -
  have ok: "manager_ok L m" using manager_steps_keep [OF reach manager_new_ok [OF url]] by blast
  then have inv: "manager_inv m" by (rule manager_ok_inv)
  then obtain ls d where ls: "sm_lists m = Unlocked ls" "sm_mdoc m = Unlocked d" "mdoc_ok d"
    "\<forall>p. ls (status_purpose_to_string p) = Some (list_of m p)" "\<forall>p. ml_ok p (list_of m p)"
    by (rule manager_invE)
  let ?used = "ml_allocated (list_of m p)"
  have cap: "ml_capacity (list_of m p) = LIST_CAPACITY" and sub: "?used \<subseteq> {..<LIST_CAPACITY}"
    using ls(5) [rule_format, of p] by (auto simp: ml_ok_def)
  have le: "card ?used \<le> LIST_CAPACITY" using card_mono [OF _ sub] by simp
  show ?thesis
  proof (cases "card ?used = LIST_CAPACITY")
    case True
    then show ?thesis using ls(1,4) by (simp add: allocate_entry_def draw_index_def cap Let_def)
  next
    case False
    with le draw_index_total [OF _ sub fair] obtain i used' pos' where
      "draw_index ?used LIST_CAPACITY rnd pos = Some (Inr i, used', pos')" by fastforce
    moreover obtain v where "url_join L (sm_issuer_url m) (''/status/'' @ status_purpose_to_string p) = Some v"
      using ok joinsD [OF _ status_paths] unfolding manager_ok_def by blast
    moreover obtain w where
      "url_join L (sm_issuer_url m) (''/status/'' @ status_purpose_to_string p @ ''#'' @ show_nat i) = Some w"
      using ok joinsD [OF _ status_paths] unfolding manager_ok_def by blast
    ultimately show ?thesis using False ls(1,4) by (simp add: allocate_entry_def cap Let_def)
  qed
qed

theorem allocation_returns_witness:
  "\<exists>en m' pos'. allocate_entry hex_libs Revocation (\<lambda>k. k) 0 (manager_new ''https://i/'')
     = Some (Inr en, m', pos')"
proof -
  let ?m = "manager_new ''https://i/''"
  have start: "manager_steps hex_libs ?m ?m" by (simp add: manager_steps_def)
  have fair: "\<exists>k\<ge>0. (\<lambda>k. k) k mod LIST_CAPACITY = i" if "i < LIST_CAPACITY" for i
    using that by (intro exI [of _ i]) simp
  from allocation_returns [OF start hex_libs_joins(1) fair, of Revocation] obtain r m' pos' where
    a: "allocate_entry hex_libs Revocation (\<lambda>k. k) 0 ?m = Some (r, m', pos')"
    and r: "r = Inl NoAvailableIndex \<longleftrightarrow> card (ml_allocated (list_of ?m Revocation)) = LIST_CAPACITY"
    "r \<noteq> Inl NoAvailableIndex \<longrightarrow> is_ok r" by auto
  have "ml_allocated (list_of ?m Revocation) = {}" by (simp add: list_of_def manager_new_def new_list_def)
  with r have "is_ok r" by (simp add: LIST_CAPACITY_def)
  with a show ?thesis by (auto simp: is_ok_iff)
qed

theorem allocation_unique_witness:
  "\<exists>en en' m1 m3 pos1 pos3.
     allocate_entry hex_libs Suspension (\<lambda>k. k div 2) 0 (manager_new ''https://i/'') = Some (Inr en, m1, pos1) \<and>
     allocate_entry hex_libs Suspension (\<lambda>k. k div 2) pos1 m1 = Some (Inr en', m3, pos3) \<and>
     se_list_index en \<noteq> se_list_index en'"
proof -
  let ?m = "manager_new ''https://i/''" and ?rnd = "\<lambda>k::nat. k div 2"
  have start: "manager_steps hex_libs ?m ?m" by (simp add: manager_steps_def)
  have d1: "draw_index {} LIST_CAPACITY ?rnd 0 = Some (Inr 0, {0}, 1)"
    by (simp add: draw_index_def draw_loop.simps [of "{}" _ _ 0] LIST_CAPACITY_def)
  have d2: "draw_index {0} LIST_CAPACITY ?rnd 1 = Some (Inr 1, {1, 0}, 3)"
    by (simp add: draw_index_def draw_loop.simps [of "{0}"] LIST_CAPACITY_def numeral_2_eq_2 numeral_3_eq_3)
  obtain en m1 where one: "allocate_entry hex_libs Suspension ?rnd 0 ?m = Some (Inr en, m1, 1)"
    and m1: "m1 = ?m\<lparr>sm_lists := Unlocked ([''revocation'' \<mapsto> new_list Revocation,
               ''suspension'' \<mapsto> (new_list Suspension)\<lparr>ml_allocated := {0}\<rparr>])\<rparr>"
    using d1 by (simp add: allocate_entry_def manager_new_def new_list_def Let_def)
  obtain en' m3 where two: "allocate_entry hex_libs Suspension ?rnd 1 m1 = Some (Inr en', m3, 3)"
    using d2 by (simp add: allocate_entry_def manager_new_def new_list_def m1 Let_def)
  have "manager_steps hex_libs m1 m1" by (simp add: manager_steps_def)
  from allocation_unique [OF start one this two] one two show ?thesis by blast
qed

end
