(* ===== verification/Oid4vci_Types.thy ===== *)
theory Oid4vci_Types
  imports Externals
begin

text \<open>
  The messages of OID4VCI, from crates/types/src/oid4vci.rs: issuer and authorization server
  metadata, credential offers, pushed authorization requests, token requests and responses,
  credential requests and responses. A \<open>HashMap\<close> is the list of its entries in the order it
  iterates; its keys are distinct. A \<open>Url\<close> is its text.
\<close>

section \<open>Credential issuer metadata\<close>

record logo =
  logo_uri :: string
  logo_alt_text :: "string option"

record credential_display =
  cd_name :: string
  cd_locale :: "string option"
  cd_logo :: "logo option"
  cd_description :: "string option"
  cd_background_color :: "string option"
  cd_text_color :: "string option"

record issuer_display =
  id_name :: string
  id_locale :: "string option"
  id_logo :: "logo option"

record proof_type_metadata =
  proof_signing_alg_values_supported :: "string list"

record claim_description =
  cl_path :: "json list"
  cl_mandatory :: "bool option"

record credential_metadata =
  cm_display :: "credential_display list option"
  cm_claims :: "claim_description list option"

record credential_configuration =
  cc_format :: string
  cc_scope :: "string option"
  cc_binding_methods :: "string list option"
  cc_signing_algs :: "json list option"
  cc_proof_types :: "(string \<times> proof_type_metadata) list option"
  cc_metadata :: "credential_metadata option"
  cc_vct :: "string option"
  cc_doctype :: "string option"

record batch_credential_issuance =
  batch_size :: nat

record credential_issuer_metadata =
  im_credential_issuer :: string
  im_authorization_servers :: "url list option"
  im_credential_endpoint :: url
  im_deferred_credential_endpoint :: "url option"
  im_nonce_endpoint :: "url option"
  im_batch_credential_issuance :: "batch_credential_issuance option"
  im_configurations :: "(string \<times> credential_configuration) list"
  im_display :: "issuer_display list option"

section \<open>Authorization server metadata\<close>

record authorization_server_metadata =
  am_issuer :: string
  am_authorization_endpoint :: url
  am_token_endpoint :: url
  am_par_endpoint :: "url option"
  am_require_par :: bool
  am_jwks_uri :: url
  am_response_types :: "string list"
  am_grant_types :: "string list"
  am_code_challenge_methods :: "string list"
  am_token_auth_methods :: "string list"
  am_anonymous_pre_authorized :: bool
  am_dpop_algs :: "string list"
  am_attestation_algs :: "string list"
  am_attestation_pop_algs :: "string list"
  am_iss_parameter :: bool

section \<open>Credential offers\<close>

record tx_code =
  tx_input_mode :: "string option"
  tx_length :: "nat option"
  tx_description :: "string option"

record pre_authorized_code_grant =
  pg_pre_authorized_code :: string
  pg_tx_code :: "tx_code option"

record authorization_code_grant =
  ag_issuer_state :: "string option"
  ag_authorization_server :: "url option"

record grants =
  gr_authorization_code :: "authorization_code_grant option"
  gr_pre_authorized_code :: "pre_authorized_code_grant option"

record credential_offer =
  co_credential_issuer :: string
  co_configuration_ids :: "string list"
  co_grants :: "grants option"

section \<open>Pushed authorization requests\<close>

record authorization_detail =
  ad_type :: string
  ad_configuration_id :: "string option"
  ad_format :: "string option"
  ad_vct :: "string option"
  ad_doctype :: "string option"

record pushed_authorization_request =
  pr_response_type :: string
  pr_client_id :: string
  pr_redirect_uri :: url
  pr_scope :: "string option"
  pr_state :: "string option"
  pr_code_challenge :: string
  pr_code_challenge_method :: string
  pr_authorization_details :: "authorization_detail list option"
  pr_issuer_state :: "string option"
  pr_dpop_jkt :: "string option"
  pr_request_uri :: "string option"

text \<open>A value given as JSON or as a string that holds JSON; \<open>from_value\<close> is its derived reader.\<close>

definition json_or_json_string ::
    "libs \<Rightarrow> (json \<Rightarrow> string + 'a) \<Rightarrow> json option \<Rightarrow> string + 'a option" where
  "json_or_json_string L from_value v =
     (case v of
        None \<Rightarrow> Inr None
      | Some JNull \<Rightarrow> Inr None
      | Some (JStr s) \<Rightarrow> bindR (bindR (json_parse L s) from_value) (\<lambda>x. Inr (Some x))
      | Some w \<Rightarrow> bindR (from_value w) (\<lambda>x. Inr (Some x)))"

record pushed_authorization_response =
  ps_request_uri :: string
  ps_expires_in :: nat

section \<open>Token endpoint\<close>

record token_request =
  tr_grant_type :: string
  tr_code :: "string option"
  tr_redirect_uri :: "url option"
  tr_code_verifier :: "string option"
  tr_client_id :: "string option"
  tr_pre_authorized_code :: "string option"
  tr_tx_code :: "string option"

record authorized_detail =
  az_type :: string
  az_configuration_id :: string
  az_identifiers :: "string list"

record token_response =
  tp_access_token :: string
  tp_token_type :: string
  tp_expires_in :: nat
  tp_authorization_details :: "authorized_detail list option"

section \<open>Nonce and credential endpoints\<close>

record nonce_response =
  nr_c_nonce :: string

record proofs =
  pf_jwt :: "string list option"
  pf_other :: "(string \<times> json) list"

record credential_request =
  cq_identifier :: "string option"
  cq_configuration_id :: "string option"
  cq_proofs :: "proofs option"
  cq_proof :: "json option"
  cq_response_encryption :: "json option"

record issued_credential =
  ic_credential :: json

record credential_response =
  cp_credentials :: "issued_credential list option"
  cp_transaction_id :: "string option"
  cp_interval :: "nat option"
  cp_notification_id :: "string option"

end
