(* ===== verification/Credential_Formats.thy ===== *)
theory Credential_Formats
  imports Externals
begin

text \<open>
  Credential formats of crates/types/src/credentials.rs: the format identifiers, the compact
  form of SD-JWT VCs with its parser, and the JSON form of mdoc credentials.
\<close>

datatype credential_format = SdJwtVcFormat | MdocFormat | JwtVcFormat

fun format_as_str :: "credential_format \<Rightarrow> string" where
  "format_as_str SdJwtVcFormat = ''dc+sd-jwt''"
| "format_as_str MdocFormat = ''mso_mdoc''"
| "format_as_str JwtVcFormat = ''jwt_vc_json''"

section \<open>SD-JWT VC\<close>

record sd_jwt_vc =
  issuer_jwt :: string
  disclosures :: "string list"
  key_binding_jwt :: "string option"

datatype sd_jwt_parse_error = SdJwtEmpty | SdJwtMissingIssuerJwt

fun sd_jwt_parse_error_to_string :: "sd_jwt_parse_error \<Rightarrow> string" where
  "sd_jwt_parse_error_to_string SdJwtEmpty = ''input is empty''"
| "sd_jwt_parse_error_to_string SdJwtMissingIssuerJwt = ''missing issuer JWT''"

text \<open>The loop over the parts after the first: empty ones are skipped, and the last one is the
  key binding JWT when it has two dots.\<close>

fun classify_parts :: "string list \<Rightarrow> string list \<times> string option" where
  "classify_parts [] = ([], None)"
| "classify_parts (part # rest) =
     (let (ds, kb) = classify_parts rest
      in if part = [] then (ds, kb)
         else if rest = [] \<and> count_list part (CHR ''.'') = 2 then (ds, Some part)
         else (part # ds, kb))"

definition sd_jwt_parse :: "string \<Rightarrow> sd_jwt_parse_error + sd_jwt_vc" where
  "sd_jwt_parse compact =
     (case split_on (CHR ''~'') compact of
        [] \<Rightarrow> Inl SdJwtEmpty
      | first # rest \<Rightarrow>
          if first = [] then Inl SdJwtMissingIssuerJwt
          else (let (ds, kb) = classify_parts rest
                in Inr \<lparr> issuer_jwt = first, disclosures = ds, key_binding_jwt = kb \<rparr>))"

definition sd_jwt_to_compact :: "sd_jwt_vc \<Rightarrow> string" where
  "sd_jwt_to_compact v =
     join_with ''~'' (issuer_jwt v # disclosures v @
       [case key_binding_jwt v of Some kb \<Rightarrow> kb | None \<Rightarrow> []])"

lemma classify_parts_end:
  assumes "[] \<notin> set ds"
  shows "classify_parts (ds @ [[]]) = (ds, None)"
    and "count_list kb (CHR ''.'') = 2 \<Longrightarrow> classify_parts (ds @ [kb]) = (ds, Some kb)"
  using assms by (induction ds) auto

lemma classify_parts_kb:
  "classify_parts ps = (ds, Some kb) \<Longrightarrow> kb \<noteq> [] \<and> (\<exists>qs. ps = qs @ [kb] \<and> ds = filter (\<lambda>p. p \<noteq> []) qs)"
proof (induction ps arbitrary: ds)
  case Nil
  then show ?case by simp
next
  case (Cons p ps)
  obtain ds' kb' where c: "classify_parts ps = (ds', kb')" by fastforce
  show ?case
  proof (cases "ps = []")
    case True
    with Cons.prems show ?thesis by (auto split: if_splits)
  next
    case False
    with Cons.prems c have "kb' = Some kb" and ds: "ds = (if p = [] then ds' else p # ds')"
      by (auto split: if_splits)
    with Cons.IH c obtain qs where "kb \<noteq> []" "ps = qs @ [kb]" "ds' = filter (\<lambda>p. p \<noteq> []) qs" by blast
    with ds show ?thesis by (intro conjI exI [of _ "p # qs"]) auto
  qed
qed

lemma classify_parts_none:
  "classify_parts ps = (ds, None) \<Longrightarrow> ds = filter (\<lambda>p. p \<noteq> []) ps"
  by (induction ps arbitrary: ds) (auto simp: Let_def split: prod.splits if_splits)

lemma classify_parts_set: "classify_parts ps = (ds, kb) \<Longrightarrow> set ds \<subseteq> set ps - {[]}"
  by (induction ps arbitrary: ds kb) (auto simp: Let_def split: prod.splits if_splits)

text \<open>The compact forms the parser is meant for.\<close>

definition sd_jwt_wf :: "sd_jwt_vc \<Rightarrow> bool" where
  "sd_jwt_wf v \<longleftrightarrow> issuer_jwt v \<noteq> [] \<and> CHR ''~'' \<notin> set (issuer_jwt v) \<and>
     list_all (\<lambda>d. d \<noteq> [] \<and> CHR ''~'' \<notin> set d) (disclosures v) \<and>
     (case key_binding_jwt v of None \<Rightarrow> True
      | Some kb \<Rightarrow> CHR ''~'' \<notin> set kb \<and> count_list kb (CHR ''.'') = 2)"

lemma sd_jwt_parse_joined:
  assumes "first \<noteq> []" and "list_all (\<lambda>p. CHR ''~'' \<notin> set p) (first # ps)"
  shows "sd_jwt_parse (join_with ''~'' (first # ps)) =
    Inr \<lparr> issuer_jwt = first, disclosures = fst (classify_parts ps), key_binding_jwt = snd (classify_parts ps) \<rparr>"
proof -
  have "split_on (CHR ''~'') (join_with ''~'' (first # ps)) = first # ps"
    using assms(2) by (intro split_join) (auto simp: list_all_iff)
  with assms(1) show ?thesis by (simp add: sd_jwt_parse_def Let_def split: prod.split)
qed

lemma parse_compact:
  assumes "sd_jwt_wf v"
  shows "sd_jwt_parse (sd_jwt_to_compact v) = Inr v"
proof -
  have "[] \<notin> set (disclosures v)" using assms by (auto simp: sd_jwt_wf_def list_all_iff)
  note ends = classify_parts_end [OF this]
  show ?thesis
  proof (cases "key_binding_jwt v")
    case None
    have "sd_jwt_parse (sd_jwt_to_compact v) =
        Inr \<lparr> issuer_jwt = issuer_jwt v, disclosures = disclosures v, key_binding_jwt = None \<rparr>"
      unfolding sd_jwt_to_compact_def using assms None
      by (subst sd_jwt_parse_joined) (auto simp: sd_jwt_wf_def list_all_iff ends)
    with None show ?thesis by simp
  next
    case (Some kb)
    have "sd_jwt_parse (sd_jwt_to_compact v) =
        Inr \<lparr> issuer_jwt = issuer_jwt v, disclosures = disclosures v, key_binding_jwt = Some kb \<rparr>"
      unfolding sd_jwt_to_compact_def using assms Some
      by (subst sd_jwt_parse_joined) (auto simp: sd_jwt_wf_def list_all_iff ends)
    with Some show ?thesis by simp
  qed
qed

text \<open>Whatever parses is well formed, and the key binding JWT ends the presentation.\<close>

lemma parse_Inr:
  "sd_jwt_parse s = Inr v \<longleftrightarrow> issuer_jwt v \<noteq> [] \<and>
     (\<exists>ps. split_on (CHR ''~'') s = issuer_jwt v # ps \<and>
        classify_parts ps = (disclosures v, key_binding_jwt v))"
  by (auto simp: sd_jwt_parse_def Let_def split: list.splits prod.splits)

lemma parse_key_binding:
  assumes "sd_jwt_parse s = Inr v" and "key_binding_jwt v = Some kb"
  shows "\<exists>pre. s = pre @ ''~'' @ kb \<and> CHR ''~'' \<notin> set kb"
proof -
  obtain ps where ps: "split_on (CHR ''~'') s = issuer_jwt v # ps"
    and c: "classify_parts ps = (disclosures v, Some kb)"
    using assms by (auto simp: parse_Inr)
  obtain qs where qs: "ps = qs @ [kb]" using classify_parts_kb [OF c] by blast
  have "CHR ''~'' \<notin> set kb" using split_on_pieces [of kb "CHR ''~''" s] ps qs by simp
  moreover have "join_with ''~'' ((p # rest) @ [k]) = join_with ''~'' (p # rest) @ ''~'' @ k" for p rest k
    by (induction rest arbitrary: p) simp_all
  then have "s = join_with ''~'' (issuer_jwt v # qs) @ ''~'' @ kb"
    using join_split [of "CHR ''~''" s] ps qs by simp
  ultimately show ?thesis by blast
qed

text \<open>
  The compact form of an SD-JWT VC reads back as it was written, whether it ends in a key
  binding JWT or in the empty part that stands for its absence, and parsing never turns a
  disclosure into a key binding JWT.
\<close>

theorem sd_jwt_round_trip:
  assumes "sd_jwt_wf v"
  shows "sd_jwt_parse (sd_jwt_to_compact v) = Inr v"
  using assms by (rule parse_compact)

theorem sd_jwt_round_trip_witness:
  "\<exists>v. disclosures v = [''d1'', ''d2''] \<and> sd_jwt_parse (sd_jwt_to_compact v) = Inr v"
proof -
  let ?v = "\<lparr> issuer_jwt = ''h.p.s'', disclosures = [''d1'', ''d2''], key_binding_jwt = Some ''a.b.c'' \<rparr>"
  have "sd_jwt_wf ?v" by (simp add: sd_jwt_wf_def)
  from sd_jwt_round_trip [OF this] show ?thesis by (intro exI [of _ ?v]) simp
qed

section \<open>mdoc and JWT credentials\<close>

record mdoc_credential =
  mc_doc_type :: string
  mc_issuer_signed :: bytes
  mc_device_signed :: "bytes option"

record jwt_vc =
  jwt_text :: string

text \<open>The helper modules of the byte fields.\<close>

definition base64_serialize :: "libs \<Rightarrow> bytes \<Rightarrow> json" where
  "base64_serialize L b = JStr (b64url_encode L b)"

definition base64_deserialize :: "libs \<Rightarrow> json \<Rightarrow> string + bytes" where
  "base64_deserialize L v =
     (case v of JStr s \<Rightarrow> b64url_decode L s | _ \<Rightarrow> Inl ''invalid type, expected a string'')"

definition option_base64_serialize :: "libs \<Rightarrow> bytes option \<Rightarrow> json" where
  "option_base64_serialize L v =
     (case v of Some b \<Rightarrow> JStr (b64url_encode L b) | None \<Rightarrow> JNull)"

definition option_base64_deserialize :: "libs \<Rightarrow> json \<Rightarrow> string + bytes option" where
  "option_base64_deserialize L v =
     (case v of JNull \<Rightarrow> Inr None
      | JStr s \<Rightarrow> bindR (b64url_decode L s) (\<lambda>b. Inr (Some b))
      | _ \<Rightarrow> Inl ''invalid type, expected a string'')"

text \<open>
  The derived implementations. The field \<open>device_signed\<close> is left out when it is \<open>None\<close>, but it
  has a \<open>with\<close> module and no \<open>default\<close>, so a reader that does not find it reports it missing.
\<close>

definition mdoc_to_json :: "libs \<Rightarrow> mdoc_credential \<Rightarrow> json" where
  "mdoc_to_json L m =
     JObj ([(''doc_type'', JStr (mc_doc_type m)),
            (''issuer_signed'', base64_serialize L (mc_issuer_signed m))] @
           (case mc_device_signed m of None \<Rightarrow> []
            | Some b \<Rightarrow> [(''device_signed'', option_base64_serialize L (Some b))]))"

definition mdoc_of_json :: "libs \<Rightarrow> json \<Rightarrow> string + mdoc_credential" where
  "mdoc_of_json L v =
     bindR (ok_or ''missing field `doc_type`'' (json_get ''doc_type'' v)) (\<lambda>t.
     bindR (ok_or ''invalid type, expected a string'' (as_str t)) (\<lambda>dt.
     bindR (ok_or ''missing field `issuer_signed`'' (json_get ''issuer_signed'' v)) (\<lambda>i.
     bindR (base64_deserialize L i) (\<lambda>is.
     bindR (ok_or ''missing field `device_signed`'' (json_get ''device_signed'' v)) (\<lambda>d.
     bindR (option_base64_deserialize L d) (\<lambda>ds.
     Inr \<lparr> mc_doc_type = dt, mc_issuer_signed = is, mc_device_signed = ds \<rparr>))))))"

text \<open>
  An mdoc credential's JSON form reads back exactly when it has device-signed data: the
  writer leaves the field out for a credential without it, which the reader then rejects.
\<close>

theorem mdoc_json_round_trip:
  assumes "b64url_law L"
  shows "mdoc_of_json L (mdoc_to_json L m) =
    (if mc_device_signed m = None then Inl ''missing field `device_signed`'' else Inr m)"
  using assms
  by (cases "mc_device_signed m")
    (auto simp: mdoc_of_json_def mdoc_to_json_def base64_serialize_def
      base64_deserialize_def option_base64_serialize_def option_base64_deserialize_def b64url_law_def)

theorem mdoc_json_round_trip_witness:
  "mdoc_of_json hex_libs (mdoc_to_json hex_libs
     \<lparr> mc_doc_type = ''org.iso.18013.5.1.mDL'', mc_issuer_signed = ''a'', mc_device_signed = None \<rparr>) =
   Inl ''missing field `device_signed`''"
  by (simp add: mdoc_json_round_trip [OF hex_libs_laws(1)])

end
