(* ===== verification/Single_Use.thy ===== *)
theory Single_Use
  imports Prelude
begin

text \<open>
  The contract of stores whose entries can be used once: nonces, pre-authorized codes,
  authorization codes, presentation sessions. An operation of the machine may store a key,
  hit it (use it successfully) or do neither; a hit needs a live key and leaves it dead, and
  only storing revives it. In every run the hits are then bounded by the stores.
\<close>

text \<open>A run of operations, each with its reply.\<close>

fun run_ops :: "('op \<Rightarrow> 's \<Rightarrow> 'r \<times> 's) \<Rightarrow> 'op list \<Rightarrow> 's \<Rightarrow> ('op \<times> 'r) list \<times> 's" where
  "run_ops step [] s = ([], s)"
| "run_ops step (a # as) s =
     (let (r, s') = step a s; (rs, s'') = run_ops step as s' in ((a, r) # rs, s''))"

definition count_ops :: "('op \<times> 'r \<Rightarrow> bool) \<Rightarrow> ('op \<times> 'r) list \<Rightarrow> nat" where
  "count_ops P tr = length (filter P tr)"

lemma count_ops_simps [simp]:
  "count_ops P [] = 0"
  "count_ops P (x # tr) = (if P x then Suc (count_ops P tr) else count_ops P tr)"
  by (simp_all add: count_ops_def)

lemma run_ops_Cons:
  "run_ops step (a # as) s = (tr, t) \<longleftrightarrow>
     (\<exists>r s' tr'. step a s = (r, s') \<and> run_ops step as s' = (tr', t) \<and> tr = (a, r) # tr')"
  by (auto simp: run_ops.simps(2) Let_def split: prod.splits)

declare run_ops.simps(2) [simp del]

text \<open>A predicate that every operation keeps holds after a run.\<close>

lemma run_ops_invariant:
  assumes "\<And>a s r s'. a \<in> set as \<Longrightarrow> step a s = (r, s') \<Longrightarrow> I s \<Longrightarrow> I s'"
    and "run_ops step as s = (tr, t)" and "I s"
  shows "I t"
  using assms
proof (induction as arbitrary: s tr)
  case Nil
  then show ?case by simp
next
  case (Cons a as)
  then obtain r s' tr' where st: "step a s = (r, s')" and run: "run_ops step as s' = (tr', t)"
    by (auto simp: run_ops_Cons)
  from Cons.prems(1) [OF _ st Cons.prems(3)] have "I s'" by simp
  with Cons.IH [OF _ run] Cons.prems(1) show ?case by auto
qed

text \<open>Replies that are impossible while a kept predicate holds do not occur in a run.\<close>

lemma run_ops_safe:
  assumes "\<And>a s r s'. a \<in> set as \<Longrightarrow> step a s = (r, s') \<Longrightarrow> I s \<Longrightarrow> I s' \<and> P (a, r)"
    and "run_ops step as s = (tr, t)" and "I s"
  shows "\<forall>x\<in>set tr. P x"
  using assms
proof (induction as arbitrary: s tr)
  case Nil
  then show ?case by simp
next
  case (Cons a as)
  then obtain r s' tr' where st: "step a s = (r, s')" and run: "run_ops step as s' = (tr', t)"
    and tr: "tr = (a, r) # tr'" by (auto simp: run_ops_Cons)
  from Cons.prems(1) [OF _ st Cons.prems(3)] have "I s'" "P (a, r)" by simp_all
  with Cons.IH [OF _ run] Cons.prems(1) tr show ?case by auto
qed

lemma run_ops_append:
  "run_ops step (as @ bs) s = (let (tr, t) = run_ops step as s; (tr', u) = run_ops step bs t in (tr @ tr', u))"
  by (induction as arbitrary: s) (auto simp: run_ops.simps(2) Let_def split: prod.splits)

text \<open>The laws may rest on an invariant of the machine.\<close>

locale single_use_under =
  fixes step :: "'op \<Rightarrow> 's \<Rightarrow> 'r \<times> 's"
    and stores :: "'k \<Rightarrow> 'op \<times> 'r \<Rightarrow> bool"
    and hits :: "'k \<Rightarrow> 'op \<times> 'r \<Rightarrow> bool"
    and live :: "'s \<Rightarrow> 'k \<Rightarrow> bool"
    and inv :: "'s \<Rightarrow> bool"
  assumes inv_step: "step a s = (r, s') \<Longrightarrow> inv s \<Longrightarrow> inv s'"
    and hit_live_under: "step a s = (r, s') \<Longrightarrow> inv s \<Longrightarrow> hits k (a, r) \<Longrightarrow> live s k"
    and hit_spends_under: "step a s = (r, s') \<Longrightarrow> inv s \<Longrightarrow> hits k (a, r) \<Longrightarrow> \<not> live s' k"
    and revived_under: "step a s = (r, s') \<Longrightarrow> inv s \<Longrightarrow> live s' k \<Longrightarrow> \<not> live s k \<Longrightarrow> stores k (a, r)"
begin

lemma hits_bounded_under:
  assumes "run_ops step as s = (tr, t)" and "inv s"
  shows "count_ops (hits k) tr \<le> count_ops (stores k) tr + (if live s k then 1 else 0)"
  using assms
proof (induction as arbitrary: s tr)
  case Nil
  then show ?case by simp
next
  case (Cons a as)
  then obtain r s' tr' where st: "step a s = (r, s')" and run: "run_ops step as s' = (tr', t)"
    and tr: "tr = (a, r) # tr'" by (auto simp: run_ops_Cons)
  note i = Cons.prems(2)
  show ?case
    using Cons.IH [OF run inv_step [OF st i]] hit_live_under [OF st i, of k] hit_spends_under [OF st i, of k]
      revived_under [OF st i, of k] tr
    by (auto split: if_splits)
qed

lemma invariant_under: "run_ops step as s = (tr, t) \<Longrightarrow> inv s \<Longrightarrow> inv t"
  by (rule run_ops_invariant [where step = step and as = as and s = s]) (auto intro: inv_step)

end

locale single_use =
  fixes step :: "'op \<Rightarrow> 's \<Rightarrow> 'r \<times> 's"
    and stores :: "'k \<Rightarrow> 'op \<times> 'r \<Rightarrow> bool"
    and hits :: "'k \<Rightarrow> 'op \<times> 'r \<Rightarrow> bool"
    and live :: "'s \<Rightarrow> 'k \<Rightarrow> bool"
  assumes hit_live: "step a s = (r, s') \<Longrightarrow> hits k (a, r) \<Longrightarrow> live s k"
    and hit_spends: "step a s = (r, s') \<Longrightarrow> hits k (a, r) \<Longrightarrow> \<not> live s' k"
    and revived: "step a s = (r, s') \<Longrightarrow> live s' k \<Longrightarrow> \<not> live s k \<Longrightarrow> stores k (a, r)"

sublocale single_use \<subseteq> single_use_under step stores hits live "\<lambda>_. True"
  by unfold_locales (auto intro: hit_live revived dest: hit_spends)

context single_use begin

lemma hits_bounded:
  assumes "run_ops step as s = (tr, t)"
  shows "count_ops (hits k) tr \<le> count_ops (stores k) tr + (if live s k then 1 else 0)"
  by (rule hits_bounded_under [OF assms TrueI])

lemma at_most_once:
  assumes "run_ops step as s = (tr, t)" and "\<forall>x\<in>set tr. \<not> stores k x"
  shows "count_ops (hits k) tr \<le> 1"
proof -
  have "count_ops (stores k) tr = 0" using assms(2) by (simp add: count_ops_def filter_empty_conv)
  with hits_bounded [OF assms(1), of k] show ?thesis by (simp split: if_splits)
qed

lemma dead_never_hit:
  assumes "run_ops step as s = (tr, t)" and "\<forall>x\<in>set tr. \<not> stores k x" and "\<not> live s k"
  shows "count_ops (hits k) tr = 0"
proof -
  have "count_ops (stores k) tr = 0" using assms(2) by (simp add: count_ops_def filter_empty_conv)
  with hits_bounded [OF assms(1), of k] assms(3) show ?thesis by simp
qed

end

end
