(* ===== verification/Issuer_State.thy ===== *)
theory Issuer_State
  imports Single_Use
begin

text \<open>
  The issuer's in-memory store of crates/issuer/src/state.rs: seven maps, each behind its own
  mutex. Every operation of the trait is a program over the store; it holds the lock from the
  map it reads to the map it writes. \<open>StatePanic\<close> stands for a panic in chrono's arithmetic,
  which poisons the map that was locked. \<open>AuthorizationSession\<close> is that of authorization.rs.
\<close>

section \<open>State\<close>

record authorization_session =
  sn_request_uri :: string
  sn_authorization_code :: "string option"
  sn_code_challenge :: string
  sn_client_id :: string
  sn_redirect_uri :: string
  sn_configuration_ids :: "string list"
  sn_via_details :: bool
  sn_issuer_state :: "string option"
  sn_client_state :: "string option"
  sn_created_at :: instant
  sn_code_issued_at :: "instant option"
  sn_dpop_jkt :: "string option"
  sn_consumed :: bool

record access_grant =
  gt_configuration_ids :: "string list"
  gt_identifiers :: "string \<rightharpoonup> string"
  gt_dpop_jkt :: "string option"

datatype state_error =
    StateNotFound string
  | StateStorage string
  | StateLockPoisoned
  | StatePanic

fun state_error_to_string :: "state_error \<Rightarrow> string" where
  "state_error_to_string (StateNotFound e) = ''not found: '' @ e"
| "state_error_to_string (StateStorage e) = ''storage error: '' @ e"
| "state_error_to_string StateLockPoisoned = ''lock poisoned''"
| "state_error_to_string StatePanic = ''panic''"

text \<open>\<open>map_err(|e| refuse(e.to_string()))\<close> for an operation that may have panicked instead.\<close>

definition unless_panic :: "'e \<Rightarrow> (string \<Rightarrow> 'e) \<Rightarrow> state_error \<Rightarrow> 'e" where
  "unless_panic panic refuse e = (if e = StatePanic then panic else refuse (state_error_to_string e))"

record pre_auth_entry =
  pe_tx_code :: "string option"
  pe_configuration_ids :: "string list"
  pe_consumed :: bool

record nonce_entry =
  ne_created_at :: instant
  ne_expires_in :: nat

record token_entry =
  te_grant :: access_grant
  te_expires_at :: instant

record issuer_state = env +
  is_sessions :: "(string \<rightharpoonup> authorization_session) mutex"
  is_code_to_uri :: "(string \<rightharpoonup> string) mutex"
  is_pre_auth_codes :: "(string \<rightharpoonup> pre_auth_entry) mutex"
  is_access_tokens :: "(string \<rightharpoonup> token_entry) mutex"
  is_tokens_by_code :: "(string \<rightharpoonup> string) mutex"
  is_seen_jtis :: "(string \<rightharpoonup> instant) mutex"
  is_c_nonces :: "(string \<rightharpoonup> nonce_entry) mutex"

text \<open>\<open>InMemoryIssuerState::new\<close> in an environment.\<close>

definition issuer_state_new :: "env \<Rightarrow> issuer_state" where
  "issuer_state_new e = env.extend e
     (issuer_state.fields (Unlocked Map.empty) (Unlocked Map.empty) (Unlocked Map.empty)
       (Unlocked Map.empty) (Unlocked Map.empty) (Unlocked Map.empty) (Unlocked Map.empty))"

type_synonym ('x, 'a) state_prog = "('x issuer_state_scheme, state_error, 'a) prog"

section \<open>Operations\<close>

definition store_authorization_session :: "string \<Rightarrow> authorization_session \<Rightarrow> ('x, unit) state_prog" where
  "store_authorization_session request_uri session =
     with_lock StateLockPoisoned is_sessions (\<lambda>sessions s.
       (Inr (), s\<lparr>is_sessions := Unlocked (sessions(request_uri \<mapsto> session))\<rparr>))"

definition get_authorization_session :: "string \<Rightarrow> ('x, authorization_session option) state_prog" where
  "get_authorization_session request_uri =
     with_lock StateLockPoisoned is_sessions (\<lambda>sessions. ret (sessions request_uri))"

text \<open>The session is written before the second lock is taken.\<close>

definition set_authorization_code :: "string \<Rightarrow> string \<Rightarrow> ('x, unit) state_prog" where
  "set_authorization_code request_uri code =
     with_lock StateLockPoisoned is_sessions (\<lambda>sessions.
       case sessions request_uri of
         None \<Rightarrow> liftR (Inl (StateNotFound request_uri))
       | Some session \<Rightarrow>
           bindP utc_now (\<lambda>now.
           bindP (\<lambda>s. (Inr (), s\<lparr>is_sessions := Unlocked (sessions(request_uri \<mapsto>
                    session\<lparr>sn_authorization_code := Some code, sn_code_issued_at := Some now\<rparr>))\<rparr>)) (\<lambda>_.
           with_lock StateLockPoisoned is_code_to_uri (\<lambda>code_map s.
             (Inr (), s\<lparr>is_code_to_uri := Unlocked (code_map(code \<mapsto> request_uri))\<rparr>)))))"

definition get_session_by_code :: "string \<Rightarrow> ('x, authorization_session option) state_prog" where
  "get_session_by_code code =
     with_lock StateLockPoisoned is_code_to_uri (\<lambda>code_map.
       case code_map code of
         Some uri \<Rightarrow> with_lock StateLockPoisoned is_sessions (\<lambda>sessions. ret (sessions uri))
       | None \<Rightarrow> ret None)"

definition consume_authorization_code :: "string \<Rightarrow> ('x, unit) state_prog" where
  "consume_authorization_code code =
     with_lock StateLockPoisoned is_code_to_uri (\<lambda>code_map.
       case code_map code of
         Some uri \<Rightarrow>
           with_lock StateLockPoisoned is_sessions (\<lambda>sessions.
             case sessions uri of
               Some session \<Rightarrow>
                 (\<lambda>s. (Inr (), s\<lparr>is_sessions := Unlocked (sessions(uri \<mapsto> session\<lparr>sn_consumed := True\<rparr>))\<rparr>))
             | None \<Rightarrow> ret ())
       | None \<Rightarrow> ret ())"

definition record_token_for_code :: "string \<Rightarrow> string \<Rightarrow> ('x, unit) state_prog" where
  "record_token_for_code code access_token =
     with_lock StateLockPoisoned is_tokens_by_code (\<lambda>tokens s.
       (Inr (), s\<lparr>is_tokens_by_code := Unlocked (tokens(code \<mapsto> access_token))\<rparr>))"

definition revoke_tokens_for_code :: "string \<Rightarrow> ('x, unit) state_prog" where
  "revoke_tokens_for_code code =
     bindP (with_lock StateLockPoisoned is_tokens_by_code (\<lambda>tokens s.
       (Inr (tokens code), s\<lparr>is_tokens_by_code := Unlocked (tokens(code := None))\<rparr>))) (\<lambda>token.
     case token of
       Some t \<Rightarrow> with_lock StateLockPoisoned is_access_tokens (\<lambda>access_tokens s.
         (Inr (), s\<lparr>is_access_tokens := Unlocked (access_tokens(t := None))\<rparr>))
     | None \<Rightarrow> ret ())"

definition record_jti :: "string \<Rightarrow> nat \<Rightarrow> ('x, bool) state_prog" where
  "record_jti key ttl =
     with_lock StateLockPoisoned is_seen_jtis (\<lambda>seen.
     bindP utc_now (\<lambda>now s.
       let seen = (\<lambda>k. case seen k of Some e \<Rightarrow> if now < e then Some e else None | None \<Rightarrow> None)
       in if seen key \<noteq> None then (Inr False, s\<lparr>is_seen_jtis := Unlocked seen\<rparr>)
          else (case expiry now ttl of
                  None \<Rightarrow> (Inl StatePanic, s\<lparr>is_seen_jtis := Poisoned\<rparr>)
                | Some e \<Rightarrow> (Inr True, s\<lparr>is_seen_jtis := Unlocked (seen(key \<mapsto> e))\<rparr>))))"

definition store_pre_authorized_code :: "string \<Rightarrow> string option \<Rightarrow> string list \<Rightarrow> ('x, unit) state_prog" where
  "store_pre_authorized_code code tx ids =
     with_lock StateLockPoisoned is_pre_auth_codes (\<lambda>codes s.
       (Inr (), s\<lparr>is_pre_auth_codes := Unlocked (codes(code \<mapsto>
          \<lparr> pe_tx_code = tx, pe_configuration_ids = ids, pe_consumed = False \<rparr>))\<rparr>))"

definition redeem_pre_authorized_code :: "string \<Rightarrow> string option \<Rightarrow> ('x, string list option) state_prog" where
  "redeem_pre_authorized_code code tx =
     with_lock StateLockPoisoned is_pre_auth_codes (\<lambda>codes.
       case codes code of
         None \<Rightarrow> ret None
       | Some entry \<Rightarrow>
           if pe_consumed entry \<or> pe_tx_code entry \<noteq> tx then ret None
           else (\<lambda>s. (Inr (Some (pe_configuration_ids entry)),
                   s\<lparr>is_pre_auth_codes := Unlocked (codes(code \<mapsto> entry\<lparr>pe_consumed := True\<rparr>))\<rparr>)))"

definition store_access_token :: "string \<Rightarrow> access_grant \<Rightarrow> nat \<Rightarrow> ('x, unit) state_prog" where
  "store_access_token token grant expires_in =
     with_lock StateLockPoisoned is_access_tokens (\<lambda>tokens.
     bindP utc_now (\<lambda>now s.
       case expiry now expires_in of
         None \<Rightarrow> (Inl StatePanic, s\<lparr>is_access_tokens := Poisoned\<rparr>)
       | Some e \<Rightarrow>
           (Inr (), s\<lparr>is_access_tokens := Unlocked (tokens(token \<mapsto>
              \<lparr> te_grant = grant, te_expires_at = e \<rparr>))\<rparr>)))"

definition get_access_grant :: "string \<Rightarrow> ('x, access_grant option) state_prog" where
  "get_access_grant token =
     with_lock StateLockPoisoned is_access_tokens (\<lambda>tokens.
       case tokens token of
         Some entry \<Rightarrow>
           bindP utc_now (\<lambda>now s.
             if now < te_expires_at entry then (Inr (Some (te_grant entry)), s)
             else (Inr None, s\<lparr>is_access_tokens := Unlocked (tokens(token := None))\<rparr>))
       | None \<Rightarrow> ret None)"

definition store_c_nonce :: "string \<Rightarrow> nat \<Rightarrow> ('x, unit) state_prog" where
  "store_c_nonce nonce expires_in =
     with_lock StateLockPoisoned is_c_nonces (\<lambda>nonces.
     bindP utc_now (\<lambda>now s.
       (Inr (), s\<lparr>is_c_nonces := Unlocked (nonces(nonce \<mapsto>
          \<lparr> ne_created_at = now, ne_expires_in = expires_in \<rparr>))\<rparr>)))"

definition consume_c_nonce :: "string \<Rightarrow> ('x, bool) state_prog" where
  "consume_c_nonce nonce =
     with_lock StateLockPoisoned is_c_nonces (\<lambda>nonces.
       case nonces nonce of
         Some entry \<Rightarrow>
           bindP (\<lambda>s. (Inr (), s\<lparr>is_c_nonces := Unlocked (nonces(nonce := None))\<rparr>)) (\<lambda>_.
           bindP utc_now (\<lambda>now.
           ret (as_u64 (num_seconds (now - ne_created_at entry)) \<le> ne_expires_in entry)))
       | None \<Rightarrow> ret False)"

lemmas state_ops = store_authorization_session_def get_authorization_session_def
  set_authorization_code_def get_session_by_code_def consume_authorization_code_def
  record_token_for_code_def revoke_tokens_for_code_def record_jti_def
  store_pre_authorized_code_def redeem_pre_authorized_code_def store_access_token_def
  get_access_grant_def store_c_nonce_def consume_c_nonce_def

section \<open>The store as a machine\<close>

text \<open>One constructor per operation of the trait, and the replies they give.\<close>

datatype state_op =
    StoreSession string authorization_session
  | GetSession string
  | SetCode string string
  | GetSessionByCode string
  | ConsumeCode string
  | RecordToken string string
  | RevokeTokens string
  | RecordJti string nat
  | StorePreAuth string "string option" "string list"
  | RedeemPreAuth string "string option"
  | StoreToken string access_grant nat
  | GetGrant string
  | StoreNonce string nat
  | ConsumeNonce string

datatype state_reply =
    Failed state_error
  | Done
  | Session "authorization_session option"
  | Answer bool
  | Ids "string list option"
  | Grant "access_grant option"

definition reply :: "('a \<Rightarrow> state_reply) \<Rightarrow> ('x, 'a) state_prog \<Rightarrow> 'x issuer_state_scheme \<Rightarrow> state_reply \<times> 'x issuer_state_scheme" where
  "reply f m s = (case m s of (Inl e, s') \<Rightarrow> (Failed e, s') | (Inr x, s') \<Rightarrow> (f x, s'))"

fun state_step :: "state_op \<Rightarrow> 'x issuer_state_scheme \<Rightarrow> state_reply \<times> 'x issuer_state_scheme" where
  "state_step (StoreSession u ses) = reply (\<lambda>_. Done) (store_authorization_session u ses)"
| "state_step (GetSession u) = reply Session (get_authorization_session u)"
| "state_step (SetCode u c) = reply (\<lambda>_. Done) (set_authorization_code u c)"
| "state_step (GetSessionByCode c) = reply Session (get_session_by_code c)"
| "state_step (ConsumeCode c) = reply (\<lambda>_. Done) (consume_authorization_code c)"
| "state_step (RecordToken c t) = reply (\<lambda>_. Done) (record_token_for_code c t)"
| "state_step (RevokeTokens c) = reply (\<lambda>_. Done) (revoke_tokens_for_code c)"
| "state_step (RecordJti k ttl) = reply Answer (record_jti k ttl)"
| "state_step (StorePreAuth c tx ids) = reply (\<lambda>_. Done) (store_pre_authorized_code c tx ids)"
| "state_step (RedeemPreAuth c tx) = reply Ids (redeem_pre_authorized_code c tx)"
| "state_step (StoreToken t g n) = reply (\<lambda>_. Done) (store_access_token t g n)"
| "state_step (GetGrant t) = reply Grant (get_access_grant t)"
| "state_step (StoreNonce n ttl) = reply (\<lambda>_. Done) (store_c_nonce n ttl)"
| "state_step (ConsumeNonce n) = reply Answer (consume_c_nonce n)"

text \<open>The fields each operation leaves alone.\<close>

lemma reply_eq:
  "reply f m s = (r, s') \<longleftrightarrow>
     (\<exists>e. m s = (Inl e, s') \<and> r = Failed e) \<or> (\<exists>x. m s = (Inr x, s') \<and> r = f x)"
  by (auto simp: reply_def split: prod.splits sum.splits)

lemmas state_unfold = state_ops reply_def with_lock_def bindP_def ret_def liftR_def utc_now_def Let_def

lemma step_nonces:
  "state_step a s = (r, s') \<Longrightarrow> (\<forall>n ttl. a \<noteq> StoreNonce n ttl) \<Longrightarrow> (\<forall>n. a \<noteq> ConsumeNonce n) \<Longrightarrow>
     is_c_nonces s' = is_c_nonces s"
  by (cases a) (auto simp: state_unfold split: mutex.splits option.splits if_splits)

lemma step_pre_auth:
  "state_step a s = (r, s') \<Longrightarrow> (\<forall>c tx ids. a \<noteq> StorePreAuth c tx ids) \<Longrightarrow> (\<forall>c tx. a \<noteq> RedeemPreAuth c tx) \<Longrightarrow>
     is_pre_auth_codes s' = is_pre_auth_codes s"
  by (cases a) (auto simp: state_unfold split: mutex.splits option.splits if_splits)

lemma step_tokens:
  "state_step a s = (r, s') \<Longrightarrow> (\<forall>t g n. a \<noteq> StoreToken t g n) \<Longrightarrow> (\<forall>t. a \<noteq> GetGrant t) \<Longrightarrow>
     (\<forall>c. a \<noteq> RevokeTokens c) \<Longrightarrow> is_access_tokens s' = is_access_tokens s"
  by (cases a) (auto simp: state_unfold split: mutex.splits option.splits if_splits)

lemma step_jtis:
  "state_step a s = (r, s') \<Longrightarrow> (\<forall>k ttl. a \<noteq> RecordJti k ttl) \<Longrightarrow> is_seen_jtis s' = is_seen_jtis s"
  by (cases a) (auto simp: state_unfold split: mutex.splits option.splits if_splits)

lemma step_clock:
  "state_step a s = (r, s') \<Longrightarrow> clock_at s' = clock_at s \<and> clock_reads s \<le> clock_reads s'"
  by (cases a) (auto simp: state_unfold split: mutex.splits option.splits if_splits)

lemma run_clock:
  assumes "run_ops state_step as s = (tr, t)"
  shows "clock_at t = clock_at s \<and> clock_reads s \<le> clock_reads t"
  using assms by (induction as arbitrary: s tr) (fastforce simp: run_ops_Cons dest: step_clock)+

section \<open>Nonces and pre-authorized codes are single use\<close>

definition nonce_live :: "'x issuer_state_scheme \<Rightarrow> string \<Rightarrow> bool" where
  "nonce_live s n = (case is_c_nonces s of Unlocked m \<Rightarrow> m n \<noteq> None | Poisoned \<Rightarrow> False)"

definition nonce_stored :: "string \<Rightarrow> state_op \<times> state_reply \<Rightarrow> bool" where
  "nonce_stored n x = (case fst x of StoreNonce n' ttl \<Rightarrow> n' = n | _ \<Rightarrow> False)"

definition nonce_accepted :: "string \<Rightarrow> state_op \<times> state_reply \<Rightarrow> bool" where
  "nonce_accepted n x \<longleftrightarrow> x = (ConsumeNonce n, Answer True)"

definition code_live :: "'x issuer_state_scheme \<Rightarrow> string \<Rightarrow> bool" where
  "code_live s c = (case is_pre_auth_codes s of
     Unlocked m \<Rightarrow> (case m c of Some e \<Rightarrow> \<not> pe_consumed e | None \<Rightarrow> False) | Poisoned \<Rightarrow> False)"

definition code_stored :: "string \<Rightarrow> state_op \<times> state_reply \<Rightarrow> bool" where
  "code_stored c x = (case fst x of StorePreAuth c' tx ids \<Rightarrow> c' = c | _ \<Rightarrow> False)"

definition code_redeemed :: "string \<Rightarrow> state_op \<times> state_reply \<Rightarrow> bool" where
  "code_redeemed c x \<longleftrightarrow> (\<exists>tx ids. x = (RedeemPreAuth c tx, Ids (Some ids)))"

lemma consume_nonce_step:
  "state_step (ConsumeNonce n) s = (r, s') \<Longrightarrow>
     \<not> nonce_live s' n \<and> (r = Answer True \<longrightarrow> nonce_live s n) \<and> (\<forall>m. nonce_live s' m \<longrightarrow> nonce_live s m)"
  by (auto simp: state_unfold nonce_live_def split: mutex.splits option.splits if_splits)

lemma redeem_step:
  "state_step (RedeemPreAuth c tx) s = (r, s') \<Longrightarrow>
     (\<forall>ids. r = Ids (Some ids) \<longrightarrow> code_live s c \<and> \<not> code_live s' c) \<and>
     (\<forall>d. code_live s' d \<longrightarrow> code_live s d)"
  by (auto simp: state_unfold code_live_def split: mutex.splits option.splits if_splits)

interpretation nonce: single_use state_step nonce_stored nonce_accepted nonce_live
proof (unfold_locales, goal_cases)
  case (1 a s r s' k)
  then show ?case using consume_nonce_step [of k s r s'] by (auto simp: nonce_accepted_def)
next
  case (2 a s r s' k)
  then show ?case using consume_nonce_step [of k s r s'] by (auto simp: nonce_accepted_def)
next
  case (3 a s r s' k)
  show ?case
  proof (cases "(\<exists>n. a = ConsumeNonce n) \<or> (\<exists>n ttl. a = StoreNonce n ttl)")
    case True
    with 3 show ?thesis
      by (auto simp: nonce_stored_def state_unfold nonce_live_def
          split: mutex.splits option.splits if_splits)
  next
    case False
    with step_nonces [OF 3(1)] 3 show ?thesis by (simp add: nonce_live_def)
  qed
qed

interpretation pre_auth: single_use state_step code_stored code_redeemed code_live
proof (unfold_locales, goal_cases)
  case (1 a s r s' k)
  then show ?case using redeem_step [of k _ s r s'] by (auto simp: code_redeemed_def)
next
  case (2 a s r s' k)
  then show ?case using redeem_step [of k _ s r s'] by (auto simp: code_redeemed_def)
next
  case (3 a s r s' k)
  show ?case
  proof (cases "(\<exists>c tx. a = RedeemPreAuth c tx) \<or> (\<exists>c tx ids. a = StorePreAuth c tx ids)")
    case True
    with 3 show ?thesis
      by (auto simp: code_stored_def state_unfold code_live_def
          split: mutex.splits option.splits if_splits)
  next
    case False
    with step_pre_auth [OF 3(1)] 3 show ?thesis by (simp add: code_live_def)
  qed
qed

text \<open>
  In every sequence of store operations from a fresh store, however the clock moves, a
  \<open>c_nonce\<close> is accepted at most as often as it was stored: one issued nonce backs one proof.
\<close>

lemma nonce_single_use:
  "count_ops (nonce_accepted n) (fst (run_ops state_step as (issuer_state_new e))) \<le>
   count_ops (nonce_stored n) (fst (run_ops state_step as (issuer_state_new e)))"
proof -
  have "\<not> nonce_live (issuer_state_new e) n"
    by (simp add: nonce_live_def issuer_state_new_def env.defs issuer_state.defs)
  moreover have "run_ops state_step as (issuer_state_new e) =
      (fst (run_ops state_step as (issuer_state_new e)), snd (run_ops state_step as (issuer_state_new e)))"
    by simp
  ultimately show ?thesis using nonce.hits_bounded [of as "issuer_state_new e" _ _ n] by fastforce
qed

text \<open>The instant and window of an accepted nonce, in whole seconds counted from its storage.\<close>

lemma as_u64_num_seconds:
  assumes "as_u64 (num_seconds d) \<le> ttl" and "ttl < 9223372036854775808"
    and "\<bar>d\<bar> < 9223372036854775808 * second"
  shows "- second < d \<and> d < (int ttl + 1) * second"
proof (cases "0 \<le> d")
  case True
  have "d div second < 9223372036854775808"
    using assms(3) True by (simp add: second_def)
  then have "as_u64 (num_seconds d) = nat (d div second)"
    using True by (simp add: as_u64_def num_seconds_def trunc_div_nonneg second_def pos_imp_zdiv_nonneg_iff)
  with assms(1) have "d div second \<le> int ttl" by simp
  then have "d < (int ttl + 1) * second" by (intro div_le_imp_less) (simp_all add: second_def)
  with True show ?thesis by (simp add: second_def)
next
  case False
  show ?thesis
  proof (cases "- second < d")
    case True
    with False show ?thesis by (simp add: second_def)
  next
    case big: False
    define q where "q = - d div second"
    have q: "0 < q" "q < 9223372036854775808"
      using big False assms(3) by (simp_all add: q_def second_def pos_imp_zdiv_pos_iff div_less_iff_less_mult)
    have "num_seconds d = - q" using False by (simp add: num_seconds_def trunc_div_def q_def second_def)
    then have "as_u64 (num_seconds d) = nat (18446744073709551616 - q)"
      using q by (simp add: as_u64_def zmod_zminus1_eq_if)
    with assms(1,2) q show ?thesis by simp
  qed
qed

text \<open>
  An accepted nonce was in the store, and the clock is then less than \<open>expires_in + 1\<close>
  seconds after its storage; a clock that was set back by a second or more makes the unsigned
  difference huge and the nonce is refused.
\<close>

theorem nonce_window:
  assumes "consume_c_nonce n s = (Inr True, s')" and "is_c_nonces s = Unlocked m" and "m n = Some e"
    and "ne_expires_in e < 9223372036854775808"
    and "\<bar>clock_at s (clock_reads s) - ne_created_at e\<bar> < 9223372036854775808 * second"
  shows "- second < clock_at s (clock_reads s) - ne_created_at e \<and>
     clock_at s (clock_reads s) - ne_created_at e < (int (ne_expires_in e) + 1) * second"
proof (rule as_u64_num_seconds [OF _ assms(4,5)])
  show "as_u64 (num_seconds (clock_at s (clock_reads s) - ne_created_at e)) \<le> ne_expires_in e"
    using assms(1-3) by (simp add: state_unfold)
qed

section \<open>A concrete store\<close>

definition sample_store :: issuer_state where
  "sample_store = issuer_state_new sample_env"

lemma sample_store_fields [simp]:
  "is_sessions sample_store = Unlocked Map.empty" "is_code_to_uri sample_store = Unlocked Map.empty"
  "is_pre_auth_codes sample_store = Unlocked Map.empty" "is_access_tokens sample_store = Unlocked Map.empty"
  "is_tokens_by_code sample_store = Unlocked Map.empty" "is_seen_jtis sample_store = Unlocked Map.empty"
  "is_c_nonces sample_store = Unlocked Map.empty" "clock_at sample_store = (\<lambda>n. 0)"
  "uuid_at sample_store = show_nat" "uuids_used sample_store = 0"
  by (simp_all add: sample_store_def issuer_state_new_def env.defs issuer_state.defs sample_env_def)

theorem nonce_window_witness:
  "\<exists>s s' m e. consume_c_nonce ''n'' (s :: issuer_state) = (Inr True, s') \<and> is_c_nonces s = Unlocked m \<and>
     m ''n'' = Some e \<and> clock_at s (clock_reads s) - ne_created_at e < (int (ne_expires_in e) + 1) * second"
proof -
  let ?e = "\<lparr> ne_created_at = 0, ne_expires_in = 60 \<rparr>"
  let ?s = "sample_store\<lparr>is_c_nonces := Unlocked [''n'' \<mapsto> ?e]\<rparr>"
  have "as_u64 (num_seconds 0) = 0" by (simp add: as_u64_def num_seconds_def trunc_div_def)
  then obtain s' where c: "consume_c_nonce ''n'' ?s = (Inr True, s')"
    by (simp add: state_unfold)
  from nonce_window [OF c, of "[''n'' \<mapsto> ?e]" ?e] c show ?thesis
    by (intro exI [of _ ?s] exI [of _ s'] exI [of _ "[''n'' \<mapsto> ?e]"] exI [of _ ?e]) (simp add: second_def)
qed

section \<open>Provenance of codes and tokens\<close>

definition codes_from :: "state_op set \<Rightarrow> 'x issuer_state_scheme \<Rightarrow> bool" where
  "codes_from A s \<longleftrightarrow> (\<forall>m c e. is_pre_auth_codes s = Unlocked m \<longrightarrow> m c = Some e \<longrightarrow>
     StorePreAuth c (pe_tx_code e) (pe_configuration_ids e) \<in> A)"

lemma codes_from_step:
  assumes "a \<in> A" and "state_step a s = (r, s')" and "codes_from A s"
  shows "codes_from A s' \<and> (\<forall>c tx ids. (a, r) = (RedeemPreAuth c tx, Ids (Some ids)) \<longrightarrow> StorePreAuth c tx ids \<in> A)"
proof (cases "(\<exists>c tx. a = RedeemPreAuth c tx) \<or> (\<exists>c tx ids. a = StorePreAuth c tx ids)")
  case True
  with assms show ?thesis
    by (auto simp: codes_from_def state_unfold split: mutex.splits option.splits if_splits)
next
  case False
  with step_pre_auth [OF assms(2)] assms(3) show ?thesis by (auto simp: codes_from_def)
qed

text \<open>
  C17. In every sequence of store operations from a fresh store a pre-authorized code is
  redeemed at most as often as it was offered, and only with the transaction code of an offer
  (none when the offer had none), for the configurations of that offer.
\<close>

theorem pre_authorized_code_once:
  assumes "run_ops state_step as (issuer_state_new e) = (tr, t)"
  shows "count_ops (code_redeemed c) tr \<le> count_ops (code_stored c) tr \<and>
    (\<forall>tx ids. (RedeemPreAuth c tx, Ids (Some ids)) \<in> set tr \<longrightarrow> StorePreAuth c tx ids \<in> set as)"
proof
  have "\<not> code_live (issuer_state_new e) c"
    by (simp add: code_live_def issuer_state_new_def env.defs issuer_state.defs)
  then show "count_ops (code_redeemed c) tr \<le> count_ops (code_stored c) tr"
    using pre_auth.hits_bounded [OF assms, of c] by simp
  have "codes_from (set as) (issuer_state_new e)"
    by (simp add: codes_from_def issuer_state_new_def env.defs issuer_state.defs)
  moreover have "codes_from (set as) s' \<and>
      (\<forall>c tx ids. (a, r) = (RedeemPreAuth c tx, Ids (Some ids)) \<longrightarrow> StorePreAuth c tx ids \<in> set as)"
    if "a \<in> set as" "state_step a s = (r, s')" "codes_from (set as) s" for a r and s s' :: issuer_state
    by (rule codes_from_step [OF that])
  ultimately have "\<forall>x\<in>set tr. \<forall>c tx ids. x = (RedeemPreAuth c tx, Ids (Some ids)) \<longrightarrow> StorePreAuth c tx ids \<in> set as"
    by (intro run_ops_safe [where I = "codes_from (set as)", OF _ assms])
  then show "\<forall>tx ids. (RedeemPreAuth c tx, Ids (Some ids)) \<in> set tr \<longrightarrow> StorePreAuth c tx ids \<in> set as"
    by blast
qed

theorem pre_authorized_code_once_witness:
  "\<exists>tr t. run_ops state_step [StorePreAuth ''c'' (Some ''1234'') [''pid''], RedeemPreAuth ''c'' None,
       RedeemPreAuth ''c'' (Some ''1234''), RedeemPreAuth ''c'' (Some ''1234'')] (issuer_state_new sample_env) = (tr, t) \<and>
     map snd tr = [Done, Ids None, Ids (Some [''pid'']), Ids None] \<and> count_ops (code_redeemed ''c'') tr \<le> 1"
proof -
  let ?as = "[StorePreAuth ''c'' (Some ''1234'') [''pid''], RedeemPreAuth ''c'' None,
       RedeemPreAuth ''c'' (Some ''1234''), RedeemPreAuth ''c'' (Some ''1234'')]"
  obtain tr t where r: "run_ops state_step ?as (issuer_state_new sample_env) = (tr, t)"
    and "tr = zip ?as [Done, Ids None, Ids (Some [''pid'']), Ids None]"
    unfolding sample_store_def [symmetric] by (simp add: run_ops.simps(2) state_unfold)
  with pre_authorized_code_once [OF r, of "''c''"] show ?thesis by (simp add: code_stored_def)
qed

section \<open>Access tokens\<close>

definition token_is :: "string \<Rightarrow> token_entry option \<Rightarrow> 'x issuer_state_scheme \<Rightarrow> bool" where
  "token_is t v s \<longleftrightarrow> (\<forall>m. is_access_tokens s = Unlocked m \<longrightarrow> m t = None \<or> m t = v)"

lemma token_is_step:
  assumes "\<forall>g n. a \<noteq> StoreToken t g n" and "state_step a s = (r, s')" and "token_is t v s"
  shows "token_is t v s' \<and> (\<forall>g. (a, r) = (GetGrant t, Grant (Some g)) \<longrightarrow>
     (\<exists>e. v = Some e \<and> g = te_grant e \<and> clock_at s (clock_reads s) < te_expires_at e))"
proof (cases "(\<exists>t'. a = GetGrant t') \<or> (\<exists>t' g n. a = StoreToken t' g n) \<or> (\<exists>c. a = RevokeTokens c)")
  case True
  with assms show ?thesis
    by (auto simp: token_is_def state_unfold split: mutex.splits option.splits if_splits)
next
  case False
  with step_tokens [OF assms(2)] assms(3) show ?thesis by (auto simp: token_is_def)
qed

text \<open>
  Once the token minted from a code is revoked, no later request in any sequence of
  operations gets a grant for it, unless a token with the same text is stored again.
\<close>

theorem revoked_token_stays_revoked:
  assumes "revoke_tokens_for_code code s = (Inr (), s')"
    and "is_tokens_by_code s = Unlocked m" and "m code = Some t"
    and "run_ops state_step as s' = (tr, u)" and "\<forall>g n. StoreToken t g n \<notin> set as"
  shows "(GetGrant t, Grant (Some g)) \<notin> set tr"
proof -
  have "token_is t None s'"
    using assms(1-3) by (auto simp: token_is_def state_unfold split: mutex.splits)
  moreover have "token_is t None s2 \<and> (a, r) \<noteq> (GetGrant t, Grant (Some g))"
    if "a \<in> set as" "state_step a s1 = (r, s2)" "token_is t None s1" for a r and s1 s2 :: "'a issuer_state_scheme"
    using token_is_step [OF _ that(2,3)] that(1) assms(5) by blast
  ultimately have "\<forall>x\<in>set tr. x \<noteq> (GetGrant t, Grant (Some g))"
    using run_ops_safe [where I = "token_is t None" and P = "\<lambda>x. x \<noteq> (GetGrant t, Grant (Some g))",
        OF _ assms(4)] by blast
  then show ?thesis by blast
qed

definition sample_access_grant :: access_grant where
  "sample_access_grant = \<lparr> gt_configuration_ids = [''pid''], gt_identifiers = Map.empty, gt_dpop_jkt = None \<rparr>"

theorem revoked_token_stays_revoked_witness:
  "\<exists>s s' m tr u. revoke_tokens_for_code ''code'' (s :: issuer_state) = (Inr (), s') \<and>
     is_access_tokens s = Unlocked m \<and> m ''t'' \<noteq> None \<and>
     run_ops state_step [GetGrant ''t''] s' = (tr, u) \<and> (GetGrant ''t'', Grant (Some sample_access_grant)) \<notin> set tr"
proof -
  let ?m = "[''t'' \<mapsto> \<lparr> te_grant = sample_access_grant, te_expires_at = 1000 \<rparr>]"
  let ?s = "sample_store\<lparr>is_tokens_by_code := Unlocked [''code'' \<mapsto> ''t''], is_access_tokens := Unlocked ?m\<rparr>"
  obtain s' where r: "revoke_tokens_for_code ''code'' ?s = (Inr (), s')"
    by (simp add: state_unfold)
  obtain tr u where run: "run_ops state_step [GetGrant ''t''] s' = (tr, u)" by fastforce
  have "is_tokens_by_code ?s = Unlocked [''code'' \<mapsto> ''t'']" by simp
  from revoked_token_stays_revoked [OF r this _ run, of "''t''" sample_access_grant]
  have "(GetGrant ''t'', Grant (Some sample_access_grant)) \<notin> set tr" by simp
  moreover have "is_access_tokens ?s = Unlocked ?m" "?m ''t'' \<noteq> None" by simp_all
  ultimately show ?thesis using r run by blast
qed

lemma token_expired_step:
  assumes "\<forall>g n. a \<noteq> StoreToken t g n" and "state_step a s = (r, s')"
    and "token_is t (Some e) s \<and> (\<forall>i. clock_reads s0 \<le> i \<longrightarrow> te_expires_at e \<le> clock_at s0 i) \<and>
       clock_at s = clock_at s0 \<and> clock_reads s0 \<le> clock_reads s"
  shows "(token_is t (Some e) s' \<and> (\<forall>i. clock_reads s0 \<le> i \<longrightarrow> te_expires_at e \<le> clock_at s0 i) \<and>
       clock_at s' = clock_at s0 \<and> clock_reads s0 \<le> clock_reads s') \<and>
     (\<forall>g. (a, r) \<noteq> (GetGrant t, Grant (Some g)))"
proof -
  have c: "clock_at s' = clock_at s" "clock_reads s \<le> clock_reads s'" using step_clock [OF assms(2)] by simp_all
  have "te_expires_at e \<le> clock_at s (clock_reads s)" using assms(3) by auto
  with token_is_step [OF assms(1,2), of "Some e"] assms(3) c show ?thesis by auto
qed

text \<open>
  A stored token stands for the grant it was stored with, and for no more than its
  lifetime: after storing it for \<open>ttl\<close> seconds, every grant that any sequence of operations
  without another store returns for it is that grant, and once the clock has passed the
  lifetime none is returned.
\<close>

theorem token_lifetime:
  assumes "store_access_token t g ttl s = (Inr (), s')" and "ttl < 9223372036854775808"
    and "run_ops state_step as s' = (tr, u)" and "\<forall>g n. StoreToken t g n \<notin> set as"
  shows "(\<forall>g'. (GetGrant t, Grant (Some g')) \<in> set tr \<longrightarrow> g' = g) \<and>
     ((\<forall>i\<ge>clock_reads s'. clock_at s (clock_reads s) + int ttl * second \<le> clock_at s i) \<longrightarrow>
        (\<forall>g'. (GetGrant t, Grant (Some g')) \<notin> set tr))"
proof -
  obtain x where x: "expiry (clock_at s (clock_reads s)) ttl = Some x"
    and t: "token_is t (Some \<lparr> te_grant = g, te_expires_at = x \<rparr>) s'" and c: "clock_at s' = clock_at s"
    using assms(1) by (auto simp: state_unfold token_is_def split: mutex.splits option.splits)
  define e where "e = \<lparr> te_grant = g, te_expires_at = x \<rparr>"
  have e: "expiry (clock_at s (clock_reads s)) ttl = Some (te_expires_at e)" and g: "te_grant e = g"
    and t: "token_is t (Some e) s'"
    using x t by (simp_all add: e_def)
  have exp: "te_expires_at e = clock_at s (clock_reads s) + int ttl * second"
    using expiry_Some [OF e assms(2)] .
  have "token_is t (Some e) s2 \<and> (\<forall>g'. (a, r) = (GetGrant t, Grant (Some g')) \<longrightarrow> g' = g)"
    if "a \<in> set as" "state_step a s1 = (r, s2)" "token_is t (Some e) s1" for a r and s1 s2 :: "'a issuer_state_scheme"
    using token_is_step [OF _ that(2,3)] that(1) assms(4) g by fastforce
  then have "\<forall>x\<in>set tr. \<forall>g'. x = (GetGrant t, Grant (Some g')) \<longrightarrow> g' = g"
    using t by (intro run_ops_safe [where I = "token_is t (Some e)", OF _ assms(3)])
  moreover
  let ?I = "\<lambda>s1. token_is t (Some e) s1 \<and> (\<forall>i. clock_reads s' \<le> i \<longrightarrow> te_expires_at e \<le> clock_at s' i) \<and>
       clock_at s1 = clock_at s' \<and> clock_reads s' \<le> clock_reads s1"
  have step: "?I s2 \<and> (\<forall>g'. (a, r) \<noteq> (GetGrant t, Grant (Some g')))"
    if "a \<in> set as" "state_step a s1 = (r, s2)" "?I s1" for a r s1 s2
    using token_expired_step [OF _ that(2,3)] that(1) assms(4) by blast
  have "\<forall>x\<in>set tr. \<forall>g'. x \<noteq> (GetGrant t, Grant (Some g'))"
    if "\<forall>i\<ge>clock_reads s'. clock_at s (clock_reads s) + int ttl * second \<le> clock_at s i"
  proof -
    have "?I s'" using t that exp c by simp
    with step show ?thesis by (intro run_ops_safe [where I = ?I, OF _ assms(3)])
  qed
  ultimately show ?thesis by blast
qed

theorem token_lifetime_witness:
  "\<exists>s' tr u. store_access_token ''t'' sample_access_grant 3600 sample_store = (Inr (), s') \<and>
     run_ops state_step [GetGrant ''t''] s' = (tr, u) \<and> tr = [(GetGrant ''t'', Grant (Some sample_access_grant))] \<and>
     (\<forall>g'. (GetGrant ''t'', Grant (Some g')) \<in> set tr \<longrightarrow> g' = sample_access_grant)"
proof -
  have x: "expiry 0 3600 = Some (3600 * second)"
    by (simp add: expiry_def duration_seconds_def date_plus_def second_def wrap_i64_id in_i64_def)
  then obtain s' where s: "store_access_token ''t'' sample_access_grant 3600 sample_store = (Inr (), s')"
    and t: "is_access_tokens s' = Unlocked [''t'' \<mapsto> \<lparr> te_grant = sample_access_grant, te_expires_at = 3600 * second \<rparr>]"
    and c: "clock_at s' = (\<lambda>n. 0)"
    by (simp add: state_unfold)
  obtain tr u where run: "run_ops state_step [GetGrant ''t''] s' = (tr, u)"
    and "tr = [(GetGrant ''t'', Grant (Some sample_access_grant))]"
    using t c by (simp add: run_ops.simps(2) state_unfold second_def)
  with token_lifetime [OF s _ run] s show ?thesis by simp
qed

section \<open>Replay protection\<close>

definition jti_recorded :: "string \<Rightarrow> instant \<Rightarrow> 'x issuer_state_scheme \<Rightarrow> bool" where
  "jti_recorded k e s \<longleftrightarrow> (\<forall>m. is_seen_jtis s = Unlocked m \<longrightarrow> m k = Some e)"

lemma jti_recorded_step:
  assumes "state_step a s = (r, s')" and "jti_recorded k e s" and "clock_reads s < clock_reads s' \<longrightarrow> clock_at s (clock_reads s) < e"
  shows "jti_recorded k e s' \<and> (\<forall>ttl. (a, r) \<noteq> (RecordJti k ttl, Answer True))"
proof (cases "\<exists>k' ttl. a = RecordJti k' ttl")
  case True
  with assms show ?thesis
    by (auto simp: jti_recorded_def state_unfold split: mutex.splits option.splits if_splits)
next
  case False
  with step_jtis [OF assms(1)] assms(2) show ?thesis by (auto simp: jti_recorded_def)
qed

lemma jti_recorded_run:
  assumes "run_ops state_step as s = (tr, t)" and "jti_recorded k e s"
    and "\<forall>i. clock_reads s \<le> i \<and> i < clock_reads t \<longrightarrow> clock_at s i < e"
  shows "jti_recorded k e t \<and> (\<forall>ttl. (RecordJti k ttl, Answer True) \<notin> set tr)"
  using assms
proof (induction as arbitrary: s tr)
  case Nil
  then show ?case by simp
next
  case (Cons a as)
  then obtain r s' tr' where st: "state_step a s = (r, s')" and run: "run_ops state_step as s' = (tr', t)"
    and tr: "tr = (a, r) # tr'" by (auto simp: run_ops_Cons)
  note c = step_clock [OF st] run_clock [OF run]
  have "clock_reads s < clock_reads s' \<longrightarrow> clock_at s (clock_reads s) < e"
    using Cons.prems(3) c by auto
  from jti_recorded_step [OF st Cons.prems(2) this]
  have rec: "jti_recorded k e s'" and no: "\<forall>ttl. (a, r) \<noteq> (RecordJti k ttl, Answer True)" by simp_all
  have "\<forall>i. clock_reads s' \<le> i \<and> i < clock_reads t \<longrightarrow> clock_at s' i < e"
    using Cons.prems(3) c by auto
  from Cons.IH [OF run rec this] no tr show ?case by auto
qed

lemmas jti_recorded_end = jti_recorded_run [THEN conjunct1]

text \<open>
  After a one-time identifier is recorded for \<open>ttl\<close> seconds, no sequence of operations
  records it again as fresh while the clock reads less than that; entries of other
  identifiers that the sweep drops do not matter.
\<close>

theorem jti_replay_window:
  assumes "record_jti k ttl s = (Inr True, s')" and "ttl < 9223372036854775808"
    and "run_ops state_step as s' = (tr, t)"
    and "\<forall>i. clock_reads s' \<le> i \<and> i < clock_reads t \<longrightarrow>
           clock_at s i < clock_at s (clock_reads s) + int ttl * second"
  shows "(RecordJti k ttl', Answer True) \<notin> set tr"
proof -
  obtain e where e: "expiry (clock_at s (clock_reads s)) ttl = Some e" and r: "jti_recorded k e s'"
    and c: "clock_at s' = clock_at s"
    using assms(1) by (auto simp: state_unfold jti_recorded_def split: mutex.splits option.splits if_splits)
  have "\<forall>i. clock_reads s' \<le> i \<and> i < clock_reads t \<longrightarrow> clock_at s' i < e"
    using assms(4) expiry_Some [OF e assms(2)] c by simp
  from jti_recorded_run [OF assms(3) r this] show ?thesis by blast
qed

theorem jti_replay_window_witness:
  "\<exists>s' tr t. record_jti ''jti'' 300 sample_store = (Inr True, s') \<and>
     run_ops state_step [RecordJti ''jti'' 300] s' = (tr, t) \<and> (RecordJti ''jti'' 300, Answer True) \<notin> set tr"
proof -
  have "expiry 0 300 = Some (300 * second)"
    by (simp add: expiry_def duration_seconds_def date_plus_def second_def wrap_i64_id in_i64_def)
  then obtain s' where s: "record_jti ''jti'' 300 sample_store = (Inr True, s')"
    by (simp add: state_unfold)
  obtain tr t where run: "run_ops state_step [RecordJti ''jti'' 300] s' = (tr, t)" by fastforce
  have "\<forall>i. clock_reads s' \<le> i \<and> i < clock_reads t \<longrightarrow>
      clock_at sample_store i < clock_at sample_store (clock_reads sample_store) + int 300 * second"
    by (simp add: second_def)
  from jti_replay_window [OF s _ run this] s run show ?thesis by auto
qed

end
