(* ===== verification/Jws.thy ===== *)
theory Jws
  imports Keys
begin

text \<open>
  Jws: compact serialization of crates/crypto/src/jws.rs, signing, decoding and verification.
  A payload is given as the JSON value that serde writes. The round trip is proved once for
  every key pair that keeps the contract \<open>signer\<close> and then stated for both implementations.
\<close>

datatype jws_error =
    JwsSerialization string
  | JwsDeserialization string
  | JwsSigning string
  | JwsVerification string
  | JwsInvalidFormat string
  | JwsBase64Error string

fun jws_error_to_string :: "jws_error \<Rightarrow> string" where
  "jws_error_to_string (JwsSerialization e) = ''serialization error: '' @ e"
| "jws_error_to_string (JwsDeserialization e) = ''deserialization error: '' @ e"
| "jws_error_to_string (JwsSigning e) = ''signing error: '' @ e"
| "jws_error_to_string (JwsVerification e) = ''verification error: '' @ e"
| "jws_error_to_string (JwsInvalidFormat e) = ''invalid JWS format: '' @ e"
| "jws_error_to_string (JwsBase64Error e) = ''base64 decode error: '' @ e"

definition sign_compact :: "libs \<Rightarrow> key_pair \<Rightarrow> jws_header \<Rightarrow> json \<Rightarrow> jws_error + string" where
  "sign_compact L key header payload =
     (let header_b64 = b64url_encode L (header_print L header);
          payload_b64 = b64url_encode L (json_print L payload);
          signing_input = header_b64 @ ''.'' @ payload_b64
      in bindR (map_err (\<lambda>e. JwsSigning (key_error_to_string e)) (kp_sign key signing_input)) (\<lambda>signature.
         Inr (header_b64 @ ''.'' @ payload_b64 @ ''.'' @ b64url_encode L signature)))"

record decoded_jws =
  dj_header :: jws_header
  dj_payload :: bytes
  dj_signature :: bytes
  dj_signing_input :: string

definition decode_compact :: "libs \<Rightarrow> string \<Rightarrow> jws_error + decoded_jws" where
  "decode_compact L jws =
     (case splitn 3 (CHR ''.'') jws of
        [p0, p1, p2] \<Rightarrow>
          bindR (map_err JwsBase64Error (b64url_decode L p0)) (\<lambda>header_bytes.
          bindR (map_err JwsBase64Error (b64url_decode L p1)) (\<lambda>payload.
          bindR (map_err JwsBase64Error (b64url_decode L p2)) (\<lambda>signature.
          bindR (map_err JwsDeserialization (header_parse L header_bytes)) (\<lambda>header.
          Inr \<lparr> dj_header = header, dj_payload = payload, dj_signature = signature,
                dj_signing_input = p0 @ ''.'' @ p1 \<rparr>))))
      | _ \<Rightarrow> Inl (JwsInvalidFormat ''JWS must have exactly 3 dot-separated parts''))"

definition verify_compact :: "libs \<Rightarrow> string \<Rightarrow> key_pair \<Rightarrow> jws_error + decoded_jws" where
  "verify_compact L jws key =
     bindR (decode_compact L jws) (\<lambda>decoded.
     bindR (map_err (\<lambda>e. JwsVerification (key_error_to_string e))
              (kp_verify key (dj_signing_input decoded) (dj_signature decoded))) (\<lambda>_.
     Inr decoded))"

definition verify_with_public_jwk :: "libs \<Rightarrow> string \<Rightarrow> jwk \<Rightarrow> jws_error + decoded_jws" where
  "verify_with_public_jwk L jws k =
     bindR (decode_compact L jws) (\<lambda>decoded.
     bindR (map_err (\<lambda>e. JwsVerification (key_error_to_string e)) (algorithm_for_jwk k)) (\<lambda>expected.
     bindR (ensure (h_alg (dj_header decoded) = alg_as_str expected)
              (JwsVerification (''alg '' @ [CHR 0x27] @ h_alg (dj_header decoded) @ [CHR 0x27] @
                 '' does not match the key ('' @ alg_as_str expected @ '')''))) (\<lambda>_.
     bindR (map_err (\<lambda>e. JwsVerification (key_error_to_string e))
              (verify_with_jwk L k (dj_signing_input decoded) (dj_signature decoded))) (\<lambda>_.
     Inr decoded))))"

definition build_header :: "key_pair \<Rightarrow> string option \<Rightarrow> jws_header" where
  "build_header key typ =
     \<lparr> h_alg = alg_as_str (kp_algorithm key), h_typ = typ, h_kid = Some (kp_key_id key),
       h_jwk = None, h_x5c = None \<rparr>"

definition build_header_with_jwk :: "key_pair \<Rightarrow> string option \<Rightarrow> jws_header" where
  "build_header_with_jwk key typ =
     \<lparr> h_alg = alg_as_str (kp_algorithm key), h_typ = typ, h_kid = None,
       h_jwk = Some (kp_public_jwk key), h_x5c = None \<rparr>"

section \<open>Decoding\<close>

lemma splitn_3:
  "splitn 3 c s = [p0, p1, p2] \<Longrightarrow> s = p0 @ c # p1 @ c # p2 \<and> c \<notin> set p0 \<and> c \<notin> set p1"
  by (auto simp: eval_nat_numeral dest!: split_once_Some split: option.splits)

lemma splitn_3_join:
  "c \<notin> set p0 \<Longrightarrow> c \<notin> set p1 \<Longrightarrow> splitn 3 c (p0 @ c # p1 @ c # p2) = [p0, p1, p2]"
  by (simp add: eval_nat_numeral split_once_append)

lemma decode_compact_Inr:
  "decode_compact L jws = Inr d \<longleftrightarrow> (\<exists>p0 p1 p2 hb. splitn 3 (CHR ''.'') jws = [p0, p1, p2] \<and>
     b64url_decode L p0 = Inr hb \<and> header_parse L hb = Inr (dj_header d) \<and>
     b64url_decode L p1 = Inr (dj_payload d) \<and> b64url_decode L p2 = Inr (dj_signature d) \<and>
     dj_signing_input d = p0 @ ''.'' @ p1)"
  by (auto simp: decode_compact_def result_inv split: list.splits)

lemma decode_compact_text:
  assumes "decode_compact L jws = Inr d"
  shows "\<exists>sig. jws = dj_signing_input d @ ''.'' @ sig \<and> b64url_decode L sig = Inr (dj_signature d)"
  using assms by (auto simp: decode_compact_Inr dest!: splitn_3)

lemma decode_signed:
  assumes "b64url_law L" and "header_codec L h" and "sign_compact L key h v = Inr jws"
  shows "\<exists>s. kp_sign key (b64url_encode L (header_print L h) @ ''.'' @ b64url_encode L (json_print L v)) = Inr s \<and>
     decode_compact L jws = Inr \<lparr> dj_header = h, dj_payload = json_print L v, dj_signature = s,
       dj_signing_input = b64url_encode L (header_print L h) @ ''.'' @ b64url_encode L (json_print L v) \<rparr>"
proof -
  have free: "CHR ''.'' \<notin> set (b64url_encode L b)" for b
    by (rule b64url_encode_free [OF assms(1)]) simp
  obtain s where s: "kp_sign key (b64url_encode L (header_print L h) @ ''.'' @ b64url_encode L (json_print L v)) = Inr s"
    and jws: "jws = b64url_encode L (header_print L h) @ CHR ''.'' # b64url_encode L (json_print L v) @
      CHR ''.'' # b64url_encode L s"
    using assms(3) by (auto simp: sign_compact_def Let_def result_inv)
  show ?thesis
    using s assms(2)
    by (auto simp: jws decode_compact_def splitn_3_join free b64url_round [OF assms(1)] header_codec_def)
qed

section \<open>Verification\<close>

lemma verify_with_public_jwk_Inr [result_inv]:
  "verify_with_public_jwk L jws k = Inr d \<longleftrightarrow> decode_compact L jws = Inr d \<and>
     (\<exists>a. algorithm_for_jwk k = Inr a \<and> h_alg (dj_header d) = alg_as_str a) \<and>
     verify_with_jwk L k (dj_signing_input d) (dj_signature d) = Inr ()"
  by (auto simp: verify_with_public_jwk_def result_inv)

lemma alg_as_str_inj: "alg_as_str a = alg_as_str b \<longleftrightarrow> a = b"
  by (cases a; cases b) simp_all

context signer begin

lemma compact_round_trip:
  assumes "lawful L" and "b64url_law L" and "header_codec L h"
    and "h_alg h = alg_as_str (kp_algorithm (make L sk))"
    and "sign_compact L (make L sk) h v = Inr jws"
  shows "\<exists>d. verify_with_public_jwk L jws (kp_public_jwk (make L sk)) = Inr d \<and>
     verify_compact L jws (make L sk) = Inr d \<and> dj_header d = h \<and> dj_payload d = json_print L v"
  using decode_signed [OF assms(2,3,5)] assms(4) jwk_algorithm [of L sk]
    sign_verify [OF assms(1)] sign_jwk [OF assms(1)]
  by (auto simp: result_inv verify_compact_def)

end

text \<open>
  What a P-256 or Ed25519 key pair signs with its own algorithm in the header, both
  verification routines accept, under the key pair and under its public JWK, and they return
  the header and payload that were signed.
\<close>

theorem jws_round_trip:
  assumes "b64url_law L" and "p256_law L" and "ed25519_law L"
    and "header_codec L h" and "key = ec_make L sk \<or> key = ed_make L sk"
    and "h_alg h = alg_as_str (kp_algorithm key)" and "sign_compact L key h v = Inr jws"
  shows "\<exists>d. verify_with_public_jwk L jws (kp_public_jwk key) = Inr d \<and>
     verify_compact L jws key = Inr d \<and> dj_header d = h \<and> dj_payload d = json_print L v"
  using assms(5)
proof
  assume key: "key = ec_make L sk"
  have "es256_lawful L" using assms(1,2) by (simp add: es256_lawful_def)
  from es256.compact_round_trip [OF this assms(1,4)] assms(6,7) key show ?thesis by simp
next
  assume key: "key = ed_make L sk"
  have "eddsa_lawful L" using assms(1,3) by (simp add: eddsa_lawful_def)
  from eddsa.compact_round_trip [OF this assms(1,4)] assms(6,7) key show ?thesis by simp
qed

text \<open>The concrete functions of the witnesses: every header reads as the given one.\<close>

definition header_libs :: "jws_header \<Rightarrow> libs" where
  "header_libs h = hex_libs\<lparr>header_parse := (\<lambda>b. Inr h)\<rparr>"

lemma header_libs_laws:
  "b64url_law (header_libs h)" "p256_law (header_libs h)" "ed25519_law (header_libs h)"
  "header_codec (header_libs h) h"
  using hex_libs_laws by (simp_all add: header_libs_def library_laws header_codec_def)

text \<open>Functions that know several headers and values, by their place in a list, and one key.\<close>

definition place_in :: "'a list \<Rightarrow> 'a \<Rightarrow> nat" where
  "place_in xs x = length (takeWhile (\<lambda>y. y \<noteq> x) xs)"

lemma nth_place: "x \<in> set xs \<Longrightarrow> xs ! place_in xs x = x"
  unfolding place_in_def
  by (induction xs) auto

definition table_libs :: "jws_header list \<Rightarrow> json list \<Rightarrow> jwk \<Rightarrow> libs" where
  "table_libs hs vs k = hex_libs
     \<lparr> header_print := (\<lambda>h. replicate (Suc (place_in hs h)) (CHR ''h'')),
       header_parse := (\<lambda>b. Inr (hs ! (length b - 1))),
       json_print := (\<lambda>v. replicate (Suc (place_in vs v)) (CHR ''v'')),
       json_parse := (\<lambda>b. Inr (json_norm (vs ! (length b - 1)))),
       jwk_of_json := (\<lambda>v. Some k) \<rparr>"

lemma table_libs_laws:
  "b64url_law (table_libs hs vs k)" "p256_law (table_libs hs vs k)" "ed25519_law (table_libs hs vs k)"
  "es256_lawful (table_libs hs vs k)"
  "h \<in> set hs \<Longrightarrow> header_codec (table_libs hs vs k) h"
  "v \<in> set vs \<Longrightarrow> json_codec (table_libs hs vs k) v"
  using hex_libs_laws
  by (simp_all add: table_libs_def library_laws header_codec_def json_codec_def es256_lawful_def nth_place)

lemma table_key: "ec_make (table_libs hs vs k) sk = ec_make hex_libs sk"
  by (simp add: table_libs_def ec_make_def ec_key_pair_def
      ec_from_signing_key_def ec_build_public_jwk_def compute_thumbprint_def Let_def)

lemma hex_key_signs: "kp_sign (ec_make hex_libs sk) m = Inr (replicate 64 (CHR ''s''))"
  "alg_as_str (kp_algorithm (ec_make hex_libs sk)) = ''ES256''"
  by (simp_all add: ec_make_def ec_key_pair_def hex_libs_def)

lemma table_signed:
  assumes "h \<in> set hs" and "h_alg h = ''ES256''"
  shows "\<exists>jws d. sign_compact (table_libs hs vs k) (ec_make hex_libs sk) h v = Inr jws \<and>
     verify_with_public_jwk (table_libs hs vs k) jws (kp_public_jwk (ec_make hex_libs sk)) = Inr d \<and>
     verify_compact (table_libs hs vs k) jws (ec_make hex_libs sk) = Inr d \<and>
     decode_compact (table_libs hs vs k) jws = Inr d \<and> dj_header d = h \<and>
     dj_payload d = json_print (table_libs hs vs k) v"
proof -
  let ?L = "table_libs hs vs k"
  obtain jws where j: "sign_compact ?L (ec_make ?L sk) h v = Inr jws"
    by (simp add: sign_compact_def Let_def table_key hex_key_signs)
  have "h_alg h = alg_as_str (kp_algorithm (ec_make ?L sk))" using assms(2) by (simp add: table_key hex_key_signs)
  from es256.compact_round_trip [OF table_libs_laws(4,1) table_libs_laws(5) [OF assms(1)] this j] j show ?thesis
    unfolding table_key by (auto simp: verify_with_public_jwk_Inr)
qed

theorem jws_round_trip_witness:
  "\<exists>L key h jws d. sign_compact L key h JNull = Inr jws \<and>
     verify_with_public_jwk L jws (kp_public_jwk key) = Inr d \<and> h_alg (dj_header d) = ''EdDSA''"
proof -
  let ?h = "\<lparr> h_alg = ''EdDSA'', h_typ = Some ''JWT'', h_kid = None, h_jwk = None, h_x5c = None \<rparr>"
  let ?L = "header_libs ?h"
  let ?key = "ed_make ?L ''sk''"
  have s: "kp_sign ?key m = Inr (replicate 64 (CHR ''s''))" for m
    by (simp add: ed_make_def ed_key_pair_def header_libs_def hex_libs_def)
  then obtain jws where j: "sign_compact ?L ?key ?h JNull = Inr jws"
    by (simp add: sign_compact_def Let_def)
  have "h_alg ?h = alg_as_str (kp_algorithm ?key)"
    by (simp add: ed_make_def ed_key_pair_def)
  from jws_round_trip [OF header_libs_laws disjI2 [OF refl] this j]
  obtain d where "verify_with_public_jwk ?L jws (kp_public_jwk ?key) = Inr d" "dj_header d = ?h"
    by blast
  with j show ?thesis by (intro exI conjI) (assumption, assumption, simp)
qed

text \<open>
  A token that verifies under a public JWK names in its header the one algorithm of
  that key, never \<open>none\<close> or another key's algorithm, and its signature is valid over exactly
  the text before its last part.
\<close>

theorem jws_algorithm_pinned:
  assumes "verify_with_public_jwk L jws k = Inr d"
  shows "\<exists>a sig. algorithm_for_jwk k = Inr a \<and> h_alg (dj_header d) = alg_as_str a \<and>
     h_alg (dj_header d) \<noteq> ''none'' \<and>
     jws = dj_signing_input d @ ''.'' @ sig \<and> b64url_decode L sig = Inr (dj_signature d) \<and>
     verify_with_jwk L k (dj_signing_input d) (dj_signature d) = Inr ()"
proof -
  from assms obtain a where d: "decode_compact L jws = Inr d"
    and a: "algorithm_for_jwk k = Inr a" "h_alg (dj_header d) = alg_as_str a"
    and v: "verify_with_jwk L k (dj_signing_input d) (dj_signature d) = Inr ()"
    by (auto simp: result_inv)
  have "alg_as_str a \<noteq> ''none''" by (cases a) simp_all
  with decode_compact_text [OF d] a v show ?thesis by auto
qed

theorem jws_algorithm_pinned_witness:
  "\<exists>L jws k d. verify_with_public_jwk L jws k = Inr d \<and> h_alg (dj_header d) \<noteq> ''none''"
proof -
  let ?h = "\<lparr> h_alg = ''ES256'', h_typ = None, h_kid = None, h_jwk = None, h_x5c = None \<rparr>"
  let ?L = "header_libs ?h"
  let ?key = "ec_make ?L ''sk''"
  have law: "es256_lawful ?L" by (simp add: es256_lawful_def header_libs_laws)
  have s: "kp_sign ?key m = Inr (replicate 64 (CHR ''s''))" for m
    by (simp add: ec_make_def ec_key_pair_def header_libs_def hex_libs_def)
  then obtain jws where j: "sign_compact ?L ?key ?h JNull = Inr jws"
    by (simp add: sign_compact_def Let_def)
  have "h_alg ?h = alg_as_str (kp_algorithm ?key)"
    by (simp add: ec_make_def ec_key_pair_def)
  from es256.compact_round_trip [OF law header_libs_laws(1,4) this j]
  obtain d where "verify_with_public_jwk ?L jws (kp_public_jwk ?key) = Inr d" by blast
  with jws_algorithm_pinned [OF this] show ?thesis by blast
qed

end
