(* ===== verification/Dpop.thy ===== *)
theory Dpop
  imports Issuer_State Jws
begin

text \<open>
  DPoP proofs, from crates/issuer/src/dpop.rs: the checks of RFC 9449 section 4.3 and the
  replay protection by the recorded \<open>jti\<close>.
\<close>

definition DPOP_SIGNING_ALGS :: "string list" where
  "DPOP_SIGNING_ALGS = [''ES256'', ''EdDSA'']"

definition MAX_AGE_SECS :: int where
  "MAX_AGE_SECS = 300"

definition MAX_SKEW_SECS :: int where
  "MAX_SKEW_SECS = 60"

datatype dpop_error = DpopError string | DpopPanic

fun dpop_error_to_string :: "dpop_error \<Rightarrow> string" where
  "dpop_error_to_string (DpopError e) = ''invalid DPoP proof: '' @ e"
| "dpop_error_to_string DpopPanic = []"

record dpop_context =
  dc_htm :: string
  dc_htu :: string
  dc_access_token :: "string option"

definition quote_text :: "string \<Rightarrow> string" where
  "quote_text s = [CHR 0x27] @ s @ [CHR 0x27]"

definition normalize_htu :: "libs \<Rightarrow> string \<Rightarrow> string option" where
  "normalize_htu L v = map_option (url_without_query L) (url_parse L v)"

text \<open>The checks before the clock is read: header, signature, method and URL.\<close>

definition check_dpop_header :: "libs \<Rightarrow> string \<Rightarrow> dpop_error + (decoded_jws \<times> jwk)" where
  "check_dpop_header L proof_jwt =
     bindR (map_err (\<lambda>e. DpopError (jws_error_to_string e)) (decode_compact L proof_jwt)) (\<lambda>decoded.
     bindR (ensure (h_typ (dj_header decoded) = Some ''dpop+jwt'')
              (DpopError (''typ must be '' @ quote_text ''dpop+jwt''))) (\<lambda>_.
     bindR (ensure (h_alg (dj_header decoded) \<in> set DPOP_SIGNING_ALGS)
              (DpopError (''unsupported alg '' @ quote_text (h_alg (dj_header decoded))))) (\<lambda>_.
     bindR (ok_or (DpopError (''header must carry the public key in '' @ quote_text ''jwk''))
              (h_jwk (dj_header decoded))) (\<lambda>k.
     bindR (ensure (jwk_d k = None)
              (DpopError (quote_text ''jwk'' @ '' must not contain a private key''))) (\<lambda>_.
     bindR (map_err (\<lambda>e. DpopError (''signature: '' @ jws_error_to_string e))
              (verify_with_public_jwk L proof_jwt k)) (\<lambda>_.
     Inr (decoded, k)))))))"

definition check_dpop_request :: "libs \<Rightarrow> dpop_context \<Rightarrow> json \<Rightarrow> dpop_error + int" where
  "check_dpop_request L ctx claims =
     bindR (ensure (str_claim ''htm'' claims = Some (dc_htm ctx))
              (DpopError (quote_text ''htm'' @ '' does not match the request method''))) (\<lambda>_.
     bindR (ok_or (DpopError (quote_text ''htu'' @ '' is missing'')) (str_claim ''htu'' claims)) (\<lambda>htu.
     bindR (ensure (normalize_htu L htu = normalize_htu L (dc_htu ctx))
              (DpopError (quote_text ''htu'' @ '' does not match the request URL''))) (\<lambda>_.
     ok_or (DpopError (quote_text ''iat'' @ '' is missing'')) (int_claim ''iat'' claims))))"

definition check_dpop_ath :: "libs \<Rightarrow> dpop_context \<Rightarrow> json \<Rightarrow> dpop_error + unit" where
  "check_dpop_ath L ctx claims =
     (case dc_access_token ctx of
        Some token \<Rightarrow>
          ensure (str_claim ''ath'' claims = Some (b64url_encode L (sha256 L token)))
            (DpopError (quote_text ''ath'' @ '' does not match the access token''))
      | None \<Rightarrow> Inr ())"

definition verify_dpop_proof ::
    "libs \<Rightarrow> string \<Rightarrow> dpop_context \<Rightarrow> ('x issuer_state_scheme, dpop_error, string) prog" where
  "verify_dpop_proof L proof_jwt ctx =
     bindP (liftR (check_dpop_header L proof_jwt)) (\<lambda>(decoded, k).
     bindP (liftR (map_err DpopError (json_parse L (dj_payload decoded)))) (\<lambda>claims.
     bindP (liftR (check_dpop_request L ctx claims)) (\<lambda>iat.
     bindP utc_now (\<lambda>t.
     let now = timestamp t in
     bindP (liftR (ensure (iat \<le> now + MAX_SKEW_SECS \<and> now - MAX_AGE_SECS \<le> iat)
              (DpopError (quote_text ''iat'' @ '' is outside the accepted window'')))) (\<lambda>_.
     bindP (liftR (check_dpop_ath L ctx claims)) (\<lambda>_.
     bindP (liftR (ok_or (DpopError (quote_text ''jti'' @ '' is missing'')) (str_claim ''jti'' claims))) (\<lambda>jti.
     bindP (errP (unless_panic DpopPanic DpopError)
              (record_jti (''dpop:'' @ jti) (nat (MAX_AGE_SECS + MAX_SKEW_SECS)))) (\<lambda>fresh.
     bindP (liftR (ensure fresh (DpopError (quote_text ''jti'' @ '' has already been used'')))) (\<lambda>_.
     ret (compute_thumbprint L k))))))))))"

section \<open>Accepted proofs\<close>

lemma verify_dpop_Inr:
  "verify_dpop_proof L p ctx s = (Inr jkt, s') \<longleftrightarrow>
     (\<exists>decoded k claims iat jti. check_dpop_header L p = Inr (decoded, k) \<and>
        json_parse L (dj_payload decoded) = Inr claims \<and> check_dpop_request L ctx claims = Inr iat \<and>
        iat \<le> timestamp (clock_at s (clock_reads s)) + MAX_SKEW_SECS \<and>
        timestamp (clock_at s (clock_reads s)) - MAX_AGE_SECS \<le> iat \<and>
        check_dpop_ath L ctx claims = Inr () \<and> str_claim ''jti'' claims = Some jti \<and>
        record_jti (''dpop:'' @ jti) 360 (s\<lparr>clock_reads := Suc (clock_reads s)\<rparr>) = (Inr True, s') \<and>
        jkt = compute_thumbprint L k)"
  by (auto simp: verify_dpop_proof_def result_inv utc_now_run Let_def MAX_AGE_SECS_def MAX_SKEW_SECS_def
      split: prod.splits)

lemma check_dpop_header_Inr:
  "check_dpop_header L p = Inr (decoded, k) \<longleftrightarrow> decode_compact L p = Inr decoded \<and>
     h_typ (dj_header decoded) = Some ''dpop+jwt'' \<and> h_alg (dj_header decoded) \<in> set DPOP_SIGNING_ALGS \<and>
     h_jwk (dj_header decoded) = Some k \<and> jwk_d k = None \<and> is_ok (verify_with_public_jwk L p k)"
  by (auto simp: check_dpop_header_def bindR_Inr ensure_Inr map_err_Inr ok_or_Inr is_ok_iff)

text \<open>
  C29. An accepted DPoP proof is signed, with the algorithm of that key, by the public key in
  its own header, for this method, this URL up to query and fragment, and the presented access
  token; its age is within 300 seconds, its \<open>iat\<close> at most 60 seconds ahead, its \<open>jti\<close> was not
  on record, and the returned thumbprint is that key's.
\<close>

theorem dpop_proof_sound:
  assumes "verify_dpop_proof L p ctx s = (Inr jkt, s')"
  shows "\<exists>d k claims htu iat jti. verify_with_public_jwk L p k = Inr d \<and> h_jwk (dj_header d) = Some k \<and>
     jwk_d k = None \<and> jkt = compute_thumbprint L k \<and> json_parse L (dj_payload d) = Inr claims \<and>
     str_claim ''htm'' claims = Some (dc_htm ctx) \<and> str_claim ''htu'' claims = Some htu \<and>
     normalize_htu L htu = normalize_htu L (dc_htu ctx) \<and>
     (\<forall>token. dc_access_token ctx = Some token \<longrightarrow> str_claim ''ath'' claims = Some (b64url_encode L (sha256 L token))) \<and>
     int_claim ''iat'' claims = Some iat \<and> iat \<le> timestamp (clock_at s (clock_reads s)) + 60 \<and>
     timestamp (clock_at s (clock_reads s)) - 300 \<le> iat \<and> str_claim ''jti'' claims = Some jti \<and>
     (\<exists>seen. is_seen_jtis s = Unlocked seen \<and>
        (\<forall>e. seen (''dpop:'' @ jti) = Some e \<longrightarrow> e \<le> clock_at s (Suc (clock_reads s))))"
proof -
  from assms obtain decoded k claims iat jti where
    h: "check_dpop_header L p = Inr (decoded, k)" and c: "json_parse L (dj_payload decoded) = Inr claims"
    and r: "check_dpop_request L ctx claims = Inr iat" and a: "check_dpop_ath L ctx claims = Inr ()"
    and w: "iat \<le> timestamp (clock_at s (clock_reads s)) + 60"
      "timestamp (clock_at s (clock_reads s)) - 300 \<le> iat"
    and j: "str_claim ''jti'' claims = Some jti"
      "record_jti (''dpop:'' @ jti) 360 (s\<lparr>clock_reads := Suc (clock_reads s)\<rparr>) = (Inr True, s')"
    and t: "jkt = compute_thumbprint L k"
    unfolding verify_dpop_Inr MAX_SKEW_SECS_def MAX_AGE_SECS_def by blast
  from h have k: "h_jwk (dj_header decoded) = Some k" "jwk_d k = None" "decode_compact L p = Inr decoded"
    and "is_ok (verify_with_public_jwk L p k)" by (auto simp: check_dpop_header_Inr)
  then obtain d where d: "verify_with_public_jwk L p k = Inr d" by (auto simp: is_ok_iff)
  then have dd: "d = decoded" using k(3) by (simp add: verify_with_public_jwk_Inr)
  from r obtain htu where req: "str_claim ''htm'' claims = Some (dc_htm ctx)" "str_claim ''htu'' claims = Some htu"
    "normalize_htu L htu = normalize_htu L (dc_htu ctx)" "int_claim ''iat'' claims = Some iat"
    by (auto simp: check_dpop_request_def result_inv)
  from a have ath: "\<forall>token. dc_access_token ctx = Some token \<longrightarrow>
      str_claim ''ath'' claims = Some (b64url_encode L (sha256 L token))"
    by (auto simp: check_dpop_ath_def result_inv)
  from j(2) have "\<exists>seen. is_seen_jtis s = Unlocked seen \<and>
      (\<forall>e. seen (''dpop:'' @ jti) = Some e \<longrightarrow> e \<le> clock_at s (Suc (clock_reads s)))"
    by (auto simp: state_unfold split: mutex.splits option.splits if_splits)
  with d k c t req ath w j(1) show ?thesis unfolding dd by blast
qed

text \<open>
  C30. A proof accepted once is not accepted again, for any request and after any sequence of
  other store operations, while the clock stays below 360 seconds after the first acceptance
  recorded its \<open>jti\<close>.
\<close>

theorem dpop_no_replay:
  assumes "verify_dpop_proof L p ctx s = (Inr jkt, s')"
    and "run_ops state_step as s' = (tr, t)"
    and "\<forall>i. clock_reads s' \<le> i \<longrightarrow> clock_at s i < clock_at s (Suc (clock_reads s)) + 360 * second"
  shows "fst (verify_dpop_proof L p ctx' t) \<noteq> Inr jkt'"
proof
  assume again: "fst (verify_dpop_proof L p ctx' t) = Inr jkt'"
  obtain u where v: "verify_dpop_proof L p ctx' t = (Inr jkt', u)"
    using again by (cases "verify_dpop_proof L p ctx' t") auto
  from assms(1) obtain decoded k claims jti where
    h: "check_dpop_header L p = Inr (decoded, k)" "json_parse L (dj_payload decoded) = Inr claims"
      "str_claim ''jti'' claims = Some jti"
    and r: "record_jti (''dpop:'' @ jti) 360 (s\<lparr>clock_reads := Suc (clock_reads s)\<rparr>) = (Inr True, s')"
    unfolding verify_dpop_Inr by blast
  from v h have r': "record_jti (''dpop:'' @ jti) 360 (t\<lparr>clock_reads := Suc (clock_reads t)\<rparr>) = (Inr True, u)"
    unfolding verify_dpop_Inr by auto
  obtain e where e: "expiry (clock_at s (Suc (clock_reads s))) 360 = Some e" and rec: "jti_recorded (''dpop:'' @ jti) e s'"
    and c: "clock_at s' = clock_at s"
    using r by (auto simp: state_unfold jti_recorded_def split: mutex.splits option.splits if_splits)
  have e': "e = clock_at s (Suc (clock_reads s)) + 360 * second" using expiry_Some [OF e] by simp
  have ct: "clock_at t = clock_at s" "clock_reads s' \<le> clock_reads t"
    using run_clock [OF assms(2)] c by simp_all
  have "jti_recorded (''dpop:'' @ jti) e t"
    by (rule jti_recorded_end [OF assms(2) rec]) (use assms(3) e' c in auto)
  moreover have "clock_at s (Suc (clock_reads t)) < e" using assms(3) ct(2) e' by simp
  ultimately show False
    using r' ct(1) by (auto simp: state_unfold jti_recorded_def split: mutex.splits option.splits if_splits)
qed

section \<open>A concrete proof\<close>

definition sample_dpop_key :: jwk where
  "sample_dpop_key = kp_public_jwk (ec_make hex_libs ''sk'')"

definition sample_dpop_claims :: json where
  "sample_dpop_claims = JObj [(''htm'', JStr ''POST''), (''htu'', JStr ''https://issuer/token''),
     (''iat'', JInt 60), (''jti'', JStr ''j'')]"

definition sample_dpop_header :: jws_header where
  "sample_dpop_header = build_header_with_jwk (ec_make hex_libs ''sk'') (Some ''dpop+jwt'')"

definition dpop_libs :: libs where
  "dpop_libs = (header_libs sample_dpop_header)\<lparr>json_parse := (\<lambda>b. Inr sample_dpop_claims)\<rparr>"

definition sample_dpop_context :: dpop_context where
  "sample_dpop_context = \<lparr> dc_htm = ''POST'', dc_htu = ''https://issuer/token'', dc_access_token = None \<rparr>"

lemma dpop_libs_laws: "es256_lawful dpop_libs" "b64url_law dpop_libs" "header_codec dpop_libs sample_dpop_header"
  using header_libs_laws [of sample_dpop_header]
  by (simp_all add: dpop_libs_def es256_lawful_def library_laws header_codec_def)

lemma dpop_key: "ec_make dpop_libs ''sk'' = ec_make hex_libs ''sk''"
  by (simp add: dpop_libs_def header_libs_def ec_make_def ec_key_pair_def
      ec_from_signing_key_def ec_build_public_jwk_def compute_thumbprint_def Let_def)

lemma sample_dpop_checked: "\<exists>p d. check_dpop_header dpop_libs p = Inr (d, sample_dpop_key)"
proof -
  have "kp_sign (ec_make hex_libs ''sk'') m = Inr (replicate 64 (CHR ''s''))" for m
    by (simp add: ec_make_def ec_key_pair_def hex_libs_def)
  then obtain p where p: "sign_compact dpop_libs (ec_make dpop_libs ''sk'') sample_dpop_header JNull = Inr p"
    by (simp add: sign_compact_def Let_def dpop_key)
  have "h_alg sample_dpop_header = alg_as_str (kp_algorithm (ec_make dpop_libs ''sk''))"
    by (simp add: sample_dpop_header_def build_header_with_jwk_def dpop_key)
  from es256.compact_round_trip [OF dpop_libs_laws this p]
  obtain d where d: "verify_with_public_jwk dpop_libs p sample_dpop_key = Inr d" "dj_header d = sample_dpop_header"
    unfolding dpop_key sample_dpop_key_def by blast
  then have "decode_compact dpop_libs p = Inr d" by (simp add: verify_with_public_jwk_Inr)
  with d have "check_dpop_header dpop_libs p = Inr (d, sample_dpop_key)"
    by (simp add: check_dpop_header_Inr sample_dpop_header_def build_header_with_jwk_def sample_dpop_key_def
        ec_make_def ec_key_pair_def ec_build_public_jwk_def Let_def DPOP_SIGNING_ALGS_def)
  then show ?thesis by blast
qed

lemma sample_dpop_accepts:
  assumes "check_dpop_header dpop_libs p = Inr (d, k)"
    and "60 \<le> timestamp (clock_at s (clock_reads s)) + 60" and "timestamp (clock_at s (clock_reads s)) \<le> 360"
    and "record_jti ''dpop:j'' 360 (s\<lparr>clock_reads := Suc (clock_reads s)\<rparr>) = (Inr True, s')"
  shows "verify_dpop_proof dpop_libs p sample_dpop_context s = (Inr (compute_thumbprint dpop_libs k), s')"
proof -
  have "json_parse dpop_libs b = Inr sample_dpop_claims" for b by (simp add: dpop_libs_def)
  moreover have "check_dpop_request dpop_libs sample_dpop_context sample_dpop_claims = Inr 60"
    by (simp add: check_dpop_request_def sample_dpop_claims_def sample_dpop_context_def str_claim_def
        int_claim_def in_i64_def)
  moreover have "check_dpop_ath dpop_libs sample_dpop_context sample_dpop_claims = Inr ()"
    by (simp add: check_dpop_ath_def sample_dpop_context_def)
  moreover have "str_claim ''jti'' sample_dpop_claims = Some ''j''"
    by (simp add: sample_dpop_claims_def str_claim_def)
  ultimately show ?thesis
    using assms unfolding verify_dpop_Inr
    by (intro exI [of _ d] exI [of _ k] exI [of _ sample_dpop_claims] exI [of _ 60] exI [of _ "''j''"])
      (simp add: MAX_SKEW_SECS_def MAX_AGE_SECS_def)
qed

lemma expiry_360: "0 \<le> t \<Longrightarrow> t \<le> 1000 * second \<Longrightarrow> expiry t 360 = Some (t + 360 * second)"
  by (simp add: expiry_def duration_seconds_def date_plus_def second_def wrap_i64_id in_i64_def)

lemma sample_dpop_first:
  "\<exists>p jkt s'. verify_dpop_proof dpop_libs p sample_dpop_context sample_store = (Inr jkt, s') \<and> clock_at s' = (\<lambda>n. 0)"
proof -
  obtain p d where p: "check_dpop_header dpop_libs p = Inr (d, sample_dpop_key)" using sample_dpop_checked by blast
  have x: "expiry 0 360 = Some (360 * second)" using expiry_360 [of 0] by (simp add: second_def)
  obtain s' where "record_jti ''dpop:j'' 360 (sample_store\<lparr>clock_reads := Suc (clock_reads sample_store)\<rparr>) = (Inr True, s')"
    and "clock_at s' = (\<lambda>n. 0)"
    using x by (simp add: state_unfold)
  with sample_dpop_accepts [OF p _ _ this(1)] show ?thesis by (force simp: timestamp_def second_def)
qed

theorem dpop_proof_sound_witness:
  "\<exists>L p ctx jkt s' d k. verify_dpop_proof L p ctx sample_store = (Inr jkt, s') \<and>
     verify_with_public_jwk L p k = Inr d \<and> jkt = compute_thumbprint L k"
proof -
  obtain p jkt s' where v: "verify_dpop_proof dpop_libs p sample_dpop_context sample_store = (Inr jkt, s')"
    using sample_dpop_first by blast
  from dpop_proof_sound [OF v] v show ?thesis by blast
qed

theorem dpop_no_replay_witness:
  "\<exists>L p ctx jkt s'. verify_dpop_proof L p ctx sample_store = (Inr jkt, s') \<and>
     fst (verify_dpop_proof L p ctx s') \<noteq> Inr jkt"
proof -
  obtain p jkt s' where v: "verify_dpop_proof dpop_libs p sample_dpop_context sample_store = (Inr jkt, s')"
    using sample_dpop_first by blast
  have "run_ops state_step [] s' = ([], s')" by simp
  from dpop_no_replay [OF v this, of sample_dpop_context jkt]
  have "fst (verify_dpop_proof dpop_libs p sample_dpop_context s') \<noteq> Inr jkt" by (simp add: second_def)
  with v show ?thesis by blast
qed

text \<open>
  The replay window has a gap: the record of a \<open>jti\<close> runs out 360 seconds after the
  nanosecond it was made, but the age check compares whole seconds, so a proof dated at the
  limit of the allowed skew is accepted a second time within the following second, with a
  clock that only moves forward.
\<close>

theorem dpop_replay_gap:
  "\<exists>L p ctx (s :: issuer_state) s1 s2 jkt. mono (clock_at s) \<and>
     verify_dpop_proof L p ctx s = (Inr jkt, s1) \<and> verify_dpop_proof L p ctx s1 = (Inr jkt, s2)"
proof -
  obtain p d where p: "check_dpop_header dpop_libs p = Inr (d, sample_dpop_key)" using sample_dpop_checked by blast
  define clk :: "nat \<Rightarrow> int" where "clk = (\<lambda>n. if n < 2 then 200000000 else 360500000000)"
  define s where "s = sample_store\<lparr>clock_at := clk, clock_reads := 0\<rparr>"
  have m: "mono (clock_at s)" by (auto simp: mono_def s_def clk_def)
  have c: "clk 0 = 200000000" "clk 1 = 200000000" "clk 2 = 360500000000" "clk 3 = 360500000000"
    by (simp_all add: clk_def)
  have x1: "expiry 200000000 360 = Some 360200000000" and x2: "expiry 360500000000 360 = Some 720500000000"
    using expiry_360 [of 200000000] expiry_360 [of 360500000000] by (simp_all add: second_def)
  have "\<exists>s1. record_jti ''dpop:j'' 360 (s\<lparr>clock_reads := Suc (clock_reads s)\<rparr>) = (Inr True, s1) \<and>
      clock_at s1 = clk \<and> clock_reads s1 = 2 \<and> is_seen_jtis s1 = Unlocked [''dpop:j'' \<mapsto> 360200000000]"
    using x1 c by (simp add: state_unfold s_def)
  then obtain s1 where r1: "record_jti ''dpop:j'' 360 (s\<lparr>clock_reads := Suc (clock_reads s)\<rparr>) = (Inr True, s1)"
    and s1: "clock_at s1 = clk" "clock_reads s1 = 2" "is_seen_jtis s1 = Unlocked [''dpop:j'' \<mapsto> 360200000000]"
    by blast
  have "\<exists>s2. record_jti ''dpop:j'' 360 (s1\<lparr>clock_reads := Suc (clock_reads s1)\<rparr>) = (Inr True, s2)"
    using x2 c s1 by (simp add: state_unfold eval_nat_numeral)
  then obtain s2 where r2: "record_jti ''dpop:j'' 360 (s1\<lparr>clock_reads := Suc (clock_reads s1)\<rparr>) = (Inr True, s2)"
    by blast
  have "verify_dpop_proof dpop_libs p sample_dpop_context s = (Inr (compute_thumbprint dpop_libs sample_dpop_key), s1)"
    by (rule sample_dpop_accepts [OF p _ _ r1]) (simp_all add: s_def c timestamp_def second_def)
  moreover have "verify_dpop_proof dpop_libs p sample_dpop_context s1 = (Inr (compute_thumbprint dpop_libs sample_dpop_key), s2)"
    by (rule sample_dpop_accepts [OF p _ _ r2]) (simp_all add: s1 c timestamp_def second_def)
  ultimately show ?thesis using m by blast
qed

end
