(* ===== verification/Client_Attestation.thy ===== *)
theory Client_Attestation
  imports Issuer_State Jws
begin

text \<open>
  Attestation-based client authentication, from crates/issuer/src/client_attestation.rs: the
  attestation signed by a trusted attester, and the proof of possession signed by the instance
  key that it names. Times are \<open>i64\<close> and wrap around where the source adds to an attacker's
  number.
\<close>

definition ATTESTATION_SIGNING_ALGS :: "string list" where
  "ATTESTATION_SIGNING_ALGS = [''ES256'']"

definition AUTH_METHOD :: string where
  "AUTH_METHOD = ''attest_jwt_client_auth''"

definition SKEW_SECS :: int where
  "SKEW_SECS = 60"

definition POP_MAX_AGE_SECS :: int where
  "POP_MAX_AGE_SECS = 300"

datatype attestation_error = AttestationError string | AttestationPanic

fun attestation_error_to_string :: "attestation_error \<Rightarrow> string" where
  "attestation_error_to_string (AttestationError e) = ''client attestation rejected: '' @ e"
| "attestation_error_to_string AttestationPanic = []"

record attested_client =
  ac_client_id :: string
  ac_instance_key :: jwk

definition apostrophes :: "string \<Rightarrow> string" where
  "apostrophes s = [CHR 0x27] @ s @ [CHR 0x27]"

definition check_time_window :: "json \<Rightarrow> int \<Rightarrow> string \<Rightarrow> bool \<Rightarrow> attestation_error + unit" where
  "check_time_window claims now what exp_required =
     bindR (case int_claim ''exp'' claims of
              Some exp \<Rightarrow> ensure (\<not> wrap_i64 (exp + SKEW_SECS) < now) (AttestationError (what @ '' has expired''))
            | None \<Rightarrow> ensure (\<not> exp_required) (AttestationError (what @ '' is missing '' @ apostrophes ''exp''))) (\<lambda>_.
     case int_claim ''nbf'' claims of
       Some nbf \<Rightarrow> ensure (nbf \<le> now + SKEW_SECS) (AttestationError (what @ '' is not yet valid''))
     | None \<Rightarrow> Inr ())"

definition same_issuer :: "string \<Rightarrow> string \<Rightarrow> bool" where
  "same_issuer a b \<longleftrightarrow> trim_end_matches (CHR ''/'') a = trim_end_matches (CHR ''/'') b"

definition audience_ok :: "string \<Rightarrow> json \<Rightarrow> bool" where
  "audience_ok audience claims =
     (case json_get ''aud'' claims of
        Some (JStr aud) \<Rightarrow> same_issuer aud audience
      | Some (JArr auds) \<Rightarrow>
          list_ex (\<lambda>v. case as_str v of Some aud \<Rightarrow> same_issuer aud audience | None \<Rightarrow> False) auds
      | _ \<Rightarrow> False)"

text \<open>The attestation: its client and instance key.\<close>

definition signed_by_trusted :: "libs \<Rightarrow> string \<Rightarrow> string option \<Rightarrow> jwk list \<Rightarrow> bool" where
  "signed_by_trusted L attestation kid trusted_attesters =
     list_ex (\<lambda>key. is_ok (verify_with_public_jwk L attestation key))
       (filter (\<lambda>key. kid = None \<or> jwk_kid key = None \<or> jwk_kid key = kid) trusted_attesters)"

definition check_attestation ::
    "libs \<Rightarrow> string \<Rightarrow> jwk list \<Rightarrow> int \<Rightarrow> attestation_error + (string \<times> jwk)" where
  "check_attestation L attestation trusted_attesters now =
     bindR (map_err (\<lambda>e. AttestationError (''attestation: '' @ jws_error_to_string e))
              (decode_compact L attestation)) (\<lambda>decoded.
     bindR (ensure (h_typ (dj_header decoded) = Some ''oauth-client-attestation+jwt'')
              (AttestationError (''attestation typ must be '' @ apostrophes ''oauth-client-attestation+jwt''))) (\<lambda>_.
     bindR (ensure (h_alg (dj_header decoded) \<in> set ATTESTATION_SIGNING_ALGS)
              (AttestationError (''attestation alg '' @ apostrophes (h_alg (dj_header decoded)) @ '' is not supported''))) (\<lambda>_.
     bindR (ensure (signed_by_trusted L attestation (h_kid (dj_header decoded)) trusted_attesters)
              (AttestationError ''attestation is not signed by a trusted attester'')) (\<lambda>_.
     bindR (map_err (\<lambda>e. AttestationError (''attestation: '' @ e)) (json_parse L (dj_payload decoded))) (\<lambda>claims.
     bindR (ensure (str_claim ''iss'' claims \<noteq> None)
              (AttestationError (''attestation is missing '' @ apostrophes ''iss''))) (\<lambda>_.
     bindR (ok_or (AttestationError (''attestation is missing '' @ apostrophes ''sub''))
              (case str_claim ''sub'' claims of Some s \<Rightarrow> if s \<noteq> [] then Some s else None | None \<Rightarrow> None)) (\<lambda>client_id.
     bindR (check_time_window claims now ''attestation'' True) (\<lambda>_.
     bindR (ok_or (AttestationError (''attestation is missing '' @ apostrophes ''cnf.jwk''))
              (Option.bind (json_get ''cnf'' claims) (\<lambda>cnf. Option.bind (json_get ''jwk'' cnf) (jwk_of_json L)))) (\<lambda>instance_key.
     bindR (ensure (jwk_d instance_key = None)
              (AttestationError (''attestation '' @ apostrophes ''cnf.jwk'' @ '' must not contain a private key''))) (\<lambda>_.
     Inr (client_id, instance_key)))))))))))"

text \<open>The proof of possession: its \<open>jti\<close>.\<close>

definition check_pop ::
    "libs \<Rightarrow> string \<Rightarrow> string \<Rightarrow> jwk \<Rightarrow> string \<Rightarrow> int \<Rightarrow> attestation_error + string" where
  "check_pop L pop client_id instance_key audience now =
     bindR (map_err (\<lambda>e. AttestationError (''PoP signature: '' @ jws_error_to_string e))
              (verify_with_public_jwk L pop instance_key)) (\<lambda>decoded.
     bindR (ensure (h_typ (dj_header decoded) = Some ''oauth-client-attestation-pop+jwt'')
              (AttestationError (''PoP typ must be '' @ apostrophes ''oauth-client-attestation-pop+jwt''))) (\<lambda>_.
     bindR (map_err (\<lambda>e. AttestationError (''PoP: '' @ e)) (json_parse L (dj_payload decoded))) (\<lambda>claims.
     bindR (ensure (case str_claim ''iss'' claims of Some iss \<Rightarrow> iss = client_id | None \<Rightarrow> True)
              (AttestationError (''PoP '' @ apostrophes ''iss'' @ '' does not match the attested client''))) (\<lambda>_.
     bindR (ensure (audience_ok audience claims)
              (AttestationError (''PoP '' @ apostrophes ''aud'' @ '' is not this authorization server''))) (\<lambda>_.
     bindR (ok_or (AttestationError (''PoP is missing '' @ apostrophes ''iat'')) (int_claim ''iat'' claims)) (\<lambda>iat.
     bindR (ensure (iat \<le> now + SKEW_SECS \<and> now - POP_MAX_AGE_SECS \<le> iat)
              (AttestationError (''PoP '' @ apostrophes ''iat'' @ '' is outside the accepted window''))) (\<lambda>_.
     bindR (check_time_window claims now ''PoP'' False) (\<lambda>_.
     ok_or (AttestationError (''PoP is missing '' @ apostrophes ''jti'')) (str_claim ''jti'' claims)))))))))"

definition verify_client_attestation ::
    "libs \<Rightarrow> string \<Rightarrow> string \<Rightarrow> jwk list \<Rightarrow> string \<Rightarrow>
       ('x issuer_state_scheme, attestation_error, attested_client) prog" where
  "verify_client_attestation L attestation pop trusted_attesters audience =
     bindP utc_now (\<lambda>t.
     bindP (liftR (check_attestation L attestation trusted_attesters (timestamp t))) (\<lambda>(client_id, instance_key).
     bindP (liftR (check_pop L pop client_id instance_key audience (timestamp t))) (\<lambda>jti.
     bindP (errP (unless_panic AttestationPanic AttestationError)
              (record_jti (''attestation-pop:'' @ client_id @ '':'' @ jti) (nat (POP_MAX_AGE_SECS + SKEW_SECS)))) (\<lambda>fresh.
     bindP (liftR (ensure fresh (AttestationError (''PoP '' @ apostrophes ''jti'' @ '' has already been used'')))) (\<lambda>_.
     ret \<lparr> ac_client_id = client_id, ac_instance_key = instance_key \<rparr>)))))"

section \<open>Authenticated clients\<close>

lemma check_time_window_Inr:
  "check_time_window claims now what req = Inr u \<longleftrightarrow>
     (\<forall>e. int_claim ''exp'' claims = Some e \<longrightarrow> now \<le> wrap_i64 (e + 60)) \<and>
     (req \<longrightarrow> int_claim ''exp'' claims \<noteq> None) \<and>
     (\<forall>n. int_claim ''nbf'' claims = Some n \<longrightarrow> n \<le> now + 60)"
  by (auto simp: check_time_window_def result_inv SKEW_SECS_def split: option.splits)

text \<open>The wrap-around can only shorten a lifetime.\<close>

lemma wrap_exp_le: "in_i64 e \<Longrightarrow> 0 \<le> now \<Longrightarrow> now \<le> wrap_i64 (e + 60) \<Longrightarrow> now \<le> e + 60"
proof (cases "e + 60 \<le> 9223372036854775807")
  case True
  assume "in_i64 e" "now \<le> wrap_i64 (e + 60)"
  with True show ?thesis by (simp add: wrap_i64_id in_i64_def)
next
  case False
  assume e: "in_i64 e" and "0 \<le> now" "now \<le> wrap_i64 (e + 60)"
  define r where "r = e + 60 - 9223372036854775808"
  have r: "0 \<le> r" "r < 18446744073709551616" using False e by (simp_all add: r_def in_i64_def)
  have "(e + 60 + 9223372036854775808) mod 18446744073709551616 = (r + 18446744073709551616) mod 18446744073709551616"
    by (simp add: r_def)
  also have "\<dots> = r" using r by (simp only: mod_add_self2 mod_pos_pos_trivial)
  finally have "wrap_i64 (e + 60) = r - 9223372036854775808" by (simp add: wrap_i64_def)
  with \<open>now \<le> wrap_i64 (e + 60)\<close> show ?thesis by (simp add: r_def)
qed

lemma verify_attestation_Inr:
  "verify_client_attestation L att pop trusted aud s = (Inr c, s') \<longleftrightarrow>
     (\<exists>jti. check_attestation L att trusted (timestamp (clock_at s (clock_reads s))) =
         Inr (ac_client_id c, ac_instance_key c) \<and>
       check_pop L pop (ac_client_id c) (ac_instance_key c) aud (timestamp (clock_at s (clock_reads s))) = Inr jti \<and>
       record_jti (''attestation-pop:'' @ ac_client_id c @ '':'' @ jti) 360
         (s\<lparr>clock_reads := Suc (clock_reads s)\<rparr>) = (Inr True, s'))"
proof -
  have "c = \<lparr> ac_client_id = i, ac_instance_key = k \<rparr> \<longleftrightarrow> i = ac_client_id c \<and> k = ac_instance_key c" for i k
    by (cases c) auto
  then show ?thesis
    unfolding verify_client_attestation_def
    by (auto simp: bindP_Inr liftR_Inr errP_Inr ret_Inr ensure_Inr utc_now_run POP_MAX_AGE_SECS_def SKEW_SECS_def
        split: prod.splits)
qed

lemma check_attestation_Inr:
  assumes "check_attestation L att trusted now = Inr (client_id, instance_key)"
  shows "\<exists>key d claims cnf v. key \<in> set trusted \<and> verify_with_public_jwk L att key = Inr d \<and>
     (\<forall>i. h_kid (dj_header d) = Some i \<longrightarrow> jwk_kid key = None \<or> jwk_kid key = Some i) \<and>
     h_typ (dj_header d) = Some ''oauth-client-attestation+jwt'' \<and> h_alg (dj_header d) = ''ES256'' \<and>
     json_parse L (dj_payload d) = Inr claims \<and> str_claim ''sub'' claims = Some client_id \<and> client_id \<noteq> [] \<and>
     check_time_window claims now ''attestation'' True = Inr () \<and>
     json_get ''cnf'' claims = Some cnf \<and> json_get ''jwk'' cnf = Some v \<and> jwk_of_json L v = Some instance_key \<and>
     jwk_d instance_key = None"
proof -
  from assms obtain d claims where d: "decode_compact L att = Inr d"
    and h: "h_typ (dj_header d) = Some ''oauth-client-attestation+jwt''" "h_alg (dj_header d) = ''ES256''"
    and t: "signed_by_trusted L att (h_kid (dj_header d)) trusted"
    and c: "json_parse L (dj_payload d) = Inr claims" "str_claim ''sub'' claims = Some client_id" "client_id \<noteq> []"
      "check_time_window claims now ''attestation'' True = Inr ()"
      "Option.bind (json_get ''cnf'' claims) (\<lambda>cnf. Option.bind (json_get ''jwk'' cnf) (jwk_of_json L)) = Some instance_key"
      "jwk_d instance_key = None"
    by (auto simp: check_attestation_def bindR_Inr ensure_Inr ok_or_Inr map_err_Inr ATTESTATION_SIGNING_ALGS_def
        split: option.splits if_splits)
  from t obtain key d' where key: "key \<in> set trusted" "verify_with_public_jwk L att key = Inr d'"
    "h_kid (dj_header d) = None \<or> jwk_kid key = None \<or> jwk_kid key = h_kid (dj_header d)"
    by (auto simp: signed_by_trusted_def list_ex_iff is_ok_iff)
  then have "d' = d" using d by (simp add: verify_with_public_jwk_Inr)
  with key h c show ?thesis by (fastforce simp: bind_eq_Some_conv)
qed

lemma check_pop_Inr:
  assumes "check_pop L pop client_id k aud now = Inr jti"
  shows "\<exists>d claims iat. verify_with_public_jwk L pop k = Inr d \<and>
     h_typ (dj_header d) = Some ''oauth-client-attestation-pop+jwt'' \<and>
     json_parse L (dj_payload d) = Inr claims \<and> audience_ok aud claims \<and>
     (\<forall>i. str_claim ''iss'' claims = Some i \<longrightarrow> i = client_id) \<and> int_claim ''iat'' claims = Some iat \<and>
     iat \<le> now + 60 \<and> now - 300 \<le> iat \<and> str_claim ''jti'' claims = Some jti"
  using assms
  by (auto simp: check_pop_def bindR_Inr ensure_Inr ok_or_Inr map_err_Inr SKEW_SECS_def POP_MAX_AGE_SECS_def
      split: option.splits)

text \<open>
  C31. A client is authenticated only by an unexpired ES256 attestation that a trusted
  attester's key signed for a nonempty client identifier, together with a proof signed by the
  public instance key named in it, for this server, at most 300 seconds old and 60 ahead. The
  expiry check adds the skew in 64 bits; the wrap-around never accepts an expired attestation.
\<close>

theorem attestation_sound:
  assumes "verify_client_attestation L att pop trusted aud s = (Inr c, s')"
    and "0 \<le> timestamp (clock_at s (clock_reads s))"
  shows "\<exists>key d claims e cnf v pd pclaims iat. key \<in> set trusted \<and> verify_with_public_jwk L att key = Inr d \<and>
     h_alg (dj_header d) = ''ES256'' \<and> json_parse L (dj_payload d) = Inr claims \<and>
     str_claim ''sub'' claims = Some (ac_client_id c) \<and> ac_client_id c \<noteq> [] \<and>
     int_claim ''exp'' claims = Some e \<and> timestamp (clock_at s (clock_reads s)) \<le> e + 60 \<and>
     (\<forall>n. int_claim ''nbf'' claims = Some n \<longrightarrow> n \<le> timestamp (clock_at s (clock_reads s)) + 60) \<and>
     json_get ''cnf'' claims = Some cnf \<and> json_get ''jwk'' cnf = Some v \<and>
     jwk_of_json L v = Some (ac_instance_key c) \<and> jwk_d (ac_instance_key c) = None \<and>
     verify_with_public_jwk L pop (ac_instance_key c) = Inr pd \<and>
     json_parse L (dj_payload pd) = Inr pclaims \<and> audience_ok aud pclaims \<and>
     int_claim ''iat'' pclaims = Some iat \<and> iat \<le> timestamp (clock_at s (clock_reads s)) + 60 \<and>
     timestamp (clock_at s (clock_reads s)) - 300 \<le> iat"
proof -
  from assms(1) obtain jti where
    a: "check_attestation L att trusted (timestamp (clock_at s (clock_reads s))) = Inr (ac_client_id c, ac_instance_key c)"
    and p: "check_pop L pop (ac_client_id c) (ac_instance_key c) aud (timestamp (clock_at s (clock_reads s))) = Inr jti"
    unfolding verify_attestation_Inr by blast
  from check_attestation_Inr [OF a] obtain key d claims cnf v where
    k: "key \<in> set trusted" "verify_with_public_jwk L att key = Inr d" "h_alg (dj_header d) = ''ES256''"
      "json_parse L (dj_payload d) = Inr claims" "str_claim ''sub'' claims = Some (ac_client_id c)" "ac_client_id c \<noteq> []"
      "json_get ''cnf'' claims = Some cnf" "json_get ''jwk'' cnf = Some v" "jwk_of_json L v = Some (ac_instance_key c)"
      "jwk_d (ac_instance_key c) = None"
    and w: "check_time_window claims (timestamp (clock_at s (clock_reads s))) ''attestation'' True = Inr ()" by blast
  from w obtain e where e: "int_claim ''exp'' claims = Some e"
    "timestamp (clock_at s (clock_reads s)) \<le> wrap_i64 (e + 60)"
    "\<forall>n. int_claim ''nbf'' claims = Some n \<longrightarrow> n \<le> timestamp (clock_at s (clock_reads s)) + 60"
    by (auto simp: check_time_window_Inr)
  have "timestamp (clock_at s (clock_reads s)) \<le> e + 60"
    using wrap_exp_le [OF int_claim_range [OF e(1)] assms(2) e(2)] .
  with k e check_pop_Inr [OF p] show ?thesis by blast
qed

section \<open>A concrete client\<close>

definition attestation_header :: jws_header where
  "attestation_header = \<lparr> h_alg = ''ES256'', h_typ = Some ''oauth-client-attestation+jwt'', h_kid = None,
     h_jwk = None, h_x5c = None \<rparr>"

definition pop_header :: jws_header where
  "pop_header = \<lparr> h_alg = ''ES256'', h_typ = Some ''oauth-client-attestation-pop+jwt'', h_kid = None,
     h_jwk = None, h_x5c = None \<rparr>"

definition attestation_claims :: json where
  "attestation_claims = JObj [(''cnf'', JObj [(''jwk'', JNull)]), (''exp'', JInt 1000),
     (''iss'', JStr ''attester''), (''sub'', JStr ''wallet'')]"

definition pop_claims :: json where
  "pop_claims = JObj [(''aud'', JStr ''https://issuer/''), (''iat'', JInt 0), (''jti'', JStr ''j'')]"

definition attestation_libs :: libs where
  "attestation_libs = hex_libs
     \<lparr> header_print := (\<lambda>h. if h = attestation_header then ''a'' else ''p''),
       header_parse := (\<lambda>b. Inr (if b = ''a'' then attestation_header else pop_header)),
       json_print := (\<lambda>v. if v = attestation_claims then ''a'' else ''p''),
       json_parse := (\<lambda>b. Inr (if b = ''a'' then attestation_claims else pop_claims)),
       jwk_of_json := (\<lambda>v. Some (kp_public_jwk (ec_make hex_libs ''wallet''))) \<rparr>"

lemma attestation_libs_laws:
  "es256_lawful attestation_libs" "b64url_law attestation_libs"
  "header_codec attestation_libs attestation_header" "header_codec attestation_libs pop_header"
  using hex_libs_laws
  by (simp_all add: attestation_libs_def es256_lawful_def library_laws header_codec_def attestation_header_def pop_header_def)

lemma attestation_keys: "ec_make attestation_libs sk = ec_make hex_libs sk"
  by (simp add: attestation_libs_def ec_make_def ec_key_pair_def
      ec_from_signing_key_def ec_build_public_jwk_def compute_thumbprint_def Let_def)

lemma sample_signed:
  assumes "header_codec attestation_libs h" and "h_alg h = ''ES256''"
  shows "\<exists>jws d. verify_with_public_jwk attestation_libs jws (kp_public_jwk (ec_make hex_libs sk)) = Inr d \<and>
     decode_compact attestation_libs jws = Inr d \<and> dj_header d = h \<and> dj_payload d = json_print attestation_libs v"
proof -
  have "kp_sign (ec_make hex_libs sk) m = Inr (replicate 64 (CHR ''s''))" for m
    by (simp add: ec_make_def ec_key_pair_def hex_libs_def)
  then obtain jws where j: "sign_compact attestation_libs (ec_make attestation_libs sk) h v = Inr jws"
    by (simp add: sign_compact_def Let_def attestation_keys)
  have "h_alg h = alg_as_str (kp_algorithm (ec_make attestation_libs sk))"
    using assms(2) by (simp add: ec_make_def ec_key_pair_def)
  from es256.compact_round_trip [OF attestation_libs_laws(1,2) assms(1) this j] show ?thesis
    unfolding attestation_keys by (auto simp: verify_with_public_jwk_Inr)
qed

lemma sample_attested:
  "\<exists>att pop c s'. verify_client_attestation attestation_libs att pop [kp_public_jwk (ec_make hex_libs ''at'')]
     ''https://issuer'' sample_store = (Inr c, s')"
proof -
  let ?key = "kp_public_jwk (ec_make hex_libs ''at'')" and ?inst = "kp_public_jwk (ec_make hex_libs ''wallet'')"
  have alg: "h_alg attestation_header = ''ES256''" "h_alg pop_header = ''ES256''"
    by (simp_all add: attestation_header_def pop_header_def)
  obtain att d where a: "verify_with_public_jwk attestation_libs att ?key = Inr d" "decode_compact attestation_libs att = Inr d"
    "dj_header d = attestation_header" "dj_payload d = json_print attestation_libs attestation_claims"
    using sample_signed [OF attestation_libs_laws(3) alg(1)] by blast
  obtain pop pd where p: "verify_with_public_jwk attestation_libs pop ?inst = Inr pd"
    "dj_header pd = pop_header" "dj_payload pd = json_print attestation_libs pop_claims"
    using sample_signed [OF attestation_libs_laws(4) alg(2)] by blast
  have d: "jwk_d ?inst = None" by (rule es256.jwk_public)
  have parse: "json_parse attestation_libs (dj_payload d) = Inr attestation_claims"
    "json_parse attestation_libs (dj_payload pd) = Inr pop_claims"
    using a(4) p(3) by (simp_all add: attestation_libs_def attestation_claims_def pop_claims_def)
  have "signed_by_trusted attestation_libs att None [?key]" using a(1) by (simp add: signed_by_trusted_def)
  then have "check_attestation attestation_libs att [?key] 0 = Inr (''wallet'', ?inst)"
    using a(2,3) parse(1) d
    by (simp add: check_attestation_def attestation_header_def ATTESTATION_SIGNING_ALGS_def attestation_claims_def
        str_claim_def int_claim_def in_i64_def check_time_window_def SKEW_SECS_def wrap_i64_def attestation_libs_def)
  moreover have "check_pop attestation_libs pop ''wallet'' ?inst ''https://issuer'' 0 = Inr ''j''"
    using p(1,2) parse(2)
    by (simp add: check_pop_def pop_header_def pop_claims_def str_claim_def int_claim_def in_i64_def
        audience_ok_def same_issuer_def trim_end_matches_def check_time_window_def SKEW_SECS_def POP_MAX_AGE_SECS_def)
  moreover have "expiry 0 360 = Some (360 * second)"
    by (simp add: expiry_def duration_seconds_def date_plus_def second_def wrap_i64_id in_i64_def)
  then have "\<exists>s'. record_jti ''attestation-pop:wallet:j'' 360 (sample_store\<lparr>clock_reads := Suc (clock_reads sample_store)\<rparr>) = (Inr True, s')"
    by (simp add: state_unfold)
  ultimately have "\<exists>s'. verify_client_attestation attestation_libs att pop [?key] ''https://issuer'' sample_store =
      (Inr \<lparr> ac_client_id = ''wallet'', ac_instance_key = ?inst \<rparr>, s')"
    unfolding verify_attestation_Inr by (simp add: timestamp_def)
  then show ?thesis by blast
qed

theorem attestation_sound_witness:
  "\<exists>L att pop trusted c s'. verify_client_attestation L att pop trusted ''https://issuer'' sample_store = (Inr c, s') \<and>
     (\<exists>key\<in>set trusted. is_ok (verify_with_public_jwk L att key)) \<and> jwk_d (ac_instance_key c) = None"
proof -
  obtain att pop c s' where v: "verify_client_attestation attestation_libs att pop
     [kp_public_jwk (ec_make hex_libs ''at'')] ''https://issuer'' sample_store = (Inr c, s')"
    using sample_attested by blast
  have "0 \<le> timestamp (clock_at sample_store (clock_reads sample_store))" by (simp add: timestamp_def)
  from attestation_sound [OF v this] obtain key d where
    "key \<in> set [kp_public_jwk (ec_make hex_libs ''at'')]" "verify_with_public_jwk attestation_libs att key = Inr d"
    "jwk_d (ac_instance_key c) = None" by blast
  moreover from this(2) have "is_ok (verify_with_public_jwk attestation_libs att key)" by simp
  ultimately show ?thesis using v by blast
qed

end
