(* ===== verification/Metadata.thy ===== *)
theory Metadata
  imports Oid4vci_Types Credential_Formats Dpop Client_Attestation
begin

text \<open>
  The metadata documents of crates/issuer/src/metadata.rs and the credential offers of
  crates/issuer/src/offer.rs. A \<open>HashMap\<close> literal is the list of its entries in the order they
  are inserted.
\<close>

section \<open>Issuer metadata\<close>

definition BATCH_SIZE :: nat where
  "BATCH_SIZE = 10"

definition COSE_ES256 :: int where
  "COSE_ES256 = -7"

definition MDL_ELEMENTS :: "string list" where
  "MDL_ELEMENTS =
     [''family_name'', ''given_name'', ''birth_date'', ''issue_date'', ''expiry_date'',
      ''issuing_country'', ''issuing_authority'', ''document_number'', ''portrait'',
      ''driving_privileges'', ''un_distinguishing_sign'', ''age_over_18'', ''age_over_21'']"

definition IDENTITY_VCT_PATH :: string where
  "IDENTITY_VCT_PATH = ''/credentials/identity''"

definition claim_at :: "string list \<Rightarrow> bool \<Rightarrow> claim_description" where
  "claim_at path mandatory = \<lparr> cl_path = map JStr path, cl_mandatory = Some mandatory \<rparr>"

record metadata_config =
  mf_issuer_url :: url
  mf_issuer_name :: string

definition issuer_id :: "metadata_config \<Rightarrow> string" where
  "issuer_id config = trim_end_matches (CHR ''/'') (mf_issuer_url config)"

definition identity_configuration :: "metadata_config \<Rightarrow> credential_configuration" where
  "identity_configuration config =
     \<lparr> cc_format = ''dc+sd-jwt'', cc_scope = Some ''identity_credential'',
       cc_binding_methods = Some [''jwk''], cc_signing_algs = Some [JStr ''ES256''],
       cc_proof_types = Some [(''jwt'', \<lparr> proof_signing_alg_values_supported = [''ES256'', ''EdDSA''] \<rparr>)],
       cc_metadata = Some
         \<lparr> cm_display = Some [\<lparr> cd_name = ''Identity Credential'', cd_locale = Some ''en'', cd_logo = None,
             cd_description = Some ''A verifiable identity credential'',
             cd_background_color = Some ''#1a1a2e'', cd_text_color = Some ''#ffffff'' \<rparr>],
           cm_claims = Some [claim_at [''given_name''] True, claim_at [''family_name''] True,
             claim_at [''birth_date''] True] \<rparr>,
       cc_vct = Some (issuer_id config @ IDENTITY_VCT_PATH), cc_doctype = None \<rparr>"

definition mdl_configuration :: credential_configuration where
  "mdl_configuration =
     \<lparr> cc_format = ''mso_mdoc'', cc_scope = Some ''org.iso.18013.5.1.mDL'',
       cc_binding_methods = Some [''cose_key''], cc_signing_algs = Some [JInt COSE_ES256],
       cc_proof_types = Some [(''jwt'', \<lparr> proof_signing_alg_values_supported = [''ES256''] \<rparr>)],
       cc_metadata = Some
         \<lparr> cm_display = Some [\<lparr> cd_name = ''Mobile Driver'' @ [CHR 0x27] @ ''s License'', cd_locale = Some ''en'',
             cd_logo = None, cd_description = Some ''ISO/IEC 18013-5 compliant mobile driving license'',
             cd_background_color = Some ''#0e4d92'', cd_text_color = Some ''#ffffff'' \<rparr>],
           cm_claims = Some (map (\<lambda>name. claim_at [''org.iso.18013.5.1'', name] True) MDL_ELEMENTS) \<rparr>,
       cc_vct = None, cc_doctype = Some ''org.iso.18013.5.1.mDL'' \<rparr>"

definition build_metadata :: "libs \<Rightarrow> metadata_config \<Rightarrow> credential_issuer_metadata option" where
  "build_metadata L config =
     Option.bind (url_join L (mf_issuer_url config) ''/credential'') (\<lambda>credential_endpoint.
     Option.bind (url_join L (mf_issuer_url config) ''/nonce'') (\<lambda>nonce_endpoint.
     Some \<lparr> im_credential_issuer = issuer_id config, im_authorization_servers = None,
       im_credential_endpoint = credential_endpoint,
       im_deferred_credential_endpoint = None,
       im_nonce_endpoint = Some nonce_endpoint,
       im_batch_credential_issuance = Some \<lparr> batch_size = BATCH_SIZE \<rparr>,
       im_configurations = [(''IdentityCredential_SD_JWT_VC'', identity_configuration config),
                            (''mDL_mso_mdoc'', mdl_configuration)],
       im_display = Some [\<lparr> id_name = mf_issuer_name config, id_locale = Some ''en'', id_logo = None \<rparr>] \<rparr>))"

definition build_identity_type_metadata :: "metadata_config \<Rightarrow> json" where
  "build_identity_type_metadata config =
     (let claim = (\<lambda>name label. JObj [(''path'', JArr [JStr name]),
            (''display'', JArr [JObj [(''locale'', JStr ''en''), (''label'', JStr label)]]),
            (''sd'', JStr ''always''), (''mandatory'', JBool True)])
      in JObj [(''vct'', JStr (issuer_id config @ IDENTITY_VCT_PATH)),
               (''name'', JStr ''Identity Credential''),
               (''description'', JStr ''A verifiable identity credential''),
               (''display'', JArr [JObj [(''locale'', JStr ''en''), (''name'', JStr ''Identity Credential''),
                  (''description'', JStr ''A verifiable identity credential'')]]),
               (''claims'', JArr [claim ''given_name'' ''Given name'', claim ''family_name'' ''Family name'',
                  claim ''birth_date'' ''Date of birth''])])"

definition build_authorization_server_metadata :: "libs \<Rightarrow> metadata_config \<Rightarrow> authorization_server_metadata option" where
  "build_authorization_server_metadata L config =
     (let join = url_join L (mf_issuer_url config)
      in Option.bind (join ''/authorize'') (\<lambda>authorization.
         Option.bind (join ''/token'') (\<lambda>token.
         Option.bind (join ''/authorize/par'') (\<lambda>par.
         Option.bind (join ''/.well-known/jwks.json'') (\<lambda>jwks.
         Some \<lparr> am_issuer = issuer_id config, am_authorization_endpoint = authorization,
           am_token_endpoint = token, am_par_endpoint = Some par,
           am_require_par = True, am_jwks_uri = jwks,
           am_response_types = [''code''],
           am_grant_types = [''authorization_code'', ''urn:ietf:params:oauth:grant-type:pre-authorized_code''],
           am_code_challenge_methods = [''S256''], am_token_auth_methods = [AUTH_METHOD],
           am_anonymous_pre_authorized = True, am_dpop_algs = DPOP_SIGNING_ALGS,
           am_attestation_algs = ATTESTATION_SIGNING_ALGS, am_attestation_pop_algs = ATTESTATION_SIGNING_ALGS,
           am_iss_parameter = True \<rparr>)))))"

definition validate_credential_config :: "credential_issuer_metadata \<Rightarrow> string \<Rightarrow> credential_configuration option" where
  "validate_credential_config metadata config_id = map_of (im_configurations metadata) config_id"

section \<open>Offers\<close>

record offer_params =
  op_configuration_ids :: "string list"
  op_use_authorization_code :: bool
  op_use_pre_authorized_code :: bool
  op_require_tx_code :: bool

definition offer_tx_code :: tx_code where
  "offer_tx_code = \<lparr> tx_input_mode = Some ''numeric'', tx_length = Some 6,
     tx_description = Some ''Please enter the 6-digit PIN'' \<rparr>"

definition create_offer ::
    "url \<Rightarrow> offer_params \<Rightarrow> ('x env_scheme, 'e, credential_offer \<times> string option) prog" where
  "create_offer issuer_url params =
     bindP (if op_use_authorization_code params
            then bindP new_uuid (\<lambda>uuid. ret (Some \<lparr> ag_issuer_state = Some uuid, ag_authorization_server = None \<rparr>))
            else ret None) (\<lambda>authorization_code.
     bindP (if op_use_pre_authorized_code params
            then bindP new_uuid (\<lambda>code. ret (Some code)) else ret None) (\<lambda>pre_auth_code.
     ret (\<lparr> co_credential_issuer = trim_end_matches (CHR ''/'') issuer_url,
            co_configuration_ids = op_configuration_ids params,
            co_grants = Some \<lparr> gr_authorization_code = authorization_code,
              gr_pre_authorized_code = map_option (\<lambda>code. \<lparr> pg_pre_authorized_code = code,
                 pg_tx_code = (if op_require_tx_code params then Some offer_tx_code else None) \<rparr>) pre_auth_code \<rparr> \<rparr>,
          pre_auth_code)))"

text \<open>The derived serializers of an offer.\<close>

definition offer_to_json :: "credential_offer \<Rightarrow> json" where
  "offer_to_json offer =
     (let tx = (\<lambda>t. JObj (opt_member ''input_mode'' JStr (tx_input_mode t) @
            opt_member ''length'' (\<lambda>n. JInt (int n)) (tx_length t) @
            opt_member ''description'' JStr (tx_description t)));
          pre = (\<lambda>g. JObj ([(''pre-authorized_code'', JStr (pg_pre_authorized_code g))] @
            opt_member ''tx_code'' tx (pg_tx_code g)));
          auth = (\<lambda>g. JObj (opt_member ''issuer_state'' JStr (ag_issuer_state g) @
            opt_member ''authorization_server'' JStr (ag_authorization_server g)));
          grants = (\<lambda>g. JObj (opt_member ''authorization_code'' auth (gr_authorization_code g) @
            opt_member ''urn:ietf:params:oauth:grant-type:pre-authorized_code'' pre (gr_pre_authorized_code g)))
      in JObj ([(''credential_issuer'', JStr (co_credential_issuer offer)),
                (''credential_configuration_ids'', JArr (map JStr (co_configuration_ids offer)))] @
               opt_member ''grants'' grants (co_grants offer)))"

definition encode_offer_uri :: "libs \<Rightarrow> credential_offer \<Rightarrow> string" where
  "encode_offer_uri L offer =
     ''openid-credential-offer://?credential_offer='' @ percent_encode L (json_print L (offer_to_json offer))"

section \<open>What is published is what is accepted\<close>

text \<open>
  Every configuration in the published metadata can be issued, with a type for its format
  and a proof type whose algorithms some key has; configuration and scope name each other, and
  the algorithms and grants that the authorization server advertises are those it accepts.
\<close>

theorem metadata_issuable:
  assumes "build_metadata L config = Some metadata"
  shows "\<forall>(id, cfg) \<in> set (im_configurations metadata).
     (cc_format cfg = format_as_str SdJwtVcFormat \<and> cc_vct cfg \<noteq> None \<or>
      cc_format cfg = format_as_str MdocFormat \<and> cc_doctype cfg = Some ''org.iso.18013.5.1.mDL'') \<and>
     (\<exists>types m. cc_proof_types cfg = Some types \<and> map_of types ''jwt'' = Some m \<and>
        proof_signing_alg_values_supported m \<noteq> [] \<and>
        set (proof_signing_alg_values_supported m) \<subseteq> range alg_as_str) \<and>
     validate_credential_config metadata id = Some cfg \<and>
     (\<forall>(id', cfg') \<in> set (im_configurations metadata).
        cc_scope cfg' = cc_scope cfg \<longrightarrow> id' = id)"
proof -
  have "''ES256'' \<in> range alg_as_str" "''EdDSA'' \<in> range alg_as_str"
    by (metis alg_as_str.simps(1) rangeI, metis alg_as_str.simps(2) rangeI)
  moreover have "im_configurations metadata = [(''IdentityCredential_SD_JWT_VC'', identity_configuration config),
      (''mDL_mso_mdoc'', mdl_configuration)]"
    using assms by (auto simp: build_metadata_def bind_eq_Some_conv)
  ultimately show ?thesis
    by (simp add: identity_configuration_def mdl_configuration_def validate_credential_config_def)
qed

text \<open>The metadata document exists when the server's URL takes a path; both join the same URL.\<close>

lemma build_metadata_joins:
  assumes "url_law L" and "build_metadata L config = Some metadata"
  shows "joins L (mf_issuer_url config)"
proof -
  from assms(2) obtain v where "url_join L (mf_issuer_url config) ''/credential'' = Some v"
    by (auto simp: build_metadata_def bind_eq_Some_conv)
  moreover have "is_path ''/credential''" by simp
  ultimately show ?thesis using assms(1) unfolding url_law_def by blast
qed

lemma build_metadata_Some: "joins L (mf_issuer_url config) \<Longrightarrow> \<exists>metadata. build_metadata L config = Some metadata"
  using joinsD [of L "mf_issuer_url config" "''/credential''"] joinsD [of L "mf_issuer_url config" "''/nonce''"]
  by (auto simp: build_metadata_def)

theorem metadata_issuable_witness:
  "\<exists>config metadata cfg. build_metadata hex_libs config = Some metadata \<and>
     (''mDL_mso_mdoc'', cfg) \<in> set (im_configurations metadata) \<and>
     validate_credential_config metadata ''mDL_mso_mdoc'' = Some cfg"
proof -
  let ?c = "\<lparr> mf_issuer_url = ''https://issuer/'', mf_issuer_name = ''Issuer'' \<rparr>"
  obtain metadata where b: "build_metadata hex_libs ?c = Some metadata"
    using build_metadata_Some hex_libs_joins(1) by blast
  then have m: "(''mDL_mso_mdoc'', mdl_configuration) \<in> set (im_configurations metadata)"
    by (auto simp: build_metadata_def bind_eq_Some_conv)
  from bspec [OF metadata_issuable [OF b] m]
  have "validate_credential_config metadata ''mDL_mso_mdoc'' = Some mdl_configuration"
    by simp
  with m b show ?thesis by blast
qed

text \<open>The code that is returned for storage is the one in the offer, and asks for a PIN when one is required.\<close>

lemma create_offer_code:
  assumes "create_offer url params s = (Inr (offer, code), s')"
  shows "\<exists>g. co_grants offer = Some g \<and>
     (code = None \<longleftrightarrow> gr_pre_authorized_code g = None) \<and>
     (\<forall>c. code = Some c \<longrightarrow> op_use_pre_authorized_code params \<and> c \<in> uuid_at s ` {uuids_used s..} \<and>
        (\<exists>p. gr_pre_authorized_code g = Some p \<and> pg_pre_authorized_code p = c \<and>
           (pg_tx_code p \<noteq> None \<longleftrightarrow> op_require_tx_code params)))"
  using assms
  by (auto simp: create_offer_def bindP_def ret_def new_uuid_def split: if_splits)

end
