(* ===== verification/Authorization.thy ===== *)
theory Authorization
  imports Issuer_State Oid4vci_Types
begin

text \<open>
  The authorization endpoint of crates/issuer/src/authorization.rs: pushed authorization
  requests, the configurations a request asks for, authorization codes and PKCE.
\<close>

datatype authorization_error =
    InvalidCodeChallengeMethod
  | MissingParameter string
  | UnsupportedResponseType string
  | InvalidScope
  | InvalidAuthorizationDetails string
  | InvalidRequest string
  | DpopJktMismatch
  | InvalidRedirectUri
  | AuthorizationStateError string
  | InvalidAuthorizationCode
  | AuthorizationPkceFailed

fun authorization_error_to_string :: "authorization_error \<Rightarrow> string" where
  "authorization_error_to_string InvalidCodeChallengeMethod = ''invalid code_challenge_method: must be S256''"
| "authorization_error_to_string (MissingParameter e) = ''missing required parameter: '' @ e"
| "authorization_error_to_string (UnsupportedResponseType e) = ''unsupported response_type: '' @ e"
| "authorization_error_to_string InvalidScope =
     ''no requested scope or authorization_details matches a supported credential''"
| "authorization_error_to_string (InvalidAuthorizationDetails e) = ''invalid authorization_details: '' @ e"
| "authorization_error_to_string (InvalidRequest e) = ''invalid request: '' @ e"
| "authorization_error_to_string DpopJktMismatch =
     ''dpop_jkt does not match the DPoP proof sent with the request''"
| "authorization_error_to_string InvalidRedirectUri = ''invalid redirect_uri''"
| "authorization_error_to_string (AuthorizationStateError e) = ''state error: '' @ e"
| "authorization_error_to_string InvalidAuthorizationCode = ''invalid authorization code''"
| "authorization_error_to_string AuthorizationPkceFailed = ''PKCE verification failed''"

definition REQUEST_URI_TTL_SECS :: int where
  "REQUEST_URI_TTL_SECS = 60"

definition AUTHORIZATION_CODE_TTL_SECS :: int where
  "AUTHORIZATION_CODE_TTL_SECS = 60"

record par_context =
  pc_client_id :: string
  pc_dpop_jkt :: "string option"

definition in_quotes :: "string \<Rightarrow> string" where
  "in_quotes s = [CHR 0x27] @ s @ [CHR 0x27]"

section \<open>Requested configurations\<close>

definition contains_key :: "string \<Rightarrow> (string \<times> 'a) list \<Rightarrow> bool" where
  "contains_key k m \<longleftrightarrow> k \<in> set (map fst m)"

definition detail_configuration ::
    "credential_issuer_metadata \<Rightarrow> authorization_detail \<Rightarrow> authorization_error + string" where
  "detail_configuration metadata detail =
     bindR (ensure (ad_type detail = ''openid_credential'')
              (InvalidAuthorizationDetails (''unsupported type '' @ in_quotes (ad_type detail)))) (\<lambda>_.
     bindR (ok_or (InvalidAuthorizationDetails ''credential_configuration_id is required'')
              (ad_configuration_id detail)) (\<lambda>id.
     bindR (ensure (contains_key id (im_configurations metadata))
              (InvalidAuthorizationDetails (''unknown credential_configuration_id '' @ in_quotes id))) (\<lambda>_.
     Inr id)))"

definition requested_configurations ::
    "pushed_authorization_request \<Rightarrow> credential_issuer_metadata \<Rightarrow> authorization_error + (string list \<times> bool)" where
  "requested_configurations request metadata =
     (case pr_authorization_details request of
        Some details \<Rightarrow>
          bindR (mapR (detail_configuration metadata) details) (\<lambda>ids.
          if ids = [] then Inl (InvalidAuthorizationDetails ''authorization_details is empty'')
          else Inr (ids, True))
      | None \<Rightarrow>
          (let scopes = split_whitespace (case pr_scope request of Some s \<Rightarrow> s | None \<Rightarrow> []);
               ids = sort (map fst (filter (\<lambda>(_, cfg).
                       case cc_scope cfg of Some scope \<Rightarrow> scope \<in> set scopes | None \<Rightarrow> False)
                     (im_configurations metadata)))
           in if ids = [] then Inl InvalidScope else Inr (ids, False)))"

section \<open>Pushed authorization requests\<close>

definition par_dpop_jkt ::
    "string option \<Rightarrow> string option \<Rightarrow> authorization_error + string option" where
  "par_dpop_jkt param proof_jkt =
     (case (param, proof_jkt) of
        (Some p, Some q) \<Rightarrow> if p \<noteq> q then Inl DpopJktMismatch else Inr (Some q)
      | (p, Some q) \<Rightarrow> Inr (Some q)
      | (p, None) \<Rightarrow> Inr p)"

definition check_par ::
    "pushed_authorization_request \<Rightarrow> par_context \<Rightarrow> credential_issuer_metadata \<Rightarrow>
       authorization_error + (string option \<times> string list \<times> bool)" where
  "check_par request ctx metadata =
     bindR (ensure (pr_request_uri request = None)
              (InvalidRequest ''request_uri is not allowed at the PAR endpoint'')) (\<lambda>_.
     bindR (ensure (pr_client_id request = pc_client_id ctx)
              (InvalidRequest ''client_id does not match the authenticated client'')) (\<lambda>_.
     bindR (par_dpop_jkt (pr_dpop_jkt request) (pc_dpop_jkt ctx)) (\<lambda>jkt.
     bindR (ensure (pr_response_type request = ''code'')
              (UnsupportedResponseType (pr_response_type request))) (\<lambda>_.
     bindR (ensure (pr_code_challenge_method request = ''S256'') InvalidCodeChallengeMethod) (\<lambda>_.
     bindR (ensure (pr_code_challenge request \<noteq> []) (MissingParameter ''code_challenge'')) (\<lambda>_.
     bindR (requested_configurations request metadata) (\<lambda>(ids, via_details).
     Inr (jkt, ids, via_details))))))))"

definition process_par ::
    "pushed_authorization_request \<Rightarrow> par_context \<Rightarrow> credential_issuer_metadata \<Rightarrow>
       ('x issuer_state_scheme, authorization_error, pushed_authorization_response) prog" where
  "process_par request ctx metadata =
     bindP (liftR (check_par request ctx metadata)) (\<lambda>(jkt, ids, via_details).
     bindP new_uuid (\<lambda>uuid.
     bindP utc_now (\<lambda>now.
     let request_uri = ''urn:ietf:params:oauth:request_uri:'' @ uuid;
         session = \<lparr> sn_request_uri = request_uri, sn_authorization_code = None,
           sn_code_challenge = pr_code_challenge request, sn_client_id = pr_client_id request,
           sn_redirect_uri = pr_redirect_uri request, sn_configuration_ids = ids,
           sn_via_details = via_details, sn_issuer_state = pr_issuer_state request,
           sn_client_state = pr_state request, sn_created_at = now, sn_code_issued_at = None,
           sn_dpop_jkt = jkt, sn_consumed = False \<rparr>
     in bindP (errP (\<lambda>e. AuthorizationStateError (state_error_to_string e))
                 (store_authorization_session request_uri session)) (\<lambda>_.
        ret \<lparr> ps_request_uri = request_uri, ps_expires_in = nat REQUEST_URI_TTL_SECS \<rparr>))))"

definition generate_authorization_code ::
    "string \<Rightarrow> ('x issuer_state_scheme, authorization_error, string) prog" where
  "generate_authorization_code request_uri =
     bindP new_uuid (\<lambda>code.
     bindP (errP (\<lambda>e. AuthorizationStateError (state_error_to_string e))
              (set_authorization_code request_uri code)) (\<lambda>_.
     ret code))"

definition verify_pkce :: "libs \<Rightarrow> string \<Rightarrow> string \<Rightarrow> bool" where
  "verify_pkce L code_verifier code_challenge \<longleftrightarrow>
     b64url_encode L (sha256 L code_verifier) = code_challenge"

section \<open>What a pushed request may ask for\<close>

lemma detail_configuration_Inr:
  "detail_configuration metadata d = Inr i \<Longrightarrow> i \<in> set (map fst (im_configurations metadata))"
  by (simp add: detail_configuration_def result_inv contains_key_def del: set_map)

lemma requested_configurations_Inr:
  assumes "requested_configurations request metadata = Inr (ids, via)"
  shows "ids \<noteq> [] \<and> set ids \<subseteq> set (map fst (im_configurations metadata)) \<and>
     via = (pr_authorization_details request \<noteq> None)"
proof (cases "pr_authorization_details request")
  case None
  with assms show ?thesis by (auto simp: requested_configurations_def Let_def split: if_splits)
next
  case (Some details)
  with assms have m: "mapR (detail_configuration metadata) details = Inr ids" and "ids \<noteq> []" "via"
    by (auto simp: requested_configurations_def result_inv split: if_splits)
  from m have "set ids \<subseteq> set (map fst (im_configurations metadata))"
    by (induction details arbitrary: ids)
      (auto simp: result_inv simp del: set_map dest: detail_configuration_Inr)
  with \<open>ids \<noteq> []\<close> \<open>via\<close> Some show ?thesis by simp
qed

lemma check_par_Inr:
  assumes "check_par request ctx metadata = Inr (jkt, ids, via)"
  shows "pr_client_id request = pc_client_id ctx \<and> pr_request_uri request = None \<and>
     pr_response_type request = ''code'' \<and> pr_code_challenge request \<noteq> [] \<and>
     pr_code_challenge_method request = ''S256'' \<and>
     requested_configurations request metadata = Inr (ids, via) \<and>
     (\<forall>p. pc_dpop_jkt ctx = Some p \<longrightarrow> jkt = Some p) \<and> (\<forall>p. pr_dpop_jkt request = Some p \<longrightarrow> jkt = Some p)"
  using assms by (auto simp: check_par_def result_inv par_dpop_jkt_def split: option.splits if_splits)

lemma process_par_Inr:
  assumes "process_par request ctx metadata s = (Inr response, s')"
  shows "\<exists>session jkt ids via sessions. check_par request ctx metadata = Inr (jkt, ids, via) \<and>
     is_sessions s = Unlocked sessions \<and>
     ps_request_uri response = ''urn:ietf:params:oauth:request_uri:'' @ uuid_at s (uuids_used s) \<and>
     s' = s\<lparr>uuids_used := Suc (uuids_used s), clock_reads := Suc (clock_reads s),
            is_sessions := Unlocked (sessions(ps_request_uri response \<mapsto> session))\<rparr> \<and>
     session = \<lparr> sn_request_uri = ps_request_uri response, sn_authorization_code = None,
           sn_code_challenge = pr_code_challenge request, sn_client_id = pr_client_id request,
           sn_redirect_uri = pr_redirect_uri request, sn_configuration_ids = ids,
           sn_via_details = via, sn_issuer_state = pr_issuer_state request,
           sn_client_state = pr_state request, sn_created_at = clock_at s (clock_reads s),
           sn_code_issued_at = None, sn_dpop_jkt = jkt, sn_consumed = False \<rparr>"
  using assms
  by (auto simp: process_par_def result_inv new_uuid_run utc_now_run Let_def
      store_authorization_session_def)

text \<open>
  A pushed request that is accepted names the authenticated client, uses the code flow
  with an S256 challenge, and is stored, unconsumed and without a code, for supported
  configurations only and at least one; a DPoP proof or a \<open>dpop_jkt\<close> parameter binds it.
\<close>

theorem par_stores_checked_session:
  assumes "process_par request ctx metadata s = (Inr response, s')"
  shows "\<exists>sessions session. is_sessions s' = Unlocked sessions \<and>
     sessions (ps_request_uri response) = Some session \<and> pr_client_id request = pc_client_id ctx \<and>
     sn_client_id session = pc_client_id ctx \<and> \<not> sn_consumed session \<and> sn_authorization_code session = None \<and>
     pr_code_challenge_method request = ''S256'' \<and> sn_code_challenge session = pr_code_challenge request \<and>
     sn_configuration_ids session \<noteq> [] \<and>
     set (sn_configuration_ids session) \<subseteq> set (map fst (im_configurations metadata)) \<and>
     (\<forall>p. pc_dpop_jkt ctx = Some p \<or> pr_dpop_jkt request = Some p \<longrightarrow> sn_dpop_jkt session = Some p)"
proof -
  from process_par_Inr [OF assms] obtain session jkt ids via sessions where
    c: "check_par request ctx metadata = Inr (jkt, ids, via)"
    and s': "is_sessions s' = Unlocked (sessions(ps_request_uri response \<mapsto> session))"
    and session: "sn_client_id session = pr_client_id request" "sn_configuration_ids session = ids"
      "sn_authorization_code session = None" "sn_code_challenge session = pr_code_challenge request"
      "sn_dpop_jkt session = jkt" "\<not> sn_consumed session"
    by auto
  note r = check_par_Inr [OF c]
  then have "requested_configurations request metadata = Inr (ids, via)" by blast
  from requested_configurations_Inr [OF this] r s' session show ?thesis by auto
qed

definition sample_configuration :: "string \<Rightarrow> credential_configuration" where
  "sample_configuration scope = \<lparr> cc_format = ''dc+sd-jwt'', cc_scope = Some scope,
     cc_binding_methods = Some [''jwk''], cc_signing_algs = None, cc_proof_types = None,
     cc_metadata = None, cc_vct = Some ''https://issuer/pid'', cc_doctype = None \<rparr>"

definition sample_metadata :: credential_issuer_metadata where
  "sample_metadata = \<lparr> im_credential_issuer = ''https://issuer'', im_authorization_servers = None,
     im_credential_endpoint = ''https://issuer/credential'', im_deferred_credential_endpoint = None,
     im_nonce_endpoint = None, im_batch_credential_issuance = None,
     im_configurations = [(''pid'', sample_configuration ''pid_scope'')], im_display = None \<rparr>"

definition sample_par :: pushed_authorization_request where
  "sample_par = \<lparr> pr_response_type = ''code'', pr_client_id = ''wallet'', pr_redirect_uri = ''https://wallet/cb'',
     pr_scope = Some ''openid pid_scope'', pr_state = None, pr_code_challenge = hex_encode ''verifier'',
     pr_code_challenge_method = ''S256'', pr_authorization_details = None, pr_issuer_state = None,
     pr_dpop_jkt = None, pr_request_uri = None \<rparr>"

definition sample_par_context :: par_context where
  "sample_par_context = \<lparr> pc_client_id = ''wallet'', pc_dpop_jkt = Some ''jkt'' \<rparr>"

lemma sample_check_par: "check_par sample_par sample_par_context sample_metadata = Inr (Some ''jkt'', [''pid''], False)"
proof -
  have "hex_encode ''verifier'' \<noteq> []" by (simp add: hex_encode_def Let_def)
  then show ?thesis
    by (simp add: check_par_def sample_par_def sample_par_context_def sample_metadata_def par_dpop_jkt_def
        requested_configurations_def sample_configuration_def split_whitespace_def blank_graphic graphic_def)
qed

lemma sample_process_par:
  "\<exists>response s'. process_par sample_par sample_par_context sample_metadata sample_store = (Inr response, s')"
  by (simp add: process_par_def sample_check_par bindP_def liftR_def new_uuid_run utc_now_run Let_def
      errP_def store_authorization_session_def with_lock_def ret_def)

theorem par_stores_checked_session_witness:
  "\<exists>response s' sessions. process_par sample_par sample_par_context sample_metadata sample_store = (Inr response, s') \<and>
     is_sessions s' = Unlocked sessions \<and> sessions (ps_request_uri response) \<noteq> None"
  using sample_process_par par_stores_checked_session by blast

end
