(* ===== verification/Token.thy ===== *)
theory Token
  imports Authorization
begin

text \<open>
  The token endpoint of crates/issuer/src/token.rs: the authorization code grant with client
  attestation, PKCE and DPoP, and the pre-authorized code grant. \<open>TokenPanic\<close> is a panic inside the
  store, on which the endpoint does not answer.
\<close>

definition ACCESS_TOKEN_TTL_SECS :: nat where
  "ACCESS_TOKEN_TTL_SECS = 3600"

datatype token_error =
    InvalidGrantType string
  | InvalidCode
  | CodeConsumed
  | TokenPkceFailed
  | ClientMismatch
  | InvalidPreAuthorizedCode
  | InvalidClient string
  | DpopRequired
  | DpopKeyMismatch
  | TokenStateError string
  | TokenPanic

fun token_status_and_code :: "token_error \<Rightarrow> nat \<times> string" where
  "token_status_and_code InvalidCode = (400, ''invalid_grant'')"
| "token_status_and_code CodeConsumed = (400, ''invalid_grant'')"
| "token_status_and_code TokenPkceFailed = (400, ''invalid_grant'')"
| "token_status_and_code ClientMismatch = (400, ''invalid_grant'')"
| "token_status_and_code InvalidPreAuthorizedCode = (400, ''invalid_grant'')"
| "token_status_and_code DpopKeyMismatch = (400, ''invalid_grant'')"
| "token_status_and_code (InvalidGrantType e) = (400, ''unsupported_grant_type'')"
| "token_status_and_code (InvalidClient e) = (401, ''invalid_client'')"
| "token_status_and_code DpopRequired = (400, ''invalid_request'')"
| "token_status_and_code (TokenStateError e) = (500, ''server_error'')"
| "token_status_and_code TokenPanic = (500, [])"

fun token_error_to_string :: "token_error \<Rightarrow> string" where
  "token_error_to_string (InvalidGrantType e) = ''invalid grant type: '' @ e"
| "token_error_to_string InvalidCode = ''invalid or expired authorization code''"
| "token_error_to_string CodeConsumed = ''authorization code already consumed''"
| "token_error_to_string TokenPkceFailed = ''PKCE verification failed''"
| "token_error_to_string ClientMismatch = ''the authorization code was issued to a different client or redirect_uri''"
| "token_error_to_string InvalidPreAuthorizedCode = ''invalid pre-authorized code or transaction code''"
| "token_error_to_string (InvalidClient e) = ''client authentication failed: '' @ e"
| "token_error_to_string DpopRequired = ''a DPoP proof is required''"
| "token_error_to_string DpopKeyMismatch = ''the DPoP key does not match the one bound at authorization''"
| "token_error_to_string (TokenStateError e) = ''state error: '' @ e"
| "token_error_to_string TokenPanic = []"

record token_context =
  tc_authenticated_client :: "string option"
  tc_dpop_jkt :: "string option"

type_synonym ('x, 'a) token_prog = "('x issuer_state_scheme, token_error, 'a) prog"

definition stateP :: "('x, 'a) state_prog \<Rightarrow> ('x, 'a) token_prog" where
  "stateP m = errP (unless_panic TokenPanic TokenStateError) m"

section \<open>Minting\<close>

text \<open>One \<open>credential_identifier\<close> per configuration, each with its own UUID.\<close>

definition mint_detail :: "string \<Rightarrow> ('x, authorized_detail) token_prog" where
  "mint_detail config_id =
     bindP new_uuid (\<lambda>uuid.
     ret \<lparr> az_type = ''openid_credential'', az_configuration_id = config_id,
           az_identifiers = [config_id @ '':'' @ uuid] \<rparr>)"

definition identifiers_of :: "authorized_detail list \<Rightarrow> string \<rightharpoonup> string" where
  "identifiers_of details =
     foldl (\<lambda>m d. foldl (\<lambda>m i. m(i \<mapsto> az_configuration_id d)) m (az_identifiers d)) Map.empty details"

definition mint_details :: "bool \<Rightarrow> string list \<Rightarrow> ('x, authorized_detail list option) token_prog" where
  "mint_details via_details config_ids =
     (if via_details then bindP (mapP mint_detail config_ids) (\<lambda>ds. ret (Some ds)) else ret None)"

definition issue_access_token ::
    "string list \<Rightarrow> bool \<Rightarrow> string option \<Rightarrow> ('x, token_response) token_prog" where
  "issue_access_token config_ids via_details dpop_jkt =
     bindP new_uuid (\<lambda>access_token.
     bindP (mint_details via_details config_ids) (\<lambda>details.
     let grant = \<lparr> gt_configuration_ids = config_ids,
           gt_identifiers = identifiers_of (case details of Some ds \<Rightarrow> ds | None \<Rightarrow> []),
           gt_dpop_jkt = dpop_jkt \<rparr>
     in bindP (stateP (store_access_token access_token grant ACCESS_TOKEN_TTL_SECS)) (\<lambda>_.
        ret \<lparr> tp_access_token = access_token,
              tp_token_type = (if dpop_jkt \<noteq> None then ''DPoP'' else ''Bearer''),
              tp_expires_in = ACCESS_TOKEN_TTL_SECS, tp_authorization_details = details \<rparr>)))"

section \<open>Grants\<close>

text \<open>The authorization code grant up to the point where the code is marked consumed.\<close>

definition check_authorization_code ::
    "libs \<Rightarrow> token_request \<Rightarrow> token_context \<Rightarrow> ('x, string \<times> authorization_session \<times> string) token_prog" where
  "check_authorization_code L request ctx =
     bindP (liftR (ok_or (InvalidClient ''client attestation is required'') (tc_authenticated_client ctx))) (\<lambda>client_id.
     bindP (liftR (ok_or InvalidCode (tr_code request))) (\<lambda>code.
     bindP (stateP (get_session_by_code code)) (\<lambda>found.
     bindP (liftR (ok_or InvalidCode found)) (\<lambda>session.
     bindP (if sn_consumed session
            then bindP (stateP (revoke_tokens_for_code code)) (\<lambda>_. liftR (Inl CodeConsumed))
            else ret ()) (\<lambda>_.
     bindP (liftR (ok_or InvalidCode (sn_code_issued_at session))) (\<lambda>issued_at.
     bindP utc_now (\<lambda>now.
     bindP (liftR (ensure (num_seconds (now - issued_at) \<le> AUTHORIZATION_CODE_TTL_SECS) InvalidCode)) (\<lambda>_.
     bindP (liftR (ensure (sn_client_id session = client_id) ClientMismatch)) (\<lambda>_.
     bindP (liftR (ensure (tr_redirect_uri request = Some (sn_redirect_uri session)) ClientMismatch)) (\<lambda>_.
     bindP (liftR (ok_or TokenPkceFailed (tr_code_verifier request))) (\<lambda>code_verifier.
     bindP (liftR (ensure (verify_pkce L code_verifier (sn_code_challenge session)) TokenPkceFailed)) (\<lambda>_.
     bindP (liftR (ok_or DpopRequired (tc_dpop_jkt ctx))) (\<lambda>dpop_jkt.
     bindP (liftR (ensure (case sn_dpop_jkt session of Some bound \<Rightarrow> bound = dpop_jkt | None \<Rightarrow> True)
                     DpopKeyMismatch)) (\<lambda>_.
     ret (code, session, dpop_jkt)))))))))))))))"

definition redeem_authorization_code ::
    "string \<times> authorization_session \<times> string \<Rightarrow> ('x, token_response) token_prog" where
  "redeem_authorization_code = (\<lambda>(code, session, dpop_jkt).
     bindP (stateP (consume_authorization_code code)) (\<lambda>_.
     bindP (issue_access_token (sn_configuration_ids session) (sn_via_details session) (Some dpop_jkt)) (\<lambda>response.
     bindP (stateP (record_token_for_code code (tp_access_token response))) (\<lambda>_.
     ret response))))"

definition process_authorization_code_grant ::
    "libs \<Rightarrow> token_request \<Rightarrow> token_context \<Rightarrow> ('x, token_response) token_prog" where
  "process_authorization_code_grant L request ctx =
     bindP (check_authorization_code L request ctx) redeem_authorization_code"

definition process_pre_authorized_code_grant ::
    "token_request \<Rightarrow> token_context \<Rightarrow> ('x, token_response) token_prog" where
  "process_pre_authorized_code_grant request ctx =
     bindP (liftR (ok_or InvalidPreAuthorizedCode (tr_pre_authorized_code request))) (\<lambda>pre_auth_code.
     bindP (stateP (redeem_pre_authorized_code pre_auth_code (tr_tx_code request))) (\<lambda>redeemed.
     bindP (liftR (ok_or InvalidPreAuthorizedCode redeemed)) (\<lambda>config_ids.
     issue_access_token config_ids False (tc_dpop_jkt ctx))))"

definition process_token_request ::
    "libs \<Rightarrow> token_request \<Rightarrow> token_context \<Rightarrow> ('x, token_response) token_prog" where
  "process_token_request L request ctx =
     bindP (liftR (case (tr_client_id request, tc_authenticated_client ctx) of
              (Some param, Some authenticated) \<Rightarrow>
                ensure (param = authenticated)
                  (InvalidClient ''client_id does not match the authenticated client'')
            | _ \<Rightarrow> Inr ())) (\<lambda>_.
     if tr_grant_type request = ''authorization_code'' then process_authorization_code_grant L request ctx
     else if tr_grant_type request = ''urn:ietf:params:oauth:grant-type:pre-authorized_code'' then
       process_pre_authorized_code_grant request ctx
     else liftR (Inl (InvalidGrantType (tr_grant_type request))))"

section \<open>What the steps do to the store\<close>

lemma stateP_Inr [result_inv]: "stateP m s = (Inr x, s') \<longleftrightarrow> m s = (Inr x, s')"
  by (simp add: stateP_def result_inv)

lemma mint_detail_run:
  "mint_detail i s = (Inr \<lparr> az_type = ''openid_credential'', az_configuration_id = i,
     az_identifiers = [i @ '':'' @ uuid_at s (uuids_used s)] \<rparr>, s\<lparr>uuids_used := Suc (uuids_used s)\<rparr>)"
  by (simp add: mint_detail_def bindP_def new_uuid_run ret_def)

lemma mint_list_run:
  "mapP mint_detail ids s = (Inr ds, s') \<Longrightarrow>
     map az_configuration_id ds = ids \<and> s' = s\<lparr>uuids_used := uuids_used s + length ids\<rparr>"
proof (induction ids arbitrary: s ds)
  case Nil
  then show ?case by (simp add: ret_def)
next
  case (Cons i ids)
  then obtain ds' where "mapP mint_detail ids (s\<lparr>uuids_used := Suc (uuids_used s)\<rparr>) = (Inr ds', s')"
    and "map az_configuration_id ds = i # map az_configuration_id ds'"
    by (auto simp: result_inv mint_detail_run [of i s])
  with Cons.IH [OF this(1)] show ?case by simp
qed

lemma mint_details_Inr:
  assumes "mint_details via ids s = (Inr details, s')"
  shows "\<exists>ds n. details = (if via then Some ds else None) \<and> s' = s\<lparr>uuids_used := n\<rparr> \<and> uuids_used s \<le> n \<and>
     (if via then map az_configuration_id ds = ids else ds = [])"
proof (cases via)
  case True
  with assms obtain ds where "mapP mint_detail ids s = (Inr ds, s')" "details = Some ds"
    by (auto simp: mint_details_def result_inv)
  with True mint_list_run [OF this(1)] show ?thesis by (intro exI [of _ ds] exI) auto
next
  case False
  with assms show ?thesis by (intro exI [of _ "[]"] exI [of _ "uuids_used s"]) (simp add: mint_details_def result_inv)
qed

text \<open>A minted token is the next UUID; only tokens, the clock and the UUIDs change.\<close>

lemma issue_access_token_Inr:
  assumes "issue_access_token ids via jkt s = (Inr response, s')"
  shows "\<exists>tokens ds e k. is_access_tokens s = Unlocked tokens \<and> tp_access_token response = uuid_at s (uuids_used s) \<and>
     expiry (clock_at s (clock_reads s)) ACCESS_TOKEN_TTL_SECS = Some e \<and>
     s' = s\<lparr>uuids_used := k, clock_reads := Suc (clock_reads s),
            is_access_tokens := Unlocked (tokens(tp_access_token response \<mapsto>
              \<lparr> te_grant = \<lparr> gt_configuration_ids = ids, gt_identifiers = identifiers_of ds, gt_dpop_jkt = jkt \<rparr>,
                te_expires_at = e \<rparr>))\<rparr> \<and>
     uuids_used s < k \<and> (if via then map az_configuration_id ds = ids else ds = []) \<and>
     tp_authorization_details response = (if via then Some ds else None) \<and>
     tp_token_type response = (if jkt \<noteq> None then ''DPoP'' else ''Bearer'')"
proof -
  obtain details s1 where m: "mint_details via ids (s\<lparr>uuids_used := Suc (uuids_used s)\<rparr>) = (Inr details, s1)"
    and st: "store_access_token (uuid_at s (uuids_used s)) \<lparr> gt_configuration_ids = ids,
           gt_identifiers = identifiers_of (case details of Some ds \<Rightarrow> ds | None \<Rightarrow> []),
           gt_dpop_jkt = jkt \<rparr> ACCESS_TOKEN_TTL_SECS s1 = (Inr (), s')"
    and r: "response = \<lparr> tp_access_token = uuid_at s (uuids_used s),
              tp_token_type = (if jkt \<noteq> None then ''DPoP'' else ''Bearer''),
              tp_expires_in = ACCESS_TOKEN_TTL_SECS, tp_authorization_details = details \<rparr>"
    using assms by (auto simp: issue_access_token_def result_inv new_uuid_run Let_def)
  from mint_details_Inr [OF m] obtain ds n where d: "details = (if via then Some ds else None)"
    and s1: "s1 = s\<lparr>uuids_used := n\<rparr>" and n: "uuids_used s < n"
    and ds: "if via then map az_configuration_id ds = ids else ds = []" by auto
  from d ds have i: "(case details of Some ds \<Rightarrow> ds | None \<Rightarrow> []) = ds" by (cases via) auto
  from st obtain tokens e where "is_access_tokens s = Unlocked tokens"
    "expiry (clock_at s (clock_reads s)) ACCESS_TOKEN_TTL_SECS = Some e"
    "s' = s\<lparr>uuids_used := n, clock_reads := Suc (clock_reads s),
            is_access_tokens := Unlocked (tokens(uuid_at s (uuids_used s) \<mapsto>
              \<lparr> te_grant = \<lparr> gt_configuration_ids = ids, gt_identifiers = identifiers_of ds, gt_dpop_jkt = jkt \<rparr>,
                te_expires_at = e \<rparr>))\<rparr>"
    unfolding i s1 by (auto simp: store_access_token_def result_inv utc_now_run split: option.splits)
  with r d ds n show ?thesis by auto
qed

lemma check_code_Inr:
  assumes "check_authorization_code L request ctx s = (Inr (code, session, jkt), s')"
  shows "\<exists>code_map uri sessions issued_at verifier. tr_code request = Some code \<and>
     is_code_to_uri s = Unlocked code_map \<and> code_map code = Some uri \<and>
     is_sessions s = Unlocked sessions \<and> sessions uri = Some session \<and> \<not> sn_consumed session \<and>
     sn_code_issued_at session = Some issued_at \<and>
     num_seconds (clock_at s (clock_reads s) - issued_at) \<le> AUTHORIZATION_CODE_TTL_SECS \<and>
     tc_authenticated_client ctx = Some (sn_client_id session) \<and>
     tr_redirect_uri request = Some (sn_redirect_uri session) \<and> tr_code_verifier request = Some verifier \<and>
     verify_pkce L verifier (sn_code_challenge session) \<and> tc_dpop_jkt ctx = Some jkt \<and>
     (\<forall>bound. sn_dpop_jkt session = Some bound \<longrightarrow> bound = jkt) \<and>
     s' = s\<lparr>clock_reads := Suc (clock_reads s)\<rparr>"
  using assms
  by (auto simp: check_authorization_code_def result_inv get_session_by_code_def utc_now_run
      split: option.splits if_splits)

lemma code_grant_Inr:
  assumes "process_authorization_code_grant L request ctx s = (Inr response, s')"
  shows "\<exists>code code_map uri sessions session jkt tokens by_code ds e k s1.
     check_authorization_code L request ctx s = (Inr (code, session, jkt), s1) \<and>
     is_code_to_uri s = Unlocked code_map \<and> code_map code = Some uri \<and>
     is_sessions s = Unlocked sessions \<and> sessions uri = Some session \<and>
     is_access_tokens s = Unlocked tokens \<and> is_tokens_by_code s = Unlocked by_code \<and>
     tp_access_token response = uuid_at s (uuids_used s) \<and> uuids_used s < k \<and>
     s' = s\<lparr>uuids_used := k, clock_reads := Suc (Suc (clock_reads s)),
       is_sessions := Unlocked (sessions(uri \<mapsto> session\<lparr>sn_consumed := True\<rparr>)),
       is_access_tokens := Unlocked (tokens(tp_access_token response \<mapsto>
         \<lparr> te_grant = \<lparr> gt_configuration_ids = sn_configuration_ids session,
             gt_identifiers = identifiers_of ds, gt_dpop_jkt = Some jkt \<rparr>, te_expires_at = e \<rparr>)),
       is_tokens_by_code := Unlocked (by_code(code \<mapsto> tp_access_token response))\<rparr> \<and>
     (if sn_via_details session then map az_configuration_id ds = sn_configuration_ids session else ds = [])"
proof -
  obtain code session jkt s1 where c: "check_authorization_code L request ctx s = (Inr (code, session, jkt), s1)"
    and r: "redeem_authorization_code (code, session, jkt) s1 = (Inr response, s')"
    using assms by (auto simp: process_authorization_code_grant_def result_inv)
  from check_code_Inr [OF c] obtain code_map uri sessions where
    m: "is_code_to_uri s = Unlocked code_map" "code_map code = Some uri"
      "is_sessions s = Unlocked sessions" "sessions uri = Some session"
    and s1: "s1 = s\<lparr>clock_reads := Suc (clock_reads s)\<rparr>" by blast
  obtain s2 s3 by_code where
    "s2 = s1\<lparr>is_sessions := Unlocked (sessions(uri \<mapsto> session\<lparr>sn_consumed := True\<rparr>))\<rparr>"
    and i: "issue_access_token (sn_configuration_ids session) (sn_via_details session) (Some jkt) s2 = (Inr response, s3)"
    and b: "is_tokens_by_code s3 = Unlocked by_code"
      "s' = s3\<lparr>is_tokens_by_code := Unlocked (by_code(code \<mapsto> tp_access_token response))\<rparr>"
    using r m by (auto simp: redeem_authorization_code_def result_inv consume_authorization_code_def
        record_token_for_code_def s1)
  then have s2: "s2 = s\<lparr>clock_reads := Suc (clock_reads s),
      is_sessions := Unlocked (sessions(uri \<mapsto> session\<lparr>sn_consumed := True\<rparr>))\<rparr>" by (simp add: s1)
  from issue_access_token_Inr [OF i] obtain tokens ds e k where
    t: "is_access_tokens s = Unlocked tokens" "tp_access_token response = uuid_at s (uuids_used s)" "uuids_used s < k"
    and s3: "s3 = s2\<lparr>uuids_used := k, clock_reads := Suc (clock_reads s2),
        is_access_tokens := Unlocked (tokens(tp_access_token response \<mapsto>
          \<lparr> te_grant = \<lparr> gt_configuration_ids = sn_configuration_ids session,
              gt_identifiers = identifiers_of ds, gt_dpop_jkt = Some jkt \<rparr>, te_expires_at = e \<rparr>))\<rparr>"
    and ds: "if sn_via_details session then map az_configuration_id ds = sn_configuration_ids session else ds = []"
    by (auto simp: s2)
  have "is_tokens_by_code s = Unlocked by_code" using b(1) by (simp add: s3 s2)
  with c m t b(2) ds show ?thesis
    by (intro exI [of _ code] exI [of _ code_map] exI [of _ uri] exI [of _ sessions] exI [of _ session]
        exI [of _ jkt] exI [of _ tokens] exI [of _ by_code] exI [of _ ds] exI [of _ e] exI [of _ k] exI [of _ s1])
      (simp add: s3 s2)
qed

text \<open>
  C10. The authorization code grant mints a token only for an attested client that the code
  was issued to, with its redirect URI, the PKCE verifier behind the challenge and a DPoP key,
  the one bound at authorization if there was one, at most 60 whole seconds after the code was
  issued; the token is a new UUID bound to that key and to exactly the session's
  configurations.
\<close>

theorem code_grant_checks:
  assumes "process_token_request L request ctx s = (Inr response, s')"
    and "tr_grant_type request = ''authorization_code''"
  shows "\<exists>code uri code_map sessions session issued_at verifier jkt tokens entry.
     tr_code request = Some code \<and> is_code_to_uri s = Unlocked code_map \<and> code_map code = Some uri \<and>
     is_sessions s = Unlocked sessions \<and> sessions uri = Some session \<and> \<not> sn_consumed session \<and>
     sn_code_issued_at session = Some issued_at \<and>
     num_seconds (clock_at s (clock_reads s) - issued_at) \<le> 60 \<and>
     tc_authenticated_client ctx = Some (sn_client_id session) \<and>
     tr_redirect_uri request = Some (sn_redirect_uri session) \<and>
     tr_code_verifier request = Some verifier \<and>
     b64url_encode L (sha256 L verifier) = sn_code_challenge session \<and>
     tc_dpop_jkt ctx = Some jkt \<and> (\<forall>bound. sn_dpop_jkt session = Some bound \<longrightarrow> bound = jkt) \<and>
     is_access_tokens s' = Unlocked tokens \<and> tp_access_token response = uuid_at s (uuids_used s) \<and>
     tokens (tp_access_token response) = Some entry \<and> gt_dpop_jkt (te_grant entry) = Some jkt \<and>
     gt_configuration_ids (te_grant entry) = sn_configuration_ids session"
proof -
  have "process_authorization_code_grant L request ctx s = (Inr response, s')"
    using assms by (simp add: process_token_request_def result_inv)
  from code_grant_Inr [OF this] obtain code session jkt s1 tokens entry where
    c: "check_authorization_code L request ctx s = (Inr (code, session, jkt), s1)"
    and t: "is_access_tokens s' = Unlocked tokens" "tp_access_token response = uuid_at s (uuids_used s)"
      "tokens (tp_access_token response) = Some entry" "gt_dpop_jkt (te_grant entry) = Some jkt"
      "gt_configuration_ids (te_grant entry) = sn_configuration_ids session"
    by (elim exE conjE) simp
  from check_code_Inr [OF c] t show ?thesis
    unfolding verify_pkce_def AUTHORIZATION_CODE_TTL_SECS_def by blast
qed

section \<open>Replay\<close>

text \<open>
  C15. Presenting a redeemed code again, by any attested client, fails as consumed and takes
  the token it minted out of the store: the next lookup of that token finds nothing.
\<close>

theorem code_replay_revokes:
  assumes "process_authorization_code_grant L request ctx s = (Inr response, s')"
    and "tr_code request' = tr_code request" and "tc_authenticated_client ctx' \<noteq> None"
  shows "fst (process_authorization_code_grant L request' ctx' s') = Inl CodeConsumed \<and>
     fst (get_access_grant (tp_access_token response)
            (snd (process_authorization_code_grant L request' ctx' s'))) = Inr None"
proof -
  from code_grant_Inr [OF assms(1)] obtain code code_map uri sessions session jkt tokens by_code s1 where
    c: "check_authorization_code L request ctx s = (Inr (code, session, jkt), s1)"
    and m: "is_code_to_uri s' = Unlocked code_map" "code_map code = Some uri"
      "is_sessions s' = Unlocked (sessions(uri \<mapsto> session\<lparr>sn_consumed := True\<rparr>))"
      "is_access_tokens s' = Unlocked tokens"
      "is_tokens_by_code s' = Unlocked (by_code(code \<mapsto> tp_access_token response))"
    by (elim exE conjE) simp
  from check_code_Inr [OF c] assms(2) have code: "tr_code request' = Some code" by auto
  obtain client where client: "tc_authenticated_client ctx' = Some client" using assms(3) by blast
  have "check_authorization_code L request' ctx' s' =
      (Inl CodeConsumed, s'\<lparr>is_tokens_by_code := Unlocked ((by_code(code \<mapsto> tp_access_token response))(code := None)),
         is_access_tokens := Unlocked (tokens(tp_access_token response := None))\<rparr>)"
    using m by (simp add: check_authorization_code_def bindP_def liftR_def code client stateP_def errP_def
        get_session_by_code_def with_lock_def ret_def revoke_tokens_for_code_def)
  then show ?thesis
    by (simp add: process_authorization_code_grant_def bindP_def get_access_grant_def with_lock_def ret_def)
qed

section \<open>Two requests at a time\<close>

definition sample_session :: authorization_session where
  "sample_session = \<lparr> sn_request_uri = ''urn:1'', sn_authorization_code = Some ''code'',
     sn_code_challenge = hex_encode ''verifier'', sn_client_id = ''wallet'',
     sn_redirect_uri = ''https://wallet/cb'', sn_configuration_ids = [''pid''], sn_via_details = False,
     sn_issuer_state = None, sn_client_state = None, sn_created_at = 0, sn_code_issued_at = Some 0,
     sn_dpop_jkt = Some ''jkt'', sn_consumed = False \<rparr>"

definition sample_code_store :: issuer_state where
  "sample_code_store = sample_store\<lparr>is_sessions := Unlocked [''urn:1'' \<mapsto> sample_session],
     is_code_to_uri := Unlocked [''code'' \<mapsto> ''urn:1'']\<rparr>"

definition sample_token_request :: token_request where
  "sample_token_request = \<lparr> tr_grant_type = ''authorization_code'', tr_code = Some ''code'',
     tr_redirect_uri = Some ''https://wallet/cb'', tr_code_verifier = Some ''verifier'',
     tr_client_id = None, tr_pre_authorized_code = None, tr_tx_code = None \<rparr>"

definition sample_token_context :: token_context where
  "sample_token_context = \<lparr> tc_authenticated_client = Some ''wallet'', tc_dpop_jkt = Some ''jkt'' \<rparr>"

lemma sample_check_code:
  assumes "is_code_to_uri s = Unlocked [''code'' \<mapsto> ''urn:1'']" and "is_sessions s = Unlocked [''urn:1'' \<mapsto> sample_session]"
    and "clock_at s = (\<lambda>n. 0)"
  shows "check_authorization_code hex_libs sample_token_request sample_token_context s =
    (Inr (''code'', sample_session, ''jkt''), s\<lparr>clock_reads := Suc (clock_reads s)\<rparr>)"
  using assms
  by (simp add: check_authorization_code_def bindP_def liftR_def stateP_def errP_def ret_def
      get_session_by_code_def with_lock_def utc_now_run sample_token_request_def sample_token_context_def
      sample_session_def verify_pkce_def hex_libs_def num_seconds_def trunc_div_def AUTHORIZATION_CODE_TTL_SECS_def)

lemma expiry_hour: "expiry 0 ACCESS_TOKEN_TTL_SECS = Some (3600 * second)"
  by (simp add: expiry_def duration_seconds_def date_plus_def second_def wrap_i64_id in_i64_def ACCESS_TOKEN_TTL_SECS_def)

lemma sample_redeem:
  assumes "is_code_to_uri s = Unlocked [''code'' \<mapsto> ''urn:1'']" and "is_sessions s = Unlocked [''urn:1'' \<mapsto> ses]"
    and "is_access_tokens s = Unlocked tokens" and "is_tokens_by_code s = Unlocked by_code" and "clock_at s = (\<lambda>n. 0)"
  shows "\<exists>response s'. redeem_authorization_code (''code'', sample_session, ''jkt'') s = (Inr response, s') \<and>
     tp_access_token response = uuid_at s (uuids_used s) \<and> uuid_at s' = uuid_at s \<and> uuids_used s' = Suc (uuids_used s) \<and>
     clock_at s' = (\<lambda>n. 0) \<and> is_code_to_uri s' = is_code_to_uri s \<and>
     is_sessions s' = Unlocked [''urn:1'' \<mapsto> ses\<lparr>sn_consumed := True\<rparr>] \<and>
     (\<exists>e by_code'. is_access_tokens s' = Unlocked (tokens(uuid_at s (uuids_used s) \<mapsto> e)) \<and>
        is_tokens_by_code s' = Unlocked by_code')"
  using assms expiry_hour
  by (simp add: redeem_authorization_code_def bindP_def stateP_def errP_def ret_def with_lock_def
      consume_authorization_code_def record_token_for_code_def issue_access_token_def mint_details_def
      new_uuid_run store_access_token_def utc_now_run Let_def sample_session_def) (rule exI, rule refl)

text \<open>
  C13. Handled concurrently, one code gives two tokens: the endpoint looks the code up and
  marks it consumed in two separate locked steps, so two requests that both look it up before
  either marks it both pass the check and both mint a token, each of them usable.
\<close>

theorem authorization_code_race:
  "\<exists>s1 s2 s3 s4 a b r1 r2 tokens.
     check_authorization_code hex_libs sample_token_request sample_token_context sample_code_store = (Inr a, s1) \<and>
     check_authorization_code hex_libs sample_token_request sample_token_context s1 = (Inr b, s2) \<and>
     redeem_authorization_code a s2 = (Inr r1, s3) \<and> redeem_authorization_code b s3 = (Inr r2, s4) \<and>
     tp_access_token r1 \<noteq> tp_access_token r2 \<and> is_access_tokens s4 = Unlocked tokens \<and>
     tokens (tp_access_token r1) \<noteq> None \<and> tokens (tp_access_token r2) \<noteq> None"
proof -
  let ?s1 = "sample_code_store\<lparr>clock_reads := Suc (clock_reads sample_code_store)\<rparr>"
  let ?s2 = "?s1\<lparr>clock_reads := Suc (clock_reads ?s1)\<rparr>"
  have s: "is_code_to_uri sample_code_store = Unlocked [''code'' \<mapsto> ''urn:1'']"
    "is_sessions sample_code_store = Unlocked [''urn:1'' \<mapsto> sample_session]" "clock_at sample_code_store = (\<lambda>n. 0)"
    "is_access_tokens sample_code_store = Unlocked Map.empty" "is_tokens_by_code sample_code_store = Unlocked Map.empty"
    "uuid_at sample_code_store = show_nat" "uuids_used sample_code_store = 0"
    by (simp_all add: sample_code_store_def)
  have c1: "check_authorization_code hex_libs sample_token_request sample_token_context sample_code_store =
      (Inr (''code'', sample_session, ''jkt''), ?s1)"
    by (rule sample_check_code) (simp_all add: s)
  have c2: "check_authorization_code hex_libs sample_token_request sample_token_context ?s1 =
      (Inr (''code'', sample_session, ''jkt''), ?s2)"
    by (rule sample_check_code) (simp_all add: s)
  obtain r1 s3 e1 by1 where r1: "redeem_authorization_code (''code'', sample_session, ''jkt'') ?s2 = (Inr r1, s3)"
    and t1: "tp_access_token r1 = show_nat 0" "uuid_at s3 = show_nat" "uuids_used s3 = 1" "clock_at s3 = (\<lambda>n. 0)"
      "is_code_to_uri s3 = Unlocked [''code'' \<mapsto> ''urn:1'']"
      "is_sessions s3 = Unlocked [''urn:1'' \<mapsto> sample_session\<lparr>sn_consumed := True\<rparr>]"
      "is_access_tokens s3 = Unlocked [show_nat 0 \<mapsto> e1]" "is_tokens_by_code s3 = Unlocked by1"
    using sample_redeem [of ?s2 sample_session Map.empty Map.empty] by (auto simp: s)
  obtain r2 s4 e2 where r2: "redeem_authorization_code (''code'', sample_session, ''jkt'') s3 = (Inr r2, s4)"
    and t2: "tp_access_token r2 = show_nat 1" "is_access_tokens s4 = Unlocked ([show_nat 0 \<mapsto> e1](show_nat 1 \<mapsto> e2))"
    using sample_redeem [OF t1(5,6,7,8,4)] t1(2,3) by auto
  have "show_nat 0 \<noteq> show_nat 1" by (simp add: show_nat_inj)
  with c1 c2 r1 r2 t1(1) t2 show ?thesis
    by (intro exI conjI) (assumption | simp)+
qed

lemma sample_grant:
  "\<exists>response s'. process_token_request hex_libs sample_token_request sample_token_context sample_code_store =
     (Inr response, s') \<and>
   process_authorization_code_grant hex_libs sample_token_request sample_token_context sample_code_store = (Inr response, s')"
proof -
  let ?s1 = "sample_code_store\<lparr>clock_reads := Suc (clock_reads sample_code_store)\<rparr>"
  have c1: "check_authorization_code hex_libs sample_token_request sample_token_context sample_code_store =
      (Inr (''code'', sample_session, ''jkt''), ?s1)"
    by (rule sample_check_code) (simp_all add: sample_code_store_def)
  obtain r1 s3 where "redeem_authorization_code (''code'', sample_session, ''jkt'') ?s1 = (Inr r1, s3)"
    using sample_redeem [of ?s1 sample_session Map.empty Map.empty] by (auto simp: sample_code_store_def)
  with c1 have "process_authorization_code_grant hex_libs sample_token_request sample_token_context sample_code_store =
      (Inr r1, s3)"
    by (simp add: process_authorization_code_grant_def bindP_def)
  then show ?thesis
    by (simp add: process_token_request_def bindP_def liftR_def sample_token_request_def)
qed

theorem code_grant_checks_witness:
  "\<exists>response s' tokens. process_token_request hex_libs sample_token_request sample_token_context sample_code_store =
     (Inr response, s') \<and> is_access_tokens s' = Unlocked tokens \<and> tokens (tp_access_token response) \<noteq> None"
proof -
  obtain response s' where p: "process_token_request hex_libs sample_token_request sample_token_context sample_code_store =
     (Inr response, s')" using sample_grant by blast
  have "tr_grant_type sample_token_request = ''authorization_code''" by (simp add: sample_token_request_def)
  from code_grant_checks [OF p this] p show ?thesis by auto
qed

theorem code_replay_revokes_witness:
  "\<exists>response s'. process_authorization_code_grant hex_libs sample_token_request sample_token_context sample_code_store =
     (Inr response, s') \<and>
     fst (process_authorization_code_grant hex_libs sample_token_request sample_token_context s') = Inl CodeConsumed"
proof -
  obtain response s' where p: "process_authorization_code_grant hex_libs sample_token_request sample_token_context
      sample_code_store = (Inr response, s')" using sample_grant by blast
  have "tc_authenticated_client sample_token_context \<noteq> None" by (simp add: sample_token_context_def)
  from code_replay_revokes [OF p refl this] p show ?thesis by blast
qed

end
