(* ===== verification/Sd_Jwt.thy ===== *)
theory Sd_Jwt
  imports Credential_Formats Jws
begin

text \<open>
  Sd_Jwt: selective disclosure of crates/crypto/src/sd_jwt.rs, issuance, verification and
  holder key binding. A \<open>HashMap\<close> that is iterated is the list of its entries in that order;
  one that is only filled is a key-sorted list of entries.
\<close>

section \<open>Types\<close>

datatype sd_jwt_error =
    SdSerialization string
  | SdSigning string
  | SdInvalidDisclosure string
  | SdVerification string
  | SdMissingClaim string
  | SdKeyBinding string

fun sd_jwt_error_to_string :: "sd_jwt_error \<Rightarrow> string" where
  "sd_jwt_error_to_string (SdSerialization e) = ''serialization error: '' @ e"
| "sd_jwt_error_to_string (SdSigning e) = ''signing error: '' @ e"
| "sd_jwt_error_to_string (SdInvalidDisclosure e) = ''invalid disclosure: '' @ e"
| "sd_jwt_error_to_string (SdVerification e) = ''verification error: '' @ e"
| "sd_jwt_error_to_string (SdMissingClaim e) = ''missing required claim: '' @ e"
| "sd_jwt_error_to_string (SdKeyBinding e) = ''key binding error: '' @ e"

record disclosure =
  d_salt :: string
  d_claim_name :: string
  d_claim_value :: json
  d_encoded :: string
  d_hash :: string

record sd_jwt_vc_claims =
  sc_iss :: string
  sc_sub :: "string option"
  sc_iat :: int
  sc_exp :: "int option"
  sc_nbf :: "int option"
  sc_vct :: string
  sc_sd :: "string list"
  sc_sd_alg :: "string option"
  sc_cnf :: "json option"
  sc_status :: "json option"
  sc_plain_claims :: "(string \<times> json) list"

definition sd_jwt_vc_claims_to_json :: "sd_jwt_vc_claims \<Rightarrow> json" where
  "sd_jwt_vc_claims_to_json c =
     JObj ([(''iss'', JStr (sc_iss c))] @ opt_member ''sub'' JStr (sc_sub c) @
       [(''iat'', JInt (sc_iat c))] @ opt_member ''exp'' JInt (sc_exp c) @
       opt_member ''nbf'' JInt (sc_nbf c) @ [(''vct'', JStr (sc_vct c))] @
       (if sc_sd c = [] then [] else [(''_sd'', JArr (map JStr (sc_sd c)))]) @
       opt_member ''_sd_alg'' JStr (sc_sd_alg c) @ opt_member ''cnf'' (\<lambda>v. v) (sc_cnf c) @
       opt_member ''status'' (\<lambda>v. v) (sc_status c) @ sc_plain_claims c)"

definition day_secs :: int where
  "day_secs = 86400"

section \<open>Disclosures\<close>

definition digest_of :: "libs \<Rightarrow> string \<Rightarrow> string" where
  "digest_of L text = b64url_encode L (sha256 L text)"

definition disclosure_with_salt :: "libs \<Rightarrow> bytes \<Rightarrow> string \<Rightarrow> json \<Rightarrow> disclosure" where
  "disclosure_with_salt L salt_bytes name v =
     (let salt = b64url_encode L salt_bytes;
          encoded = b64url_encode L (json_print L (JArr [JStr salt, JStr name, v]))
      in \<lparr> d_salt = salt, d_claim_name = name, d_claim_value = v, d_encoded = encoded,
           d_hash = digest_of L encoded \<rparr>)"

definition disclosure_new :: "libs \<Rightarrow> string \<Rightarrow> json \<Rightarrow> ('x env_scheme, 'e, disclosure) prog" where
  "disclosure_new L name v = bindP new_salt (\<lambda>salt. ret (disclosure_with_salt L salt name v))"

definition disclosure_from_encoded :: "libs \<Rightarrow> string \<Rightarrow> sd_jwt_error + disclosure" where
  "disclosure_from_encoded L encoded =
     bindR (map_err SdInvalidDisclosure (b64url_decode L encoded)) (\<lambda>bytes.
     bindR (map_err SdInvalidDisclosure (json_parse L bytes)) (\<lambda>v.
     bindR (ok_or (SdInvalidDisclosure ''invalid type, expected a sequence'') (as_array v)) (\<lambda>arr.
     bindR (ensure (length arr = 3)
              (SdInvalidDisclosure ''disclosure must have exactly 3 elements'')) (\<lambda>_.
     bindR (ok_or (SdInvalidDisclosure ''salt must be a string'') (as_str (arr ! 0))) (\<lambda>salt.
     bindR (ok_or (SdInvalidDisclosure ''claim name must be a string'') (as_str (arr ! 1))) (\<lambda>name.
     Inr \<lparr> d_salt = salt, d_claim_name = name, d_claim_value = arr ! 2, d_encoded = encoded,
           d_hash = digest_of L encoded \<rparr>))))))"

section \<open>Issuance\<close>

definition build_vc_claims ::
  "string \<Rightarrow> string \<Rightarrow> (string \<times> json) list \<Rightarrow> json option \<Rightarrow> json option \<Rightarrow>
     string list \<Rightarrow> int \<Rightarrow> sd_jwt_vc_claims" where
  "build_vc_claims issuer_url vct plain holder_jwk status sd_hashes now =
     (let issued = now - now mod day_secs
      in \<lparr> sc_iss = issuer_url, sc_sub = None, sc_iat = issued,
           sc_exp = Some (issued + day_secs * 365), sc_nbf = Some issued, sc_vct = vct,
           sc_sd = sd_hashes, sc_sd_alg = Some ''sha-256'', sc_cnf = holder_jwk,
           sc_status = status, sc_plain_claims = plain \<rparr>)"

definition issue_sd_jwt_vc_with_x5c ::
  "libs \<Rightarrow> key_pair \<Rightarrow> string \<Rightarrow> string \<Rightarrow> (string \<times> json) list \<Rightarrow> (string \<times> json) list \<Rightarrow>
     json option \<Rightarrow> json option \<Rightarrow> string list option \<Rightarrow>
     ('x env_scheme, sd_jwt_error, string \<times> disclosure list) prog" where
  "issue_sd_jwt_vc_with_x5c L key issuer_url vct plain disclosable holder_jwk status x5c =
     bindP (mapP (\<lambda>(name, v). disclosure_new L name v) disclosable) (\<lambda>ds.
     bindP utc_now (\<lambda>t.
     let claims = build_vc_claims issuer_url vct plain holder_jwk status (map d_hash ds) (timestamp t);
         header = (build_header key (Some ''dc+sd-jwt''))\<lparr>h_x5c := x5c\<rparr>
     in bindP (liftR (map_err (\<lambda>e. SdSigning (jws_error_to_string e))
                 (sign_compact L key header (sd_jwt_vc_claims_to_json claims)))) (\<lambda>jwt.
        ret (join_with ''~'' (jwt # map d_encoded ds @ [[]]), ds))))"

definition issue_sd_jwt_vc ::
  "libs \<Rightarrow> key_pair \<Rightarrow> string \<Rightarrow> string \<Rightarrow> (string \<times> json) list \<Rightarrow> (string \<times> json) list \<Rightarrow>
     json option \<Rightarrow> json option \<Rightarrow> ('x env_scheme, sd_jwt_error, string \<times> disclosure list) prog" where
  "issue_sd_jwt_vc L key issuer_url vct plain disclosable holder_jwk status =
     issue_sd_jwt_vc_with_x5c L key issuer_url vct plain disclosable holder_jwk status None"

section \<open>Verification\<close>

record verified_sd_jwt_vc =
  vs_claims :: "(string \<times> json) list"
  vs_payload :: json

definition vs_holder_jwk :: "libs \<Rightarrow> verified_sd_jwt_vc \<Rightarrow> jwk option" where
  "vs_holder_jwk L v =
     Option.bind (json_get ''cnf'' (vs_payload v)) (\<lambda>cnf.
     Option.bind (json_get ''jwk'' cnf) (jwk_of_json L))"

definition vs_vct :: "verified_sd_jwt_vc \<Rightarrow> string option" where
  "vs_vct v = str_claim ''vct'' (vs_payload v)"

definition sd_array :: "json \<Rightarrow> string list" where
  "sd_array payload =
     (case json_get ''_sd'' payload of
        Some (JArr vs) \<Rightarrow> (case those (map as_str vs) of Some xs \<Rightarrow> xs | None \<Rightarrow> [])
      | _ \<Rightarrow> [])"

fun collect_disclosures ::
  "libs \<Rightarrow> string list \<Rightarrow> string list \<Rightarrow> (string \<times> json) list \<Rightarrow> string list \<Rightarrow>
     sd_jwt_error + (string \<times> json) list" where
  "collect_disclosures L sd seen claims [] = Inr claims"
| "collect_disclosures L sd seen claims (text # rest) =
     bindR (disclosure_from_encoded L text) (\<lambda>d.
     bindR (ensure (d_hash d \<notin> set seen) (SdVerification ''duplicate disclosure detected'')) (\<lambda>_.
     bindR (ensure (d_hash d \<in> set sd)
              (SdVerification (''disclosure hash not found in _sd array for claim '' @ [CHR 0x27] @
                 d_claim_name d @ [CHR 0x27]))) (\<lambda>_.
     collect_disclosures L sd (d_hash d # seen)
       (put_member (d_claim_name d) (d_claim_value d) claims) rest)))"

definition reserved_claim :: "string \<Rightarrow> bool" where
  "reserved_claim k \<longleftrightarrow> starts_with ''_'' k \<or> k = ''iss'' \<or> k = ''iat'' \<or> k = ''exp'' \<or> k = ''nbf'' \<or>
     k = ''vct'' \<or> k = ''cnf'' \<or> k = ''status''"

definition merge_plain :: "json \<Rightarrow> (string \<times> json) list \<Rightarrow> (string \<times> json) list" where
  "merge_plain payload claims =
     (case payload of
        JObj kvs \<Rightarrow> foldl (\<lambda>m (k, v). if reserved_claim k then m else put_member k v m) claims kvs
      | _ \<Rightarrow> claims)"

definition check_validity :: "json \<Rightarrow> int \<Rightarrow> sd_jwt_error + unit" where
  "check_validity payload now =
     bindR (case int_claim ''exp'' payload of
              Some exp \<Rightarrow> ensure (now < exp) (SdVerification ''credential has expired'')
            | None \<Rightarrow> Inr ()) (\<lambda>_.
     case int_claim ''nbf'' payload of
       Some nbf \<Rightarrow> ensure (nbf \<le> now) (SdVerification ''credential is not yet valid'')
     | None \<Rightarrow> Inr ())"

definition verify_issuer_jwt :: "libs \<Rightarrow> string \<Rightarrow> key_pair \<Rightarrow> sd_jwt_error + sd_jwt_vc \<times> json" where
  "verify_issuer_jwt L sd_jwt key =
     bindR (map_err (\<lambda>e. SdVerification (sd_jwt_parse_error_to_string e)) (sd_jwt_parse sd_jwt)) (\<lambda>parsed.
     bindR (map_err (\<lambda>e. SdVerification (jws_error_to_string e))
              (verify_compact L (issuer_jwt parsed) key)) (\<lambda>decoded.
     bindR (map_err SdVerification (json_parse L (dj_payload decoded))) (\<lambda>payload.
     Inr (parsed, payload))))"

definition reconstruct_claims :: "libs \<Rightarrow> sd_jwt_vc \<Rightarrow> json \<Rightarrow> int \<Rightarrow> sd_jwt_error + verified_sd_jwt_vc" where
  "reconstruct_claims L parsed payload now =
     bindR (check_validity payload now) (\<lambda>_.
     bindR (collect_disclosures L (sd_array payload) [] [] (disclosures parsed)) (\<lambda>disclosed.
     Inr \<lparr> vs_claims = merge_plain payload disclosed, vs_payload = payload \<rparr>))"

definition verify_sd_jwt_vc ::
  "libs \<Rightarrow> string \<Rightarrow> key_pair \<Rightarrow> ('x env_scheme, sd_jwt_error, verified_sd_jwt_vc) prog" where
  "verify_sd_jwt_vc L sd_jwt key =
     bindP (liftR (verify_issuer_jwt L sd_jwt key)) (\<lambda>(parsed, payload).
     bindP utc_now (\<lambda>t. liftR (reconstruct_claims L parsed payload (timestamp t))))"

section \<open>Key binding\<close>

definition compute_sd_hash :: "libs \<Rightarrow> string \<Rightarrow> string" where
  "compute_sd_hash L presentation_without_kb =
     digest_of L (upto_last (CHR ''~'') presentation_without_kb)"

definition expect_claim :: "json \<Rightarrow> string \<Rightarrow> string \<Rightarrow> string \<Rightarrow> sd_jwt_error + unit" where
  "expect_claim payload name expected mismatch =
     (case str_claim name payload of
        Some v \<Rightarrow> ensure (v = expected) (SdKeyBinding mismatch)
      | None \<Rightarrow> Inl (SdKeyBinding (''key binding JWT is missing '' @ [CHR 0x27] @ name @ [CHR 0x27])))"

definition verify_key_binding ::
  "libs \<Rightarrow> string \<Rightarrow> jwk \<Rightarrow> string \<Rightarrow> string \<Rightarrow> sd_jwt_error + unit" where
  "verify_key_binding L presentation holder_jwk expected_nonce expected_audience =
     bindR (map_err (\<lambda>e. SdKeyBinding (sd_jwt_parse_error_to_string e)) (sd_jwt_parse presentation)) (\<lambda>parsed.
     bindR (ok_or (SdKeyBinding ''presentation is missing the key binding JWT'') (key_binding_jwt parsed)) (\<lambda>kb_jwt.
     bindR (map_err (\<lambda>e. SdKeyBinding (jws_error_to_string e)) (decode_compact L kb_jwt)) (\<lambda>decoded.
     bindR (map_err (\<lambda>e. SdKeyBinding (key_error_to_string e)) (algorithm_for_jwk holder_jwk)) (\<lambda>expected_alg.
     bindR (ensure (h_alg (dj_header decoded) = alg_as_str expected_alg)
              (SdKeyBinding (''key binding JWT alg '' @ [CHR 0x27] @ h_alg (dj_header decoded) @ [CHR 0x27] @
                 '' does not match the confirmation key ('' @ alg_as_str expected_alg @ '')''))) (\<lambda>_.
     bindR (ensure (h_typ (dj_header decoded) = Some ''kb+jwt'')
              (SdKeyBinding (''key binding JWT must have typ '' @ [CHR 0x27] @ ''kb+jwt'' @ [CHR 0x27]))) (\<lambda>_.
     bindR (map_err (\<lambda>e. SdKeyBinding (''key binding signature invalid: '' @ key_error_to_string e))
              (verify_with_jwk L holder_jwk (dj_signing_input decoded) (dj_signature decoded))) (\<lambda>_.
     bindR (map_err SdKeyBinding (json_parse L (dj_payload decoded))) (\<lambda>payload.
     bindR (expect_claim payload ''nonce'' expected_nonce ''nonce mismatch'') (\<lambda>_.
     bindR (expect_claim payload ''aud'' expected_audience ''audience mismatch'') (\<lambda>_.
     bindR (ok_or (SdKeyBinding ''malformed presentation'') (strip_suffix kb_jwt presentation)) (\<lambda>without_kb.
     expect_claim payload ''sd_hash'' (compute_sd_hash L without_kb)
       ''sd_hash does not cover the presented disclosures'')))))))))))"

definition key_binding_payload :: "string \<Rightarrow> string \<Rightarrow> int \<Rightarrow> string \<Rightarrow> json" where
  "key_binding_payload nonce audience iat sd_jwt_hash =
     JObj [(''nonce'', JStr nonce), (''aud'', JStr audience), (''iat'', JInt iat),
           (''sd_hash'', JStr sd_jwt_hash)]"

definition create_key_binding_jwt ::
  "libs \<Rightarrow> key_pair \<Rightarrow> string \<Rightarrow> string \<Rightarrow> string \<Rightarrow> ('x env_scheme, sd_jwt_error, string) prog" where
  "create_key_binding_jwt L holder_key nonce audience sd_jwt_hash =
     bindP utc_now (\<lambda>t.
     liftR (map_err (\<lambda>e. SdSigning (jws_error_to_string e))
       (sign_compact L holder_key (build_header_with_jwk holder_key (Some ''kb+jwt''))
          (key_binding_payload nonce audience (timestamp t) sd_jwt_hash))))"

section \<open>What verification guarantees\<close>

lemma from_encoded_Inr:
  "disclosure_from_encoded L text = Inr d \<Longrightarrow> d_encoded d = text \<and> d_hash d = digest_of L text \<and>
     (\<exists>b. b64url_decode L text = Inr b \<and>
        json_parse L b = Inr (JArr [JStr (d_salt d), JStr (d_claim_name d), d_claim_value d]))"
  by (auto simp: disclosure_from_encoded_def result_inv length_Suc_conv eval_nat_numeral
      as_str_Some as_array_Some)

lemma collect_disclosures_Inr:
  "collect_disclosures L sd seen claims texts = Inr m \<longleftrightarrow>
     (\<exists>ds. mapR (disclosure_from_encoded L) texts = Inr ds \<and> distinct (map d_hash ds) \<and>
        set (map d_hash ds) \<subseteq> set sd \<and> set (map d_hash ds) \<inter> set seen = {} \<and>
        m = foldl (\<lambda>m d. put_member (d_claim_name d) (d_claim_value d) m) claims ds)"
  by (induction L sd seen claims texts rule: collect_disclosures.induct)
    (auto simp: result_inv)

lemma map_of_put_foldl:
  "map_of (foldl (\<lambda>m d. put_member (f d) (g d) m) ms ds) k =
     (case map_of (rev (map (\<lambda>d. (f d, g d)) ds)) k of None \<Rightarrow> map_of ms k | Some v \<Rightarrow> Some v)"
  by (induction ds arbitrary: ms) (auto split: option.splits)

fun object_members :: "json \<Rightarrow> (string \<times> json) list" where
  "object_members (JObj kvs) = kvs"
| "object_members _ = []"

lemma map_of_merge_plain:
  "map_of (merge_plain payload claims) k =
     (if reserved_claim k then map_of claims k
      else case map_of (rev (object_members payload)) k of None \<Rightarrow> map_of claims k | Some v \<Rightarrow> Some v)"
proof -
  have "map_of (foldl (\<lambda>m (k, v). if reserved_claim k then m else put_member k v m) claims kvs) k =
      (if reserved_claim k then map_of claims k
       else case map_of (rev kvs) k of None \<Rightarrow> map_of claims k | Some v \<Rightarrow> Some v)" for kvs
    by (induction kvs arbitrary: claims) (auto split: option.splits)
  then show ?thesis by (cases payload) (simp_all add: merge_plain_def)
qed

lemma check_validity_Inr [result_inv]:
  "check_validity payload now = Inr u \<longleftrightarrow>
     (\<forall>e. int_claim ''exp'' payload = Some e \<longrightarrow> now < e) \<and>
     (\<forall>n. int_claim ''nbf'' payload = Some n \<longrightarrow> n \<le> now)"
  by (auto simp: check_validity_def result_inv split: option.splits)

lemma verify_issuer_jwt_Inr:
  "verify_issuer_jwt L s key = Inr (parsed, payload) \<longleftrightarrow> sd_jwt_parse s = Inr parsed \<and>
     (\<exists>d. verify_compact L (issuer_jwt parsed) key = Inr d \<and> json_parse L (dj_payload d) = Inr payload)"
  by (auto simp: verify_issuer_jwt_def result_inv)

lemma verify_sd_jwt_vc_Inr:
  "verify_sd_jwt_vc L p key s = (Inr v, s') \<longleftrightarrow>
     (\<exists>parsed payload. verify_issuer_jwt L p key = Inr (parsed, payload) \<and>
        reconstruct_claims L parsed payload (timestamp (clock_at s (clock_reads s))) = Inr v \<and>
        s' = s\<lparr>clock_reads := Suc (clock_reads s)\<rparr>)"
  by (auto simp: verify_sd_jwt_vc_def result_inv utc_now_run split: prod.splits)

text \<open>The claim set of a presentation: a visible member of the payload, else a disclosure.\<close>

definition presented_claims :: "json \<Rightarrow> disclosure list \<Rightarrow> string \<Rightarrow> json option" where
  "presented_claims payload ds k =
     (if \<not> reserved_claim k \<and> map_of (rev (object_members payload)) k \<noteq> None
      then map_of (rev (object_members payload)) k
      else map_of (rev (map (\<lambda>d. (d_claim_name d, d_claim_value d)) ds)) k)"

lemma merged_claims:
  "map_of (merge_plain payload (foldl (\<lambda>m d. put_member (d_claim_name d) (d_claim_value d) m) [] ds)) =
     presented_claims payload ds"
  by (auto simp: fun_eq_iff presented_claims_def map_of_merge_plain map_of_put_foldl split: option.splits)

lemma reconstruct_claims_Inr:
  assumes "reconstruct_claims L parsed payload now = Inr v"
  shows "\<exists>ds. mapR (disclosure_from_encoded L) (disclosures parsed) = Inr ds \<and>
     distinct (map d_hash ds) \<and> set (map d_hash ds) \<subseteq> set (sd_array payload) \<and>
     vs_payload v = payload \<and>
     map_of (vs_claims v) = presented_claims payload ds"
  using assms
  by (auto simp: reconstruct_claims_def result_inv collect_disclosures_Inr merged_claims)

text \<open>
  C1. An SD-JWT VC that verifies is signed by the issuer and inside its validity window, and
  its claims are exactly the visible members of the signed payload and, for the other names,
  the presented disclosures; each disclosure's digest is in the signed \<open>_sd\<close> array and no two
  share a digest. A presenter cannot add a claim or override a visible one.
\<close>

theorem verify_sd_jwt_sound:
  assumes "verify_sd_jwt_vc L p key s = (Inr v, s')"
  shows "\<exists>parsed d ds. sd_jwt_parse p = Inr parsed \<and>
     decode_compact L (issuer_jwt parsed) = Inr d \<and>
     kp_verify key (dj_signing_input d) (dj_signature d) = Inr () \<and>
     json_parse L (dj_payload d) = Inr (vs_payload v) \<and>
     (\<forall>e. int_claim ''exp'' (vs_payload v) = Some e \<longrightarrow> timestamp (clock_at s (clock_reads s)) < e) \<and>
     (\<forall>n. int_claim ''nbf'' (vs_payload v) = Some n \<longrightarrow> n \<le> timestamp (clock_at s (clock_reads s))) \<and>
     mapR (disclosure_from_encoded L) (disclosures parsed) = Inr ds \<and>
     distinct (map d_hash ds) \<and> set (map d_hash ds) \<subseteq> set (sd_array (vs_payload v)) \<and>
     (\<forall>k. map_of (vs_claims v) k = presented_claims (vs_payload v) ds k)"
proof -
  obtain parsed payload where i: "verify_issuer_jwt L p key = Inr (parsed, payload)"
    and r: "reconstruct_claims L parsed payload (timestamp (clock_at s (clock_reads s))) = Inr v"
    using assms by (auto simp: verify_sd_jwt_vc_Inr)
  from i obtain d where parsed: "sd_jwt_parse p = Inr parsed"
    and d: "decode_compact L (issuer_jwt parsed) = Inr d"
      "kp_verify key (dj_signing_input d) (dj_signature d) = Inr ()"
      "json_parse L (dj_payload d) = Inr payload"
    by (auto simp: verify_issuer_jwt_Inr verify_compact_def result_inv)
  from r have w: "check_validity payload (timestamp (clock_at s (clock_reads s))) = Inr ()"
    by (auto simp: reconstruct_claims_def result_inv)
  from reconstruct_claims_Inr [OF r] obtain ds where
    ds: "mapR (disclosure_from_encoded L) (disclosures parsed) = Inr ds"
      "distinct (map d_hash ds)" "set (map d_hash ds) \<subseteq> set (sd_array payload)"
    and p: "vs_payload v = payload"
    and c: "map_of (vs_claims v) = presented_claims payload ds"
    by blast
  show ?thesis
    unfolding p using parsed d w ds c by (auto simp: check_validity_Inr)
qed

section \<open>Issued credentials verify\<close>

text \<open>Signed tokens contain the separators of JWS and none of SD-JWT.\<close>

lemma signed_text:
  assumes "b64url_law L" and "sign_compact L key h v = Inr jws"
  shows "CHR ''~'' \<notin> set jws" and "count_list jws (CHR ''.'') = 2"
proof -
  have dot: "count_list (b64url_encode L b) (CHR ''.'') = 0" for b
    using b64url_encode_free [OF assms(1), of "CHR ''.''" b] by (simp add: count_list_0_iff)
  have tilde: "CHR ''~'' \<notin> set (b64url_encode L b)" for b
    by (rule b64url_encode_free [OF assms(1)]) simp
  obtain s where "jws = b64url_encode L (header_print L h) @ CHR ''.'' # b64url_encode L (json_print L v) @
      CHR ''.'' # b64url_encode L s"
    using assms(2) by (auto simp: sign_compact_def Let_def result_inv)
  then show "CHR ''~'' \<notin> set jws" and "count_list jws (CHR ''.'') = 2"
    by (simp_all add: tilde dot)
qed

lemma signed_not_Nil: "sign_compact L key h v = Inr jws \<Longrightarrow> jws \<noteq> []"
  by (auto simp: sign_compact_def Let_def result_inv)

definition disclosure_array :: "disclosure \<Rightarrow> json" where
  "disclosure_array d = JArr [JStr (d_salt d), JStr (d_claim_name d), d_claim_value d]"

definition built_disclosure :: "libs \<Rightarrow> disclosure \<Rightarrow> bool" where
  "built_disclosure L d \<longleftrightarrow> d_encoded d = b64url_encode L (json_print L (disclosure_array d)) \<and>
     d_hash d = digest_of L (d_encoded d)"

lemma disclosure_new_run:
  "disclosure_new L name v s = (Inr d, s') \<Longrightarrow> built_disclosure L d \<and> d_claim_name d = name \<and> d_claim_value d = v"
  by (auto simp: disclosure_new_def result_inv new_salt_run disclosure_with_salt_def Let_def
      built_disclosure_def disclosure_array_def)

lemma disclosures_new_run:
  "mapP (\<lambda>(name, v). disclosure_new L name v) kvs s = (Inr ds, s') \<Longrightarrow>
     map (\<lambda>d. (d_claim_name d, d_claim_value d)) ds = kvs \<and> list_all (built_disclosure L) ds"
  by (induction kvs arbitrary: s ds) (auto simp: result_inv dest!: disclosure_new_run)

lemma built_reads_back:
  assumes "b64url_law L" and "built_disclosure L d" and "json_codec L (disclosure_array d)"
  shows "disclosure_from_encoded L (d_encoded d) = Inr (d\<lparr>d_claim_value := json_norm (d_claim_value d)\<rparr>)"
    and "d_encoded d \<noteq> []" and "CHR ''~'' \<notin> set (d_encoded d)"
proof -
  have e: "d_encoded d = b64url_encode L (json_print L (disclosure_array d))"
    and h: "d_hash d = digest_of L (d_encoded d)"
    using assms(2) by (simp_all add: built_disclosure_def)
  have "b64url_decode L (d_encoded d) = Inr (json_print L (disclosure_array d))"
    using assms(1) e by (simp add: b64url_round)
  moreover have "json_parse L (json_print L (disclosure_array d)) =
      Inr (JArr [JStr (d_salt d), JStr (d_claim_name d), json_norm (d_claim_value d)])"
    using assms(3) by (simp add: json_codec_def disclosure_array_def)
  ultimately show "disclosure_from_encoded L (d_encoded d) = Inr (d\<lparr>d_claim_value := json_norm (d_claim_value d)\<rparr>)"
    using h by (simp add: disclosure_from_encoded_def)
  show "d_encoded d \<noteq> []" using assms(1,3) e by (auto simp: b64url_law_def json_codec_def)
  show "CHR ''~'' \<notin> set (d_encoded d)" using b64url_encode_free [OF assms(1)] e by simp
qed

lemma built_read_back_all:
  assumes "b64url_law L" and "list_all (built_disclosure L) ds"
    and "list_all (\<lambda>d. json_codec L (disclosure_array d)) ds"
  shows "mapR (disclosure_from_encoded L) (map d_encoded ds) =
      Inr (map (\<lambda>d. d\<lparr>d_claim_value := json_norm (d_claim_value d)\<rparr>) ds)"
    and "list_all (\<lambda>e. e \<noteq> [] \<and> CHR ''~'' \<notin> set e) (map d_encoded ds)"
  using assms(2,3) by (induction ds) (simp_all add: built_reads_back [OF assms(1)])

definition issued_payload ::
  "string \<Rightarrow> string \<Rightarrow> (string \<times> json) list \<Rightarrow> json option \<Rightarrow> json option \<Rightarrow> string list \<Rightarrow> int \<Rightarrow> json" where
  "issued_payload url vct plain holder status hs now =
     sd_jwt_vc_claims_to_json (build_vc_claims url vct plain holder status hs now)"

lemma issue_run:
  assumes "issue_sd_jwt_vc_with_x5c L key url vct plain disclosable holder status x5c s = (Inr (compact, ds), s')"
  shows "\<exists>jwt. sign_compact L key ((build_header key (Some ''dc+sd-jwt''))\<lparr>h_x5c := x5c\<rparr>)
       (issued_payload url vct plain holder status (map d_hash ds) (timestamp (clock_at s (clock_reads s)))) = Inr jwt \<and>
    compact = sd_jwt_to_compact \<lparr> issuer_jwt = jwt, disclosures = map d_encoded ds, key_binding_jwt = None \<rparr> \<and>
    map (\<lambda>d. (d_claim_name d, d_claim_value d)) ds = disclosable \<and> list_all (built_disclosure L) ds"
proof -
  obtain s1 jwt where
    ds: "mapP (\<lambda>(name, v). disclosure_new L name v) disclosable s = (Inr ds :: sd_jwt_error + _, s1)"
    and jwt: "sign_compact L key ((build_header key (Some ''dc+sd-jwt''))\<lparr>h_x5c := x5c\<rparr>)
       (sd_jwt_vc_claims_to_json (build_vc_claims url vct plain holder status (map d_hash ds)
          (timestamp (clock_at s1 (clock_reads s1))))) = Inr jwt"
    and compact: "compact = join_with ''~'' (jwt # map d_encoded ds @ [[]])"
    using assms by (auto simp: issue_sd_jwt_vc_with_x5c_def result_inv utc_now_run Let_def)
  have "clock_at t = clock_at s \<and> clock_reads t = clock_reads s"
    if "mapP (\<lambda>(name, v). disclosure_new L name v) kvs s = (Inr ds, t)" for kvs ds t
    using that
    by (induction kvs arbitrary: s ds) (fastforce simp: result_inv disclosure_new_def new_salt_run)+
  from this [OF ds] disclosures_new_run [OF ds] jwt compact show ?thesis
    by (simp add: sd_jwt_to_compact_def issued_payload_def)
qed

lemma base_claims_reserved:
  assumes "sd_jwt_vc_claims_to_json (build_vc_claims url vct plain holder status hs now) = JObj kvs"
  shows "\<exists>base. kvs = base @ plain \<and> (\<forall>k\<in>fst ` set base. reserved_claim k)"
  using assms
  by (auto simp: sd_jwt_vc_claims_to_json_def build_vc_claims_def Let_def opt_member_def
      reserved_claim_def starts_with_def split: option.splits if_splits)

text \<open>What a reader finds in the payload when the visible claims use no reserved name.\<close>

lemma payload_lookup:
  assumes "\<forall>k\<in>fst ` set plain. \<not> reserved_claim k"
  shows "reserved_claim k \<Longrightarrow> json_get k (json_norm (issued_payload url vct plain holder status hs now)) =
      json_get k (json_norm (issued_payload url vct [] holder status hs now))"
    and "\<not> reserved_claim k \<Longrightarrow> json_get k (json_norm (issued_payload url vct plain holder status hs now)) =
      map_option json_norm (map_of (rev plain) k)"
proof -
  obtain base where base: "issued_payload url vct [] holder status hs now = JObj base"
    and full: "issued_payload url vct plain holder status hs now = JObj (base @ plain)"
    by (simp add: issued_payload_def sd_jwt_vc_claims_to_json_def build_vc_claims_def Let_def)
  have res: "\<forall>k\<in>fst ` set base. reserved_claim k"
    using base_claims_reserved [OF base [unfolded issued_payload_def]] by simp
  show "reserved_claim k \<Longrightarrow> json_get k (json_norm (issued_payload url vct plain holder status hs now)) =
      json_get k (json_norm (issued_payload url vct [] holder status hs now))"
  proof -
    assume "reserved_claim k"
    with assms have "map_of (rev plain) k = None" by (auto simp: map_of_eq_None_iff)
    then show ?thesis unfolding base full json_get_norm by (simp add: map_add_def)
  qed
  show "\<not> reserved_claim k \<Longrightarrow> json_get k (json_norm (issued_payload url vct plain holder status hs now)) =
      map_option json_norm (map_of (rev plain) k)"
  proof -
    assume "\<not> reserved_claim k"
    with res have "map_of (rev base) k = None" by (auto simp: map_of_eq_None_iff)
    then show ?thesis unfolding full json_get_norm by (simp add: map_add_def split: option.split)
  qed
qed

lemma reserved_names [simp]:
  "reserved_claim ''exp''" "reserved_claim ''nbf''" "reserved_claim ''_sd''" "reserved_claim ''vct''"
  "reserved_claim ''cnf''" "reserved_claim ''iss''" "reserved_claim ''iat''" "reserved_claim ''status''"
  by (simp_all add: reserved_claim_def starts_with_def)

lemma those_JStr: "those (map as_str (map JStr xs)) = Some xs"
  by (induction xs) simp_all

lemma payload_members:
  assumes "\<forall>k\<in>fst ` set plain. \<not> reserved_claim k"
    and p: "p = json_norm (issued_payload url vct plain holder status hs now)"
  shows "json_get ''exp'' p = Some (JInt (now - now mod day_secs + day_secs * 365))"
    and "json_get ''nbf'' p = Some (JInt (now - now mod day_secs))"
    and "json_get ''iss'' p = Some (JStr url)" and "json_get ''vct'' p = Some (JStr vct)"
    and "json_get ''cnf'' p = map_option json_norm holder"
    and "json_get ''status'' p = map_option json_norm status"
    and "sd_array p = hs"
proof -
  have get: "json_get k p = map_option json_norm (map_of (rev (
      [(''iss'', JStr url), (''iat'', JInt (now - now mod day_secs)),
       (''exp'', JInt (now - now mod day_secs + day_secs * 365)),
       (''nbf'', JInt (now - now mod day_secs)), (''vct'', JStr vct)] @
      (if hs = [] then [] else [(''_sd'', JArr (map JStr hs))]) @ [(''_sd_alg'', JStr ''sha-256'')] @
      opt_member ''cnf'' (\<lambda>v. v) holder @ opt_member ''status'' (\<lambda>v. v) status)) k)"
    if "reserved_claim k" for k
    unfolding p payload_lookup(1) [OF assms(1) that]
    unfolding issued_payload_def sd_jwt_vc_claims_to_json_def build_vc_claims_def Let_def
    by (simp add: json_get_norm opt_member_def del: json_norm.simps(7))
  show "json_get ''exp'' p = Some (JInt (now - now mod day_secs + day_secs * 365))"
    by (simp add: get opt_member_def split: option.split)
  show "json_get ''nbf'' p = Some (JInt (now - now mod day_secs))"
    by (simp add: get opt_member_def split: option.split)
  show "json_get ''iss'' p = Some (JStr url)"
    by (simp add: get opt_member_def split: option.split)
  show "json_get ''vct'' p = Some (JStr vct)"
    by (simp add: get opt_member_def split: option.split)
  show "json_get ''cnf'' p = map_option json_norm holder"
    by (simp add: get opt_member_def split: option.split)
  show "json_get ''status'' p = map_option json_norm status"
    by (simp add: get opt_member_def split: option.split)
  have "json_get ''_sd'' p = (if hs = [] then None else Some (JArr (map JStr hs)))"
    by (simp add: get opt_member_def comp_def split: option.split)
  then show "sd_array p = hs"
    using those_JStr [of hs] by (cases "hs = []") (simp_all add: sd_array_def)
qed

text \<open>What serde writes for an issued credential: its header, payload and disclosures read back.\<close>

definition issue_codecs ::
  "libs \<Rightarrow> jws_header \<Rightarrow> json \<Rightarrow> disclosure list \<Rightarrow> bool" where
  "issue_codecs L h payload ds \<longleftrightarrow> header_codec L h \<and> json_codec L payload \<and>
     list_all (\<lambda>d. json_codec L (disclosure_array d)) ds"

lemma reconstruct_issued:
  assumes law: "b64url_law L" and plain: "\<forall>k\<in>fst ` set plain. \<not> reserved_claim k"
    and payload: "payload = json_norm (issued_payload url vct plain holder status (map d_hash ds) now)"
    and ds: "list_all (built_disclosure L) ds" "list_all (\<lambda>d. json_codec L (disclosure_array d)) ds"
      "distinct (map d_hash ds)"
    and window: "now - now mod day_secs \<le> t" "t < now - now mod day_secs + day_secs * 365"
    and parsed: "disclosures parsed = map d_encoded ds"
  shows "\<exists>v. reconstruct_claims L parsed payload t = Inr v \<and> vs_payload v = payload \<and>
     (\<forall>k. map_of (vs_claims v) k =
        (case map_of (rev plain) k of Some x \<Rightarrow> Some (json_norm x)
         | None \<Rightarrow> map_option json_norm (map_of (rev (map (\<lambda>d. (d_claim_name d, d_claim_value d)) ds)) k)))"
proof -
  let ?shown = "map (\<lambda>d. d\<lparr>d_claim_value := json_norm (d_claim_value d)\<rparr>) ds"
  note members = payload_members [OF plain payload]
  have "check_validity payload t = Inr ()"
    using window members(1,2) by (auto simp: check_validity_Inr int_claim_def split: if_splits)
  moreover have "collect_disclosures L (sd_array payload) [] [] (disclosures parsed) =
      Inr (foldl (\<lambda>m d. put_member (d_claim_name d) (d_claim_value d) m) [] ?shown)"
    using built_read_back_all(1) [OF law ds(1,2)] ds(3) parsed members(7)
    by (auto simp: collect_disclosures_Inr comp_def)
  ultimately have run: "reconstruct_claims L parsed payload t =
      Inr \<lparr> vs_claims = merge_plain payload (foldl (\<lambda>m d. put_member (d_claim_name d) (d_claim_value d) m) [] ?shown),
            vs_payload = payload \<rparr>"
    by (simp add: reconstruct_claims_def)
  obtain kvs where kvs: "payload = JObj kvs" "distinct (map fst kvs)"
    by (simp add: payload issued_payload_def sd_jwt_vc_claims_to_json_def put_members_distinct)
  have visible: "map_of (rev (object_members payload)) k = map_option json_norm (map_of (rev plain) k)"
    if "\<not> reserved_claim k" for k
    using payload_lookup(2) [OF plain that, of url vct holder status "map d_hash ds" now] kvs
    by (simp add: payload [symmetric] map_of_rev_distinct)
  have reserved: "map_of (rev plain) k = None" if "reserved_claim k" for k
    using plain that by (auto simp: map_of_eq_None_iff)
  have "map_of (rev (map (\<lambda>d. (d_claim_name d, d_claim_value d)) ?shown)) k =
      map_option json_norm (map_of (rev (map (\<lambda>d. (d_claim_name d, d_claim_value d)) ds)) k)" for k
    using map_of_map_prod [of json_norm "rev (map (\<lambda>d. (d_claim_name d, d_claim_value d)) ds)" k]
    by (simp add: rev_map comp_def)
  then have "presented_claims payload ?shown k =
      (case map_of (rev plain) k of Some x \<Rightarrow> Some (json_norm x)
       | None \<Rightarrow> map_option json_norm (map_of (rev (map (\<lambda>d. (d_claim_name d, d_claim_value d)) ds)) k))" for k
    by (cases "reserved_claim k") (simp_all add: presented_claims_def visible reserved split: option.splits)
  with run show ?thesis by (simp add: merged_claims)
qed

context signer begin

lemma issued_verifies:
  assumes law: "lawful L" "b64url_law L" and plain: "\<forall>k\<in>fst ` set plain. \<not> reserved_claim k"
    and issue: "issue_sd_jwt_vc_with_x5c L (make L sk) url vct plain disclosable holder status x5c s = (Inr (compact, ds), s')"
    and now: "now = timestamp (clock_at s (clock_reads s))"
    and codecs: "issue_codecs L ((build_header (make L sk) (Some ''dc+sd-jwt''))\<lparr>h_x5c := x5c\<rparr>)
        (issued_payload url vct plain holder status (map d_hash ds) now) ds"
    and distinct: "distinct (map d_hash ds)"
    and window: "now - now mod day_secs \<le> timestamp (clock_at t (clock_reads t))"
      "timestamp (clock_at t (clock_reads t)) < now - now mod day_secs + day_secs * 365"
  shows "\<exists>v t'. verify_sd_jwt_vc L compact (make L sk) t = (Inr v, t') \<and>
     vs_payload v = json_norm (issued_payload url vct plain holder status (map d_hash ds) now) \<and>
     (\<forall>k. map_of (vs_claims v) k =
        (case map_of (rev plain) k of Some x \<Rightarrow> Some (json_norm x)
         | None \<Rightarrow> map_option json_norm (map_of (rev disclosable) k)))"
proof -
  let ?h = "(build_header (make L sk) (Some ''dc+sd-jwt''))\<lparr>h_x5c := x5c\<rparr>"
  let ?p = "issued_payload url vct plain holder status (map d_hash ds) now"
  obtain jwt where jwt: "sign_compact L (make L sk) ?h ?p = Inr jwt"
    and compact: "compact = sd_jwt_to_compact \<lparr> issuer_jwt = jwt, disclosures = map d_encoded ds, key_binding_jwt = None \<rparr>"
    and ds: "map (\<lambda>d. (d_claim_name d, d_claim_value d)) ds = disclosable" "list_all (built_disclosure L) ds"
    using issue_run [OF issue] unfolding now [symmetric] by blast
  have cod: "header_codec L ?h" "json_codec L ?p" "list_all (\<lambda>d. json_codec L (disclosure_array d)) ds"
    using codecs by (simp_all add: issue_codecs_def)
  have alg: "h_alg ?h = alg_as_str (kp_algorithm (make L sk))" by (simp add: build_header_def)
  obtain d where "verify_compact L jwt (make L sk) = Inr d" "dj_payload d = json_print L ?p"
    using compact_round_trip [OF law cod(1) alg jwt] by blast
  moreover have "sd_jwt_wf \<lparr> issuer_jwt = jwt, disclosures = map d_encoded ds, key_binding_jwt = None \<rparr>"
    using signed_text(1) [OF law(2) jwt] signed_not_Nil [OF jwt] built_read_back_all(2) [OF law(2) ds(2) cod(3)]
    by (simp add: sd_jwt_wf_def)
  ultimately have i: "verify_issuer_jwt L compact (make L sk) =
      Inr (\<lparr> issuer_jwt = jwt, disclosures = map d_encoded ds, key_binding_jwt = None \<rparr>, json_norm ?p)"
    using cod(2) by (simp add: verify_issuer_jwt_Inr compact parse_compact json_codec_def)
  obtain v where v: "reconstruct_claims L \<lparr> issuer_jwt = jwt, disclosures = map d_encoded ds, key_binding_jwt = None \<rparr>
        (json_norm ?p) (timestamp (clock_at t (clock_reads t))) = Inr v"
    and c: "vs_payload v = json_norm ?p"
      "\<forall>k. map_of (vs_claims v) k =
        (case map_of (rev plain) k of Some x \<Rightarrow> Some (json_norm x)
         | None \<Rightarrow> map_option json_norm (map_of (rev disclosable) k))"
    using reconstruct_issued [OF law(2) plain refl ds(2) cod(3) distinct window,
        of "\<lparr> issuer_jwt = jwt, disclosures = map d_encoded ds, key_binding_jwt = None \<rparr>"]
    unfolding ds(1) by force
  from i v have "verify_sd_jwt_vc L compact (make L sk) t = (Inr v, t\<lparr>clock_reads := Suc (clock_reads t)\<rparr>)"
    unfolding verify_sd_jwt_vc_Inr by blast
  with c show ?thesis by blast
qed

end

text \<open>The same for either kind of key.\<close>

lemma issued_verifies_any:
  assumes "b64url_law L" and "p256_law L" and "ed25519_law L"
    and "key = ec_make L sk \<or> key = ed_make L sk"
    and "\<forall>k\<in>fst ` set plain. \<not> reserved_claim k"
    and "issue_sd_jwt_vc_with_x5c L key url vct plain disclosable holder status x5c s = (Inr (compact, ds), s')"
    and "now = timestamp (clock_at s (clock_reads s))"
    and "issue_codecs L ((build_header key (Some ''dc+sd-jwt''))\<lparr>h_x5c := x5c\<rparr>)
           (issued_payload url vct plain holder status (map d_hash ds) now) ds"
    and "distinct (map d_hash ds)"
    and "now - now mod day_secs \<le> timestamp (clock_at t (clock_reads t))"
    and "timestamp (clock_at t (clock_reads t)) < now - now mod day_secs + day_secs * 365"
  shows "\<exists>v t'. verify_sd_jwt_vc L compact key t = (Inr v, t') \<and>
     vs_payload v = json_norm (issued_payload url vct plain holder status (map d_hash ds) now) \<and>
     (\<forall>k. map_of (vs_claims v) k =
        (case map_of (rev plain) k of Some x \<Rightarrow> Some (json_norm x)
         | None \<Rightarrow> map_option json_norm (map_of (rev disclosable) k)))"
  using assms(4)
proof
  assume key: "key = ec_make L sk"
  have "es256_lawful L" using assms(1,2) by (simp add: es256_lawful_def)
  from es256.issued_verifies [OF this assms(1,5) assms(6) [unfolded key] assms(7)
      assms(8) [unfolded key] assms(9-11)] key show ?thesis by simp
next
  assume key: "key = ed_make L sk"
  have "eddsa_lawful L" using assms(1,3) by (simp add: eddsa_lawful_def)
  from eddsa.issued_verifies [OF this assms(1,5) assms(6) [unfolded key] assms(7)
      assms(8) [unfolded key] assms(9-11)] key show ?thesis by simp
qed

text \<open>
  C3. An SD-JWT VC issued with a P-256 or Ed25519 key verifies under that key from the start
  of its day for 365 days, and verification returns exactly the claims it was issued with,
  provided the visible claims use no reserved name and the digests are distinct.
\<close>

theorem sd_jwt_issue_verify:
  assumes "b64url_law L" and "p256_law L" and "ed25519_law L"
    and "key = ec_make L sk \<or> key = ed_make L sk"
    and "\<forall>k\<in>fst ` set plain. \<not> reserved_claim k"
    and "issue_sd_jwt_vc_with_x5c L key url vct plain disclosable holder status x5c s = (Inr (compact, ds), s')"
    and "now = timestamp (clock_at s (clock_reads s))"
    and "issue_codecs L ((build_header key (Some ''dc+sd-jwt''))\<lparr>h_x5c := x5c\<rparr>)
           (issued_payload url vct plain holder status (map d_hash ds) now) ds"
    and "distinct (map d_hash ds)"
    and "now - now mod day_secs \<le> timestamp (clock_at t (clock_reads t))"
    and "timestamp (clock_at t (clock_reads t)) < now - now mod day_secs + day_secs * 365"
  shows "\<exists>v t'. verify_sd_jwt_vc L compact key t = (Inr v, t') \<and>
     vs_payload v = json_norm (issued_payload url vct plain holder status (map d_hash ds) now) \<and>
     (\<forall>k. map_of (vs_claims v) k =
        (case map_of (rev plain) k of Some x \<Rightarrow> Some (json_norm x)
         | None \<Rightarrow> map_option json_norm (map_of (rev disclosable) k)))"
  by (rule issued_verifies_any [OF assms])

text \<open>
  Issuance does not reveal its time within the day: every payload carries \<open>iat = nbf\<close> at
  a day boundary at or before the clock reading and less than a day before it, and two
  readings on one day give the same payload.
\<close>

theorem sd_jwt_time_rounded:
  assumes "\<forall>k\<in>fst ` set plain. \<not> reserved_claim k" and "now div day_secs = now' div day_secs"
  shows "issued_payload url vct plain holder status hs now = issued_payload url vct plain holder status hs now' \<and>
    (\<exists>i. json_get ''nbf'' (json_norm (issued_payload url vct plain holder status hs now)) = Some (JInt i) \<and>
       day_secs dvd i \<and> i \<le> now \<and> now < i + day_secs)"
proof
  have "now - now mod day_secs = now' - now' mod day_secs"
    using assms(2) by (simp add: minus_mod_eq_div_mult)
  then show "issued_payload url vct plain holder status hs now = issued_payload url vct plain holder status hs now'"
    by (simp add: issued_payload_def build_vc_claims_def Let_def)
  show "\<exists>i. json_get ''nbf'' (json_norm (issued_payload url vct plain holder status hs now)) = Some (JInt i) \<and>
       day_secs dvd i \<and> i \<le> now \<and> now < i + day_secs"
    using payload_members(2) [OF assms(1) refl, of url vct holder status hs now]
    by (simp add: day_secs_def dvd_minus_mod)
qed

section \<open>Key binding\<close>

lemma last_split:
  fixes c :: char
  assumes "c \<notin> set b" and "c \<notin> set b'" and "a @ c # b = a' @ c # b'"
  shows "a = a' \<and> b = b'"
proof -
  have "rev b @ c # rev a = rev b' @ c # rev a'" using arg_cong [OF assms(3), of rev] by simp
  moreover have "split_once c (rev b @ c # rev a) = Some (rev b, rev a)"
    and "split_once c (rev b' @ c # rev a') = Some (rev b', rev a')"
    using assms(1,2) by (simp_all add: split_once_append)
  ultimately have "rev b = rev b'" "rev a = rev a'"
    by (metis option.inject prod.inject)+
  then show ?thesis by simp
qed

lemma expect_claim_Inr [result_inv]:
  "expect_claim payload name expected m = Inr u \<longleftrightarrow> str_claim name payload = Some expected"
  by (auto simp: expect_claim_def result_inv split: option.splits)

lemma verify_key_binding_Inr:
  "verify_key_binding L p k nonce aud = Inr u \<longleftrightarrow> (\<exists>parsed pre kb d payload.
     sd_jwt_parse p = Inr parsed \<and> key_binding_jwt parsed = Some kb \<and> p = pre @ ''~'' @ kb \<and>
     CHR ''~'' \<notin> set kb \<and> verify_with_public_jwk L kb k = Inr d \<and>
     h_typ (dj_header d) = Some ''kb+jwt'' \<and> json_parse L (dj_payload d) = Inr payload \<and>
     str_claim ''nonce'' payload = Some nonce \<and> str_claim ''aud'' payload = Some aud \<and>
     str_claim ''sd_hash'' payload = Some (digest_of L (pre @ ''~'')))"
  (is "?l = ?r")
proof
  assume ?l
  then obtain parsed kb d payload rest where
    p: "sd_jwt_parse p = Inr parsed" "key_binding_jwt parsed = Some kb"
    and d: "verify_with_public_jwk L kb k = Inr d" "h_typ (dj_header d) = Some ''kb+jwt''"
      "json_parse L (dj_payload d) = Inr payload"
      "str_claim ''nonce'' payload = Some nonce" "str_claim ''aud'' payload = Some aud"
    and h: "strip_suffix kb p = Some rest" "str_claim ''sd_hash'' payload = Some (compute_sd_hash L rest)"
    by (auto simp: verify_key_binding_def result_inv)
  obtain pre where pre: "p = pre @ ''~'' @ kb" "CHR ''~'' \<notin> set kb"
    using parse_key_binding [OF p] by blast
  with h(1) have "rest = pre @ ''~''" by (simp add: strip_suffix_Some)
  then have "compute_sd_hash L rest = digest_of L (pre @ ''~'')"
    using upto_last_append [of "CHR ''~''" "[]" pre] by (simp add: compute_sd_hash_def)
  with p pre d h(2) show ?r by auto
next
  assume ?r
  then obtain parsed pre kb d payload where
    "sd_jwt_parse p = Inr parsed" "key_binding_jwt parsed = Some kb" "p = pre @ ''~'' @ kb"
    "verify_with_public_jwk L kb k = Inr d" "h_typ (dj_header d) = Some ''kb+jwt''"
    "json_parse L (dj_payload d) = Inr payload"
    "str_claim ''nonce'' payload = Some nonce" "str_claim ''aud'' payload = Some aud"
    "str_claim ''sd_hash'' payload = Some (digest_of L (pre @ ''~''))"
    by blast
  moreover have "strip_suffix kb (pre @ ''~'' @ kb) = Some (pre @ ''~'')"
    using strip_suffix_append [of kb "pre @ ''~''"] by simp
  moreover have "compute_sd_hash L (pre @ ''~'') = digest_of L (pre @ ''~'')"
    using upto_last_append [of "CHR ''~''" "[]" pre] by (simp add: compute_sd_hash_def)
  ultimately show ?l by (auto simp: verify_key_binding_def result_inv)
qed

text \<open>
  C2. A presentation whose key binding verifies ends in a JWT of type \<open>kb+jwt\<close> signed by the
  confirmation key with its own algorithm, over this verifier's nonce and audience and the
  digest of everything before the JWT. The same JWT behind other disclosures verifies only
  if their digests collide.
\<close>

theorem key_binding_sound:
  assumes "verify_key_binding L p k nonce aud = Inr ()"
  shows "\<exists>pre kb d payload. p = pre @ ''~'' @ kb \<and> verify_with_public_jwk L kb k = Inr d \<and>
     h_typ (dj_header d) = Some ''kb+jwt'' \<and> json_parse L (dj_payload d) = Inr payload \<and>
     str_claim ''nonce'' payload = Some nonce \<and> str_claim ''aud'' payload = Some aud \<and>
     str_claim ''sd_hash'' payload = Some (digest_of L (pre @ ''~'')) \<and>
     (\<forall>pre' nonce' aud'. verify_key_binding L (pre' @ ''~'' @ kb) k nonce' aud' = Inr () \<longrightarrow>
        nonce' = nonce \<and> aud' = aud \<and> digest_of L (pre' @ ''~'') = digest_of L (pre @ ''~''))"
proof -
  from assms obtain pre kb d payload where
    p: "p = pre @ ''~'' @ kb" "CHR ''~'' \<notin> set kb" "verify_with_public_jwk L kb k = Inr d"
      "h_typ (dj_header d) = Some ''kb+jwt''" "json_parse L (dj_payload d) = Inr payload"
      "str_claim ''nonce'' payload = Some nonce" "str_claim ''aud'' payload = Some aud"
      "str_claim ''sd_hash'' payload = Some (digest_of L (pre @ ''~''))"
    unfolding verify_key_binding_Inr by blast
  have "nonce' = nonce \<and> aud' = aud \<and> digest_of L (pre' @ ''~'') = digest_of L (pre @ ''~'')"
    if "verify_key_binding L (pre' @ ''~'' @ kb) k nonce' aud' = Inr ()" for pre' nonce' aud'
  proof -
    from that obtain pre2 kb2 d2 payload2 where
      q: "pre' @ ''~'' @ kb = pre2 @ ''~'' @ kb2" "CHR ''~'' \<notin> set kb2"
        "verify_with_public_jwk L kb2 k = Inr d2" "json_parse L (dj_payload d2) = Inr payload2"
        "str_claim ''nonce'' payload2 = Some nonce'" "str_claim ''aud'' payload2 = Some aud'"
        "str_claim ''sd_hash'' payload2 = Some (digest_of L (pre2 @ ''~''))"
      unfolding verify_key_binding_Inr by blast
    from last_split [of "CHR ''~''" kb kb2 pre' pre2] p(2) q(1,2) have "kb2 = kb" "pre2 = pre'" by simp_all
    with p q show ?thesis by simp
  qed
  with p show ?thesis by blast
qed

lemma compact_with_key_binding:
  assumes "key_binding_jwt v = None"
  shows "\<exists>pre. sd_jwt_to_compact v = pre @ ''~''"
    and "sd_jwt_to_compact v @ kb = sd_jwt_to_compact (v\<lparr>key_binding_jwt := Some kb\<rparr>)"
proof -
  have join: "join_with ''~'' (p # ps @ [q]) = join_with ''~'' (p # ps) @ ''~'' @ q" for p ps q
    by (induction ps arbitrary: p) simp_all
  show "\<exists>pre. sd_jwt_to_compact v = pre @ ''~''"
    using assms join [of "issuer_jwt v" "disclosures v" "[]"] by (auto simp: sd_jwt_to_compact_def)
  show "sd_jwt_to_compact v @ kb = sd_jwt_to_compact (v\<lparr>key_binding_jwt := Some kb\<rparr>)"
    using assms join [of "issuer_jwt v" "disclosures v" "[]"] join [of "issuer_jwt v" "disclosures v" kb]
    by (simp add: sd_jwt_to_compact_def)
qed

context signer begin

lemma bound_presentation_verifies:
  assumes law: "lawful L" "b64url_law L" and v: "sd_jwt_wf v" "key_binding_jwt v = None"
    and create: "create_key_binding_jwt L (make L sk) nonce aud (compute_sd_hash L (sd_jwt_to_compact v)) s = (Inr kb, s')"
    and codecs: "header_codec L (build_header_with_jwk (make L sk) (Some ''kb+jwt''))"
      "json_codec L (key_binding_payload nonce aud (timestamp (clock_at s (clock_reads s)))
         (compute_sd_hash L (sd_jwt_to_compact v)))"
  shows "verify_key_binding L (sd_jwt_to_compact v @ kb) (kp_public_jwk (make L sk)) nonce aud = Inr ()"
proof -
  let ?h = "build_header_with_jwk (make L sk) (Some ''kb+jwt'')"
  let ?p = "key_binding_payload nonce aud (timestamp (clock_at s (clock_reads s)))
    (compute_sd_hash L (sd_jwt_to_compact v))"
  have kb: "sign_compact L (make L sk) ?h ?p = Inr kb"
    using create by (auto simp: create_key_binding_jwt_def result_inv utc_now_run)
  have alg: "h_alg ?h = alg_as_str (kp_algorithm (make L sk))" by (simp add: build_header_with_jwk_def)
  obtain d where d: "verify_with_public_jwk L kb (kp_public_jwk (make L sk)) = Inr d"
      "dj_header d = ?h" "dj_payload d = json_print L ?p"
    using compact_round_trip [OF law codecs(1) alg kb] by blast
  have parsed: "json_parse L (dj_payload d) = Inr (json_norm ?p)"
    using codecs(2) d(3) by (simp add: json_codec_def)
  have claims: "str_claim ''nonce'' (json_norm ?p) = Some nonce" "str_claim ''aud'' (json_norm ?p) = Some aud"
      "str_claim ''sd_hash'' (json_norm ?p) = Some (compute_sd_hash L (sd_jwt_to_compact v))"
    by (simp_all add: key_binding_payload_def str_claim_def json_get_norm del: json_norm.simps(7))
  obtain pre where pre: "sd_jwt_to_compact v = pre @ ''~''"
    using compact_with_key_binding(1) [OF v(2)] by blast
  then have hash: "compute_sd_hash L (sd_jwt_to_compact v) = digest_of L (pre @ ''~'')"
    using upto_last_append [of "CHR ''~''" "[]" pre] by (simp add: compute_sd_hash_def)
  have hash_claim: "str_claim ''sd_hash'' (json_norm ?p) = Some (digest_of L (pre @ ''~''))"
    by (rule trans [OF claims(3)]) (simp only: hash)
  have "sd_jwt_wf (v\<lparr>key_binding_jwt := Some kb\<rparr>)"
    using v(1) signed_text [OF law(2) kb] by (simp add: sd_jwt_wf_def)
  then have "sd_jwt_parse (sd_jwt_to_compact v @ kb) = Inr (v\<lparr>key_binding_jwt := Some kb\<rparr>)"
    by (simp add: compact_with_key_binding(2) [OF v(2)] parse_compact)
  moreover have "h_typ ?h = Some ''kb+jwt''" by (simp add: build_header_with_jwk_def)
  ultimately show ?thesis
    unfolding verify_key_binding_Inr
    using d(1,2) parsed claims(1,2) hash_claim pre signed_text(1) [OF law(2) kb]
    by (intro exI conjI) (assumption | simp)+
qed

end

lemma bound_verifies_any:
  assumes "b64url_law L" and "p256_law L" and "ed25519_law L"
    and "key = ec_make L sk \<or> key = ed_make L sk"
    and "sd_jwt_wf v" and "key_binding_jwt v = None"
    and "create_key_binding_jwt L key nonce aud (compute_sd_hash L (sd_jwt_to_compact v)) s = (Inr kb, s')"
    and "header_codec L (build_header_with_jwk key (Some ''kb+jwt''))"
    and "json_codec L (key_binding_payload nonce aud (timestamp (clock_at s (clock_reads s)))
           (compute_sd_hash L (sd_jwt_to_compact v)))"
  shows "verify_key_binding L (sd_jwt_to_compact v @ kb) (kp_public_jwk key) nonce aud = Inr ()"
  using assms(4)
proof
  assume key: "key = ec_make L sk"
  have "es256_lawful L" using assms(1,2) by (simp add: es256_lawful_def)
  from es256.bound_presentation_verifies [OF this assms(1,5,6) assms(7,8) [unfolded key] assms(9)] key
  show ?thesis by simp
next
  assume key: "key = ed_make L sk"
  have "eddsa_lawful L" using assms(1,3) by (simp add: eddsa_lawful_def)
  from eddsa.bound_presentation_verifies [OF this assms(1,5,6) assms(7,8) [unfolded key] assms(9)] key
  show ?thesis by simp
qed

text \<open>
  A key binding JWT that the holder's key pair creates over the hash of a presentation,
  appended to that presentation, passes verification with the holder's public key, nonce and
  audience.
\<close>

theorem key_binding_round_trip:
  assumes "b64url_law L" and "p256_law L" and "ed25519_law L"
    and "key = ec_make L sk \<or> key = ed_make L sk"
    and "sd_jwt_wf v" and "key_binding_jwt v = None"
    and "create_key_binding_jwt L key nonce aud (compute_sd_hash L (sd_jwt_to_compact v)) s = (Inr kb, s')"
    and "header_codec L (build_header_with_jwk key (Some ''kb+jwt''))"
    and "json_codec L (key_binding_payload nonce aud (timestamp (clock_at s (clock_reads s)))
           (compute_sd_hash L (sd_jwt_to_compact v)))"
  shows "verify_key_binding L (sd_jwt_to_compact v @ kb) (kp_public_jwk key) nonce aud = Inr ()"
  by (rule bound_verifies_any [OF assms])

text \<open>An issued credential as a presentation, and the verification of one with a key binding.\<close>

lemma issued_presentation:
  assumes "b64url_law L"
    and "issue_sd_jwt_vc_with_x5c L key url vct plain disclosable holder status x5c s = (Inr (compact, ds), s')"
    and "list_all (\<lambda>d. json_codec L (disclosure_array d)) ds"
  shows "\<exists>v. compact = sd_jwt_to_compact v \<and> sd_jwt_wf v \<and> key_binding_jwt v = None"
proof -
  obtain jwt payload where "sign_compact L key ((build_header key (Some ''dc+sd-jwt''))\<lparr>h_x5c := x5c\<rparr>) payload = Inr jwt"
    and c: "compact = sd_jwt_to_compact \<lparr> issuer_jwt = jwt, disclosures = map d_encoded ds, key_binding_jwt = None \<rparr>"
    and "list_all (built_disclosure L) ds"
    using issue_run [OF assms(2)] by blast
  then have "sd_jwt_wf \<lparr> issuer_jwt = jwt, disclosures = map d_encoded ds, key_binding_jwt = None \<rparr>"
    using signed_text(1) [OF assms(1)] signed_not_Nil built_read_back_all(2) [OF assms(1) _ assms(3)]
    by (simp add: sd_jwt_wf_def)
  with c show ?thesis by force
qed

lemma verify_with_key_binding:
  assumes "sd_jwt_wf v" and "key_binding_jwt v = None"
    and "kb \<noteq> [] \<and> CHR ''~'' \<notin> set kb \<and> count_list kb (CHR ''.'') = 2"
    and "verify_sd_jwt_vc L (sd_jwt_to_compact v) key t = (Inr c, t')"
  shows "verify_sd_jwt_vc L (sd_jwt_to_compact v @ kb) key t = (Inr c, t')"
proof -
  have "sd_jwt_wf (v\<lparr>key_binding_jwt := Some kb\<rparr>)" using assms by (simp add: sd_jwt_wf_def)
  then have p: "sd_jwt_parse (sd_jwt_to_compact v @ kb) = Inr (v\<lparr>key_binding_jwt := Some kb\<rparr>)"
    "sd_jwt_parse (sd_jwt_to_compact v) = Inr v"
    using assms(1) by (simp_all add: compact_with_key_binding(2) [OF assms(2)] parse_compact)
  show ?thesis
    using assms(4) p unfolding verify_sd_jwt_vc_Inr verify_issuer_jwt_Inr
    by (auto simp: reconstruct_claims_def)
qed

lemma created_kb_text:
  assumes "b64url_law L" and "create_key_binding_jwt L key nonce aud h s = (Inr kb, s')"
  shows "kb \<noteq> [] \<and> CHR ''~'' \<notin> set kb \<and> count_list kb (CHR ''.'') = 2"
proof -
  obtain hd payload where "sign_compact L key hd payload = Inr kb"
    using assms(2) by (auto simp: create_key_binding_jwt_def result_inv utc_now_run)
  from signed_text [OF assms(1) this] signed_not_Nil [OF this] show ?thesis by simp
qed

section \<open>A concrete credential\<close>

text \<open>JSON functions that know one object and one array.\<close>

definition two_value_libs :: "jws_header \<Rightarrow> json \<Rightarrow> json \<Rightarrow> libs" where
  "two_value_libs h payload arr = (header_libs h)
     \<lparr> json_print := (\<lambda>v. case v of JArr _ \<Rightarrow> ''a'' | _ \<Rightarrow> ''p''),
       json_parse := (\<lambda>b. if b = ''a'' then Inr (json_norm arr) else Inr (json_norm payload)) \<rparr>"

lemma two_value_libs_laws:
  "b64url_law (two_value_libs h p a)" "p256_law (two_value_libs h p a)"
  "ed25519_law (two_value_libs h p a)" "header_codec (two_value_libs h p a) h"
  "es256_lawful (two_value_libs h p a)"
  using header_libs_laws [of h]
  by (simp_all add: two_value_libs_def library_laws header_codec_def es256_lawful_def)

definition sample_disclosure :: disclosure where
  "sample_disclosure = \<lparr> d_salt = hex_encode ''salt'', d_claim_name = ''given_name'',
     d_claim_value = JStr ''Ann'', d_encoded = hex_encode ''a'', d_hash = hex_encode (hex_encode ''a'') \<rparr>"

definition sample_payload :: json where
  "sample_payload = issued_payload ''https://issuer'' ''pid'' [(''age'', JInt 30)] None None
     [d_hash sample_disclosure] 0"

definition sample_header :: jws_header where
  "sample_header = build_header (ec_make hex_libs ''sk'') (Some ''dc+sd-jwt'')"

definition sample_libs :: libs where
  "sample_libs = two_value_libs sample_header sample_payload (disclosure_array sample_disclosure)"

lemma sample_key: "ec_make sample_libs ''sk'' = ec_make hex_libs ''sk''"
  by (simp add: sample_libs_def two_value_libs_def header_libs_def ec_make_def ec_key_pair_def
      ec_from_signing_key_def ec_build_public_jwk_def compute_thumbprint_def Let_def)

lemma sample_issue:
  "\<exists>compact s'. issue_sd_jwt_vc_with_x5c sample_libs (ec_make sample_libs ''sk'') ''https://issuer'' ''pid''
     [(''age'', JInt 30)] [(''given_name'', JStr ''Ann'')] None None None sample_env =
     (Inr (compact, [sample_disclosure]), s')"
proof -
  have "disclosure_with_salt sample_libs ''salt'' ''given_name'' (JStr ''Ann'') = sample_disclosure"
    by (simp add: disclosure_with_salt_def sample_disclosure_def sample_libs_def two_value_libs_def
        header_libs_def hex_libs_def digest_of_def Let_def)
  moreover have "kp_sign (ec_make hex_libs ''sk'') m = Inr (replicate 64 (CHR ''s''))" for m
    by (simp add: ec_make_def ec_key_pair_def hex_libs_def)
  ultimately show ?thesis
    by (simp add: issue_sd_jwt_vc_with_x5c_def bindP_def disclosure_new_def new_salt_run ret_def
        utc_now_run liftR_def sign_compact_def Let_def sample_key)
qed

lemma two_value_codecs:
  "json_codec (two_value_libs h (JObj kvs) (JArr vs)) (JObj kvs)"
  "json_codec (two_value_libs h (JObj kvs) (JArr vs)) (JArr vs)"
  by (simp_all add: json_codec_def two_value_libs_def)

lemma sample_codecs:
  "issue_codecs sample_libs ((build_header (ec_make sample_libs ''sk'') (Some ''dc+sd-jwt''))\<lparr>h_x5c := None\<rparr>)
     (issued_payload ''https://issuer'' ''pid'' [(''age'', JInt 30)] None None (map d_hash [sample_disclosure])
        (timestamp (clock_at sample_env (clock_reads sample_env)))) [sample_disclosure]"
proof -
  have h: "(build_header (ec_make sample_libs ''sk'') (Some ''dc+sd-jwt''))\<lparr>h_x5c := None\<rparr> = sample_header"
    by (simp add: sample_header_def sample_key build_header_def)
  have p: "issued_payload ''https://issuer'' ''pid'' [(''age'', JInt 30)] None None (map d_hash [sample_disclosure])
      (timestamp (clock_at sample_env (clock_reads sample_env))) = sample_payload"
    by (simp add: sample_payload_def sample_env_def timestamp_def)
  obtain kvs vs where v: "sample_payload = JObj kvs" "disclosure_array sample_disclosure = JArr vs"
    by (simp add: sample_payload_def issued_payload_def sd_jwt_vc_claims_to_json_def disclosure_array_def)
  have "header_codec sample_libs sample_header" by (simp add: sample_libs_def two_value_libs_laws)
  moreover have "json_codec sample_libs sample_payload" "json_codec sample_libs (disclosure_array sample_disclosure)"
    unfolding sample_libs_def v by (rule two_value_codecs)+
  ultimately show ?thesis unfolding issue_codecs_def h p by simp
qed

lemma sample_distinct: "distinct (map d_hash [sample_disclosure])"
  by simp

lemma sample_window: "0 - 0 mod day_secs \<le> timestamp (clock_at sample_env (clock_reads sample_env))"
    "timestamp (clock_at sample_env (clock_reads sample_env)) < 0 - 0 mod day_secs + day_secs * 365"
  by (simp_all add: timestamp_def day_secs_def)

lemma sample_plain: "\<forall>k\<in>fst ` set [(''age'', JInt 30)]. \<not> reserved_claim k"
  by (simp add: reserved_claim_def starts_with_def)

lemma sample_laws: "b64url_law sample_libs" "p256_law sample_libs" "ed25519_law sample_libs" "es256_lawful sample_libs"
  by (simp_all add: sample_libs_def two_value_libs_laws)

lemma sample_now: "0 = timestamp (clock_at sample_env (clock_reads sample_env))"
  by (simp add: timestamp_def)

theorem verify_sd_jwt_sound_witness:
  "\<exists>L p key v s'. verify_sd_jwt_vc L p key sample_env = (Inr v, s') \<and>
     map_of (vs_claims v) ''given_name'' = Some (JStr ''Ann'') \<and>
     (\<exists>parsed. sd_jwt_parse p = Inr parsed \<and> is_ok (decode_compact L (issuer_jwt parsed)))"
proof -
  obtain compact s1 where "issue_sd_jwt_vc_with_x5c sample_libs (ec_make sample_libs ''sk'') ''https://issuer'' ''pid''
     [(''age'', JInt 30)] [(''given_name'', JStr ''Ann'')] None None None sample_env =
     (Inr (compact, [sample_disclosure]), s1)"
    using sample_issue by blast
  from es256.issued_verifies [OF sample_laws(4,1) sample_plain this sample_now
      sample_codecs [unfolded sample_now [symmetric]] sample_distinct sample_window]
  obtain v s' where v: "verify_sd_jwt_vc sample_libs compact (ec_make sample_libs ''sk'') sample_env = (Inr v, s')"
    and "\<forall>k. map_of (vs_claims v) k =
        (case map_of (rev [(''age'', JInt 30)]) k of Some x \<Rightarrow> Some (json_norm x)
         | None \<Rightarrow> map_option json_norm (map_of (rev [(''given_name'', JStr ''Ann'')]) k))" by blast
  then have c: "map_of (vs_claims v) ''given_name'' = Some (JStr ''Ann'')" by simp
  from verify_sd_jwt_sound [OF v] obtain parsed d where
    "sd_jwt_parse compact = Inr parsed" "decode_compact sample_libs (issuer_jwt parsed) = Inr d" by blast
  then have "\<exists>parsed. sd_jwt_parse compact = Inr parsed \<and> is_ok (decode_compact sample_libs (issuer_jwt parsed))"
    by auto
  with v c show ?thesis by blast
qed

theorem sd_jwt_issue_verify_witness:
  "\<exists>L key compact v s'. verify_sd_jwt_vc L compact key sample_env = (Inr v, s') \<and>
     map_of (vs_claims v) ''given_name'' = Some (JStr ''Ann'') \<and> map_of (vs_claims v) ''age'' = Some (JInt 30)"
proof -
  obtain compact s1 where "issue_sd_jwt_vc_with_x5c sample_libs (ec_make sample_libs ''sk'') ''https://issuer'' ''pid''
     [(''age'', JInt 30)] [(''given_name'', JStr ''Ann'')] None None None sample_env =
     (Inr (compact, [sample_disclosure]), s1)"
    using sample_issue by blast
  from sd_jwt_issue_verify [OF sample_laws(1,2,3) disjI1 [OF refl] sample_plain this sample_now
      sample_codecs [unfolded sample_now [symmetric]] sample_distinct sample_window]
  obtain v s' where "verify_sd_jwt_vc sample_libs compact (ec_make sample_libs ''sk'') sample_env = (Inr v, s')"
    and c: "\<forall>k. map_of (vs_claims v) k =
        (case map_of (rev [(''age'', JInt 30)]) k of Some x \<Rightarrow> Some (json_norm x)
         | None \<Rightarrow> map_option json_norm (map_of (rev [(''given_name'', JStr ''Ann'')]) k))" by blast
  moreover have "map_of (vs_claims v) ''given_name'' = Some (JStr ''Ann'')"
    "map_of (vs_claims v) ''age'' = Some (JInt 30)"
    by (simp_all add: c)
  ultimately show ?thesis by blast
qed

theorem sd_jwt_time_rounded_witness:
  "issued_payload ''https://issuer'' ''pid'' [(''age'', JInt 30)] None None [] 90000 =
   issued_payload ''https://issuer'' ''pid'' [(''age'', JInt 30)] None None [] 170000"
proof -
  have "90000 div day_secs = 170000 div day_secs" by (simp add: day_secs_def)
  from sd_jwt_time_rounded [OF sample_plain this] show ?thesis by blast
qed

text \<open>A presentation of a bare issuer JWT by a holder with a fixed key.\<close>

definition bare_presentation :: sd_jwt_vc where
  "bare_presentation = \<lparr> issuer_jwt = ''h.p.s'', disclosures = [], key_binding_jwt = None \<rparr>"

definition holder_libs :: libs where
  "holder_libs = two_value_libs (build_header_with_jwk (ec_make hex_libs ''hk'') (Some ''kb+jwt''))
     (key_binding_payload ''n-1'' ''https://verifier'' 0
        (compute_sd_hash hex_libs (sd_jwt_to_compact bare_presentation))) (JArr [])"

lemma holder_key: "ec_make holder_libs ''hk'' = ec_make hex_libs ''hk''"
  by (simp add: holder_libs_def two_value_libs_def header_libs_def ec_make_def ec_key_pair_def
      ec_from_signing_key_def ec_build_public_jwk_def compute_thumbprint_def Let_def)

lemma holder_hash: "compute_sd_hash holder_libs = compute_sd_hash hex_libs"
  by (simp add: fun_eq_iff compute_sd_hash_def digest_of_def holder_libs_def two_value_libs_def header_libs_def)

lemma holder_facts:
  "b64url_law holder_libs" "p256_law holder_libs" "ed25519_law holder_libs" "es256_lawful holder_libs"
  "sd_jwt_wf bare_presentation" "key_binding_jwt bare_presentation = None"
  "header_codec holder_libs (build_header_with_jwk (ec_make holder_libs ''hk'') (Some ''kb+jwt''))"
  "json_codec holder_libs (key_binding_payload ''n-1'' ''https://verifier''
     (timestamp (clock_at sample_env (clock_reads sample_env)))
     (compute_sd_hash holder_libs (sd_jwt_to_compact bare_presentation)))"
proof -
  show "b64url_law holder_libs" "p256_law holder_libs" "ed25519_law holder_libs" "es256_lawful holder_libs"
    by (simp_all add: holder_libs_def two_value_libs_laws)
  show "sd_jwt_wf bare_presentation" "key_binding_jwt bare_presentation = None"
    by (simp_all add: bare_presentation_def sd_jwt_wf_def)
  show "header_codec holder_libs (build_header_with_jwk (ec_make holder_libs ''hk'') (Some ''kb+jwt''))"
    unfolding holder_key by (simp add: holder_libs_def two_value_libs_laws)
  show "json_codec holder_libs (key_binding_payload ''n-1'' ''https://verifier''
     (timestamp (clock_at sample_env (clock_reads sample_env)))
     (compute_sd_hash holder_libs (sd_jwt_to_compact bare_presentation)))"
    unfolding holder_hash
    by (simp add: holder_libs_def timestamp_def key_binding_payload_def two_value_codecs)
qed

lemma holder_creates:
  "\<exists>kb s'. create_key_binding_jwt holder_libs (ec_make holder_libs ''hk'') ''n-1'' ''https://verifier''
     (compute_sd_hash holder_libs (sd_jwt_to_compact bare_presentation)) sample_env = (Inr kb, s')"
proof -
  have "kp_sign (ec_make hex_libs ''hk'') m = Inr (replicate 64 (CHR ''s''))" for m
    by (simp add: ec_make_def ec_key_pair_def hex_libs_def)
  then show ?thesis
    by (simp add: create_key_binding_jwt_def bindP_def utc_now_run liftR_def sign_compact_def Let_def
        holder_key)
qed

theorem key_binding_round_trip_witness:
  "\<exists>L p k. verify_key_binding L p k ''n-1'' ''https://verifier'' = Inr ()"
  using holder_creates key_binding_round_trip [OF holder_facts(1-3) disjI1 [OF refl] holder_facts(5,6) _
      holder_facts(7,8)] by blast

theorem key_binding_sound_witness:
  "\<exists>L p k d pre kb. verify_key_binding L p k ''n-1'' ''https://verifier'' = Inr () \<and>
     p = pre @ ''~'' @ kb \<and> verify_with_public_jwk L kb k = Inr d"
proof -
  obtain kb s' where "create_key_binding_jwt holder_libs (ec_make holder_libs ''hk'') ''n-1'' ''https://verifier''
     (compute_sd_hash holder_libs (sd_jwt_to_compact bare_presentation)) sample_env = (Inr kb, s')"
    using holder_creates by blast
  from es256.bound_presentation_verifies [OF holder_facts(4,1,5,6) this holder_facts(7,8)]
  have v: "verify_key_binding holder_libs (sd_jwt_to_compact bare_presentation @ kb)
      (kp_public_jwk (ec_make holder_libs ''hk'')) ''n-1'' ''https://verifier'' = Inr ()" .
  from key_binding_sound [OF v] v show ?thesis by blast
qed

end
