(* ===== verification/Cose.thy ===== *)
theory Cose
  imports Keys
begin

text \<open>
  COSE_Sign1 and COSE keys, from crates/crypto/src/cose.rs. The CBOR values are those of the
  ciborium crate, and the coset crate's codec and signature input are parameters, the record
  \<open>cbor_libs\<close>. What the sources rely on is stated per value: a value that is written reads back
  (\<open>cbor_codec\<close>, \<open>cose_codec\<close>).
\<close>

section \<open>CBOR and COSE values\<close>

text \<open>\<open>ciborium::Value\<close>; a float is its 64 bits.\<close>

datatype cbor =
    CInt int
  | CBytes bytes
  | CFloat "64 word"
  | CText string
  | CBool bool
  | CNull
  | CTag nat cbor
  | CArray "cbor list"
  | CMap "(cbor \<times> cbor) list"

fun as_text :: "cbor \<Rightarrow> string option" where
  "as_text (CText s) = Some s" | "as_text _ = None"

fun as_bytes :: "cbor \<Rightarrow> bytes option" where
  "as_bytes (CBytes b) = Some b" | "as_bytes _ = None"

fun as_integer :: "cbor \<Rightarrow> int option" where
  "as_integer (CInt i) = Some i" | "as_integer _ = None"

fun as_cbor_array :: "cbor \<Rightarrow> cbor list option" where
  "as_cbor_array (CArray vs) = Some vs" | "as_cbor_array _ = None"

fun as_map :: "cbor \<Rightarrow> (cbor \<times> cbor) list option" where
  "as_map (CMap kvs) = Some kvs" | "as_map _ = None"

text \<open>
  coset's header: the algorithm as an IANA number, a private number or a text, the parameters
  without a field of their own in \<open>rest\<close>, and the other fields, which the sources do not read.
  A protected header that was decoded keeps the bytes it came from.
\<close>

datatype cose_alg = AlgAssigned int | AlgPrivateUse int | AlgText string
datatype cose_label = LabelInt int | LabelText string

record cose_header =
  ch_alg :: "cose_alg option"
  ch_rest :: "(cose_label \<times> cbor) list"
  ch_other :: "(int \<times> cbor) list"

record cose_sign1 =
  cs_original_data :: "bytes option"
  cs_protected :: cose_header
  cs_unprotected :: cose_header
  cs_payload :: "bytes option"
  cs_signature :: bytes

record cbor_libs =
  cb_write :: "cbor \<Rightarrow> string + bytes"
  cb_read :: "bytes \<Rightarrow> string + cbor"
  cose_value_of :: "cose_sign1 \<Rightarrow> string + cbor"
  cose_of_value :: "cbor \<Rightarrow> string + cose_sign1"
  cose_vec :: "cose_sign1 \<Rightarrow> string + bytes"
  cose_tagged_vec :: "cose_sign1 \<Rightarrow> string + bytes"
  cose_tbs :: "bytes option \<Rightarrow> cose_header \<Rightarrow> bytes \<Rightarrow> bytes"
  debug_alg :: "cose_alg option \<Rightarrow> string"
  debug_str :: "string option \<Rightarrow> string"
  debug_cbor_int :: "int option \<Rightarrow> string"
  from_f64 :: "64 word \<Rightarrow> string option"

text \<open>What is written reads back: ciborium for a value, coset for a COSE_Sign1.\<close>

definition cbor_codec :: "cbor_libs \<Rightarrow> cbor \<Rightarrow> bool" where
  "cbor_codec C v \<longleftrightarrow> (\<exists>b. cb_write C v = Inr b \<and> cb_read C b = Inr v)"

definition cose_codec :: "cbor_libs \<Rightarrow> cose_sign1 \<Rightarrow> bool" where
  "cose_codec C s \<longleftrightarrow> (\<exists>items d. cose_value_of C s = Inr (CArray items) \<and>
     cose_of_value C (CArray items) = Inr (s\<lparr>cs_original_data := Some d\<rparr>) \<and>
     (\<forall>p. cose_tbs C (Some d) (cs_protected s) p = cose_tbs C (cs_original_data s) (cs_protected s) p))"

definition HEADER_TYP :: int where
  "HEADER_TYP = 16"

definition HEADER_X5CHAIN :: int where
  "HEADER_X5CHAIN = 33"

datatype cose_error =
    CoseCbor string
  | CoseSigning string
  | CoseVerification string
  | CoseInvalidStructure string

fun cose_error_to_string :: "cose_error \<Rightarrow> string" where
  "cose_error_to_string (CoseCbor e) = ''CBOR error: '' @ e"
| "cose_error_to_string (CoseSigning e) = ''COSE signing error: '' @ e"
| "cose_error_to_string (CoseVerification e) = ''COSE verification error: '' @ e"
| "cose_error_to_string (CoseInvalidStructure e) = ''invalid COSE structure: '' @ e"

section \<open>Signing and verification\<close>

text \<open>The IANA numbers of ES256 and EdDSA.\<close>

fun cose_algorithm :: "algorithm \<Rightarrow> cose_alg" where
  "cose_algorithm ES256 = AlgAssigned (- 7)"
| "cose_algorithm EdDSA = AlgAssigned (- 8)"

definition header_with :: "cose_alg option \<Rightarrow> (int \<times> cbor) list \<Rightarrow> cose_header" where
  "header_with alg values =
     foldl (\<lambda>h (label, v). h\<lparr>ch_rest := ch_rest h @ [(LabelInt label, v)]\<rparr>)
       \<lparr> ch_alg = alg, ch_rest = [], ch_other = [] \<rparr> values"

definition protected_header :: "key_pair \<Rightarrow> (int \<times> cbor) list \<Rightarrow> cose_header" where
  "protected_header key extra = header_with (Some (cose_algorithm (kp_algorithm key))) extra"

definition unprotected_header :: "(int \<times> cbor) list \<Rightarrow> cose_header" where
  "unprotected_header values = header_with None values"

definition cose_sign ::
    "cbor_libs \<Rightarrow> key_pair \<Rightarrow> bytes \<Rightarrow> (int \<times> cbor) list \<Rightarrow> (int \<times> cbor) list \<Rightarrow> cose_error + cose_sign1" where
  "cose_sign C key payload prot unprot =
     (let ph = protected_header key prot
      in bindR (map_err (\<lambda>e. CoseSigning (key_error_to_string e)) (kp_sign key (cose_tbs C None ph payload))) (\<lambda>sig.
         Inr \<lparr> cs_original_data = None, cs_protected = ph, cs_unprotected = unprotected_header unprot,
               cs_payload = Some payload, cs_signature = sig \<rparr>))"

definition cose_sign_detached :: "cbor_libs \<Rightarrow> key_pair \<Rightarrow> bytes \<Rightarrow> cose_error + cose_sign1" where
  "cose_sign_detached C key payload =
     (let ph = protected_header key []
      in bindR (map_err (\<lambda>e. CoseSigning (key_error_to_string e)) (kp_sign key (cose_tbs C None ph payload))) (\<lambda>sig.
         Inr \<lparr> cs_original_data = None, cs_protected = ph, cs_unprotected = unprotected_header [],
               cs_payload = None, cs_signature = sig \<rparr>))"

definition check_algorithm :: "cbor_libs \<Rightarrow> cose_sign1 \<Rightarrow> jwk \<Rightarrow> cose_error + unit" where
  "check_algorithm C sign1 key =
     bindR (map_err (\<lambda>e. CoseVerification (key_error_to_string e)) (algorithm_for_jwk key)) (\<lambda>expected.
     ensure (ch_alg (cs_protected sign1) = Some (cose_algorithm expected))
       (CoseVerification (''protected header must declare '' @ alg_as_str expected @ '' for this key, found '' @
          debug_alg C (ch_alg (cs_protected sign1)))))"

definition verify_tbs :: "libs \<Rightarrow> cbor_libs \<Rightarrow> cose_sign1 \<Rightarrow> bytes \<Rightarrow> jwk \<Rightarrow> cose_error + unit" where
  "verify_tbs L C sign1 payload key =
     map_err (\<lambda>e. CoseVerification (key_error_to_string e))
       (verify_with_jwk L key (cose_tbs C (cs_original_data sign1) (cs_protected sign1) payload) (cs_signature sign1))"

definition cose_verify :: "libs \<Rightarrow> cbor_libs \<Rightarrow> cose_sign1 \<Rightarrow> jwk \<Rightarrow> cose_error + unit" where
  "cose_verify L C sign1 key =
     bindR (check_algorithm C sign1 key) (\<lambda>_.
     bindR (ok_or (CoseInvalidStructure ''payload is detached'') (cs_payload sign1)) (\<lambda>payload.
     verify_tbs L C sign1 payload key))"

definition cose_verify_detached :: "libs \<Rightarrow> cbor_libs \<Rightarrow> cose_sign1 \<Rightarrow> bytes \<Rightarrow> jwk \<Rightarrow> cose_error + unit" where
  "cose_verify_detached L C sign1 payload key =
     bindR (check_algorithm C sign1 key) (\<lambda>_.
     bindR (ensure (cs_payload sign1 = None) (CoseInvalidStructure ''payload must be detached (nil)'')) (\<lambda>_.
     verify_tbs L C sign1 payload key))"

section \<open>Embedding\<close>

definition cose_to_value :: "cbor_libs \<Rightarrow> cose_sign1 \<Rightarrow> cose_error + cbor" where
  "cose_to_value C sign1 = map_err CoseCbor (cose_value_of C sign1)"

definition cose_from_value :: "cbor_libs \<Rightarrow> cbor \<Rightarrow> cose_error + cose_sign1" where
  "cose_from_value C v =
     (let v = (case v of CTag t inner \<Rightarrow> if t = 18 then inner else v | _ \<Rightarrow> v)
      in map_err CoseInvalidStructure (cose_of_value C v))"

definition cose_to_tagged_vec :: "cbor_libs \<Rightarrow> cose_sign1 \<Rightarrow> cose_error + bytes" where
  "cose_to_tagged_vec C sign1 = map_err CoseCbor (cose_tagged_vec C sign1)"

definition cose_from_slice :: "cbor_libs \<Rightarrow> bytes \<Rightarrow> cose_error + cose_sign1" where
  "cose_from_slice C b = bindR (map_err CoseCbor (cb_read C b)) (cose_from_value C)"

definition cose_to_vec :: "cbor_libs \<Rightarrow> cose_sign1 \<Rightarrow> cose_error + bytes" where
  "cose_to_vec C sign1 = map_err CoseCbor (cose_vec C sign1)"

section \<open>Certificate chains and keys\<close>

definition x5chain_value :: "bytes list \<Rightarrow> cbor" where
  "x5chain_value chain = (case chain of [one] \<Rightarrow> CBytes one | _ \<Rightarrow> CArray (map CBytes chain))"

definition x5chain_malformed :: cose_error where
  "x5chain_malformed = CoseInvalidStructure ''x5chain is not a certificate chain''"

definition x5chain :: "cose_header \<Rightarrow> cose_error + bytes list" where
  "x5chain header =
     (case find (\<lambda>(label, _). label = LabelInt HEADER_X5CHAIN) (ch_rest header) of
        None \<Rightarrow> Inr []
      | Some (_, v) \<Rightarrow>
          (case v of
             CBytes cert \<Rightarrow> Inr [cert]
           | CArray certs \<Rightarrow>
               if certs \<noteq> [] then mapR (\<lambda>c. ok_or x5chain_malformed (as_bytes c)) certs
               else Inl x5chain_malformed
           | _ \<Rightarrow> Inl x5chain_malformed))"

definition key_coordinate :: "libs \<Rightarrow> string option \<Rightarrow> cose_error + bytes" where
  "key_coordinate L c =
     ok_or (CoseInvalidStructure ''JWK is missing a coordinate'')
       (Option.bind c (\<lambda>c. case b64url_decode L c of Inr b \<Rightarrow> Some b | Inl _ \<Rightarrow> None))"

definition cose_key :: "libs \<Rightarrow> cbor_libs \<Rightarrow> jwk \<Rightarrow> cose_error + cbor" where
  "cose_key L C k =
     (if kty k = ''EC'' \<and> crv k = Some ''P-256'' then
        bindR (key_coordinate L (jwk_x k)) (\<lambda>x.
        bindR (key_coordinate L (jwk_y k)) (\<lambda>y.
        Inr (CMap [(CInt 1, CInt 2), (CInt (- 1), CInt 1), (CInt (- 2), CBytes x), (CInt (- 3), CBytes y)])))
      else if kty k = ''OKP'' \<and> crv k = Some ''Ed25519'' then
        bindR (key_coordinate L (jwk_x k)) (\<lambda>x.
        Inr (CMap [(CInt 1, CInt 1), (CInt (- 1), CInt 6), (CInt (- 2), CBytes x)]))
      else Inl (CoseInvalidStructure (''no COSE_Key mapping for kty='' @ kty k @ '', crv='' @ debug_str C (crv k))))"

definition malformed_key :: "string \<Rightarrow> cose_error" where
  "malformed_key msg = CoseInvalidStructure (''COSE_Key '' @ msg)"

definition label_value :: "(cbor \<times> cbor) list \<Rightarrow> int \<Rightarrow> cbor option" where
  "label_value entries label = map_option snd (find (\<lambda>(k, _). as_integer k = Some label) entries)"

definition label_int :: "(cbor \<times> cbor) list \<Rightarrow> int \<Rightarrow> int option" where
  "label_int entries label =
     Option.bind (label_value entries label) (\<lambda>v.
     Option.bind (as_integer v) (\<lambda>i. if in_i64 i then Some i else None))"

definition label_coordinate :: "libs \<Rightarrow> (cbor \<times> cbor) list \<Rightarrow> int \<Rightarrow> cose_error + string" where
  "label_coordinate L entries label =
     ok_or (malformed_key ''is missing a coordinate'')
       (map_option (b64url_encode L) (Option.bind (label_value entries label) as_bytes))"

definition show_int :: "int \<Rightarrow> string" where
  "show_int i = (if i < 0 then CHR ''-'' # show_nat (nat (- i)) else show_nat (nat i))"

fun debug_opt_i64 :: "int option \<Rightarrow> string" where
  "debug_opt_i64 None = ''None''"
| "debug_opt_i64 (Some i) = ''Some('' @ show_int i @ '')''"

definition public_jwk :: "string \<Rightarrow> string \<Rightarrow> string \<Rightarrow> string option \<Rightarrow> jwk" where
  "public_jwk t c x y =
     \<lparr> kty = t, crv = Some c, jwk_x = Some x, jwk_y = y, jwk_d = None, jwk_alg = None, jwk_kid = None,
       jwk_use = None \<rparr>"

definition jwk_from_cose_key :: "libs \<Rightarrow> cbor \<Rightarrow> cose_error + jwk" where
  "jwk_from_cose_key L key =
     bindR (ok_or (malformed_key ''is not a map'') (as_map key)) (\<lambda>entries.
     let t = label_int entries 1; c = label_int entries (- 1)
     in if t = Some 2 \<and> c = Some 1 then
          bindR (label_coordinate L entries (- 3)) (\<lambda>y.
          bindR (label_coordinate L entries (- 2)) (\<lambda>x.
          Inr (public_jwk ''EC'' ''P-256'' x (Some y))))
        else if t = Some 1 \<and> c = Some 6 then
          bindR (label_coordinate L entries (- 2)) (\<lambda>x.
          Inr (public_jwk ''OKP'' ''Ed25519'' x None))
        else Inl (malformed_key (''has an unsupported key type or curve (kty='' @ debug_opt_i64 t @
               '', crv='' @ debug_opt_i64 c @ '')'')))"

section \<open>What a verified COSE_Sign1 is\<close>

lemma cose_verify_Inr:
  "cose_verify L C s k = Inr u \<longleftrightarrow>
     (\<exists>a p. algorithm_for_jwk k = Inr a \<and> ch_alg (cs_protected s) = Some (cose_algorithm a) \<and>
        cs_payload s = Some p \<and>
        verify_with_jwk L k (cose_tbs C (cs_original_data s) (cs_protected s) p) (cs_signature s) = Inr ())"
  by (auto simp: cose_verify_def check_algorithm_def verify_tbs_def result_inv)

lemma cose_verify_detached_Inr:
  "cose_verify_detached L C s p k = Inr u \<longleftrightarrow>
     (\<exists>a. algorithm_for_jwk k = Inr a \<and> ch_alg (cs_protected s) = Some (cose_algorithm a) \<and>
        cs_payload s = None \<and>
        verify_with_jwk L k (cose_tbs C (cs_original_data s) (cs_protected s) p) (cs_signature s) = Inr ())"
  by (auto simp: cose_verify_detached_def check_algorithm_def verify_tbs_def result_inv)

lemma cose_algorithm_inj [simp]: "cose_algorithm a = cose_algorithm b \<longleftrightarrow> a = b"
  by (cases a; cases b) simp_all

lemma header_with_alg [simp]: "ch_alg (header_with a vs) = a"
proof -
  have "ch_alg (foldl (\<lambda>h (label, v). h\<lparr>ch_rest := ch_rest h @ [(LabelInt label, v)]\<rparr>) h vs) = ch_alg h" for h :: cose_header
    by (induction vs arbitrary: h) auto
  then show ?thesis by (simp add: header_with_def)
qed

lemma header_with_rest [simp]: "ch_rest (header_with a vs) = map (map_prod LabelInt id) vs"
proof -
  have "ch_rest (foldl (\<lambda>h (label, v). h\<lparr>ch_rest := ch_rest h @ [(LabelInt label, v)]\<rparr>) h vs) =
      ch_rest h @ map (map_prod LabelInt id) vs" for h :: cose_header
    by (induction vs arbitrary: h) auto
  then show ?thesis by (simp add: header_with_def)
qed

section \<open>The contract of COSE signing\<close>

text \<open>
  A key pair and the public JWK under which what it signs verifies, with the algorithm of the
  pair. It is what both implementations of the \<open>KeyPair\<close> trait provide.
\<close>

definition key_pair_verifies :: "libs \<Rightarrow> key_pair \<Rightarrow> jwk \<Rightarrow> bool" where
  "key_pair_verifies L key k \<longleftrightarrow> algorithm_for_jwk k = Inr (kp_algorithm key) \<and>
     (\<forall>m s. kp_sign key m = Inr s \<longrightarrow> verify_with_jwk L k m s = Inr ())"

lemma ec_verifies: "es256_lawful L \<Longrightarrow> key_pair_verifies L (ec_make L sk) (kp_public_jwk (ec_make L sk))"
  by (auto simp: key_pair_verifies_def es256.sign_jwk es256.jwk_algorithm)

lemma ed_verifies: "eddsa_lawful L \<Longrightarrow> key_pair_verifies L (ed_make L sk) (kp_public_jwk (ed_make L sk))"
  by (auto simp: key_pair_verifies_def eddsa.sign_jwk eddsa.jwk_algorithm)

lemma verify_with_jwk_same_key:
  assumes "kty k' = kty k" "crv k' = crv k" "jwk_x k' = jwk_x k" "jwk_y k' = jwk_y k"
  shows "verify_with_jwk L k' = verify_with_jwk L k" and "algorithm_for_jwk k' = algorithm_for_jwk k"
proof -
  have u: "unsupported_key k' = unsupported_key k" by (simp add: unsupported_key_def assms)
  show "verify_with_jwk L k' = verify_with_jwk L k"
    by (intro ext) (simp only: verify_with_jwk_def u assms)
  show "algorithm_for_jwk k' = algorithm_for_jwk k" by (simp only: algorithm_for_jwk_def u assms)
qed

lemma key_pair_verifies_same:
  assumes "key_pair_verifies L key k"
    and "kty k' = kty k" "crv k' = crv k" "jwk_x k' = jwk_x k" "jwk_y k' = jwk_y k"
  shows "key_pair_verifies L key k'"
  using assms(1) unfolding key_pair_verifies_def verify_with_jwk_same_key [OF assms(2-5)] .

text \<open>
  A COSE_Sign1 that the sources produced, sent as a CBOR value and read again, is what was
  signed, and its signature still covers the same bytes.
\<close>

definition reread :: "cose_sign1 \<Rightarrow> bytes \<Rightarrow> cose_sign1" where
  "reread s d = s\<lparr>cs_original_data := Some d\<rparr>"

lemma cose_value_round:
  assumes "cose_codec C s"
  obtains v d where "cose_to_value C s = Inr v" "cose_from_value C v = Inr (reread s d)"
    "cose_from_value C (CTag 18 v) = Inr (reread s d)"
    "\<And>p. cose_tbs C (Some d) (cs_protected s) p = cose_tbs C (cs_original_data s) (cs_protected s) p"
  using assms that by (auto simp: cose_codec_def cose_to_value_def cose_from_value_def reread_def)

lemma sign_parts:
  assumes "cose_sign C key payload prot unprot = Inr s"
  shows "cs_payload s = Some payload" "cs_protected s = protected_header key prot"
    "cs_unprotected s = unprotected_header unprot" "cs_original_data s = None"
    "kp_sign key (cose_tbs C None (protected_header key prot) payload) = Inr (cs_signature s)"
  using assms by (auto simp: cose_sign_def Let_def result_inv)

lemma sign_detached_parts:
  assumes "cose_sign_detached C key payload = Inr s"
  shows "cs_payload s = None" "cs_protected s = protected_header key []" "cs_original_data s = None"
    "kp_sign key (cose_tbs C None (protected_header key []) payload) = Inr (cs_signature s)"
  using assms by (auto simp: cose_sign_detached_def Let_def result_inv)

lemma sign_verifies:
  assumes "cose_sign C key payload prot unprot = Inr s" and "key_pair_verifies L key k"
    and "\<And>p. cose_tbs C (Some d) (cs_protected s) p = cose_tbs C (cs_original_data s) (cs_protected s) p"
  shows "cose_verify L C (reread s d) k = Inr ()"
  using sign_parts [OF assms(1)] assms(2,3)
  by (simp add: cose_verify_Inr reread_def key_pair_verifies_def protected_header_def)

lemma sign_detached_verifies:
  assumes "cose_sign_detached C key payload = Inr s" and "key_pair_verifies L key k"
    and "\<And>p. cose_tbs C (Some d) (cs_protected s) p = cose_tbs C (cs_original_data s) (cs_protected s) p"
  shows "cose_verify_detached L C (reread s d) payload k = Inr ()"
  using sign_detached_parts [OF assms(1)] assms(2,3)
  by (simp add: cose_verify_detached_Inr reread_def key_pair_verifies_def protected_header_def)

section \<open>Chains and keys read back\<close>

lemma x5chain_reads:
  assumes "chain \<noteq> []" and "find (\<lambda>(l, _). l = LabelInt HEADER_X5CHAIN) (ch_rest h) = Some (l, x5chain_value chain)"
  shows "x5chain h = Inr chain"
proof -
  have m: "mapR (\<lambda>c. ok_or x5chain_malformed (as_bytes c)) (map CBytes bs) = Inr bs" for bs
    by (induction bs) auto
  show ?thesis
  proof (cases chain)
    case (Cons c cs)
    with assms m [of chain] show ?thesis by (cases cs) (auto simp: x5chain_def x5chain_value_def)
  qed (use assms in simp)
qed

lemma find_map_prod: "find (\<lambda>(l, _). l = LabelInt n) (map (map_prod LabelInt id) vs) =
    map_option (map_prod LabelInt id) (find (\<lambda>(l, _). l = n) vs)"
  by (induction vs) auto

lemma x5chain_header:
  assumes "chain \<noteq> []" and "find (\<lambda>(l, _). l = 33) vs = Some (33, x5chain_value chain)"
  shows "x5chain (header_with a vs) = Inr chain"
  by (rule x5chain_reads) (use assms in \<open>simp_all add: find_map_prod HEADER_X5CHAIN_def\<close>)

lemma key_coordinate_Inr:
  "key_coordinate L c = Inr b \<longleftrightarrow> (\<exists>s. c = Some s \<and> b64url_decode L s = Inr b)"
  by (auto simp: key_coordinate_def result_inv split: sum.splits option.splits bind_splits)

text \<open>
  The device key an issuer writes into an MSO is the key that verifiers read from it: same
  type, curve and coordinates, and no private part, whatever else the JWK carried.
\<close>

definition canonical_coordinate :: "libs \<Rightarrow> string option \<Rightarrow> bool" where
  "canonical_coordinate L c \<longleftrightarrow> (\<forall>s b. c = Some s \<longrightarrow> b64url_decode L s = Inr b \<longrightarrow> b64url_encode L b = s)"

lemma cose_key_round:
  assumes "cose_key L C k = Inr v" and "canonical_coordinate L (jwk_x k)" "canonical_coordinate L (jwk_y k)"
  shows "jwk_from_cose_key L v =
    Inr (public_jwk (kty k) (the (crv k)) (the (jwk_x k)) (if kty k = ''EC'' then jwk_y k else None))"
proof -
  consider (ec) x y where "kty k = ''EC''" "crv k = Some ''P-256''" "key_coordinate L (jwk_x k) = Inr x"
      "key_coordinate L (jwk_y k) = Inr y"
      "v = CMap [(CInt 1, CInt 2), (CInt (- 1), CInt 1), (CInt (- 2), CBytes x), (CInt (- 3), CBytes y)]"
    | (okp) x where "kty k = ''OKP''" "crv k = Some ''Ed25519''" "key_coordinate L (jwk_x k) = Inr x"
      "v = CMap [(CInt 1, CInt 1), (CInt (- 1), CInt 6), (CInt (- 2), CBytes x)]"
    using assms(1) by (auto simp: cose_key_def result_inv split: if_splits)
  then show ?thesis
  proof cases
    case ec
    with assms(2,3) show ?thesis
      by (auto simp: jwk_from_cose_key_def Let_def label_int_def label_value_def label_coordinate_def
          key_coordinate_Inr canonical_coordinate_def in_i64_def)
  next
    case okp
    with assms(2) show ?thesis
      by (auto simp: jwk_from_cose_key_def Let_def label_int_def label_value_def label_coordinate_def
          key_coordinate_Inr canonical_coordinate_def in_i64_def)
  qed
qed

text \<open>Reading a key never yields a private part, and its algorithm is known.\<close>

lemma jwk_from_cose_key_public:
  assumes "jwk_from_cose_key L v = Inr k"
  shows "jwk_d k = None \<and> (\<exists>a. algorithm_for_jwk k = Inr a)"
  using assms by (auto simp: jwk_from_cose_key_def Let_def result_inv public_jwk_def algorithm_for_jwk_def split: if_splits)

end
