(* ===== verification/Mdoc.thy ===== *)
theory Mdoc
  imports Cose X509 Drawing
begin

text \<open>
  ISO/IEC 18013-5 mdocs, from crates/crypto/src/mdoc.rs: issuance, verification of what an
  issuer sends, presentation over OpenID4VP and its verification, and the Status List Token in
  CWT format. Dates are chrono's: the RFC 3339 printer and reader are parameters.
  \<open>MdocNeverReturns\<close> is not a Rust value: it marks a drawing loop that no draw ever ends.
\<close>

record time_libs =
  t_rfc3339_secs :: "instant \<Rightarrow> string"
  t_parse_rfc3339 :: "string \<Rightarrow> instant option"
  t_ymd :: "int \<Rightarrow> string"

definition MDL_DOCTYPE :: string where "MDL_DOCTYPE = ''org.iso.18013.5.1.mDL''"
definition MDL_NAMESPACE :: string where "MDL_NAMESPACE = ''org.iso.18013.5.1''"
definition STATUS_LIST_CWT_TYPE :: string where "STATUS_LIST_CWT_TYPE = ''application/statuslist+cwt''"
definition TAG_ENCODED_CBOR :: nat where "TAG_ENCODED_CBOR = 24"
definition TAG_TDATE :: nat where "TAG_TDATE = 0"
definition TAG_FULL_DATE :: nat where "TAG_FULL_DATE = 1004"
definition CWT_SUB :: int where "CWT_SUB = 2"
definition CWT_EXP :: int where "CWT_EXP = 4"
definition CWT_IAT :: int where "CWT_IAT = 6"
definition CWT_TTL :: int where "CWT_TTL = 65534"
definition CWT_STATUS_LIST :: int where "CWT_STATUS_LIST = 65533"

datatype mdoc_error =
    MdocCbor string
  | MdocMalformed string
  | MdocUntrusted string
  | MdocIssuerSignature string
  | MdocDigestMismatch string
  | MdocValidity string
  | MdocDeviceAuthentication string
  | MdocUnsupported string
  | MdocCose cose_error
  | MdocNeverReturns

fun mdoc_error_to_string :: "mdoc_error \<Rightarrow> string" where
  "mdoc_error_to_string (MdocCbor e) = ''CBOR error: '' @ e"
| "mdoc_error_to_string (MdocMalformed e) = ''malformed mdoc: '' @ e"
| "mdoc_error_to_string (MdocUntrusted e) = ''issuer is not trusted: '' @ e"
| "mdoc_error_to_string (MdocIssuerSignature e) = ''issuer signature is invalid: '' @ e"
| "mdoc_error_to_string (MdocDigestMismatch e) = ''data element does not match the MSO: '' @ e"
| "mdoc_error_to_string (MdocValidity e) = ''mdoc is not valid now: '' @ e"
| "mdoc_error_to_string (MdocDeviceAuthentication e) = ''device authentication failed: '' @ e"
| "mdoc_error_to_string (MdocUnsupported e) = ''unsupported: '' @ e"
| "mdoc_error_to_string (MdocCose e) = cose_error_to_string e"
| "mdoc_error_to_string MdocNeverReturns = []"

section \<open>CBOR helpers\<close>

definition mdoc_encode :: "cbor_libs \<Rightarrow> cbor \<Rightarrow> mdoc_error + bytes" where
  "mdoc_encode C v = map_err MdocCbor (cb_write C v)"

definition mdoc_decode :: "cbor_libs \<Rightarrow> bytes \<Rightarrow> mdoc_error + cbor" where
  "mdoc_decode C b = map_err MdocCbor (cb_read C b)"

definition embed :: "cbor_libs \<Rightarrow> cbor \<Rightarrow> mdoc_error + cbor" where
  "embed C v = bindR (mdoc_encode C v) (\<lambda>b. Inr (CTag TAG_ENCODED_CBOR (CBytes b)))"

definition unembed :: "cbor_libs \<Rightarrow> cbor \<Rightarrow> mdoc_error + cbor" where
  "unembed C v =
     (case v of
        CTag t inner \<Rightarrow>
          if t = TAG_ENCODED_CBOR then
            (case inner of
               CBytes b \<Rightarrow> mdoc_decode C b
             | _ \<Rightarrow> Inl (MdocMalformed ''tag 24 must wrap a byte string''))
          else Inl (MdocMalformed ''expected an embedded CBOR item (tag 24)'')
      | _ \<Rightarrow> Inl (MdocMalformed ''expected an embedded CBOR item (tag 24)''))"

definition cbor_get :: "cbor \<Rightarrow> string \<Rightarrow> cbor option" where
  "cbor_get m key =
     Option.bind (as_map m) (\<lambda>kvs. map_option snd (find (\<lambda>(k, _). as_text k = Some key) kvs))"

definition apostrophe :: "string \<Rightarrow> string" where
  "apostrophe s = [CHR 0x27] @ s @ [CHR 0x27]"

definition cbor_require :: "cbor \<Rightarrow> string \<Rightarrow> string \<Rightarrow> mdoc_error + cbor" where
  "cbor_require m key ctx = ok_or (MdocMalformed (ctx @ '' is missing '' @ apostrophe key)) (cbor_get m key)"

definition require_text :: "cbor \<Rightarrow> string \<Rightarrow> string \<Rightarrow> mdoc_error + string" where
  "require_text m key ctx =
     bindR (cbor_require m key ctx) (\<lambda>v.
     ok_or (MdocMalformed (ctx @ '' '' @ apostrophe key @ '' is not text'')) (as_text v))"

definition tdate :: "time_libs \<Rightarrow> instant \<Rightarrow> cbor" where
  "tdate T at = CTag TAG_TDATE (CText (t_rfc3339_secs T at))"

text \<open>A \<open>NaiveDate\<close> is its day number.\<close>

definition full_date :: "time_libs \<Rightarrow> int \<Rightarrow> cbor" where
  "full_date T day = CTag TAG_FULL_DATE (CText (t_ymd T day))"

definition parse_tdate :: "time_libs \<Rightarrow> cbor \<Rightarrow> string \<Rightarrow> mdoc_error + instant" where
  "parse_tdate T v field =
     (case v of
        CTag t inner \<Rightarrow>
          if t = TAG_TDATE
          then ok_or (MdocMalformed (field @ '' is not an RFC 3339 date-time'')) (Option.bind (as_text inner) (t_parse_rfc3339 T))
          else Inl (MdocMalformed (field @ '' is not a tdate''))
      | _ \<Rightarrow> Inl (MdocMalformed (field @ '' is not a tdate'')))"

fun cbor_to_json :: "libs \<Rightarrow> cbor_libs \<Rightarrow> cbor \<Rightarrow> json" where
  "cbor_to_json L C (CText s) = JStr s"
| "cbor_to_json L C (CBool b) = JBool b"
| "cbor_to_json L C CNull = JNull"
| "cbor_to_json L C (CInt i) =
     (if - 9223372036854775808 \<le> i \<and> i < 18446744073709551616 then JInt i else JStr (show_int i))"
| "cbor_to_json L C (CFloat f) = (case from_f64 C f of Some t \<Rightarrow> JFloat t | None \<Rightarrow> JNull)"
| "cbor_to_json L C (CBytes b) = JStr (b64url_encode L b)"
| "cbor_to_json L C (CArray vs) = JArr (map (cbor_to_json L C) vs)"
| "cbor_to_json L C (CMap kvs) =
     JObj (put_members (map (\<lambda>(k, v).
       (case k of CText s \<Rightarrow> s | _ \<Rightarrow> json_print L (cbor_to_json L C k), cbor_to_json L C v)) kvs))"
| "cbor_to_json L C (CTag t v) = cbor_to_json L C v"

section \<open>Issuance\<close>

record status_list_ref =
  sr_idx :: nat
  sr_uri :: string

record issue_request =
  iq_doc_type :: string
  iq_namespaces :: "(string \<times> (string \<times> cbor) list) list"
  iq_device_key :: jwk
  iq_signed :: instant
  iq_valid_from :: instant
  iq_valid_until :: instant
  iq_status :: "status_list_ref option"
  iq_x5chain :: "bytes list"

definition whole_seconds :: "instant \<Rightarrow> instant" where
  "whole_seconds at = timestamp at * second"

text \<open>One random digest ID that the namespace does not use yet: a \<open>u32\<close> per draw.\<close>

definition draw_digest_id :: "nat set \<Rightarrow> ('x env_scheme, mdoc_error, nat) prog" where
  "draw_digest_id ids = (\<lambda>s.
     case draw_loop ids 4294967296 (draw_at s) (draws_used s) of
       None \<Rightarrow> (Inl MdocNeverReturns, s)
     | Some (i, pos) \<Rightarrow> (Inr i, s\<lparr>draws_used := pos\<rparr>))"

definition issuer_signed_item :: "nat \<Rightarrow> bytes \<Rightarrow> string \<Rightarrow> cbor \<Rightarrow> cbor" where
  "issuer_signed_item digest_id random identifier v =
     CMap [(CText ''digestID'', CInt (int digest_id)), (CText ''random'', CBytes random),
       (CText ''elementIdentifier'', CText identifier), (CText ''elementValue'', v)]"

text \<open>The elements of one namespace: the items and their digests by ID.\<close>

fun issue_items ::
    "libs \<Rightarrow> cbor_libs \<Rightarrow> nat set \<Rightarrow> (string \<times> cbor) list \<Rightarrow>
       ('x env_scheme, mdoc_error, cbor list \<times> (cbor \<times> cbor) list) prog" where
  "issue_items L C ids [] = ret ([], [])"
| "issue_items L C ids ((identifier, v) # elements) =
     bindP (draw_digest_id ids) (\<lambda>digest_id.
     bindP new_salt (\<lambda>random.
     bindP (liftR (embed C (issuer_signed_item digest_id random identifier v))) (\<lambda>item.
     bindP (liftR (mdoc_encode C item)) (\<lambda>item_bytes.
     bindP (issue_items L C (insert digest_id ids) elements) (\<lambda>(items, digests).
     ret (item # items, (CInt (int digest_id), CBytes (sha256 L item_bytes)) # digests))))))"

definition issue_namespace ::
    "libs \<Rightarrow> cbor_libs \<Rightarrow> string \<times> (string \<times> cbor) list \<Rightarrow>
       ('x env_scheme, mdoc_error, (cbor \<times> cbor) \<times> (cbor \<times> cbor)) prog" where
  "issue_namespace L C = (\<lambda>(ns, elements).
     bindP (issue_items L C {} elements) (\<lambda>(items, digests).
     ret ((CText ns, CArray items), (CText ns, CMap digests))))"

definition mso_value ::
    "time_libs \<Rightarrow> issue_request \<Rightarrow> (cbor \<times> cbor) list \<Rightarrow> cbor \<Rightarrow> instant \<times> instant \<times> instant \<Rightarrow> cbor" where
  "mso_value T request value_digests device_key = (\<lambda>(signed, valid_from, valid_until).
     CMap ([(CText ''version'', CText ''1.0''), (CText ''digestAlgorithm'', CText ''SHA-256''),
       (CText ''valueDigests'', CMap value_digests),
       (CText ''deviceKeyInfo'', CMap [(CText ''deviceKey'', device_key)]),
       (CText ''docType'', CText (iq_doc_type request)),
       (CText ''validityInfo'', CMap [(CText ''signed'', tdate T signed), (CText ''validFrom'', tdate T valid_from),
          (CText ''validUntil'', tdate T valid_until)])] @
       (case iq_status request of
          None \<Rightarrow> []
        | Some status \<Rightarrow> [(CText ''status'', CMap [(CText ''status_list'',
            CMap [(CText ''idx'', CInt (int (sr_idx status))), (CText ''uri'', CText (sr_uri status))])])])))"

definition issue_times :: "issue_request \<Rightarrow> mdoc_error + (instant \<times> instant \<times> instant)" where
  "issue_times request =
     (let signed = whole_seconds (iq_signed request);
          valid_from = max (whole_seconds (iq_valid_from request)) signed;
          valid_until = whole_seconds (iq_valid_until request)
      in if valid_until \<le> valid_from then Inl (MdocValidity ''validUntil must be after validFrom'')
         else Inr (signed, valid_from, valid_until))"

definition mdoc_issue ::
    "libs \<Rightarrow> cbor_libs \<Rightarrow> time_libs \<Rightarrow> issue_request \<Rightarrow> key_pair \<Rightarrow> ('x env_scheme, mdoc_error, bytes) prog" where
  "mdoc_issue L C T request key =
     bindP (liftR (issue_times request)) (\<lambda>times.
     bindP (mapP (issue_namespace L C) (iq_namespaces request)) (\<lambda>namespaces.
     bindP (liftR (map_err MdocCose (cose_key L C (iq_device_key request)))) (\<lambda>device_key.
     bindP (liftR (embed C (mso_value T request (map snd namespaces) device_key times))) (\<lambda>mso.
     bindP (liftR (mdoc_encode C mso)) (\<lambda>payload.
     bindP (liftR (map_err MdocCose (cose_sign C key payload []
              [(HEADER_X5CHAIN, x5chain_value (iq_x5chain request))]))) (\<lambda>issuer_auth.
     bindP (liftR (map_err MdocCose (cose_to_value C issuer_auth))) (\<lambda>auth_value.
     liftR (mdoc_encode C (CMap [(CText ''nameSpaces'', CMap (map fst namespaces)), (CText ''issuerAuth'', auth_value)])))))))))"

section \<open>Verification of IssuerSigned\<close>

record verified_mdoc =
  vm_doc_type :: string
  vm_claims :: "string \<rightharpoonup> (string \<rightharpoonup> json)"
  vm_device_key :: jwk
  vm_signed :: instant
  vm_valid_from :: instant
  vm_valid_until :: instant
  vm_status :: "status_list_ref option"
  vm_signer_certificate :: bytes

definition vm_claim :: "verified_mdoc \<Rightarrow> string \<Rightarrow> string \<Rightarrow> json option" where
  "vm_claim v ns element = Option.bind (vm_claims v ns) (\<lambda>m. m element)"

definition issuer_x5chain :: "cose_sign1 \<Rightarrow> mdoc_error + bytes list" where
  "issuer_x5chain issuer_auth =
     bindR (map_err MdocCose (x5chain (cs_unprotected issuer_auth))) (\<lambda>chain.
     bindR (if chain = [] then map_err MdocCose (x5chain (cs_protected issuer_auth)) else Inr chain) (\<lambda>chain.
     bindR (ensure (chain \<noteq> []) (MdocUntrusted ''issuerAuth has no x5chain'')) (\<lambda>_.
     Inr chain)))"

definition parse_status :: "cbor \<Rightarrow> mdoc_error + status_list_ref option" where
  "parse_status mso =
     (case Option.bind (cbor_get mso ''status'') (\<lambda>s. cbor_get s ''status_list'') of
        None \<Rightarrow> Inr None
      | Some status_list \<Rightarrow>
          bindR (cbor_require status_list ''idx'' ''status_list'') (\<lambda>v.
          bindR (ok_or (MdocMalformed ''status_list idx is not an index'')
                   (Option.bind (as_integer v) (\<lambda>i. if 0 \<le> i \<and> i < 18446744073709551616 then Some (nat i) else None))) (\<lambda>idx.
          bindR (require_text status_list ''uri'' ''status_list'') (\<lambda>uri.
          Inr (Some \<lparr> sr_idx = idx, sr_uri = uri \<rparr>)))))"

definition check_doc_type :: "string option \<Rightarrow> string \<Rightarrow> mdoc_error + unit" where
  "check_doc_type expected_doc_type doc_type =
     (case expected_doc_type of
        Some expected \<Rightarrow> ensure (doc_type = expected)
          (MdocMalformed (''document claims docType '' @ apostrophe expected @ '' but the MSO says '' @ apostrophe doc_type))
      | None \<Rightarrow> Inr ())"

text \<open>The MSO: its version, digest algorithm, document type and validity period.\<close>

definition check_mso ::
    "time_libs \<Rightarrow> string option \<Rightarrow> cbor \<Rightarrow> mdoc_error + (string \<times> instant \<times> instant \<times> instant)" where
  "check_mso T expected_doc_type mso =
     bindR (require_text mso ''version'' ''MSO'') (\<lambda>version.
     bindR (ensure (version = ''1.0'') (MdocUnsupported ''MSO version other than 1.0'')) (\<lambda>_.
     bindR (require_text mso ''digestAlgorithm'' ''MSO'') (\<lambda>alg.
     bindR (ensure (alg = ''SHA-256'') (MdocUnsupported ''digest algorithm other than SHA-256'')) (\<lambda>_.
     bindR (require_text mso ''docType'' ''MSO'') (\<lambda>doc_type.
     bindR (check_doc_type expected_doc_type doc_type) (\<lambda>_.
     bindR (cbor_require mso ''validityInfo'' ''MSO'') (\<lambda>validity.
     bindR (bindR (cbor_require validity ''signed'' ''validityInfo'') (\<lambda>v. parse_tdate T v ''signed'')) (\<lambda>signed.
     bindR (bindR (cbor_require validity ''validFrom'' ''validityInfo'') (\<lambda>v. parse_tdate T v ''validFrom'')) (\<lambda>valid_from.
     bindR (bindR (cbor_require validity ''validUntil'' ''validityInfo'') (\<lambda>v. parse_tdate T v ''validUntil'')) (\<lambda>valid_until.
     Inr (doc_type, signed, valid_from, valid_until)))))))))))"

text \<open>One revealed item: its element and value, when its bytes hash to the signed digest.\<close>

definition check_item ::
    "libs \<Rightarrow> cbor_libs \<Rightarrow> string \<Rightarrow> cbor \<Rightarrow> cbor \<Rightarrow> mdoc_error + (string \<times> json)" where
  "check_item L C ns digests item_bytes =
     bindR (unembed C item_bytes) (\<lambda>item.
     bindR (require_text item ''elementIdentifier'' ''IssuerSignedItem'') (\<lambda>identifier.
     bindR (cbor_require item ''digestID'' ''IssuerSignedItem'') (\<lambda>v.
     bindR (ok_or (MdocMalformed ''digestID is not an integer'') (as_integer v)) (\<lambda>digest_id.
     bindR (mdoc_encode C item_bytes) (\<lambda>encoded.
     bindR (ensure (Option.bind (Option.bind (as_map digests) (\<lambda>m. label_value m digest_id)) as_bytes = Some (sha256 L encoded))
              (MdocDigestMismatch (ns @ ''/'' @ identifier))) (\<lambda>_.
     bindR (cbor_require item ''elementValue'' ''IssuerSignedItem'') (\<lambda>v.
     Inr (identifier, cbor_to_json L C v))))))))"

fun verify_items ::
    "libs \<Rightarrow> cbor_libs \<Rightarrow> string \<Rightarrow> cbor \<Rightarrow> cbor list \<Rightarrow> (string \<rightharpoonup> json) \<Rightarrow> mdoc_error + (string \<rightharpoonup> json)" where
  "verify_items L C ns digests [] elements = Inr elements"
| "verify_items L C ns digests (item_bytes # items) elements =
     bindR (check_item L C ns digests item_bytes) (\<lambda>(identifier, v).
     if elements identifier \<noteq> None then Inl (MdocMalformed (ns @ ''/'' @ identifier @ '' appears twice''))
     else verify_items L C ns digests items (elements(identifier \<mapsto> v)))"

fun verify_namespaces ::
    "libs \<Rightarrow> cbor_libs \<Rightarrow> cbor \<Rightarrow> (cbor \<times> cbor) list \<Rightarrow> (string \<rightharpoonup> (string \<rightharpoonup> json)) \<Rightarrow>
       mdoc_error + (string \<rightharpoonup> (string \<rightharpoonup> json))" where
  "verify_namespaces L C value_digests [] claims = Inr claims"
| "verify_namespaces L C value_digests ((k, v) # rest) claims =
     bindR (ok_or (MdocMalformed ''namespace is not text'') (as_text k)) (\<lambda>ns.
     bindR (ok_or (MdocDigestMismatch (''the MSO has no digests for '' @ ns)) (cbor_get value_digests ns)) (\<lambda>digests.
     bindR (ok_or (MdocMalformed (ns @ '' is not an array'')) (as_cbor_array v)) (\<lambda>items.
     bindR (verify_items L C ns digests items (case claims ns of Some m \<Rightarrow> m | None \<Rightarrow> Map.empty)) (\<lambda>elements.
     verify_namespaces L C value_digests rest (claims(ns \<mapsto> elements))))))"

definition verify_issuer_signed_value ::
    "libs \<Rightarrow> cbor_libs \<Rightarrow> x509_libs \<Rightarrow> time_libs \<Rightarrow> cbor \<Rightarrow> string option \<Rightarrow> bytes list \<Rightarrow> instant \<Rightarrow>
       mdoc_error + verified_mdoc" where
  "verify_issuer_signed_value L C X T issuer_signed expected_doc_type trust_anchors now =
     bindR (cbor_require issuer_signed ''issuerAuth'' ''IssuerSigned'') (\<lambda>v.
     bindR (map_err MdocCose (cose_from_value C v)) (\<lambda>issuer_auth.
     bindR (issuer_x5chain issuer_auth) (\<lambda>chain.
     bindR (map_err (\<lambda>e. MdocUntrusted (x509_error_to_string e)) (validate_chain L X chain trust_anchors now)) (\<lambda>signer_key.
     bindR (map_err (\<lambda>e. MdocIssuerSignature (cose_error_to_string e)) (cose_verify L C issuer_auth signer_key)) (\<lambda>_.
     bindR (ok_or (MdocMalformed ''issuerAuth has no payload'') (cs_payload issuer_auth)) (\<lambda>payload.
     bindR (bindR (mdoc_decode C payload) (unembed C)) (\<lambda>mso.
     bindR (check_mso T expected_doc_type mso) (\<lambda>(doc_type, signed, valid_from, valid_until).
     bindR (ensure (\<not> (now < valid_from \<or> valid_until < now))
              (MdocValidity (''valid from '' @ x_show_time X valid_from @ '' until '' @ x_show_time X valid_until))) (\<lambda>_.
     bindR (map_err (\<lambda>_. MdocValidity (''MSO was signed outside its certificate'' @ [CHR 0x27] @ ''s validity''))
              (validate_chain L X chain trust_anchors signed)) (\<lambda>_.
     bindR (cbor_require mso ''valueDigests'' ''MSO'') (\<lambda>value_digests.
     bindR (case cbor_get issuer_signed ''nameSpaces'' of
              None \<Rightarrow> Inr Map.empty
            | Some name_spaces \<Rightarrow>
                bindR (ok_or (MdocMalformed ''nameSpaces is not a map'') (as_map name_spaces)) (\<lambda>kvs.
                verify_namespaces L C value_digests kvs Map.empty)) (\<lambda>claims.
     bindR (bindR (cbor_require mso ''deviceKeyInfo'' ''MSO'') (\<lambda>info. cbor_require info ''deviceKey'' ''deviceKeyInfo'')) (\<lambda>key.
     bindR (map_err MdocCose (jwk_from_cose_key L key)) (\<lambda>device_key.
     bindR (parse_status mso) (\<lambda>status.
     Inr \<lparr> vm_doc_type = doc_type, vm_claims = claims, vm_device_key = device_key, vm_signed = signed,
           vm_valid_from = valid_from, vm_valid_until = valid_until, vm_status = status,
           vm_signer_certificate = hd chain \<rparr>)))))))))))))))"

definition verify_issuer_signed ::
    "libs \<Rightarrow> cbor_libs \<Rightarrow> x509_libs \<Rightarrow> time_libs \<Rightarrow> bytes \<Rightarrow> bytes list \<Rightarrow> instant \<Rightarrow> mdoc_error + verified_mdoc" where
  "verify_issuer_signed L C X T issuer_signed trust_anchors now =
     bindR (mdoc_decode C issuer_signed) (\<lambda>v. verify_issuer_signed_value L C X T v None trust_anchors now)"

section \<open>Presentation\<close>

definition handover_info :: "string \<Rightarrow> string \<Rightarrow> bytes option \<Rightarrow> string \<Rightarrow> cbor" where
  "handover_info client_id nonce jwk_thumbprint response_uri =
     CArray [CText client_id, CText nonce,
       (case jwk_thumbprint of None \<Rightarrow> CNull | Some t \<Rightarrow> CBytes t), CText response_uri]"

definition oid4vp_session_transcript ::
    "libs \<Rightarrow> cbor_libs \<Rightarrow> string \<Rightarrow> string \<Rightarrow> bytes option \<Rightarrow> string \<Rightarrow> mdoc_error + cbor" where
  "oid4vp_session_transcript L C client_id nonce jwk_thumbprint response_uri =
     bindR (mdoc_encode C (handover_info client_id nonce jwk_thumbprint response_uri)) (\<lambda>info.
     Inr (CArray [CNull, CNull, CArray [CText ''OpenID4VPHandover'', CBytes (sha256 L info)]]))"

definition device_authentication_bytes :: "cbor_libs \<Rightarrow> cbor \<Rightarrow> string \<Rightarrow> cbor \<Rightarrow> mdoc_error + bytes" where
  "device_authentication_bytes C session_transcript doc_type device_name_spaces =
     bindR (embed C (CArray [CText ''DeviceAuthentication'', session_transcript, CText doc_type, device_name_spaces]))
       (mdoc_encode C)"

text \<open>The items of one namespace that are named in \<open>disclose\<close>.\<close>

definition item_disclosed :: "cbor_libs \<Rightarrow> (string \<times> string) list \<Rightarrow> string \<Rightarrow> cbor \<Rightarrow> bool" where
  "item_disclosed C disclose ns item =
     (case unembed C item of
        Inl _ \<Rightarrow> False
      | Inr v \<Rightarrow> (case Option.bind (cbor_get v ''elementIdentifier'') as_text of
                   Some i \<Rightarrow> (ns, i) \<in> set disclose | None \<Rightarrow> False))"

fun reveal :: "cbor_libs \<Rightarrow> (string \<times> string) list \<Rightarrow> (cbor \<times> cbor) list \<Rightarrow> (cbor \<times> cbor) list" where
  "reveal C disclose [] = []"
| "reveal C disclose ((k, v) # rest) =
     (let ns = (case as_text k of Some s \<Rightarrow> s | None \<Rightarrow> []);
          kept = filter (item_disclosed C disclose ns) (case as_cbor_array v of Some items \<Rightarrow> items | None \<Rightarrow> [])
      in if kept \<noteq> [] then (k, CArray kept) # reveal C disclose rest else reveal C disclose rest)"

definition mdoc_present ::
    "cbor_libs \<Rightarrow> bytes \<Rightarrow> (string \<times> string) list \<Rightarrow> cbor \<Rightarrow> key_pair \<Rightarrow> mdoc_error + bytes" where
  "mdoc_present C issuer_signed disclose session_transcript device_key =
     bindR (mdoc_decode C issuer_signed) (\<lambda>issuer_signed.
     bindR (cbor_require issuer_signed ''issuerAuth'' ''IssuerSigned'') (\<lambda>issuer_auth.
     bindR (map_err MdocCose (cose_from_value C issuer_auth)) (\<lambda>sign1.
     bindR (ok_or (MdocMalformed ''issuerAuth has no payload'') (cs_payload sign1)) (\<lambda>mso_payload.
     bindR (bindR (mdoc_decode C mso_payload) (unembed C)) (\<lambda>mso.
     bindR (require_text mso ''docType'' ''MSO'') (\<lambda>doc_type.
     let revealed = (case cbor_get issuer_signed ''nameSpaces'' of
                       Some (CMap name_spaces) \<Rightarrow> reveal C disclose name_spaces | _ \<Rightarrow> [])
     in
     bindR (embed C (CMap [])) (\<lambda>device_name_spaces.
     bindR (device_authentication_bytes C session_transcript doc_type device_name_spaces) (\<lambda>bytes.
     bindR (map_err MdocCose (cose_sign_detached C device_key bytes)) (\<lambda>device_signature.
     bindR (map_err MdocCose (cose_to_value C device_signature)) (\<lambda>signature_value.
     mdoc_encode C (CMap [(CText ''version'', CText ''1.0''),
       (CText ''documents'', CArray [CMap [
          (CText ''docType'', CText doc_type),
          (CText ''issuerSigned'', CMap [(CText ''nameSpaces'', CMap revealed), (CText ''issuerAuth'', issuer_auth)]),
          (CText ''deviceSigned'', CMap [(CText ''nameSpaces'', device_name_spaces),
             (CText ''deviceAuth'', CMap [(CText ''deviceSignature'', signature_value)])])]]),
       (CText ''status'', CInt 0)])))))))))))"

definition device_signature :: "cbor_libs \<Rightarrow> cbor \<Rightarrow> mdoc_error + cose_sign1" where
  "device_signature C device_auth =
     (case cbor_get device_auth ''deviceSignature'' of
        Some signature \<Rightarrow> map_err MdocCose (cose_from_value C signature)
      | None \<Rightarrow>
          if cbor_get device_auth ''deviceMac'' \<noteq> None
          then Inl (MdocUnsupported ''deviceMac needs a reader key, which OpenID4VP does not use'')
          else Inl (MdocMalformed ''deviceAuth has no deviceSignature''))"

definition verify_document ::
    "libs \<Rightarrow> cbor_libs \<Rightarrow> x509_libs \<Rightarrow> time_libs \<Rightarrow> cbor \<Rightarrow> bytes list \<Rightarrow> instant \<Rightarrow> cbor \<Rightarrow> mdoc_error + verified_mdoc" where
  "verify_document L C X T session_transcript trust_anchors now document =
     bindR (require_text document ''docType'' ''Document'') (\<lambda>doc_type.
     bindR (cbor_require document ''issuerSigned'' ''Document'') (\<lambda>issuer_signed.
     bindR (verify_issuer_signed_value L C X T issuer_signed (Some doc_type) trust_anchors now) (\<lambda>verified.
     bindR (cbor_require document ''deviceSigned'' ''Document'') (\<lambda>device_signed.
     bindR (cbor_require device_signed ''nameSpaces'' ''DeviceSigned'') (\<lambda>device_name_spaces.
     bindR (cbor_require device_signed ''deviceAuth'' ''DeviceSigned'') (\<lambda>device_auth.
     bindR (device_signature C device_auth) (\<lambda>signature.
     bindR (device_authentication_bytes C session_transcript doc_type device_name_spaces) (\<lambda>signed_bytes.
     bindR (map_err (\<lambda>e. MdocDeviceAuthentication (cose_error_to_string e))
              (cose_verify_detached L C signature signed_bytes (vm_device_key verified))) (\<lambda>_.
     Inr verified)))))))))"

definition verify_device_response ::
    "libs \<Rightarrow> cbor_libs \<Rightarrow> x509_libs \<Rightarrow> time_libs \<Rightarrow> bytes \<Rightarrow> cbor \<Rightarrow> bytes list \<Rightarrow> instant \<Rightarrow> mdoc_error + verified_mdoc list" where
  "verify_device_response L C X T device_response session_transcript trust_anchors now =
     bindR (mdoc_decode C device_response) (\<lambda>response.
     bindR (require_text response ''version'' ''DeviceResponse'') (\<lambda>version.
     bindR (ensure (version = ''1.0'') (MdocUnsupported ''DeviceResponse version other than 1.0'')) (\<lambda>_.
     bindR (cbor_require response ''status'' ''DeviceResponse'') (\<lambda>status.
     bindR (ensure (as_integer status = Some 0)
              (MdocMalformed (''DeviceResponse status is '' @ debug_cbor_int C (as_integer status) @ '', not OK (0)''))) (\<lambda>_.
     bindR (ok_or (MdocMalformed ''DeviceResponse has no documents'')
              (case Option.bind (cbor_get response ''documents'') as_cbor_array of
                 Some docs \<Rightarrow> if docs \<noteq> [] then Some docs else None | None \<Rightarrow> None)) (\<lambda>documents.
     mapR (verify_document L C X T session_transcript trust_anchors now) documents))))))"

section \<open>The MSO revocation list\<close>

record status_list_cwt =
  sl_uri :: string
  sl_cwt_bits :: nat
  sl_lst :: bytes
  sl_iat :: instant
  sl_exp :: instant
  sl_ttl :: "nat option"
  sl_x5chain :: "bytes list"

definition cwt_claims :: "status_list_cwt \<Rightarrow> cbor" where
  "cwt_claims list =
     CMap ([(CInt CWT_SUB, CText (sl_uri list)), (CInt CWT_IAT, CInt (timestamp (sl_iat list))),
            (CInt CWT_EXP, CInt (timestamp (sl_exp list)))] @
           (case sl_ttl list of Some ttl \<Rightarrow> [(CInt CWT_TTL, CInt (int ttl))] | None \<Rightarrow> []) @
           [(CInt CWT_STATUS_LIST, CMap [(CText ''bits'', CInt (int (sl_cwt_bits list))),
              (CText ''lst'', CBytes (sl_lst list))])])"

definition sign_status_list_cwt :: "cbor_libs \<Rightarrow> status_list_cwt \<Rightarrow> key_pair \<Rightarrow> mdoc_error + bytes" where
  "sign_status_list_cwt C list key =
     bindR (mdoc_encode C (cwt_claims list)) (\<lambda>payload.
     bindR (map_err MdocCose (cose_sign C key payload
              [(HEADER_TYP, CText STATUS_LIST_CWT_TYPE), (HEADER_X5CHAIN, x5chain_value (sl_x5chain list))] [])) (\<lambda>token.
     map_err MdocCose (cose_to_tagged_vec C token)))"

record verified_status_list =
  vl_uri :: string
  vl_bits :: nat
  vl_lst :: bytes
  vl_exp :: instant

definition cwt_claim :: "cbor \<Rightarrow> int \<Rightarrow> mdoc_error + cbor" where
  "cwt_claim claims key =
     ok_or (MdocMalformed (''CWT claim '' @ show_int key @ '' is missing''))
       (Option.bind (as_map claims) (\<lambda>m. label_value m key))"

definition verify_status_list_cwt ::
    "libs \<Rightarrow> cbor_libs \<Rightarrow> x509_libs \<Rightarrow> bytes \<Rightarrow> bytes list \<Rightarrow> instant \<Rightarrow> mdoc_error + verified_status_list" where
  "verify_status_list_cwt L C X token trust_anchors now =
     bindR (map_err MdocCose (cose_from_slice C token)) (\<lambda>token.
     let typ = Option.bind (find (\<lambda>(label, _). label = LabelInt HEADER_TYP) (ch_rest (cs_protected token))) (\<lambda>(_, v). as_text v)
     in
     bindR (ensure (typ = Some STATUS_LIST_CWT_TYPE)
              (MdocMalformed (''typ is '' @ debug_str C typ @ '', not '' @ STATUS_LIST_CWT_TYPE))) (\<lambda>_.
     bindR (map_err MdocCose (x5chain (cs_protected token))) (\<lambda>chain.
     bindR (map_err (\<lambda>e. MdocUntrusted (x509_error_to_string e)) (validate_chain L X chain trust_anchors now)) (\<lambda>key.
     bindR (map_err (\<lambda>e. MdocIssuerSignature (cose_error_to_string e)) (cose_verify L C token key)) (\<lambda>_.
     bindR (mdoc_decode C (case cs_payload token of Some p \<Rightarrow> p | None \<Rightarrow> [])) (\<lambda>claims.
     bindR (cwt_claim claims CWT_EXP) (\<lambda>v.
     bindR (ok_or (MdocMalformed ''exp is not a NumericDate'')
              (Option.bind (as_integer v) (\<lambda>i. if in_i64 i then from_timestamp i else None))) (\<lambda>exp.
     bindR (ensure (\<not> exp < now) (MdocValidity ''the status list has expired'')) (\<lambda>_.
     bindR (cwt_claim claims CWT_STATUS_LIST) (\<lambda>status_list.
     bindR (cwt_claim claims CWT_SUB) (\<lambda>v.
     bindR (ok_or (MdocMalformed ''sub is not text'') (as_text v)) (\<lambda>uri.
     bindR (cbor_require status_list ''bits'' ''status_list'') (\<lambda>v.
     bindR (ok_or (MdocMalformed ''bits is not a small integer'')
              (Option.bind (as_integer v) (\<lambda>i. if 0 \<le> i \<and> i < 256 then Some (nat i) else None))) (\<lambda>bits.
     bindR (cbor_require status_list ''lst'' ''status_list'') (\<lambda>v.
     bindR (ok_or (MdocMalformed ''lst is not a byte string'') (as_bytes v)) (\<lambda>lst.
     Inr \<lparr> vl_uri = uri, vl_bits = bits, vl_lst = lst, vl_exp = exp \<rparr>))))))))))))))))"

end
