(* ===== verification/Credential.thy ===== *)
theory Credential
  imports Metadata Token Sd_Jwt Mdoc "HOL-Library.Multiset"
begin

text \<open>
  The credential endpoint of crates/issuer/src/credential.rs: what a request may ask for, the
  proofs of possession, the nonces, and the SD-JWT VCs and mDLs that are issued. The closures
  that allocate a status entry are fields of the context, as in the sources. The context also
  carries what is not the sources' own: the orders in which the \<open>HashSet\<close> of nonces and the
  \<open>HashMap\<close> of claims are visited, and the record \<open>mdoc_libs\<close> with the CBOR, X.509 and calendar
  functions and the bytes of assets/portrait.jpg. \<open>IssuancePanic\<close> and \<open>IssuanceNeverReturns\<close> are
  not Rust values: they mark an \<open>expect\<close> that fails and a loop that does not end.
\<close>

definition PROOF_MAX_AGE_SECS :: int where
  "PROOF_MAX_AGE_SECS = 300"

definition MSO_VALIDITY_DAYS :: int where
  "MSO_VALIDITY_DAYS = 365"

definition DEMO_BIRTH_DATE :: string where
  "DEMO_BIRTH_DATE = ''1990-01-01''"

definition ISSUING_AUTHORITY :: string where
  "ISSUING_AUTHORITY = ''oid4vc-rs Development Issuing Authority''"

definition DEMO_DOCUMENT_NUMBER :: string where
  "DEMO_DOCUMENT_NUMBER = ''D1234567''"

datatype credential_error =
    InvalidAccessToken
  | InvalidCredentialRequest string
  | UnknownCredentialConfiguration string
  | UnknownCredentialIdentifier string
  | InvalidProof string
  | InvalidNonce
  | UnsupportedFormat string
  | IssuanceError string
  | CredentialStateError string
  | IssuancePanic
  | IssuanceNeverReturns

fun credential_error_code :: "credential_error \<Rightarrow> string" where
  "credential_error_code InvalidAccessToken = ''invalid_token''"
| "credential_error_code (InvalidCredentialRequest e) = ''invalid_credential_request''"
| "credential_error_code (UnsupportedFormat e) = ''invalid_credential_request''"
| "credential_error_code (UnknownCredentialConfiguration e) = ''unknown_credential_configuration''"
| "credential_error_code (UnknownCredentialIdentifier e) = ''unknown_credential_identifier''"
| "credential_error_code (InvalidProof e) = ''invalid_proof''"
| "credential_error_code InvalidNonce = ''invalid_nonce''"
| "credential_error_code (IssuanceError e) = ''server_error''"
| "credential_error_code (CredentialStateError e) = ''server_error''"
| "credential_error_code IssuancePanic = []"
| "credential_error_code IssuanceNeverReturns = []"

fun credential_error_to_string :: "credential_error \<Rightarrow> string" where
  "credential_error_to_string InvalidAccessToken = ''invalid access token''"
| "credential_error_to_string (InvalidCredentialRequest e) = ''invalid credential request: '' @ e"
| "credential_error_to_string (UnknownCredentialConfiguration e) = ''unknown credential configuration: '' @ e"
| "credential_error_to_string (UnknownCredentialIdentifier e) = ''unknown credential identifier: '' @ e"
| "credential_error_to_string (InvalidProof e) = ''invalid or missing proof of possession: '' @ e"
| "credential_error_to_string InvalidNonce = ''invalid or expired c_nonce''"
| "credential_error_to_string (UnsupportedFormat e) = ''unsupported credential format: '' @ e"
| "credential_error_to_string (IssuanceError e) = ''issuance error: '' @ e"
| "credential_error_to_string (CredentialStateError e) = ''state error: '' @ e"
| "credential_error_to_string IssuancePanic = []"
| "credential_error_to_string IssuanceNeverReturns = []"

text \<open>A closure that allocates an entry returns, with an entry or with its error's text, or not at all.\<close>

datatype closure_error = Refused string | Panicked | NeverReturned

fun issuance_error :: "closure_error \<Rightarrow> credential_error" where
  "issuance_error (Refused e) = IssuanceError e"
| "issuance_error Panicked = IssuancePanic"
| "issuance_error NeverReturned = IssuanceNeverReturns"

record 's mdoc_signer =
  ms_certificate :: issuer_certificate
  ms_allocate_status :: "('s, closure_error, status_list_ref option) prog"

text \<open>
  What mdoc issuance uses of other crates. A \<open>NaiveDate\<close> is its day number: parsing of
  \<open>%Y-%m-%d\<close>, \<open>checked_add_months\<close> and \<open>years_since\<close> are chrono's.
\<close>

record mdoc_libs =
  ml_cbor :: cbor_libs
  ml_x509 :: x509_libs
  ml_time :: time_libs
  ml_parse_date :: "string \<Rightarrow> int option"
  ml_add_months :: "int \<Rightarrow> nat \<Rightarrow> int option"
  ml_years_since :: "int \<Rightarrow> int \<Rightarrow> nat option"
  ml_portrait :: bytes

text \<open>\<open>IssuanceContext\<close>; \<open>'s\<close> is the state its closures work on.\<close>

record 's issuance_context =
  ict_issuer_key :: key_pair
  ict_issuer_url :: string
  ict_metadata :: credential_issuer_metadata
  ict_allocate_status :: "('s, closure_error, json option) prog"
  ict_x5c :: "string list option"
  ict_mdoc :: "'s mdoc_signer option"
  ict_mdoc_libs :: mdoc_libs
  ict_nonce_order :: "string list \<Rightarrow> string list"
  ict_claim_order :: "(string \<times> json) list \<Rightarrow> (string \<times> json) list"

section \<open>What a request names\<close>

definition resolve_configuration ::
    "credential_request \<Rightarrow> access_grant \<Rightarrow> credential_issuer_metadata \<Rightarrow>
       credential_error + (string \<times> credential_configuration)" where
  "resolve_configuration request grant metadata =
     bindR (case (cq_identifier request, cq_configuration_id request) of
              (Some _, Some _) \<Rightarrow> Inl (InvalidCredentialRequest
                 ''send credential_identifier or credential_configuration_id, not both'')
            | (None, None) \<Rightarrow> Inl (InvalidCredentialRequest
                 ''credential_identifier or credential_configuration_id is required'')
            | (Some identifier, None) \<Rightarrow>
                ok_or (UnknownCredentialIdentifier identifier) (gt_identifiers grant identifier)
            | (None, Some config_id) \<Rightarrow>
                if contains_key config_id (im_configurations metadata) \<and> gt_identifiers grant \<noteq> Map.empty
                then Inl (InvalidCredentialRequest
                   ''this access token was issued with credential_identifiers; use one'')
                else Inr config_id) (\<lambda>config_id.
     bindR (ok_or (UnknownCredentialConfiguration config_id)
              (map_of (im_configurations metadata) config_id)) (\<lambda>config.
     bindR (ensure (config_id \<in> set (gt_configuration_ids grant))
              (UnknownCredentialConfiguration (config_id @ '' was not authorized for this access token''))) (\<lambda>_.
     Inr (config_id, config))))"

section \<open>Proofs of possession\<close>

text \<open>\<open>i64::abs\<close> of a release build: the least number is its own absolute value.\<close>

definition abs_i64 :: "int \<Rightarrow> int" where
  "abs_i64 x = wrap_i64 \<bar>x\<bar>"

definition proof_age_ok :: "int \<Rightarrow> int \<Rightarrow> bool" where
  "proof_age_ok now iat \<longleftrightarrow> \<not> PROOF_MAX_AGE_SECS < abs_i64 (wrap_i64 (now - iat))"

definition alg_advertised :: "credential_configuration \<Rightarrow> string \<Rightarrow> bool" where
  "alg_advertised config alg =
     (case Option.bind (cc_proof_types config) (\<lambda>types. map_of types ''jwt'') of
        Some m \<Rightarrow> alg \<in> set (proof_signing_alg_values_supported m)
      | None \<Rightarrow> False)"

text \<open>The checks before the clock is read: the holder key, the payload and its \<open>iat\<close>.\<close>

definition check_proof ::
    "libs \<Rightarrow> string \<Rightarrow> string \<Rightarrow> credential_configuration \<Rightarrow> credential_error + (jwk \<times> json \<times> int)" where
  "check_proof L jwt issuer_url config =
     bindR (map_err (\<lambda>e. InvalidProof (jws_error_to_string e)) (decode_compact L jwt)) (\<lambda>decoded.
     bindR (ensure (h_typ (dj_header decoded) = Some ''openid4vci-proof+jwt'')
              (InvalidProof (''proof JWT must have typ '' @ in_quotes ''openid4vci-proof+jwt''))) (\<lambda>_.
     bindR (ok_or (InvalidProof (''proof JWT header must carry the holder'' @ [CHR 0x27] @
                ''s public key in '' @ in_quotes ''jwk'')) (h_jwk (dj_header decoded))) (\<lambda>holder_jwk.
     bindR (map_err (\<lambda>e. InvalidProof (key_error_to_string e)) (algorithm_for_jwk holder_jwk)) (\<lambda>expected_alg.
     bindR (ensure (h_alg (dj_header decoded) = alg_as_str expected_alg)
              (InvalidProof (''proof alg '' @ in_quotes (h_alg (dj_header decoded)) @
                 '' does not match the supplied key ('' @ alg_as_str expected_alg @ '')''))) (\<lambda>_.
     bindR (ensure (alg_advertised config (h_alg (dj_header decoded)))
              (InvalidProof (''proof alg '' @ in_quotes (h_alg (dj_header decoded)) @
                 '' is not in proof_signing_alg_values_supported''))) (\<lambda>_.
     bindR (map_err (\<lambda>e. InvalidProof (''proof signature invalid: '' @ key_error_to_string e))
              (verify_with_jwk L holder_jwk (dj_signing_input decoded) (dj_signature decoded))) (\<lambda>_.
     bindR (map_err InvalidProof (json_parse L (dj_payload decoded))) (\<lambda>payload.
     bindR (ok_or (InvalidProof (''proof is missing '' @ in_quotes ''aud'')) (str_claim ''aud'' payload)) (\<lambda>aud.
     bindR (ensure (trim_end_matches (CHR ''/'') aud = trim_end_matches (CHR ''/'') issuer_url)
              (InvalidProof (''proof '' @ in_quotes ''aud'' @ '' is '' @ in_quotes aud @ '', expected '' @
                 in_quotes issuer_url))) (\<lambda>_.
     bindR (ok_or (InvalidProof (''proof is missing '' @ in_quotes ''iat'')) (int_claim ''iat'' payload)) (\<lambda>iat.
     Inr (holder_jwk, payload, iat))))))))))))"

definition verify_proof_jwt ::
    "libs \<Rightarrow> string \<Rightarrow> string \<Rightarrow> credential_configuration \<Rightarrow> ('x env_scheme, credential_error, jwk \<times> string) prog" where
  "verify_proof_jwt L jwt issuer_url config =
     bindP (liftR (check_proof L jwt issuer_url config)) (\<lambda>(holder_jwk, payload, iat).
     bindP utc_now (\<lambda>t.
     bindP (liftR (ensure (proof_age_ok (timestamp t) iat)
              (InvalidProof (''proof '' @ in_quotes ''iat'' @ '' is outside the accepted window'')))) (\<lambda>_.
     bindP (liftR (ok_or InvalidNonce (str_claim ''nonce'' payload))) (\<lambda>nonce.
     ret (holder_jwk, nonce)))))"

section \<open>Issuance\<close>

definition demo_claims :: "(string \<times> json) list" where
  "demo_claims = [(''given_name'', JStr ''John''), (''family_name'', JStr ''Doe''),
     (''birth_date'', JStr DEMO_BIRTH_DATE)]"

definition issue_sd_jwt_credential ::
    "libs \<Rightarrow> credential_configuration \<Rightarrow> 'x issuer_state_scheme issuance_context \<Rightarrow> jwk \<Rightarrow>
       ('x issuer_state_scheme, credential_error, json) prog" where
  "issue_sd_jwt_credential L config ctx holder_jwk =
     bindP (liftR (ok_or (IssuanceError ''dc+sd-jwt configuration has no vct'') (cc_vct config))) (\<lambda>vct.
     bindP (errP issuance_error (ict_allocate_status ctx)) (\<lambda>status_claim.
     bindP (errP (\<lambda>e. IssuanceError (sd_jwt_error_to_string e))
              (issue_sd_jwt_vc_with_x5c L (ict_issuer_key ctx) (ict_issuer_url ctx) vct []
                 (ict_claim_order ctx demo_claims) (Some (JObj [(''jwk'', json_of_jwk L holder_jwk)])) status_claim (ict_x5c ctx))) (\<lambda>(sd_jwt, _).
     ret (JStr sd_jwt))))"

text \<open>Midnight UTC at the start of the day, and its day number.\<close>

definition day_number :: "instant \<Rightarrow> int" where
  "day_number at = at div (day_secs * second)"

definition start_of_day :: "instant \<Rightarrow> instant" where
  "start_of_day at = day_number at * (day_secs * second)"

text \<open>The demo subject's elements; \<open>None\<close> when an \<open>expect\<close> fails.\<close>

definition mdl_elements :: "mdoc_libs \<Rightarrow> string \<Rightarrow> int \<Rightarrow> (string \<times> cbor) list option" where
  "mdl_elements M issuing_country today =
     Option.bind (ml_parse_date M DEMO_BIRTH_DATE) (\<lambda>birth_date.
     Option.bind (ml_add_months M today (5 * 12)) (\<lambda>expiry_date.
     let T = ml_time M;
         age = (case ml_years_since M today birth_date of Some a \<Rightarrow> a | None \<Rightarrow> 0)
     in Some ([(''family_name'', CText ''Doe''), (''given_name'', CText ''John''),
          (''birth_date'', full_date T birth_date), (''issue_date'', full_date T today),
          (''expiry_date'', full_date T expiry_date), (''issuing_country'', CText issuing_country),
          (''issuing_authority'', CText ISSUING_AUTHORITY), (''document_number'', CText DEMO_DOCUMENT_NUMBER),
          (''portrait'', CBytes (ml_portrait M)),
          (''driving_privileges'', CArray [CMap [(CText ''vehicle_category_code'', CText ''B''),
             (CText ''issue_date'', full_date T today), (CText ''expiry_date'', full_date T expiry_date)]]),
          (''un_distinguishing_sign'', CText issuing_country)] @
          map (\<lambda>nn. (''age_over_'' @ show_nat nn, CBool (nn \<le> age))) [18, 21])))"

definition mdl_request ::
    "mdoc_libs \<Rightarrow> jwk \<Rightarrow> issuer_certificate \<Rightarrow> (string \<times> cbor) list \<Rightarrow> instant \<Rightarrow> instant \<Rightarrow> status_list_ref option \<Rightarrow>
       issue_request" where
  "mdl_request M holder_jwk certificate elements today not_after status =
     \<lparr> iq_doc_type = MDL_DOCTYPE, iq_namespaces = [(MDL_NAMESPACE, elements)], iq_device_key = holder_jwk,
       iq_signed = today, iq_valid_from = today,
       iq_valid_until = start_of_day (min (today + MSO_VALIDITY_DAYS * (day_secs * second)) not_after),
       iq_status = status, iq_x5chain = [xc_der certificate] \<rparr>"

fun mdl_issue_error :: "mdoc_error \<Rightarrow> credential_error" where
  "mdl_issue_error MdocNeverReturns = IssuanceNeverReturns"
| "mdl_issue_error e = IssuanceError (mdoc_error_to_string e)"

definition issue_mdoc_credential ::
    "libs \<Rightarrow> credential_configuration \<Rightarrow> 'x issuer_state_scheme issuance_context \<Rightarrow> jwk \<Rightarrow>
       ('x issuer_state_scheme, credential_error, json) prog" where
  "issue_mdoc_credential L config ctx holder_jwk =
     (let M = ict_mdoc_libs ctx; doc_type = (case cc_doctype config of Some d \<Rightarrow> d | None \<Rightarrow> []) in
     bindP (liftR (ok_or (IssuanceError ''no mdoc document signer is configured'') (ict_mdoc ctx))) (\<lambda>signer.
     bindP (liftR (ensure (doc_type = MDL_DOCTYPE) (UnsupportedFormat (''mso_mdoc doctype '' @ in_quotes doc_type)))) (\<lambda>_.
     bindP (liftR (ok_or (IssuanceError ''the document signer certificate names no country'')
              (certificate_subject_country (ml_x509 M) (ms_certificate signer)))) (\<lambda>country.
     bindP utc_now (\<lambda>now.
     bindP (liftR (ok_or IssuancePanic (mdl_elements M country (day_number now)))) (\<lambda>elements.
     bindP (liftR (ok_or IssuancePanic (certificate_not_after (ml_x509 M) (ms_certificate signer)))) (\<lambda>not_after.
     bindP (errP issuance_error (ms_allocate_status signer)) (\<lambda>status.
     bindP (errP mdl_issue_error (mdoc_issue L (ml_cbor M) (ml_time M)
              (mdl_request M holder_jwk (ms_certificate signer) elements (start_of_day now) not_after status)
              (ict_issuer_key ctx))) (\<lambda>issuer_signed.
     ret (JStr (b64url_encode L issuer_signed)))))))))))"

definition issue_credential ::
    "libs \<Rightarrow> string \<Rightarrow> credential_configuration \<Rightarrow> 'x issuer_state_scheme issuance_context \<Rightarrow> jwk \<Rightarrow>
       ('x issuer_state_scheme, credential_error, issued_credential) prog" where
  "issue_credential L config_id config ctx holder_jwk =
     bindP (if cc_format config = ''dc+sd-jwt'' then issue_sd_jwt_credential L config ctx holder_jwk
            else if cc_format config = ''mso_mdoc'' then issue_mdoc_credential L config ctx holder_jwk
            else liftR (Inl (UnsupportedFormat (config_id @ '' has format '' @ cc_format config)))) (\<lambda>credential.
     ret \<lparr> ic_credential = credential \<rparr>)"

definition requested_proofs ::
    "credential_request \<Rightarrow> credential_issuer_metadata \<Rightarrow> credential_error + string list" where
  "requested_proofs request metadata =
     bindR (ensure (cq_proof request = None)
              (InvalidCredentialRequest (in_quotes ''proof'' @ '' was removed in OID4VCI 1.0; send '' @ in_quotes ''proofs''))) (\<lambda>_.
     bindR (ok_or (InvalidProof ''proofs is required'') (cq_proofs request)) (\<lambda>proofs.
     bindR (case pf_other proofs of
              (other, _) # _ \<Rightarrow> Inl (InvalidProof (''unsupported proof type: '' @ other)) | [] \<Rightarrow> Inr ()) (\<lambda>_.
     bindR (ok_or (InvalidProof ''proofs.jwt is required'')
              (case pf_jwt proofs of Some jwts \<Rightarrow> if jwts \<noteq> [] then Some jwts else None | None \<Rightarrow> None)) (\<lambda>jwts.
     let limit = (case im_batch_credential_issuance metadata of Some b \<Rightarrow> batch_size b | None \<Rightarrow> 1)
     in bindR (ensure (length jwts \<le> limit)
                 (InvalidProof (show_nat (length jwts) @ '' proofs sent, batch_size is '' @ show_nat limit))) (\<lambda>_.
        Inr jwts)))))"

fun consume_nonces :: "string list \<Rightarrow> ('x issuer_state_scheme, credential_error, unit) prog" where
  "consume_nonces [] = ret ()"
| "consume_nonces (nonce # nonces) =
     bindP (errP (\<lambda>e. CredentialStateError (state_error_to_string e)) (consume_c_nonce nonce)) (\<lambda>valid.
     bindP (liftR (ensure valid InvalidNonce)) (\<lambda>_.
     consume_nonces nonces))"

definition process_credential_request ::
    "libs \<Rightarrow> credential_request \<Rightarrow> string \<Rightarrow> 'x issuer_state_scheme issuance_context \<Rightarrow>
       ('x issuer_state_scheme, credential_error, credential_response) prog" where
  "process_credential_request L request access_token ctx =
     bindP (errP (\<lambda>e. CredentialStateError (state_error_to_string e)) (get_access_grant access_token)) (\<lambda>found.
     bindP (liftR (ok_or InvalidAccessToken found)) (\<lambda>grant.
     bindP (liftR (resolve_configuration request grant (ict_metadata ctx))) (\<lambda>(config_id, config).
     bindP (liftR (requested_proofs request (ict_metadata ctx))) (\<lambda>jwts.
     bindP (mapP (\<lambda>jwt. verify_proof_jwt L jwt (ict_issuer_url ctx) config) jwts) (\<lambda>verified.
     bindP (consume_nonces (ict_nonce_order ctx (remdups (map snd verified)))) (\<lambda>_.
     bindP (mapP (issue_credential L config_id config ctx) (map fst verified)) (\<lambda>credentials.
     ret \<lparr> cp_credentials = Some credentials, cp_transaction_id = None, cp_interval = None,
           cp_notification_id = None \<rparr>)))))))"

section \<open>The age of a proof\<close>

lemma wrap_i64_above:
  assumes "9223372036854775808 \<le> x" and "x < 27670116110564327424"
  shows "wrap_i64 x = x - 18446744073709551616"
proof -
  define r where "r = x - 9223372036854775808"
  have "(x + 9223372036854775808) mod 18446744073709551616 = (r + 18446744073709551616) mod 18446744073709551616"
    by (simp add: r_def add.commute)
  also have "\<dots> = r" using assms by (simp only: r_def mod_add_self2 mod_pos_pos_trivial)
  finally show ?thesis by (simp add: wrap_i64_def r_def)
qed

text \<open>
  C19. The freshness check of a proof accepts exactly the \<open>iat\<close> within 300 seconds of the clock
  and one more: \<open>iat = now - 2^63\<close>, whose age overflows to the least \<open>i64\<close>, which \<open>abs\<close> leaves
  negative.
\<close>

theorem proof_age_window:
  assumes "in_i64 iat" and "0 \<le> now" and "now < 4611686018427387904"
  shows "proof_age_ok now iat \<longleftrightarrow> \<bar>now - iat\<bar> \<le> 300 \<or> iat = now - 9223372036854775808"
proof (cases "now - iat < 9223372036854775808")
  case True
  then have i: "in_i64 (now - iat)" using assms by (simp add: in_i64_def)
  show ?thesis
  proof (cases "now - iat = - 9223372036854775808")
    case True
    with assms show ?thesis by (simp add: in_i64_def)
  next
    case False
    then have "in_i64 \<bar>now - iat\<bar>" using i by (auto simp: in_i64_def)
    then show ?thesis using \<open>now - iat < 9223372036854775808\<close> i
      by (auto simp: proof_age_ok_def abs_i64_def wrap_i64_id PROOF_MAX_AGE_SECS_def)
  qed
next
  case False
  then have w: "wrap_i64 (now - iat) = now - iat - 18446744073709551616"
    using assms by (intro wrap_i64_above) (simp_all add: in_i64_def)
  show ?thesis
  proof (cases "iat = now - 9223372036854775808")
    case True
    then show ?thesis using w by (simp add: proof_age_ok_def abs_i64_def wrap_i64_def PROOF_MAX_AGE_SECS_def)
  next
    case ne: False
    have "in_i64 \<bar>wrap_i64 (now - iat)\<bar>" "300 < \<bar>wrap_i64 (now - iat)\<bar>"
      using False ne assms w by (simp_all add: in_i64_def)
    then show ?thesis using False ne assms
      by (simp add: proof_age_ok_def abs_i64_def wrap_i64_id PROOF_MAX_AGE_SECS_def in_i64_def)
  qed
qed

theorem proof_age_window_witness:
  "proof_age_ok 1700000000 (1700000000 - 9223372036854775808) \<and> \<not> proof_age_ok 1700000000 0"
proof -
  have "in_i64 (1700000000 - 9223372036854775808)" "in_i64 0" by (simp_all add: in_i64_def)
  from proof_age_window [OF this(1), of 1700000000] proof_age_window [OF this(2), of 1700000000]
  show ?thesis by simp
qed

section \<open>What a successful request proved\<close>

lemma verify_proof_Inr:
  assumes "verify_proof_jwt L jwt url config s = (Inr (k, nonce), s')"
  shows "\<exists>d payload aud iat. verify_with_public_jwk L jwt k = Inr d \<and> h_jwk (dj_header d) = Some k \<and>
     h_typ (dj_header d) = Some ''openid4vci-proof+jwt'' \<and> alg_advertised config (h_alg (dj_header d)) \<and>
     json_parse L (dj_payload d) = Inr payload \<and> str_claim ''aud'' payload = Some aud \<and> same_issuer aud url \<and>
     int_claim ''iat'' payload = Some iat \<and> proof_age_ok (timestamp (clock_at s (clock_reads s))) iat \<and>
     str_claim ''nonce'' payload = Some nonce"
  using assms
  by (auto simp: verify_proof_jwt_def check_proof_def bindP_Inr bindR_Inr liftR_Inr ret_Inr ensure_Inr
      ok_or_Inr map_err_Inr utc_now_run verify_with_public_jwk_Inr same_issuer_def)

lemma consume_nonces_Inr:
  "consume_nonces ns s = (Inr u, s') \<Longrightarrow>
     (\<forall>n\<in>set ns. nonce_live s n \<and> \<not> nonce_live s' n) \<and> (\<forall>n. nonce_live s' n \<longrightarrow> nonce_live s n)"
proof (induction ns arbitrary: s)
  case Nil
  then show ?case by (simp add: ret_Inr)
next
  case (Cons n ns)
  then obtain t where t: "consume_c_nonce n s = (Inr True, t)" and r: "consume_nonces ns t = (Inr u, s')"
    by (auto simp: bindP_Inr errP_Inr liftR_Inr ensure_Inr)
  have "state_step (ConsumeNonce n) s = (Answer True, t)" using t by (simp add: reply_def)
  from consume_nonce_step [OF this] Cons.IH [OF r] show ?case by auto
qed

lemma requested_proofs_Inr:
  "requested_proofs request metadata = Inr jwts \<Longrightarrow> jwts \<noteq> [] \<and>
     length jwts \<le> (case im_batch_credential_issuance metadata of Some b \<Rightarrow> batch_size b | None \<Rightarrow> 1)"
  by (auto simp: requested_proofs_def Let_def bindR_Inr ensure_Inr ok_or_Inr split: option.splits list.splits if_splits)

lemma resolve_Inr:
  "resolve_configuration request grant metadata = Inr (i, config) \<Longrightarrow>
     i \<in> set (gt_configuration_ids grant) \<and> map_of (im_configurations metadata) i = Some config"
  by (auto simp: resolve_configuration_def bindR_Inr ensure_Inr ok_or_Inr)

text \<open>A proof that counts: what its JWT shows about the key and the nonce at one reading of the clock.\<close>

definition proves_possession ::
    "libs \<Rightarrow> (nat \<Rightarrow> instant) \<Rightarrow> string \<Rightarrow> credential_configuration \<Rightarrow> string \<Rightarrow> jwk \<times> string \<Rightarrow> bool" where
  "proves_possession L clock url config jwt = (\<lambda>(k, nonce).
     \<exists>d payload aud iat n. verify_with_public_jwk L jwt k = Inr d \<and> h_jwk (dj_header d) = Some k \<and>
        alg_advertised config (h_alg (dj_header d)) \<and> json_parse L (dj_payload d) = Inr payload \<and>
        str_claim ''aud'' payload = Some aud \<and> same_issuer aud url \<and>
        int_claim ''iat'' payload = Some iat \<and> proof_age_ok (timestamp (clock n)) iat \<and>
        str_claim ''nonce'' payload = Some nonce)"

lemma verify_proof_keeps:
  assumes "verify_proof_jwt L jwt url config s = (r, s')"
  shows "s' = s \<or> s' = s\<lparr>clock_reads := Suc (clock_reads s)\<rparr>"
  using assms
  by (cases "check_proof L jwt url config")
    (auto simp: verify_proof_jwt_def bindP_def liftR_def ret_def utc_now_def ensure_def ok_or_def
      split: if_splits option.splits)

lemma verify_proofs_Inr:
  assumes "mapP (\<lambda>jwt. verify_proof_jwt L jwt url config) jwts s = (Inr verified, s')"
  shows "list_all2 (proves_possession L (clock_at s) url config) jwts verified \<and>
     clock_at s' = clock_at s \<and> is_c_nonces s' = is_c_nonces (s :: 'x issuer_state_scheme)"
  using assms
proof (induction jwts arbitrary: s verified)
  case Nil
  then show ?case by (simp add: ret_Inr)
next
  case (Cons jwt jwts)
  then obtain k n t vs where v: "verify_proof_jwt L jwt url config s = (Inr (k, n), t)"
    and vs: "mapP (\<lambda>jwt. verify_proof_jwt L jwt url config) jwts t = (Inr vs, s')" "verified = (k, n) # vs"
    by (auto simp: result_inv)
  have "clock_at t = clock_at s" "is_c_nonces t = is_c_nonces s" using verify_proof_keeps [OF v] by auto
  moreover have "proves_possession L (clock_at s) url config jwt (k, n)"
    unfolding proves_possession_def using verify_proof_Inr [OF v] by auto
  ultimately show ?case using Cons.IH [OF vs(1)] vs(2) by simp
qed

text \<open>
  C18. Credentials are issued only against a live access token, for a published configuration
  that the token was granted, one per proof and at most the batch size; every proof is signed
  by the key it carries with an advertised algorithm, for this issuer and with a fresh \<open>iat\<close>;
  and every nonce in the proofs was live and is spent before anything is issued.
\<close>

theorem credential_request_sound:
  assumes "process_credential_request L request token ctx s = (Inr response, s')"
    and "\<forall>ns. set (ict_nonce_order ctx ns) = set ns"
  shows "\<exists>grant i config jwts verified credentials s1 s2 s3.
     get_access_grant token s = (Inr (Some grant), s1) \<and> i \<in> set (gt_configuration_ids grant) \<and>
     map_of (im_configurations (ict_metadata ctx)) i = Some config \<and>
     requested_proofs request (ict_metadata ctx) = Inr jwts \<and> jwts \<noteq> [] \<and>
     length jwts \<le> (case im_batch_credential_issuance (ict_metadata ctx) of Some b \<Rightarrow> batch_size b | None \<Rightarrow> 1) \<and>
     mapP (\<lambda>jwt. verify_proof_jwt L jwt (ict_issuer_url ctx) config) jwts s1 = (Inr verified, s2) \<and>
     list_all2 (proves_possession L (clock_at s1) (ict_issuer_url ctx) config) jwts verified \<and>
     consume_nonces (ict_nonce_order ctx (remdups (map snd verified))) s2 = (Inr (), s3) \<and>
     (\<forall>nonce\<in>snd ` set verified. nonce_live s1 nonce \<and> \<not> nonce_live s3 nonce) \<and>
     mapP (issue_credential L i config ctx) (map fst verified) s3 = (Inr credentials, s') \<and>
     cp_credentials response = Some credentials \<and> length credentials = length jwts"
proof -
  obtain grant i config jwts verified credentials s1 s2 s3 where
    g: "get_access_grant token s = (Inr (Some grant), s1)"
    and r: "resolve_configuration request grant (ict_metadata ctx) = Inr (i, config)"
    and p: "requested_proofs request (ict_metadata ctx) = Inr jwts"
    and v: "mapP (\<lambda>jwt. verify_proof_jwt L jwt (ict_issuer_url ctx) config) jwts s1 = (Inr verified, s2)"
    and n: "consume_nonces (ict_nonce_order ctx (remdups (map snd verified))) s2 = (Inr (), s3)"
    and c: "mapP (issue_credential L i config ctx) (map fst verified) s3 = (Inr credentials, s')"
    and out: "cp_credentials response = Some credentials"
    using assms(1) by (auto simp: process_credential_request_def bindP_Inr errP_Inr liftR_Inr ret_Inr ok_or_Inr
        split: prod.splits)
  note all = verify_proofs_Inr [OF v]
  have "\<forall>nonce\<in>snd ` set verified. nonce_live s1 nonce \<and> \<not> nonce_live s3 nonce"
    using consume_nonces_Inr [OF n] assms(2) all by (auto simp: nonce_live_def)
  moreover have "length credentials = length jwts"
    using list_all2_lengthD [OF mapP_all2 [OF c]] list_all2_lengthD [OF conjunct1 [OF all]] by simp
  ultimately show ?thesis
    using g resolve_Inr [OF r] requested_proofs_Inr [OF p] p all n v c out
    by (intro exI [of _ grant] exI [of _ i] exI [of _ config] exI [of _ jwts] exI [of _ verified]
        exI [of _ credentials] exI [of _ s1] exI [of _ s2] exI [of _ s3]) simp
qed

section \<open>What an issued credential says\<close>

lemma demo_names: "distinct (map fst demo_claims)"
  by (simp add: demo_claims_def)

text \<open>Whatever order the claims are disclosed in, their names and values are the same.\<close>

lemma demo_claims_issued:
  assumes "issue_sd_jwt_vc_with_x5c L key url vct plain claims holder status x5c s = (Inr (compact, ds), s')"
    and "mset claims = mset demo_claims"
  shows "mset (map d_claim_name ds) = {#''given_name'', ''family_name'', ''birth_date''#}"
proof -
  have "map (\<lambda>d. (d_claim_name d, d_claim_value d)) ds = claims" using issue_run [OF assms(1)] by blast
  then have "mset (map fst (map (\<lambda>d. (d_claim_name d, d_claim_value d)) ds)) = mset (map fst demo_claims)"
    using assms(2) by simp
  then show ?thesis by (simp add: demo_claims_def comp_def)
qed

lemma demo_claims_lookup:
  assumes "mset claims = mset demo_claims"
  shows "map_of (rev claims) = map_of demo_claims"
proof -
  have "mset (map fst claims) = mset (map fst demo_claims)" using assms by simp
  then have "distinct (map fst claims)" by (metis demo_names mset_eq_imp_distinct_iff)
  then show ?thesis using demo_names mset_eq_setD [OF assms] by (simp add: map_of_rev_distinct map_of_inject_set)
qed

text \<open>
  C27. The credential endpoint binds what it issues to the key that was proved: any verifier
  with the issuer's key reads, within the validity period, the configured type, the holder's
  key, the status entry that was allocated and the disclosed claims, when serde reads back what
  it wrote and no two disclosures have one digest.
\<close>

theorem issued_credential_bound:
  assumes "b64url_law L" and "p256_law L" and "ed25519_law L"
    and key: "ict_issuer_key ctx = ec_make L sk \<or> ict_issuer_key ctx = ed_make L sk"
    and issue: "issue_sd_jwt_credential L config ctx k s = (Inr credential, s')"
    and holder: "jwk_of_json L (json_norm (json_of_jwk L k)) = Some k"
    and order: "mset (ict_claim_order ctx demo_claims) = mset demo_claims"
  shows "\<exists>compact vct status ds s1 now. credential = JStr compact \<and> cc_vct config = Some vct \<and>
     ict_allocate_status ctx s = (Inr status, s1) \<and> now = timestamp (clock_at s1 (clock_reads s1)) \<and>
     issue_sd_jwt_vc_with_x5c L (ict_issuer_key ctx) (ict_issuer_url ctx) vct [] (ict_claim_order ctx demo_claims)
        (Some (JObj [(''jwk'', json_of_jwk L k)])) status (ict_x5c ctx) s1 = (Inr (compact, ds), s') \<and>
     mset (map d_claim_name ds) = {#''given_name'', ''family_name'', ''birth_date''#} \<and>
     (issue_codecs L ((build_header (ict_issuer_key ctx) (Some ''dc+sd-jwt''))\<lparr>h_x5c := ict_x5c ctx\<rparr>)
        (issued_payload (ict_issuer_url ctx) vct [] (Some (JObj [(''jwk'', json_of_jwk L k)])) status
           (map d_hash ds) now) ds \<and>
      distinct (map d_hash ds) \<and>
      now - now mod day_secs \<le> timestamp (clock_at t (clock_reads t)) \<and>
      timestamp (clock_at t (clock_reads t)) < now - now mod day_secs + day_secs * 365 \<longrightarrow>
      (\<exists>v t'. verify_sd_jwt_vc L compact (ict_issuer_key ctx) t = (Inr v, t') \<and>
         vs_vct v = Some vct \<and> vs_holder_jwk L v = Some k \<and>
         json_get ''status'' (vs_payload v) = map_option json_norm status \<and>
         map_of (vs_claims v) = map_of demo_claims))"
proof -
  obtain vct status s1 compact ds where vct: "cc_vct config = Some vct"
    and status: "ict_allocate_status ctx s = (Inr status, s1)"
    and run: "issue_sd_jwt_vc_with_x5c L (ict_issuer_key ctx) (ict_issuer_url ctx) vct [] (ict_claim_order ctx demo_claims)
        (Some (JObj [(''jwk'', json_of_jwk L k)])) status (ict_x5c ctx) s1 = (Inr (compact, ds), s')"
    and out: "credential = JStr compact"
    using issue by (auto simp: issue_sd_jwt_credential_def bindP_Inr errP_Inr liftR_Inr ret_Inr ok_or_Inr)
  define now where "now = timestamp (clock_at s1 (clock_reads s1))"
  let ?p = "issued_payload (ict_issuer_url ctx) vct [] (Some (JObj [(''jwk'', json_of_jwk L k)])) status (map d_hash ds) now"
  note names = demo_claims_issued [OF run order] and lookup = demo_claims_lookup [OF order]
  have plain: "\<forall>k\<in>fst ` set ([] :: (string \<times> json) list). \<not> reserved_claim k" by simp
  have "\<exists>v t'. verify_sd_jwt_vc L compact (ict_issuer_key ctx) t = (Inr v, t') \<and>
         vs_vct v = Some vct \<and> vs_holder_jwk L v = Some k \<and>
         json_get ''status'' (vs_payload v) = map_option json_norm status \<and> map_of (vs_claims v) = map_of demo_claims"
    if c: "issue_codecs L ((build_header (ict_issuer_key ctx) (Some ''dc+sd-jwt''))\<lparr>h_x5c := ict_x5c ctx\<rparr>) ?p ds"
      and d: "distinct (map d_hash ds)" and w: "now - now mod day_secs \<le> timestamp (clock_at t (clock_reads t))"
        "timestamp (clock_at t (clock_reads t)) < now - now mod day_secs + day_secs * 365"
  proof -
    from issued_verifies_any [OF assms(1-3) key plain run now_def c d w]
    obtain v t' where v: "verify_sd_jwt_vc L compact (ict_issuer_key ctx) t = (Inr v, t')"
      and p: "vs_payload v = json_norm ?p"
      and claims: "\<forall>k. map_of (vs_claims v) k = map_option json_norm (map_of (rev (ict_claim_order ctx demo_claims)) k)" by auto
    note m = payload_members [OF plain p]
    have "vs_vct v = Some vct" using m(4) by (simp add: vs_vct_def str_claim_def)
    moreover have "vs_holder_jwk L v = Some k" using m(5) holder by (simp add: vs_holder_jwk_def put_members_def)
    moreover have "map_of (vs_claims v) = map_of demo_claims"
      using claims unfolding lookup by (auto simp: fun_eq_iff demo_claims_def)
    ultimately show ?thesis using v m(6) by blast
  qed
  then show ?thesis
    using out vct status run names
    by (intro exI [of _ compact] exI [of _ vct] exI [of _ status] exI [of _ ds] exI [of _ s1] exI [of _ now])
      (simp add: now_def)
qed

end
