(* ===== verification/Web.thy ===== *)
theory Web
  imports Protocol_Errors Oid4vp_Types X509 Status_Manager Credential
begin

text \<open>
  What the routes of crates/server share: request headers, responses and the exits of a handler,
  the body extractor of extract.rs, and the pages that the authorization endpoint shows.

  Of the http, url and axum crates the routes use a few functions, the record \<open>web_libs\<close>. A
  handler that returns early has its response as the error of a program; \<open>Crash\<close> stands for a
  handler that panics or does not return, which has no response at all.
\<close>

section \<open>Requests\<close>

text \<open>Header lines in order, with lower-case names; a value is bytes.\<close>

type_synonym headers = "(string \<times> bytes) list"

record web_libs =
  w_to_str :: "bytes \<Rightarrow> string + string"
  w_header_value :: "string \<Rightarrow> string option"
  w_append_pairs :: "url \<Rightarrow> (string \<times> string) list \<Rightarrow> url"

definition header_get_all :: "headers \<Rightarrow> string \<Rightarrow> bytes list" where
  "header_get_all hs name = map snd (filter (\<lambda>(n, _). n = name) hs)"

text \<open>\<open>headers.get(name).and_then(|v| v.to_str().ok())\<close>.\<close>

definition header_str :: "web_libs \<Rightarrow> headers \<Rightarrow> string \<Rightarrow> string option" where
  "header_str W hs name =
     Option.bind (map_of hs name) (\<lambda>v. case w_to_str W v of Inr s \<Rightarrow> Some s | Inl _ \<Rightarrow> None)"

definition ascii_lower :: "char \<Rightarrow> char" where
  "ascii_lower c = (let n = (of_char c :: nat) in if 65 \<le> n \<and> n \<le> 90 then char_of (n + 32) else c)"

definition eq_ignore_ascii_case :: "string \<Rightarrow> string \<Rightarrow> bool" where
  "eq_ignore_ascii_case a b \<longleftrightarrow> map ascii_lower a = map ascii_lower b"

section \<open>Responses and exits\<close>

datatype payload =
    ParReply pushed_authorization_response
  | TokenReply token_response
  | NonceReply nonce_response
  | CredentialReply credential_response
  | StatusListReply status_list_credential
  | MetadataReply credential_issuer_metadata
  | ServerMetadataReply authorization_server_metadata
  | JwksReply jwks
  | JsonReply json

datatype crash = HandlerPanics | HandlerHangs

datatype exit = Respond "payload response" | Crash crash

text \<open>An error that is a description, or \<open>None\<close> for a panic.\<close>

definition or_crash :: "(string \<Rightarrow> exit) \<Rightarrow> string option \<Rightarrow> exit" where
  "or_crash f e = (case e of Some description \<Rightarrow> f description | None \<Rightarrow> Crash HandlerPanics)"

definition json_ok :: "payload \<Rightarrow> payload response" where
  "json_ok v = \<lparr> rs_status = 200, rs_headers = [], rs_body = JsonBody v \<rparr>"

definition set_header :: "string \<Rightarrow> string \<Rightarrow> payload response \<Rightarrow> payload response" where
  "set_header name v r = r\<lparr>rs_headers := filter (\<lambda>(n, _). n \<noteq> name) (rs_headers r) @ [(name, v)]\<rparr>"

definition no_store :: "payload response \<Rightarrow> payload response" where
  "no_store r = set_header ''cache-control'' ''no-store'' r"

text \<open>\<open>Redirect::to\<close>: 303 with the target in \<open>Location\<close>.\<close>

definition redirect_to :: "url \<Rightarrow> payload response" where
  "redirect_to u = \<lparr> rs_status = 303, rs_headers = [(''location'', u)], rs_body = NoBody \<rparr>"

definition server_error :: "string \<Rightarrow> payload response" where
  "server_error e = json_error 500 ''server_error'' e"

text \<open>\<open>match m { Ok(x) => ok(x), Err(e) => err(e) }\<close>.\<close>

definition match_result :: "('s, 'e, 'a) prog \<Rightarrow> ('e \<Rightarrow> ('s, 'f, 'b) prog) \<Rightarrow> ('a \<Rightarrow> ('s, 'f, 'b) prog) \<Rightarrow> ('s, 'f, 'b) prog" where
  "match_result m err ok = (\<lambda>s. case m s of (Inl e, s') \<Rightarrow> err e s' | (Inr x, s') \<Rightarrow> ok x s')"

text \<open>The response of a handler, also where it returned early.\<close>

definition finish :: "('s, exit, payload response) prog \<Rightarrow> ('s, crash, payload response) prog" where
  "finish m = match_result m (\<lambda>e. case e of Respond r \<Rightarrow> ret r | Crash c \<Rightarrow> liftR (Inl c)) ret"

lemma finish_Inr: "finish m s = (Inr r, s') \<longleftrightarrow> m s = (Inr r, s') \<or> m s = (Inl (Respond r), s')"
  by (auto simp: finish_def match_result_def ret_def liftR_def split: prod.split sum.split exit.split)

lemma match_result_run:
  "m s = (Inl e, s') \<Longrightarrow> match_result m err ok s = err e s'"
  "m s = (Inr x, s') \<Longrightarrow> match_result m err ok s = ok x s'"
  by (simp_all add: match_result_def)

text \<open>A body as JSON or, when its type says otherwise or nothing, as a form; the serde decoders are arguments.\<close>

definition form_or_json ::
    "web_libs \<Rightarrow> (bytes \<Rightarrow> string + 'a) \<Rightarrow> (bytes \<Rightarrow> string + 'a) \<Rightarrow> headers \<Rightarrow> bytes \<Rightarrow> payload response + 'a" where
  "form_or_json W from_form from_json hs b =
     (let is_json = (case header_str W hs ''content-type'' of Some v \<Rightarrow> starts_with ''application/json'' v | None \<Rightarrow> False)
      in map_err (json_error 400 ''invalid_request'') (if is_json then from_json b else from_form b))"

section \<open>Pages\<close>

text \<open>\<open>str::replace\<close> of a character.\<close>

definition replace_char :: "char \<Rightarrow> string \<Rightarrow> string \<Rightarrow> string" where
  "replace_char c r s = concat (map (\<lambda>x. if x = c then r else [x]) s)"

definition html_escape :: "string \<Rightarrow> string" where
  "html_escape v =
     replace_char (CHR 0x27) ''&#39;'' (replace_char (CHR 0x22) ''&quot;'' (replace_char (CHR ''>'') ''&gt;''
       (replace_char (CHR ''<'') ''&lt;'' (replace_char (CHR ''&'') ''&amp;'' v))))"

text \<open>An attribute in double quotes.\<close>

definition attribute :: "string \<Rightarrow> string \<Rightarrow> string" where
  "attribute name v = name @ ''='' @ [CHR 0x22] @ v @ [CHR 0x22]"

definition error_page :: "string \<Rightarrow> string \<Rightarrow> payload response" where
  "error_page code description =
     \<lparr> rs_status = 400, rs_headers = [],
       rs_body = HtmlBody (''<!doctype html><html '' @ attribute ''lang'' ''en'' @ ''><head><meta '' @ attribute ''charset'' ''utf-8'' @
         ''><title>Authorization error</title></head><body><h1>Authorization error</h1><p><code>'' @ html_escape code @
         ''</code>: '' @ html_escape description @ ''</p></body></html>'') \<rparr>"

definition consent_page :: "string \<Rightarrow> string \<Rightarrow> string list \<Rightarrow> string" where
  "consent_page client_id request_uri ids =
     (let nl = [CHR 0x0A]; credentials = concat (map (\<lambda>i. ''<li>'' @ html_escape i @ ''</li>'') ids);
          hidden = (\<lambda>name v. ''<input '' @ attribute ''type'' ''hidden'' @ '' '' @ attribute ''name'' name @ '' '' @
             attribute ''value'' v @ ''>'');
          button = (\<lambda>v label. ''<button '' @ attribute ''type'' ''submit'' @ '' '' @ attribute ''id'' v @ '' '' @
             attribute ''name'' ''decision'' @ '' '' @ attribute ''value'' v @ ''>'' @ label @ ''</button>'')
      in ''<!doctype html>'' @ nl @ ''<html '' @ attribute ''lang'' ''en'' @ ''><head><meta '' @ attribute ''charset'' ''utf-8'' @
         ''><title>Authorize credential issuance</title></head>'' @ nl @ ''<body>'' @ nl @
         ''<h1>Authorize credential issuance</h1>'' @ nl @ ''<p><strong>'' @ html_escape client_id @
         ''</strong> is asking for:</p>'' @ nl @ ''<ul>'' @ credentials @ ''</ul>'' @ nl @
         ''<form '' @ attribute ''method'' ''post'' @ '' '' @ attribute ''action'' ''/authorize/decision'' @ ''>'' @ nl @
         hidden ''request_uri'' (html_escape request_uri) @ nl @ hidden ''client_id'' (html_escape client_id) @ nl @
         button ''approve'' ''Approve'' @ nl @ button ''deny'' ''Deny'' @ nl @ ''</form>'' @ nl @ ''</body></html>'')"

subsection \<open>Escaping\<close>

lemma replace_char_Cons [simp]: "replace_char c r (x # xs) = (if x = c then r else [x]) @ replace_char c r xs"
  and replace_char_Nil [simp]: "replace_char c r [] = []"
  by (simp_all add: replace_char_def)

lemma replace_char_append [simp]: "replace_char c r (xs @ ys) = replace_char c r xs @ replace_char c r ys"
  by (simp add: replace_char_def)

text \<open>One character at a time.\<close>

definition entity :: "char \<Rightarrow> string" where
  "entity c = (if c = CHR ''&'' then ''&amp;'' else if c = CHR ''<'' then ''&lt;'' else if c = CHR ''>'' then ''&gt;''
     else if c = CHR 0x22 then ''&quot;'' else if c = CHR 0x27 then ''&#39;'' else [c])"

lemma html_escape_Cons: "html_escape (c # s) = entity c @ html_escape s" and html_escape_Nil: "html_escape [] = []"
  by (simp_all add: html_escape_def entity_def)

text \<open>What a browser shows for the escaped text.\<close>

fun html_text :: "string \<Rightarrow> string" where
  "html_text s =
     (case s of
        [] \<Rightarrow> []
      | c # r \<Rightarrow>
          if starts_with ''&amp;'' s then CHR ''&'' # html_text (drop 5 s)
          else if starts_with ''&lt;'' s then CHR ''<'' # html_text (drop 4 s)
          else if starts_with ''&gt;'' s then CHR ''>'' # html_text (drop 4 s)
          else if starts_with ''&quot;'' s then CHR 0x22 # html_text (drop 6 s)
          else if starts_with ''&#39;'' s then CHR 0x27 # html_text (drop 5 s)
          else c # html_text r)"

declare html_text.simps [simp del]

lemma html_text_entity: "html_text (entity c @ s) = c # html_text s"
  by (subst html_text.simps) (auto simp: entity_def starts_with_def)

text \<open>
  Text that the pages show cannot leave its place: escaped text has no angle bracket and no
  quote, so it neither opens an element nor ends an attribute, and what is shown is the text.
\<close>

theorem html_escape_safe:
  "set (html_escape s) \<inter> {CHR ''<'', CHR ''>'', CHR 0x22, CHR 0x27} = {} \<and> html_text (html_escape s) = s"
proof (induction s)
  case Nil
  then show ?case by (simp add: html_escape_Nil html_text.simps)
next
  case (Cons c s)
  have "set (entity c) \<inter> {CHR ''<'', CHR ''>'', CHR 0x22, CHR 0x27} = {}" by (simp add: entity_def)
  with Cons show ?case by (simp add: html_escape_Cons html_text_entity Int_Un_distrib2)
qed

end
