(* ===== verification/Session.thy ===== *)
theory Session
  imports Oid4vp_Types Single_Use
begin

text \<open>
  The verifier's session store of crates/verifier/src/session.rs: the sessions by id and an
  index from the \<open>state\<close> parameter to the id, each behind its own mutex.
\<close>

datatype session_error =
    SessionNotFound string
  | SessionStorage string
  | SessionLockPoisoned

fun session_error_to_string :: "session_error \<Rightarrow> string" where
  "session_error_to_string (SessionNotFound e) = ''session not found: '' @ e"
| "session_error_to_string (SessionStorage e) = ''storage error: '' @ e"
| "session_error_to_string SessionLockPoisoned = ''lock poisoned''"

record verifier_state = env +
  vr_sessions :: "(string \<rightharpoonup> verifier_session) mutex"
  vr_state_to_id :: "(string \<rightharpoonup> string) mutex"

definition verifier_state_new :: "env \<Rightarrow> verifier_state" where
  "verifier_state_new e =
     env.extend e (verifier_state.fields (Unlocked Map.empty) (Unlocked Map.empty))"

type_synonym ('x, 'a) session_prog = "('x verifier_state_scheme, session_error, 'a) prog"

definition store_session :: "verifier_session \<Rightarrow> ('x, unit) session_prog" where
  "store_session session =
     with_lock SessionLockPoisoned vr_sessions (\<lambda>sessions.
     with_lock SessionLockPoisoned vr_state_to_id (\<lambda>state_map s.
       (Inr (), s\<lparr>vr_state_to_id := Unlocked (state_map(ve_state session \<mapsto> ve_id session)),
                  vr_sessions := Unlocked (sessions(ve_id session \<mapsto> session))\<rparr>)))"

definition get_session :: "string \<Rightarrow> ('x, verifier_session option) session_prog" where
  "get_session i = with_lock SessionLockPoisoned vr_sessions (\<lambda>sessions. ret (sessions i))"

definition get_session_by_state :: "string \<Rightarrow> ('x, verifier_session option) session_prog" where
  "get_session_by_state st =
     with_lock SessionLockPoisoned vr_state_to_id (\<lambda>state_map.
       case state_map st of
         Some i \<Rightarrow> with_lock SessionLockPoisoned vr_sessions (\<lambda>sessions. ret (sessions i))
       | None \<Rightarrow> ret None)"

definition delete_session :: "string \<Rightarrow> ('x, unit) session_prog" where
  "delete_session i =
     with_lock SessionLockPoisoned vr_sessions (\<lambda>sessions.
       case sessions i of
         Some session \<Rightarrow>
           bindP (\<lambda>s. (Inr (), s\<lparr>vr_sessions := Unlocked (sessions(i := None))\<rparr>)) (\<lambda>_.
           with_lock SessionLockPoisoned vr_state_to_id (\<lambda>state_map s.
             (Inr (), s\<lparr>vr_state_to_id := Unlocked (state_map(ve_state session := None))\<rparr>)))
       | None \<Rightarrow> ret ())"

lemmas session_unfold = store_session_def get_session_def get_session_by_state_def delete_session_def
  with_lock_def bindP_def ret_def

section \<open>The store as a map\<close>

text \<open>
  The two maps agree: every session is filed under its own id and indexed by its own state,
  and the index has no other entries. Then the store is one map from ids to sessions in which
  a state belongs to at most one session.
\<close>

definition sessions_wf :: "(string \<rightharpoonup> verifier_session) \<Rightarrow> (string \<rightharpoonup> string) \<Rightarrow> bool" where
  "sessions_wf m idx \<longleftrightarrow>
     (\<forall>i ses. m i = Some ses \<longrightarrow> ve_id ses = i \<and> idx (ve_state ses) = Some i) \<and>
     (\<forall>st i. idx st = Some i \<longrightarrow> (\<exists>ses. m i = Some ses \<and> ve_state ses = st))"

definition store_is :: "'x verifier_state_scheme \<Rightarrow> (string \<rightharpoonup> verifier_session) \<Rightarrow> bool" where
  "store_is s m \<longleftrightarrow> vr_sessions s = Unlocked m \<and> (\<exists>idx. vr_state_to_id s = Unlocked idx \<and> sessions_wf m idx)"

definition session_fresh :: "(string \<rightharpoonup> verifier_session) \<Rightarrow> verifier_session \<Rightarrow> bool" where
  "session_fresh m ses \<longleftrightarrow> m (ve_id ses) = None \<and> (\<forall>ses'\<in>ran m. ve_state ses' \<noteq> ve_state ses)"

lemma store_is_new: "store_is (verifier_state_new e) Map.empty"
  by (simp add: store_is_def verifier_state_new_def env.defs verifier_state.defs sessions_wf_def)

lemma wf_index: "sessions_wf m idx \<Longrightarrow> idx st = Some i \<longleftrightarrow> (\<exists>ses. m i = Some ses \<and> ve_state ses = st)"
  by (auto simp: sessions_wf_def)

lemma wf_id: "sessions_wf m idx \<Longrightarrow> m i = Some ses \<Longrightarrow> ve_id ses = i"
  by (simp add: sessions_wf_def)

lemma sessions_wfI:
  assumes "\<And>i ses. m i = Some ses \<Longrightarrow> ve_id ses = i"
    and "\<And>st i. idx st = Some i \<longleftrightarrow> (\<exists>ses. m i = Some ses \<and> ve_state ses = st)"
  shows "sessions_wf m idx"
  using assms by (auto simp: sessions_wf_def)

lemma wf_store:
  assumes wf: "sessions_wf m idx" and f: "session_fresh m ses"
  shows "sessions_wf (m(ve_id ses \<mapsto> ses)) (idx(ve_state ses \<mapsto> ve_id ses))"
proof (rule sessions_wfI)
  show "ve_id x = i" if "(m(ve_id ses \<mapsto> ses)) i = Some x" for i x
    using that wf_id [OF wf, of i x] by (auto split: if_splits)
  show "(idx(ve_state ses \<mapsto> ve_id ses)) st = Some i \<longleftrightarrow>
      (\<exists>x. (m(ve_id ses \<mapsto> ses)) i = Some x \<and> ve_state x = st)" for st i
  proof (cases "i = ve_id ses")
    case True
    with f have "m i = None" by (simp add: session_fresh_def)
    then have "idx st \<noteq> Some i" using wf_index [OF wf, of st i] by simp
    with True show ?thesis by auto
  next
    case False
    have "m i = Some x \<Longrightarrow> ve_state x \<noteq> ve_state ses" for x
      using f by (auto simp: session_fresh_def ran_def)
    with False wf_index [OF wf, of st i] show ?thesis by auto
  qed
qed

lemma wf_delete:
  assumes wf: "sessions_wf m idx" and ses: "m i = Some ses"
  shows "sessions_wf (m(i := None)) (idx(ve_state ses := None))"
proof (rule sessions_wfI)
  show "ve_id x = j" if "(m(i := None)) j = Some x" for j x
    using that wf_id [OF wf, of j x] by (auto split: if_splits)
  have own: "idx (ve_state ses) = Some i" using wf ses by (simp add: sessions_wf_def)
  show "(idx(ve_state ses := None)) st = Some j \<longleftrightarrow> (\<exists>x. (m(i := None)) j = Some x \<and> ve_state x = st)" for st j
    using wf_index [OF wf, of st j] own ses by (cases "j = i") auto
qed

lemma store_session_refines:
  assumes "store_is s m" and "session_fresh m ses"
  shows "\<exists>s'. store_session ses s = (Inr (), s') \<and> store_is s' (m(ve_id ses \<mapsto> ses)) \<and> env.truncate s' = env.truncate s"
proof -
  obtain idx where s: "vr_sessions s = Unlocked m" "vr_state_to_id s = Unlocked idx" and wf: "sessions_wf m idx"
    using assms(1) by (auto simp: store_is_def)
  note wf_store [OF wf assms(2)]
  with s show ?thesis by (auto simp: store_session_def with_lock_def store_is_def env.defs)
qed

lemma get_by_state_refines:
  assumes "store_is s m"
  shows "\<exists>v. get_session_by_state st s = (Inr v, s) \<and>
     (\<forall>ses. v = Some ses \<longleftrightarrow> m (ve_id ses) = Some ses \<and> ve_state ses = st)"
proof -
  obtain idx where s: "vr_sessions s = Unlocked m" "vr_state_to_id s = Unlocked idx" and wf: "sessions_wf m idx"
    using assms(1) by (auto simp: store_is_def)
  show ?thesis
  proof (cases "idx st")
    case None
    then have "get_session_by_state st s = (Inr None, s)" using s by (simp add: session_unfold)
    moreover have "\<not> (m (ve_id ses) = Some ses \<and> ve_state ses = st)" for ses
      using None wf_index [OF wf, of st "ve_id ses"] by auto
    ultimately show ?thesis by auto
  next
    case (Some i)
    then have "get_session_by_state st s = (Inr (m i), s)" using s by (simp add: session_unfold)
    moreover have "m i = Some ses \<longleftrightarrow> m (ve_id ses) = Some ses \<and> ve_state ses = st" for ses
    proof
      assume a: "m i = Some ses"
      obtain x where "m i = Some x" "ve_state x = st" using Some wf_index [OF wf] by blast
      with a wf_id [OF wf a] show "m (ve_id ses) = Some ses \<and> ve_state ses = st" by simp
    next
      assume a: "m (ve_id ses) = Some ses \<and> ve_state ses = st"
      then have "idx st = Some (ve_id ses)" using wf_index [OF wf] by blast
      with a Some show "m i = Some ses" by simp
    qed
    ultimately show ?thesis by blast
  qed
qed

lemma delete_refines:
  assumes "store_is s m"
  shows "\<exists>s'. delete_session i s = (Inr (), s') \<and> store_is s' (m(i := None)) \<and> env.truncate s' = env.truncate s"
proof -
  obtain idx where s: "vr_sessions s = Unlocked m" "vr_state_to_id s = Unlocked idx" and wf: "sessions_wf m idx"
    using assms(1) by (auto simp: store_is_def)
  show ?thesis
  proof (cases "m i")
    case None
    then have "delete_session i s = (Inr (), s)" using s by (simp add: session_unfold)
    moreover have "m(i := None) = m" using None by auto
    ultimately show ?thesis using assms by auto
  next
    case (Some ses)
    note wf_delete [OF wf Some]
    with s Some show ?thesis by (auto simp: session_unfold store_is_def env.defs)
  qed
qed

text \<open>
  From any store whose two maps agree, the operations are those of one map from ids to
  sessions: storing a session with a new id and state adds it, looking a state up finds exactly
  the session that has it, deleting an id removes it; the maps agree afterwards, none of the
  operations fails and no mutex is poisoned.
\<close>

theorem session_store_refines_map:
  assumes "store_is s m"
  shows "(session_fresh m ses \<longrightarrow> (\<exists>s'. store_session ses s = (Inr (), s') \<and> store_is s' (m(ve_id ses \<mapsto> ses)))) \<and>
    get_session i s = (Inr (m i), s) \<and>
    (\<exists>v. get_session_by_state st s = (Inr v, s) \<and>
       (\<forall>found. v = Some found \<longleftrightarrow> m (ve_id found) = Some found \<and> ve_state found = st)) \<and>
    (\<exists>s'. delete_session i s = (Inr (), s') \<and> store_is s' (m(i := None)))"
proof -
  have "get_session i s = (Inr (m i), s)" using assms by (auto simp: store_is_def session_unfold)
  then show ?thesis
    using store_session_refines [OF assms] get_by_state_refines [OF assms] delete_refines [OF assms] by blast
qed

definition sample_vp_request :: authorization_request where
  "sample_vp_request = \<lparr> ar_response_type = ''vp_token'', ar_client_id = ''https://verifier'',
     ar_client_id_scheme = None, ar_response_uri = ''https://verifier/response'', ar_response_mode = None,
     ar_nonce = ''nonce'', ar_state = Some ''state'', ar_dcql_query = None,
     ar_presentation_definition = None, ar_client_metadata = None \<rparr>"

definition sample_vp_session :: verifier_session where
  "sample_vp_session = \<lparr> ve_id = ''id'', ve_nonce = ''nonce'', ve_state = ''state'', ve_request = sample_vp_request,
     ve_created_at = 0, ve_expires_at = 600 * second \<rparr>"

theorem session_store_refines_map_witness:
  "\<exists>s s'. store_session sample_vp_session (verifier_state_new sample_env) = (Inr (), s) \<and>
     get_session_by_state ''state'' s = (Inr (Some sample_vp_session), s) \<and>
     delete_session ''id'' s = (Inr (), s') \<and> get_session ''id'' s' = (Inr None, s')"
proof -
  have f: "session_fresh Map.empty sample_vp_session" by (simp add: session_fresh_def)
  obtain s where s: "store_session sample_vp_session (verifier_state_new sample_env) = (Inr (), s)"
    and m: "store_is s [''id'' \<mapsto> sample_vp_session]"
    using conjunct1 [OF session_store_refines_map [OF store_is_new], THEN mp, OF f]
    by (auto simp: sample_vp_session_def)
  obtain v s' where v: "get_session_by_state ''state'' s = (Inr v, s)"
    "v = Some sample_vp_session \<longleftrightarrow> [''id'' \<mapsto> sample_vp_session] (ve_id sample_vp_session) = Some sample_vp_session \<and>
       ve_state sample_vp_session = ''state''"
    and d: "delete_session ''id'' s = (Inr (), s')" "store_is s' ([''id'' \<mapsto> sample_vp_session](''id'' := None))"
    using session_store_refines_map [OF m, of sample_vp_session "''id''" "''state''"] by blast
  have "v = Some sample_vp_session" using v(2) by (simp add: sample_vp_session_def)
  with s v d session_store_refines_map [OF d(2), of sample_vp_session "''id''"] show ?thesis by auto
qed

end
