(* ===== verification/Dcql.thy ===== *)
theory Dcql
  imports Oid4vp_Types
begin

text \<open>
  The query builder and evaluator of crates/verifier/src/dcql.rs. The disclosed claims, a
  \<open>HashMap\<close> in the source, are the list of their entries; only lookups are made in it.
\<close>

section \<open>The builder\<close>

record dcql_query_builder =
  db_credentials :: "credential_query list"

definition builder_new :: dcql_query_builder where
  "builder_new = \<lparr> db_credentials = [] \<rparr>"

definition some_unless_empty :: "'a list \<Rightarrow> 'a list option" where
  "some_unless_empty xs = (if xs = [] then None else Some xs)"

definition add_sd_jwt_vc_query ::
    "dcql_query_builder \<Rightarrow> string \<Rightarrow> string \<Rightarrow> (string \<times> bool) list \<Rightarrow> dcql_query_builder" where
  "add_sd_jwt_vc_query b i vct claims =
     b\<lparr>db_credentials := db_credentials b @
       [\<lparr> qy_id = i, qy_format = ''dc+sd-jwt'', qy_vct = Some vct, qy_doctype = None,
          qy_claims = some_unless_empty (map (\<lambda>(path, mandatory).
            \<lparr> lq_path = [path], lq_namespace = None, lq_id = Some path, lq_values = None \<rparr>) claims) \<rparr>]\<rparr>"

definition add_mdoc_query ::
    "dcql_query_builder \<Rightarrow> string \<Rightarrow> string \<Rightarrow> string \<Rightarrow> string list \<Rightarrow> dcql_query_builder" where
  "add_mdoc_query b i doctype namespace claims =
     b\<lparr>db_credentials := db_credentials b @
       [\<lparr> qy_id = i, qy_format = ''mso_mdoc'', qy_vct = None, qy_doctype = Some doctype,
          qy_claims = some_unless_empty (map (\<lambda>claim_name.
            \<lparr> lq_path = [claim_name], lq_namespace = Some namespace, lq_id = Some claim_name,
              lq_values = None \<rparr>) claims) \<rparr>]\<rparr>"

definition builder_build :: "dcql_query_builder \<Rightarrow> dcql_query" where
  "builder_build b = \<lparr> dq_credentials = db_credentials b \<rparr>"

section \<open>The evaluator\<close>

text \<open>The loop over the claims of a query, with its early returns.\<close>

fun evaluate_claims :: "claim_query list \<Rightarrow> (string \<times> json) list \<Rightarrow> bool" where
  "evaluate_claims [] disclosed = True"
| "evaluate_claims (claim # claims) disclosed =
     (case lq_path claim of
        [] \<Rightarrow> evaluate_claims claims disclosed
      | first_path # _ \<Rightarrow>
          (case map_of disclosed first_path of
             None \<Rightarrow> False
           | Some actual_value \<Rightarrow>
               (case lq_values claim of
                  Some expected_values \<Rightarrow>
                    if actual_value \<in> set expected_values then evaluate_claims claims disclosed else False
                | None \<Rightarrow> evaluate_claims claims disclosed)))"

definition evaluate_credential_query :: "credential_query \<Rightarrow> (string \<times> json) list \<Rightarrow> bool" where
  "evaluate_credential_query query disclosed =
     (case qy_claims query of Some claims \<Rightarrow> evaluate_claims claims disclosed | None \<Rightarrow> True)"

section \<open>What a satisfied query means\<close>

text \<open>One claim query is answered: its first name is disclosed, with an expected value.\<close>

definition claim_answered :: "(string \<rightharpoonup> json) \<Rightarrow> claim_query \<Rightarrow> bool" where
  "claim_answered disclosed c \<longleftrightarrow> lq_path c = [] \<or>
     (\<exists>v. disclosed (hd (lq_path c)) = Some v \<and> (\<forall>vs. lq_values c = Some vs \<longrightarrow> v \<in> set vs))"

lemma evaluate_claims_iff:
  "evaluate_claims cs disclosed \<longleftrightarrow> list_all (claim_answered (map_of disclosed)) cs"
  by (induction cs) (auto simp: claim_answered_def split: list.splits option.splits)

definition query_answered :: "(string \<rightharpoonup> json) \<Rightarrow> credential_query \<Rightarrow> bool" where
  "query_answered disclosed q \<longleftrightarrow>
     (case qy_claims q of Some claims \<Rightarrow> list_all (claim_answered disclosed) claims | None \<Rightarrow> True)"

lemma evaluate_query_iff: "evaluate_credential_query q disclosed \<longleftrightarrow> query_answered (map_of disclosed) q"
  by (simp add: evaluate_credential_query_def evaluate_claims_iff query_answered_def split: option.split)

text \<open>
  C35. The evaluator's loop says yes exactly when every claim query of the credential query is
  answered by the disclosed claims, in whatever order they are given; the format, the
  credential type and everything behind the first path element play no part in it.
\<close>

theorem query_evaluation:
  "evaluate_credential_query \<lparr> qy_id = i, qy_format = f, qy_vct = vct, qy_doctype = dt, qy_claims = cs \<rparr> disclosed =
     (case cs of Some claims \<Rightarrow> list_all (claim_answered (map_of disclosed)) claims | None \<Rightarrow> True)"
  by (simp add: evaluate_credential_query_def evaluate_claims_iff split: option.split)

lemma evaluate_monotone:
  assumes "evaluate_credential_query q disclosed" and "map_of disclosed \<subseteq>\<^sub>m map_of extended"
  shows "evaluate_credential_query q extended"
proof -
  have "claim_answered (map_of disclosed) c \<Longrightarrow> claim_answered (map_of extended) c" for c
    using assms(2) by (force simp: claim_answered_def map_le_def dom_def)
  with assms(1) show ?thesis
    by (auto simp: evaluate_credential_query_def evaluate_claims_iff list_all_iff split: option.splits)
qed

text \<open>
  A query that the builder makes for named claims is answered exactly by the disclosures
  that contain every one of them: also the claims that the caller marked as not mandatory.
\<close>

theorem built_query_requires_all:
  "evaluate_credential_query (last (dq_credentials (builder_build (add_sd_jwt_vc_query b i vct claims)))) disclosed \<longleftrightarrow>
     fst ` set claims \<subseteq> dom (map_of disclosed)"
  by (auto simp: builder_build_def add_sd_jwt_vc_query_def some_unless_empty_def evaluate_credential_query_def
      evaluate_claims_iff list_all_iff claim_answered_def)

end
