(* ===== verification/Request.thy ===== *)
theory Request
  imports Session Dcql Jws
begin

text \<open>
  Authorization requests of the verifier, from crates/verifier/src/request.rs: the request that
  is sent and the session that is stored for it. \<open>RequestPanic\<close> stands for chrono's panic on a
  session lifetime it cannot represent, which happens before anything is stored.
\<close>

record request_params =
  qp_client_id :: string
  qp_response_uri :: url
  qp_dcql_query :: "dcql_query option"
  qp_session_expiry_secs :: nat

datatype request_error = RequestError string | RequestPanic

definition verifier_client_metadata :: client_metadata where
  "verifier_client_metadata =
     \<lparr> mc_vp_formats = Some
         \<lparr> vf_sd_jwt_vc = Some \<lparr> fa_alg = Some [''ES256''] \<rparr>, vf_mso_mdoc = Some \<lparr> fa_alg = Some [''ES256''] \<rparr> \<rparr>,
       mc_client_name = Some ''OID4VC-RS Verifier'', mc_logo_uri = None \<rparr>"

definition build_request :: "request_params \<Rightarrow> string \<Rightarrow> string \<Rightarrow> authorization_request" where
  "build_request params nonce request_state =
     \<lparr> ar_response_type = ''vp_token'', ar_client_id = qp_client_id params,
       ar_client_id_scheme = Some ''redirect_uri'', ar_response_uri = qp_response_uri params,
       ar_response_mode = Some ''direct_post'', ar_nonce = nonce, ar_state = Some request_state,
       ar_dcql_query = qp_dcql_query params, ar_presentation_definition = None,
       ar_client_metadata = Some verifier_client_metadata \<rparr>"

definition create_authorization_request ::
    "request_params \<Rightarrow> ('x verifier_state_scheme, request_error, authorization_request \<times> string) prog" where
  "create_authorization_request params =
     bindP new_uuid (\<lambda>session_id.
     bindP new_uuid (\<lambda>nonce.
     bindP new_uuid (\<lambda>request_state.
     let request = build_request params nonce request_state in
     bindP utc_now (\<lambda>created_at.
     bindP utc_now (\<lambda>now.
     bindP (liftR (ok_or RequestPanic (expiry now (qp_session_expiry_secs params)))) (\<lambda>expires_at.
     bindP (errP (\<lambda>e. RequestError (session_error_to_string e))
              (store_session \<lparr> ve_id = session_id, ve_nonce = nonce, ve_state = request_state,
                 ve_request = request, ve_created_at = created_at, ve_expires_at = expires_at \<rparr>)) (\<lambda>_.
     ret (request, session_id))))))))"

definition encode_request_as_jwt :: "libs \<Rightarrow> authorization_request \<Rightarrow> key_pair \<Rightarrow> string + string" where
  "encode_request_as_jwt L request key =
     map_err jws_error_to_string
       (sign_compact L key (build_header key (Some ''oauth-authz-req+jwt'')) (authorization_request_to_json request))"

section \<open>Sessions of one verifier\<close>

text \<open>
  What holds of the store while UUIDs do not repeat: the two maps agree, and the ids and states
  in it were drawn before.
\<close>

definition ids_drawn :: "'x verifier_state_scheme \<Rightarrow> (string \<rightharpoonup> verifier_session) \<Rightarrow> bool" where
  "ids_drawn s m \<longleftrightarrow> (\<forall>i ses. m i = Some ses \<longrightarrow>
     i \<in> uuid_at s ` {..<uuids_used s} \<and> ve_state ses \<in> uuid_at s ` {..<uuids_used s})"

definition verifier_inv :: "'x verifier_state_scheme \<Rightarrow> bool" where
  "verifier_inv s \<longleftrightarrow> inj (uuid_at s) \<and> (\<exists>m. store_is s m \<and> ids_drawn s m)"

lemma ids_drawn_mono:
  assumes "ids_drawn s m" and "uuid_at t = uuid_at s" and "uuids_used s \<le> uuids_used t"
  shows "ids_drawn t m"
proof -
  have "uuid_at s ` {..<uuids_used s} \<subseteq> uuid_at s ` {..<uuids_used t}" using assms(3) by auto
  with assms(1,2) show ?thesis unfolding ids_drawn_def by fastforce
qed

lemma ids_drawn_remove: "ids_drawn s m \<Longrightarrow> ids_drawn s (m(i := None))"
  by (simp add: ids_drawn_def)

lemma store_is_env:
  "vr_sessions s' = vr_sessions s \<Longrightarrow> vr_state_to_id s' = vr_state_to_id s \<Longrightarrow> store_is s' m \<longleftrightarrow> store_is s m"
  by (simp add: store_is_def)

definition created_session :: "request_params \<Rightarrow> 'x verifier_state_scheme \<Rightarrow> instant \<Rightarrow> verifier_session" where
  "created_session params s expires_at =
     (let n = uuids_used s in
      \<lparr> ve_id = uuid_at s n, ve_nonce = uuid_at s (Suc n), ve_state = uuid_at s (Suc (Suc n)),
        ve_request = build_request params (uuid_at s (Suc n)) (uuid_at s (Suc (Suc n))),
        ve_created_at = clock_at s (clock_reads s), ve_expires_at = expires_at \<rparr>)"

definition drawn :: "'x verifier_state_scheme \<Rightarrow> 'x verifier_state_scheme" where
  "drawn s = s\<lparr>uuids_used := Suc (Suc (Suc (uuids_used s))), clock_reads := Suc (Suc (clock_reads s))\<rparr>"

lemma create_run:
  "create_authorization_request params s =
     (case expiry (clock_at s (Suc (clock_reads s))) (qp_session_expiry_secs params) of
        None \<Rightarrow> (Inl RequestPanic, drawn s)
      | Some e \<Rightarrow>
          (case store_session (created_session params s e) (drawn s) of
             (Inl err, s') \<Rightarrow> (Inl (RequestError (session_error_to_string err)), s')
           | (Inr _, s') \<Rightarrow> (Inr (ve_request (created_session params s e), ve_id (created_session params s e)), s')))"
  by (auto simp: create_authorization_request_def bindP_def new_uuid_def utc_now_def liftR_def errP_def ret_def
      Let_def created_session_def drawn_def split: option.split prod.split sum.split)

lemma created_fresh:
  assumes "inj (uuid_at s)" and "store_is s m"
    and "ids_drawn s m"
  shows "session_fresh m (created_session params s e)"
proof -
  have new: "uuid_at s k \<notin> uuid_at s ` {..<uuids_used s}" if "uuids_used s \<le> k" for k
    using inj_eq [OF assms(1)] that by auto
  show ?thesis
    using new [of "uuids_used s"] new [of "Suc (Suc (uuids_used s))"] assms(3)
    unfolding session_fresh_def created_session_def Let_def ids_drawn_def
    by (auto simp: ran_def) (metis not_None_eq)
qed

lemma created_stored:
  assumes "inj (uuid_at s)" and "store_is s m"
    and "ids_drawn s m"
  shows "\<exists>s'. store_session (created_session params s e) (drawn s) = (Inr (), s') \<and>
     store_is s' (m(ve_id (created_session params s e) \<mapsto> created_session params s e)) \<and>
     env.truncate s' = env.truncate (drawn s)"
proof -
  have "store_is (drawn s) m" using assms(2) by (simp add: store_is_def drawn_def)
  from store_session_refines [OF this created_fresh [OF assms]] show ?thesis .
qed

lemma create_inv:
  assumes "create_authorization_request params s = (r, s')" and "verifier_inv s"
  shows "verifier_inv s'"
proof -
  obtain m where inj: "inj (uuid_at s)" and m: "store_is s m" and old: "ids_drawn s m"
    using assms(2) by (auto simp: verifier_inv_def)
  show ?thesis
  proof (cases "expiry (clock_at s (Suc (clock_reads s))) (qp_session_expiry_secs params)")
    case None
    then have s': "s' = drawn s" using assms(1) by (simp add: create_run)
    have "store_is (drawn s) m" using m by (simp add: store_is_def drawn_def)
    moreover have "ids_drawn (drawn s) m" by (rule ids_drawn_mono [OF old]) (simp_all add: drawn_def)
    ultimately show ?thesis using inj unfolding s' verifier_inv_def by (auto simp: drawn_def)
  next
    case (Some e)
    let ?ses = "created_session params s e"
    obtain t where t: "store_session ?ses (drawn s) = (Inr (), t)"
      and st: "store_is t (m(ve_id ?ses \<mapsto> ?ses))" and env: "env.truncate t = env.truncate (drawn s)"
      using created_stored [OF inj m old] by blast
    have "s' = t" using assms(1) Some t by (simp add: create_run)
    moreover have u: "uuid_at t = uuid_at s" "uuids_used t = Suc (Suc (Suc (uuids_used s)))"
      using env by (auto simp: env.defs drawn_def)
    moreover have "ids_drawn t m" by (rule ids_drawn_mono [OF old]) (simp_all add: u)
    then have "ids_drawn t (m(ve_id ?ses \<mapsto> ?ses))"
      by (simp add: ids_drawn_def u) (simp add: created_session_def Let_def)
    ultimately show ?thesis using inj st unfolding verifier_inv_def by auto
  qed
qed

text \<open>
  A request that the verifier creates asks with its own client id and the caller's query,
  and stores one session under a new id, whose state and nonce are those in the request and
  which expires the given number of seconds after the clock reading; no other session changes.
\<close>

theorem request_opens_session:
  assumes "create_authorization_request params s = (Inr (request, i), s')"
    and "inj (uuid_at s)" and "store_is s m"
    and "ids_drawn s m"
    and "qp_session_expiry_secs params < 9223372036854775808"
  shows "\<exists>ses. store_is s' (m(i \<mapsto> ses)) \<and> m i = None \<and> ve_id ses = i \<and> ve_request ses = request \<and>
     ar_state request = Some (ve_state ses) \<and> ar_nonce request = ve_nonce ses \<and>
     ar_client_id request = qp_client_id params \<and> ar_dcql_query request = qp_dcql_query params \<and>
     ve_expires_at ses = clock_at s (Suc (clock_reads s)) + int (qp_session_expiry_secs params) * second \<and>
     (\<forall>j ses'. m j = Some ses' \<longrightarrow> ve_state ses' \<noteq> ve_state ses)"
proof -
  obtain e where e: "expiry (clock_at s (Suc (clock_reads s))) (qp_session_expiry_secs params) = Some e"
    using assms(1) by (auto simp: create_run split: option.splits)
  let ?ses = "created_session params s e"
  obtain t where t: "store_session ?ses (drawn s) = (Inr (), t)" and st: "store_is t (m(ve_id ?ses \<mapsto> ?ses))"
    using created_stored [OF assms(2-4)] by blast
  have r: "request = ve_request ?ses" "i = ve_id ?ses" "s' = t"
    using assms(1) e t by (simp_all add: create_run)
  have f: "session_fresh m ?ses" by (rule created_fresh [OF assms(2-4)])
  have "\<forall>j ses'. m j = Some ses' \<longrightarrow> ve_state ses' \<noteq> ve_state ?ses" and n: "m i = None"
    using f r by (auto simp: session_fresh_def ran_def)
  with st r expiry_Some [OF e assms(5)] show ?thesis
    by (intro exI [of _ ?ses]) (simp add: created_session_def Let_def build_request_def)
qed


definition sample_params :: request_params where
  "sample_params = \<lparr> qp_client_id = ''https://verifier'', qp_response_uri = ''https://verifier/response'',
     qp_dcql_query = Some (builder_build (add_sd_jwt_vc_query builder_new ''identity'' ''pid'' [(''age'', True)])),
     qp_session_expiry_secs = 600 \<rparr>"

definition sample_verifier :: verifier_state where
  "sample_verifier = verifier_state_new sample_env"

lemma sample_verifier_fields:
  "clock_at sample_verifier = (\<lambda>n. 0)" "uuid_at sample_verifier = show_nat" "uuids_used sample_verifier = 0"
  "salt_at sample_verifier = (\<lambda>n. ''salt'')" "store_is sample_verifier Map.empty" "inj (uuid_at sample_verifier)"
  "ids_drawn sample_verifier Map.empty"
proof -
  show "store_is sample_verifier Map.empty" by (simp add: sample_verifier_def store_is_new)
  show "uuid_at sample_verifier = show_nat" "clock_at sample_verifier = (\<lambda>n. 0)" "uuids_used sample_verifier = 0"
    "salt_at sample_verifier = (\<lambda>n. ''salt'')"
    by (simp_all add: sample_verifier_def verifier_state_new_def env.defs verifier_state.defs sample_env_def)
  then show "inj (uuid_at sample_verifier)" by (simp add: inj_def show_nat_inj)
  show "ids_drawn sample_verifier Map.empty" by (simp add: ids_drawn_def)
qed

lemma sample_created:
  "\<exists>request i s'. create_authorization_request sample_params sample_verifier = (Inr (request, i), s')"
proof -
  obtain e where e: "expiry 0 600 = Some e"
    by (simp add: expiry_def duration_seconds_def date_plus_def wrap_i64_id in_i64_def second_def)
  obtain s' where "store_session (created_session sample_params sample_verifier e) (drawn sample_verifier) = (Inr (), s')"
    using created_stored [OF sample_verifier_fields(6,5,7)] by blast
  with e show ?thesis by (simp add: create_run sample_verifier_fields) (simp add: sample_params_def)
qed

theorem request_opens_session_witness:
  "\<exists>request i s' ses. create_authorization_request sample_params sample_verifier = (Inr (request, i), s') \<and>
     store_is s' [i \<mapsto> ses] \<and> ve_nonce ses = ar_nonce request \<and>
     ve_expires_at ses = clock_at sample_verifier (Suc (clock_reads sample_verifier)) + 600 * second"
proof -
  obtain request i s' where c: "create_authorization_request sample_params sample_verifier = (Inr (request, i), s')"
    using sample_created by blast
  have q: "qp_session_expiry_secs sample_params = 600" by (simp add: sample_params_def)
  then have "qp_session_expiry_secs sample_params < 9223372036854775808" by simp
  from request_opens_session [OF c sample_verifier_fields(6,5,7) this] c q show ?thesis by auto
qed

end
