(* ===== verification/Response.thy ===== *)
theory Response
  imports Request Sd_Jwt
begin

text \<open>
  Presentations at the verifier, from crates/verifier/src/response.rs. \<open>check_response\<close> is
  \<open>process_response\<close> up to the deletion of the session, so that two responses can be handled
  with their steps interleaved.
\<close>

datatype response_error =
    MissingVpToken
  | InvalidState
  | SessionExpired
  | NonceMismatch
  | KeyBindingFailed string
  | VerificationFailed string
  | QueryNotSatisfied string
  | ResponseStateError string

fun response_error_to_string :: "response_error \<Rightarrow> string" where
  "response_error_to_string MissingVpToken = ''missing vp_token''"
| "response_error_to_string InvalidState = ''invalid state: session not found''"
| "response_error_to_string SessionExpired = ''session expired''"
| "response_error_to_string NonceMismatch = ''nonce mismatch''"
| "response_error_to_string (KeyBindingFailed e) = ''key binding verification failed: '' @ e"
| "response_error_to_string (VerificationFailed e) = ''credential verification failed: '' @ e"
| "response_error_to_string (QueryNotSatisfied e) = ''presentation does not satisfy the request: '' @ e"
| "response_error_to_string (ResponseStateError e) = ''state error: '' @ e"

record verification_result =
  vt_session_id :: string
  vt_disclosed_claims :: "(string \<times> json) list"

definition key_binding_error :: "sd_jwt_error \<Rightarrow> response_error" where
  "key_binding_error e =
     (case e of
        SdKeyBinding msg \<Rightarrow>
          if contains_str ''nonce'' msg then NonceMismatch else KeyBindingFailed (sd_jwt_error_to_string e)
      | _ \<Rightarrow> KeyBindingFailed (sd_jwt_error_to_string e))"

definition verify_sd_jwt_vp ::
    "libs \<Rightarrow> string \<Rightarrow> key_pair \<Rightarrow> string \<Rightarrow> string \<Rightarrow>
       ('x env_scheme, response_error, (string \<times> json) list) prog" where
  "verify_sd_jwt_vp L sd_jwt issuer_key expected_nonce expected_audience =
     bindP (errP (\<lambda>e. VerificationFailed (sd_jwt_error_to_string e)) (verify_sd_jwt_vc L sd_jwt issuer_key)) (\<lambda>verified.
     bindP (liftR (ok_or (KeyBindingFailed (''credential has no '' @ [CHR 0x27] @ ''cnf'' @ [CHR 0x27] @
               '' claim, so holder possession cannot be proven'')) (vs_holder_jwk L verified))) (\<lambda>holder_jwk.
     bindP (liftR (map_err key_binding_error
               (verify_key_binding L sd_jwt holder_jwk expected_nonce expected_audience))) (\<lambda>_.
     ret (vs_claims verified))))"

definition verify_jwt_vp :: "libs \<Rightarrow> string \<Rightarrow> key_pair \<Rightarrow> response_error + (string \<times> json) list" where
  "verify_jwt_vp L jwt issuer_key =
     bindR (map_err (\<lambda>e. VerificationFailed (jws_error_to_string e)) (verify_compact L jwt issuer_key)) (\<lambda>decoded.
     bindR (map_err VerificationFailed (json_parse L (dj_payload decoded))) (\<lambda>payload.
     Inr (case payload of JObj members \<Rightarrow> members | _ \<Rightarrow> [])))"

definition verify_vp_token ::
    "libs \<Rightarrow> json \<Rightarrow> key_pair \<Rightarrow> verifier_session \<Rightarrow> ('x env_scheme, response_error, (string \<times> json) list) prog" where
  "verify_vp_token L vp_token issuer_key session =
     (case vp_token of
        JStr token \<Rightarrow>
          if CHR ''~'' \<in> set token
          then verify_sd_jwt_vp L token issuer_key (ve_nonce session) (ar_client_id (ve_request session))
          else liftR (verify_jwt_vp L token issuer_key)
      | _ \<Rightarrow> liftR (Inl (VerificationFailed ''unsupported vp_token format'')))"

fun check_queries :: "credential_query list \<Rightarrow> (string \<times> json) list \<Rightarrow> response_error + unit" where
  "check_queries [] disclosed = Inr ()"
| "check_queries (q # qs) disclosed =
     (if evaluate_credential_query q disclosed then check_queries qs disclosed
      else Inl (QueryNotSatisfied (''credential query '' @ [CHR 0x27] @ qy_id q @ [CHR 0x27] @ '' is unsatisfied'')))"

definition check_request_query :: "authorization_request \<Rightarrow> (string \<times> json) list \<Rightarrow> response_error + unit" where
  "check_request_query request disclosed =
     (case ar_dcql_query request of Some q \<Rightarrow> check_queries (dq_credentials q) disclosed | None \<Rightarrow> Inr ())"

text \<open>\<open>let _ = ...\<close>: the effect without the result.\<close>

definition ignore_result :: "('s, 'e, 'a) prog \<Rightarrow> ('s, 'f, unit) prog" where
  "ignore_result m = (\<lambda>s. (Inr (), snd (m s)))"

definition check_response ::
    "libs \<Rightarrow> authorization_response \<Rightarrow> key_pair \<Rightarrow>
       ('x verifier_state_scheme, response_error, verifier_session \<times> (string \<times> json) list) prog" where
  "check_response L response issuer_key =
     bindP (liftR (ok_or InvalidState (rp_state response))) (\<lambda>request_state.
     bindP (errP (\<lambda>e. ResponseStateError (session_error_to_string e)) (get_session_by_state request_state)) (\<lambda>found.
     bindP (liftR (ok_or InvalidState found)) (\<lambda>session.
     bindP utc_now (\<lambda>now.
     bindP (if ve_expires_at session < now
            then bindP (ignore_result (delete_session (ve_id session))) (\<lambda>_. liftR (Inl SessionExpired))
            else ret ()) (\<lambda>_.
     bindP (liftR (ok_or MissingVpToken (rp_vp_token response))) (\<lambda>vp_token.
     bindP (verify_vp_token L vp_token issuer_key session) (\<lambda>disclosed.
     bindP (liftR (check_request_query (ve_request session) disclosed)) (\<lambda>_.
     ret (session, disclosed)))))))))"

definition finish_response ::
    "verifier_session \<times> (string \<times> json) list \<Rightarrow> ('x verifier_state_scheme, response_error, verification_result) prog" where
  "finish_response = (\<lambda>(session, disclosed).
     bindP (ignore_result (delete_session (ve_id session))) (\<lambda>_.
     ret \<lparr> vt_session_id = ve_id session, vt_disclosed_claims = disclosed \<rparr>))"

definition process_response ::
    "libs \<Rightarrow> authorization_response \<Rightarrow> key_pair \<Rightarrow> ('x verifier_state_scheme, response_error, verification_result) prog" where
  "process_response L response issuer_key = bindP (check_response L response issuer_key) finish_response"

section \<open>Inversion\<close>

lemma check_queries_Inr: "check_queries qs disclosed = Inr u \<longleftrightarrow> list_all (\<lambda>q. evaluate_credential_query q disclosed) qs"
  by (induction qs) auto

lemma check_request_query_Inr:
  "check_request_query request disclosed = Inr u \<longleftrightarrow>
     (\<forall>q. ar_dcql_query request = Some q \<longrightarrow> list_all (\<lambda>c. evaluate_credential_query c disclosed) (dq_credentials q))"
  by (auto simp: check_request_query_def check_queries_Inr split: option.splits)

lemma verify_sd_jwt_vp_Inr:
  "verify_sd_jwt_vp L token key nonce aud s = (Inr claims, s') \<longleftrightarrow>
     (\<exists>v k. verify_sd_jwt_vc L token key s = (Inr v, s') \<and> vs_holder_jwk L v = Some k \<and>
        verify_key_binding L token k nonce aud = Inr () \<and> claims = vs_claims v)"
  by (auto simp: verify_sd_jwt_vp_def bindP_Inr errP_Inr liftR_Inr ret_Inr ok_or_Inr map_err_Inr)

lemma verify_jwt_vp_Inr:
  "verify_jwt_vp L token key = Inr claims \<longleftrightarrow>
     (\<exists>d payload. verify_compact L token key = Inr d \<and> json_parse L (dj_payload d) = Inr payload \<and>
        claims = (case payload of JObj members \<Rightarrow> members | _ \<Rightarrow> []))"
  by (auto simp: verify_jwt_vp_def bindR_Inr map_err_Inr)

definition token_accepted ::
    "libs \<Rightarrow> string \<Rightarrow> key_pair \<Rightarrow> verifier_session \<Rightarrow> 'x env_scheme \<Rightarrow> (string \<times> json) list \<Rightarrow> bool" where
  "token_accepted L token key session s claims \<longleftrightarrow>
     (if CHR ''~'' \<in> set token
      then \<exists>v k t. verify_sd_jwt_vc L token key s = (Inr v, t) \<and> vs_holder_jwk L v = Some k \<and>
         verify_key_binding L token k (ve_nonce session) (ar_client_id (ve_request session)) = Inr () \<and>
         claims = vs_claims v
      else verify_jwt_vp L token key = Inr claims)"

definition after_token :: "string \<Rightarrow> 'x env_scheme \<Rightarrow> 'x env_scheme" where
  "after_token token s = (if CHR ''~'' \<in> set token then s\<lparr>clock_reads := Suc (clock_reads s)\<rparr> else s)"

lemma verify_vp_token_Inr:
  "verify_vp_token L vp_token key session s = (Inr claims, s') \<longleftrightarrow>
     (\<exists>token. vp_token = JStr token \<and> token_accepted L token key session s claims \<and>
        s' = after_token token s)"
  by (auto simp: verify_vp_token_def after_token_def token_accepted_def verify_sd_jwt_vp_Inr liftR_Inr verify_sd_jwt_vc_Inr
      split: json.splits)

lemma check_response_Inr:
  "check_response L response key s = (Inr (session, claims), s') \<longleftrightarrow>
     (\<exists>st token t. rp_state response = Some st \<and> get_session_by_state st s = (Inr (Some session), t) \<and>
        clock_at t (clock_reads t) \<le> ve_expires_at session \<and> rp_vp_token response = Some (JStr token) \<and>
        token_accepted L token key session (t\<lparr>clock_reads := Suc (clock_reads t)\<rparr>) claims \<and>
        check_request_query (ve_request session) claims = Inr () \<and>
        s' = after_token token (t\<lparr>clock_reads := Suc (clock_reads t)\<rparr>))"
  by (auto simp: check_response_def bindP_Inr errP_Inr liftR_Inr ret_Inr ok_or_Inr utc_now_run
      verify_vp_token_Inr not_less split: if_splits)

lemma get_by_state_keeps: "get_session_by_state st s = (r, t) \<Longrightarrow> t = s"
  by (auto simp: session_unfold split: mutex.splits option.splits)


section \<open>What an accepted presentation proves\<close>

lemma state_unique:
  assumes "store_is s m" and "m i = Some a" and "m j = Some b" and "ve_state a = ve_state b"
  shows "i = j"
proof -
  obtain idx where "sessions_wf m idx" using assms(1) by (auto simp: store_is_def)
  then have "idx (ve_state a) = Some i" "idx (ve_state b) = Some j"
    using wf_index assms(2,3) by blast+
  with assms(4) show ?thesis by simp
qed

lemma after_token_store:
  "vr_sessions (after_token token s) = vr_sessions s" "vr_state_to_id (after_token token s) = vr_state_to_id s"
  "uuid_at (after_token token s) = uuid_at s" "uuids_used (after_token token s) = uuids_used s"
  "clock_at (after_token token s) = clock_at s"
  for s :: "'x verifier_state_scheme"
  by (simp_all add: after_token_def)

lemma finish_run:
  assumes "store_is s m"
  shows "\<exists>s'. finish_response (session, claims) s = (Inr \<lparr> vt_session_id = ve_id session, vt_disclosed_claims = claims \<rparr>, s') \<and>
     store_is s' (m(ve_id session := None)) \<and> env.truncate s' = env.truncate s"
  using delete_refines [OF assms, of "ve_id session"]
  by (auto simp: finish_response_def bindP_def ignore_result_def ret_def)

lemma process_response_Inr:
  assumes "process_response L response key s = (Inr result, s')" and m: "store_is s m"
  shows "\<exists>st session token claims. rp_state response = Some st \<and> m (ve_id session) = Some session \<and>
     ve_state session = st \<and> clock_at s (clock_reads s) \<le> ve_expires_at session \<and>
     rp_vp_token response = Some (JStr token) \<and>
     token_accepted L token key session (s\<lparr>clock_reads := Suc (clock_reads s)\<rparr>) claims \<and>
     check_request_query (ve_request session) claims = Inr () \<and>
     result = \<lparr> vt_session_id = ve_id session, vt_disclosed_claims = claims \<rparr> \<and>
     store_is s' (m(ve_id session := None)) \<and> uuid_at s' = uuid_at s \<and> uuids_used s' = uuids_used s"
proof -
  obtain session claims u where c: "check_response L response key s = (Inr (session, claims), u)"
    and f: "finish_response (session, claims) u = (Inr result, s')"
    using assms(1) by (auto simp: process_response_def bindP_Inr)
  from c obtain st token t where st: "rp_state response = Some st"
    and g: "get_session_by_state st s = (Inr (Some session), t)"
    and r: "clock_at t (clock_reads t) \<le> ve_expires_at session" "rp_vp_token response = Some (JStr token)"
      "token_accepted L token key session (t\<lparr>clock_reads := Suc (clock_reads t)\<rparr>) claims"
      "check_request_query (ve_request session) claims = Inr ()"
    and u: "u = after_token token (t\<lparr>clock_reads := Suc (clock_reads t)\<rparr>)"
    unfolding check_response_Inr by blast
  have t: "t = s" by (rule get_by_state_keeps [OF g])
  have found: "m (ve_id session) = Some session" "ve_state session = st"
    using get_by_state_refines [OF m, of st] g t by auto
  have "store_is u m" using m by (simp add: store_is_def u t after_token_store)
  from finish_run [OF this, of session claims] f
  have "store_is s' (m(ve_id session := None))" "env.truncate s' = env.truncate u"
    "result = \<lparr> vt_session_id = ve_id session, vt_disclosed_claims = claims \<rparr>" by auto
  moreover have "uuid_at u = uuid_at s" "uuids_used u = uuids_used s"
    by (simp_all add: u t after_token_store)
  ultimately show ?thesis using st found r t by (auto simp: env.defs)
qed

text \<open>
  C4. A verification result is only returned for a session that was open under the response's
  state and not past its end, and closes it. The claims are those of an SD-JWT VC that verifies
  under the issuer key and whose confirmation key signed this session's nonce for this
  verifier, or, for a token without a tilde, of any JWT the issuer signed; they answer every
  query of the request.
\<close>

theorem presentation_sound:
  assumes "process_response L response key s = (Inr result, s')" and "store_is s m"
  shows "\<exists>session token. m (vt_session_id result) = Some session \<and>
     rp_state response = Some (ve_state session) \<and> rp_vp_token response = Some (JStr token) \<and>
     clock_at s (clock_reads s) \<le> ve_expires_at session \<and>
     (CHR ''~'' \<in> set token \<longrightarrow> (\<exists>v k t. verify_sd_jwt_vc L token key (s\<lparr>clock_reads := Suc (clock_reads s)\<rparr>) = (Inr v, t) \<and>
        vs_holder_jwk L v = Some k \<and>
        verify_key_binding L token k (ve_nonce session) (ar_client_id (ve_request session)) = Inr () \<and>
        vt_disclosed_claims result = vs_claims v)) \<and>
     (CHR ''~'' \<notin> set token \<longrightarrow> (\<exists>d payload. verify_compact L token key = Inr d \<and>
        json_parse L (dj_payload d) = Inr payload \<and> vt_disclosed_claims result = object_members payload)) \<and>
     (\<forall>q c. ar_dcql_query (ve_request session) = Some q \<longrightarrow> c \<in> set (dq_credentials q) \<longrightarrow>
        evaluate_credential_query c (vt_disclosed_claims result)) \<and>
     store_is s' (m(vt_session_id result := None)) \<and>
     (\<forall>key'. fst (process_response L response key' s') = Inl InvalidState)"
proof -
  from process_response_Inr [OF assms] obtain session token claims where
    st: "rp_state response = Some (ve_state session)" and found: "m (ve_id session) = Some session"
    and r: "clock_at s (clock_reads s) \<le> ve_expires_at session" "rp_vp_token response = Some (JStr token)"
      "token_accepted L token key session (s\<lparr>clock_reads := Suc (clock_reads s)\<rparr>) claims"
      "check_request_query (ve_request session) claims = Inr ()"
    and result: "result = \<lparr> vt_session_id = ve_id session, vt_disclosed_claims = claims \<rparr>"
    and left: "store_is s' (m(ve_id session := None))" by blast
  have members: "object_members payload = (case payload of JObj members \<Rightarrow> members | _ \<Rightarrow> [])" for payload
    by (cases payload) simp_all
  have gone: "get_session_by_state (ve_state session) s' = (Inr None, s')"
  proof -
    obtain v where v: "get_session_by_state (ve_state session) s' = (Inr v, s')"
      and iff: "\<forall>ses. v = Some ses \<longleftrightarrow> (m(ve_id session := None)) (ve_id ses) = Some ses \<and> ve_state ses = ve_state session"
      using get_by_state_refines [OF left] by blast
    have "v = None"
    proof (rule ccontr)
      assume "v \<noteq> None"
      then obtain ses where "v = Some ses" by blast
      with iff have i: "ve_id ses \<noteq> ve_id session" "m (ve_id ses) = Some ses" "ve_state session = ve_state ses"
        by (metis fun_upd_apply option.distinct(1))+
      with state_unique [OF assms(2) found i(2,3)] show False by simp
    qed
    with v show ?thesis by simp
  qed
  have "fst (process_response L response key' s') = Inl InvalidState" for key'
    using st gone by (simp add: process_response_def check_response_def bindP_def liftR_def errP_def)
  moreover have "CHR ''~'' \<in> set token \<longrightarrow> (\<exists>v k t. verify_sd_jwt_vc L token key (s\<lparr>clock_reads := Suc (clock_reads s)\<rparr>) = (Inr v, t) \<and>
        vs_holder_jwk L v = Some k \<and>
        verify_key_binding L token k (ve_nonce session) (ar_client_id (ve_request session)) = Inr () \<and> claims = vs_claims v)"
    using r(3) by (auto simp: token_accepted_def)
  moreover have "CHR ''~'' \<notin> set token \<longrightarrow> (\<exists>d payload. verify_compact L token key = Inr d \<and>
        json_parse L (dj_payload d) = Inr payload \<and> claims = object_members payload)"
    using r(3) by (auto simp: token_accepted_def verify_jwt_vp_Inr members)
  moreover have "\<forall>q c. ar_dcql_query (ve_request session) = Some q \<longrightarrow> c \<in> set (dq_credentials q) \<longrightarrow>
        evaluate_credential_query c claims"
    using r(4) by (auto simp: check_request_query_Inr list_all_iff)
  ultimately show ?thesis
    using st found r(1,2) left unfolding result
    by (intro exI [of _ session] exI [of _ token]) simp
qed


section \<open>Sessions are used once\<close>

definition sessions_shrink :: "'x verifier_state_scheme \<Rightarrow> 'x verifier_state_scheme \<Rightarrow> bool" where
  "sessions_shrink s s' \<longleftrightarrow> uuid_at s' = uuid_at s \<and> uuids_used s' = uuids_used s \<and>
     (\<forall>m. store_is s m \<longrightarrow> (\<exists>m'. store_is s' m' \<and> m' \<subseteq>\<^sub>m m))"

lemma sessions_shrink_refl: "sessions_shrink s s"
  by (auto simp: sessions_shrink_def)

lemma sessions_shrink_trans: "sessions_shrink s t \<Longrightarrow> sessions_shrink t u \<Longrightarrow> sessions_shrink s u"
  unfolding sessions_shrink_def by (metis map_le_trans)

lemma sessions_shrink_clock: "sessions_shrink s (s\<lparr>clock_reads := n\<rparr>)"
  by (auto simp: sessions_shrink_def store_is_def)

lemma shrink_bind: "keeps sessions_shrink m \<Longrightarrow> (\<And>x. keeps sessions_shrink (f x)) \<Longrightarrow> keeps sessions_shrink (bindP m f)"
  by (rule keeps_bindP [OF sessions_shrink_trans])

lemma shrink_pure:
  "keeps sessions_shrink (ret x)" "keeps sessions_shrink (liftR r)" "keeps sessions_shrink utc_now"
  by (auto simp: sessions_shrink_refl sessions_shrink_clock utc_now_def keeps_def ret_def liftR_def)

lemma shrink_errP: "keeps sessions_shrink m \<Longrightarrow> keeps sessions_shrink (errP f m)"
  by (rule keeps_errP)

lemma shrink_if: "keeps sessions_shrink m \<Longrightarrow> keeps sessions_shrink n \<Longrightarrow> keeps sessions_shrink (if b then m else n)"
  by simp

lemma shrink_store:
  "keeps sessions_shrink (get_session_by_state st)" "keeps sessions_shrink (ignore_result (delete_session i))"
proof -
  show "keeps sessions_shrink (get_session_by_state st)"
    by (simp add: keeps_def sessions_shrink_refl get_by_state_keeps [OF prod.collapse [symmetric]])
  have "sessions_shrink s (snd (delete_session i s))" for s
  proof -
    have "m(i := None) \<subseteq>\<^sub>m m" for m :: "string \<rightharpoonup> verifier_session" by (simp add: map_le_def)
    moreover have "uuid_at (snd (delete_session i s)) = uuid_at s" "uuids_used (snd (delete_session i s)) = uuids_used s"
      by (auto simp: session_unfold split: mutex.splits option.splits)
    ultimately show ?thesis
      unfolding sessions_shrink_def using delete_refines [of s _ i] by (metis snd_conv)
  qed
  then show "keeps sessions_shrink (ignore_result (delete_session i))"
    by (auto simp: keeps_def ignore_result_def)
qed

lemmas shrink = shrink_bind shrink_pure shrink_errP shrink_if shrink_store

lemma shrink_token: "keeps sessions_shrink (verify_vp_token L token key session)"
proof -
  have "keeps sessions_shrink (case x of (parsed, payload) \<Rightarrow>
      bindP utc_now (\<lambda>t. liftR (reconstruct_claims L parsed payload (timestamp t))))" for x
    by (cases x) (auto intro!: shrink)
  then have "keeps sessions_shrink (verify_sd_jwt_vc L t key)" for t
    unfolding verify_sd_jwt_vc_def by (intro shrink)
  then have "keeps sessions_shrink (verify_sd_jwt_vp L t key n a)" for t n a
    unfolding verify_sd_jwt_vp_def by (intro shrink)
  then show ?thesis
    unfolding verify_vp_token_def by (cases token) (auto intro!: shrink)
qed

lemma shrink_response: "keeps sessions_shrink (process_response L response key)"
proof -
  have "keeps sessions_shrink (finish_response x)" for x
    unfolding finish_response_def by (cases x) (auto intro!: shrink)
  moreover have "keeps sessions_shrink (check_response L response key)"
    unfolding check_response_def by (intro shrink shrink_token)
  ultimately show ?thesis unfolding process_response_def by (intro shrink)
qed

text \<open>Requests and presentations in any order.\<close>

datatype verifier_op = Ask request_params | Present authorization_response key_pair
datatype verifier_reply = Asked authorization_request string | Verified verification_result | Refused

definition verifier_step :: "libs \<Rightarrow> verifier_op \<Rightarrow> 'x verifier_state_scheme \<Rightarrow> verifier_reply \<times> 'x verifier_state_scheme" where
  "verifier_step L a s =
     (case a of
        Ask params \<Rightarrow>
          (case create_authorization_request params s of
             (Inr (request, i), s') \<Rightarrow> (Asked request i, s') | (Inl _, s') \<Rightarrow> (Refused, s'))
      | Present response key \<Rightarrow>
          (case process_response L response key s of
             (Inr result, s') \<Rightarrow> (Verified result, s') | (Inl _, s') \<Rightarrow> (Refused, s')))"

definition session_live :: "'x verifier_state_scheme \<Rightarrow> string \<Rightarrow> bool" where
  "session_live s st \<longleftrightarrow> (\<exists>m ses. store_is s m \<and> ses \<in> ran m \<and> ve_state ses = st)"

definition session_opened :: "string \<Rightarrow> verifier_op \<times> verifier_reply \<Rightarrow> bool" where
  "session_opened st x = (case snd x of Asked request i \<Rightarrow> ar_state request = Some st | _ \<Rightarrow> False)"

definition session_presented :: "string \<Rightarrow> verifier_op \<times> verifier_reply \<Rightarrow> bool" where
  "session_presented st x =
     (case x of (Present response key, Verified result) \<Rightarrow> rp_state response = Some st | _ \<Rightarrow> False)"

lemma session_live_iff:
  "store_is s m \<Longrightarrow> session_live s st \<longleftrightarrow> (\<exists>i ses. m i = Some ses \<and> ve_state ses = st)"
  by (auto simp: session_live_def store_is_def ran_def)

lemma verifier_step_inv:
  assumes "verifier_step L a s = (r, s')" and "verifier_inv s"
  shows "verifier_inv s'"
proof (cases a)
  case (Ask params)
  then have "create_authorization_request params s = (fst (create_authorization_request params s), s')"
    using assms(1) by (auto simp: verifier_step_def split: prod.splits sum.splits)
  from create_inv [OF this assms(2)] show ?thesis .
next
  case (Present response key)
  then have "process_response L response key s = (fst (process_response L response key s), s')"
    using assms(1) by (auto simp: verifier_step_def split: prod.splits sum.splits)
  from keepsD [OF shrink_response this] have sh: "sessions_shrink s s'" .
  obtain m where m: "inj (uuid_at s)" "store_is s m" "ids_drawn s m" using assms(2) by (auto simp: verifier_inv_def)
  obtain m' where m': "store_is s' m'" "m' \<subseteq>\<^sub>m m" using sh m(2) by (auto simp: sessions_shrink_def)
  have "ids_drawn s' m'" using m(3) m'(2) sh
    by (force simp: ids_drawn_def sessions_shrink_def map_le_def dom_def)
  with m(1) m' sh show ?thesis by (auto simp: verifier_inv_def sessions_shrink_def)
qed

text \<open>A presentation was live before and is not afterwards.\<close>

lemma presented_ends:
  assumes "verifier_step L a s = (r, s')" and "verifier_inv s" and "session_presented st (a, r)"
  shows "session_live s st" and "\<not> session_live s' st"
proof -
  obtain response key result where a: "a = Present response key" and k: "rp_state response = Some st"
    and p: "process_response L response key s = (Inr result, s')"
    using assms(1,3) by (auto simp: session_presented_def verifier_step_def split: verifier_op.splits prod.splits sum.splits)
  obtain m where m: "store_is s m" using assms(2) by (auto simp: verifier_inv_def)
  from process_response_Inr [OF p m] k show "session_live s st" unfolding session_live_iff [OF m] by auto
  from process_response_Inr [OF p m] k obtain ses where ses: "m (ve_id ses) = Some ses" "ve_state ses = st"
    and s': "store_is s' (m(ve_id ses := None))" by auto
  show "\<not> session_live s' st"
  proof
    assume "session_live s' st"
    then obtain i x where x: "(m(ve_id ses := None)) i = Some x" "ve_state x = st"
      unfolding session_live_iff [OF s'] by blast
    then have "m i = Some x" "i \<noteq> ve_id ses" by (auto split: if_splits)
    with state_unique [OF m this(1) ses(1)] x(2) ses(2) show False by simp
  qed
qed

text \<open>A session becomes live only by a request that gives out its state.\<close>

lemma live_was_opened:
  assumes "verifier_step L a s = (r, s')" and "verifier_inv s" and "session_live s' st" and "\<not> session_live s st"
  shows "session_opened st (a, r)"
proof -
  obtain m where m: "inj (uuid_at s)" "store_is s m" "ids_drawn s m" using assms(2) by (auto simp: verifier_inv_def)
  show ?thesis
  proof (cases a)
    case (Present response key)
    then have "process_response L response key s = (fst (process_response L response key s), s')"
      using assms(1) by (auto simp: verifier_step_def split: prod.splits sum.splits)
    from keepsD [OF shrink_response this] obtain m' where m': "store_is s' m'" "m' \<subseteq>\<^sub>m m"
      using m(2) by (auto simp: sessions_shrink_def)
    obtain i ses where ses: "m' i = Some ses" "ve_state ses = st"
      using assms(3) unfolding session_live_iff [OF m'(1)] by blast
    then have "m i = Some ses" using m'(2) by (force simp: map_le_def dom_def)
    with ses(2) assms(4) show ?thesis unfolding session_live_iff [OF m(2)] by blast
  next
    case (Ask params)
    show ?thesis
    proof (cases "expiry (clock_at s (Suc (clock_reads s))) (qp_session_expiry_secs params)")
      case None
      then have "s' = drawn s" using assms(1) Ask by (simp add: verifier_step_def create_run)
      then have "session_live s st" using assms(3) by (simp add: session_live_def store_is_def drawn_def)
      with assms(4) show ?thesis by simp
    next
      case (Some e)
      let ?ses = "created_session params s e"
      obtain t where t: "store_session ?ses (drawn s) = (Inr (), t)" "store_is t (m(ve_id ?ses \<mapsto> ?ses))"
        using created_stored [OF m] by blast
      have r: "r = Asked (ve_request ?ses) (ve_id ?ses)" "s' = t"
        using assms(1) Ask Some t by (simp_all add: verifier_step_def create_run)
      obtain i x where x: "(m(ve_id ?ses \<mapsto> ?ses)) i = Some x" "ve_state x = st"
        using assms(3) unfolding r(2) session_live_iff [OF t(2)] by blast
      have "x = ?ses"
        using x assms(4) unfolding session_live_iff [OF m(2)] by (auto split: if_splits)
      with x(2) r show ?thesis by (simp add: session_opened_def created_session_def Let_def build_request_def)
    qed
  qed
qed

interpretation session: single_use_under "verifier_step L" session_opened session_presented session_live verifier_inv
  by unfold_locales (blast dest: verifier_step_inv presented_ends live_was_opened)+

text \<open>
  C5. While UUIDs do not repeat, requests and presentations handled one after another, in any
  order and with any responses, give at most one verification result for each request: a
  nonce is good for one presentation.
\<close>

theorem presentation_single_use:
  assumes "run_ops (verifier_step L) as (verifier_state_new e) = (tr, t)" and "inj (uuid_at e)"
  shows "count_ops (session_presented st) tr \<le> count_ops (session_opened st) tr \<and> verifier_inv t"
proof -
  have "uuid_at (verifier_state_new e) = uuid_at e" by (simp add: verifier_state_new_def env.defs)
  with assms(2) store_is_new have inv: "verifier_inv (verifier_state_new e)"
    unfolding verifier_inv_def by (auto simp: ids_drawn_def intro!: exI [of _ Map.empty])
  have "\<not> session_live (verifier_state_new e) st"
    using session_live_iff [OF store_is_new] by simp
  with session.hits_bounded_under [OF assms(1) inv, of st] session.invariant_under [OF assms(1) inv]
  show ?thesis by simp
qed


section \<open>A wallet that does everything right is accepted\<close>

definition issued_claims :: "(string \<times> json) list \<Rightarrow> (string \<times> json) list \<Rightarrow> string \<Rightarrow> json option" where
  "issued_claims plain disclosable k =
     (case map_of (rev plain) k of Some x \<Rightarrow> Some (json_norm x)
      | None \<Rightarrow> map_option json_norm (map_of (rev disclosable) k))"

definition holder_cnf :: "libs \<Rightarrow> jwk \<Rightarrow> json" where
  "holder_cnf L k = JObj [(''jwk'', json_of_jwk L k)]"

lemma process_accepts:
  assumes "store_is s m" and "m i = Some ses" and "clock_at s (clock_reads s) \<le> ve_expires_at ses"
    and "token_accepted L token key ses (s\<lparr>clock_reads := Suc (clock_reads s)\<rparr>) claims"
    and "\<forall>q. ar_dcql_query (ve_request ses) = Some q \<longrightarrow> list_all (query_answered (map_of claims)) (dq_credentials q)"
  shows "\<exists>s'. process_response L \<lparr> rp_vp_token = Some (JStr token), rp_presentation_submission = sub,
        rp_state = Some (ve_state ses) \<rparr> key s =
      (Inr \<lparr> vt_session_id = ve_id ses, vt_disclosed_claims = claims \<rparr>, s') \<and>
      store_is s' (m(ve_id ses := None))"
proof -
  obtain idx where "sessions_wf m idx" using assms(1) by (auto simp: store_is_def)
  then have i: "ve_id ses = i" using assms(2) wf_id by blast
  obtain v where v: "get_session_by_state (ve_state ses) s = (Inr v, s)"
    and iff: "\<forall>x. v = Some x \<longleftrightarrow> m (ve_id x) = Some x \<and> ve_state x = ve_state ses"
    using get_by_state_refines [OF assms(1)] by blast
  have "v = Some ses" using iff assms(2) i by simp
  with v have g: "get_session_by_state (ve_state ses) s = (Inr (Some ses), s)" by simp
  let ?u = "after_token token (s\<lparr>clock_reads := Suc (clock_reads s)\<rparr>)"
  have "check_request_query (ve_request ses) claims = Inr ()"
    using assms(5) by (auto simp: check_request_query_Inr evaluate_query_iff list_all_iff)
  then have c: "check_response L \<lparr> rp_vp_token = Some (JStr token), rp_presentation_submission = sub,
        rp_state = Some (ve_state ses) \<rparr> key s = (Inr (ses, claims), ?u)"
    unfolding check_response_Inr using g assms(3,4)
    by (intro exI [of _ "ve_state ses"] exI [of _ token] exI [of _ s]) simp
  have "store_is ?u m" using assms(1) by (simp add: store_is_def after_token_store)
  from finish_run [OF this, of ses claims] c show ?thesis
    by (auto simp: process_response_def bindP_def)
qed

text \<open>
  C6. Issuing, holding, presenting and verifying fit together: a credential issued for the
  holder's key, presented with a key binding JWT over the session's nonce and client id, is
  accepted in every open session whose query asks for no more than the issued claims, and the
  verifier gets exactly those claims.
\<close>

theorem presentation_accepted:
  assumes law: "b64url_law L" "p256_law L" "ed25519_law L"
    and ik: "ik = ec_make L isk \<or> ik = ed_make L isk" and hk: "hk = ec_make L hsk \<or> hk = ed_make L hsk"
    and plain: "\<forall>k\<in>fst ` set plain. \<not> reserved_claim k"
    and issue: "issue_sd_jwt_vc_with_x5c L ik url vct plain disclosable
      (Some (holder_cnf L (kp_public_jwk hk))) status x5c s0 = (Inr (compact, ds), s0')"
    and now: "now = timestamp (clock_at s0 (clock_reads s0))"
    and codecs: "issue_codecs L ((build_header ik (Some ''dc+sd-jwt''))\<lparr>h_x5c := x5c\<rparr>)
      (issued_payload url vct plain (Some (holder_cnf L (kp_public_jwk hk))) status (map d_hash ds) now) ds"
    and distinct: "distinct (map d_hash ds)"
    and cnf: "jwk_of_json L (json_norm (json_of_jwk L (kp_public_jwk hk))) = Some (kp_public_jwk hk)"
    and store: "store_is s m" "m i = Some ses"
    and clock: "clock_at s (clock_reads s) \<le> ve_expires_at ses"
      "now - now mod day_secs \<le> timestamp (clock_at s (Suc (clock_reads s)))"
      "timestamp (clock_at s (Suc (clock_reads s))) < now - now mod day_secs + day_secs * 365"
    and kb: "create_key_binding_jwt L hk (ve_nonce ses) (ar_client_id (ve_request ses)) (compute_sd_hash L compact) s1 = (Inr kb, s1')"
      "header_codec L (build_header_with_jwk hk (Some ''kb+jwt''))"
      "json_codec L (key_binding_payload (ve_nonce ses) (ar_client_id (ve_request ses))
         (timestamp (clock_at s1 (clock_reads s1))) (compute_sd_hash L compact))"
    and query: "\<forall>q. ar_dcql_query (ve_request ses) = Some q \<longrightarrow>
      list_all (query_answered (issued_claims plain disclosable)) (dq_credentials q)"
  shows "\<exists>result s'. process_response L \<lparr> rp_vp_token = Some (JStr (compact @ kb)), rp_presentation_submission = None,
        rp_state = Some (ve_state ses) \<rparr> ik s = (Inr result, s') \<and>
     vt_session_id result = ve_id ses \<and> map_of (vt_disclosed_claims result) = issued_claims plain disclosable \<and>
     store_is s' (m(ve_id ses := None))"
proof -
  let ?s = "s\<lparr>clock_reads := Suc (clock_reads s)\<rparr>"
  have w: "now - now mod day_secs \<le> timestamp (clock_at ?s (clock_reads ?s))"
    "timestamp (clock_at ?s (clock_reads ?s)) < now - now mod day_secs + day_secs * 365"
    using clock(2,3) by simp_all
  from issued_verifies_any [OF law ik plain issue now codecs distinct w]
  obtain v t where v: "verify_sd_jwt_vc L compact ik ?s = (Inr v, t)"
    and p: "vs_payload v = json_norm (issued_payload url vct plain (Some (holder_cnf L (kp_public_jwk hk))) status (map d_hash ds) now)"
    and c: "\<forall>k. map_of (vs_claims v) k = issued_claims plain disclosable k"
    unfolding issued_claims_def by blast
  have "list_all (\<lambda>d. json_codec L (disclosure_array d)) ds" using codecs by (simp add: issue_codecs_def)
  from issued_presentation [OF law(1) issue this] obtain vc where
    vc: "compact = sd_jwt_to_compact vc" "sd_jwt_wf vc" "key_binding_jwt vc = None" by blast
  note kbt = created_kb_text [OF law(1) kb(1)]
  have bound: "verify_key_binding L (compact @ kb) (kp_public_jwk hk) (ve_nonce ses) (ar_client_id (ve_request ses)) = Inr ()"
    unfolding vc(1) using bound_verifies_any [OF law hk vc(2,3) kb [unfolded vc(1)]] .
  have full: "verify_sd_jwt_vc L (compact @ kb) ik ?s = (Inr v, t)"
    using verify_with_key_binding [OF vc(2,3) kbt] v unfolding vc(1) by blast
  have k: "vs_holder_jwk L v = Some (kp_public_jwk hk)"
    using payload_members(5) [OF plain p] cnf by (simp add: vs_holder_jwk_def holder_cnf_def put_members_def)
  have "CHR ''~'' \<in> set (compact @ kb)"
    using compact_with_key_binding(1) [OF vc(3)] vc(1) by auto
  then have "token_accepted L (compact @ kb) ik ses ?s (vs_claims v)"
    using full k bound by (auto simp: token_accepted_def)
  moreover have m: "map_of (vs_claims v) = issued_claims plain disclosable" using c by auto
  ultimately show ?thesis
    using process_accepts [OF store clock(1), of L "compact @ kb" ik "vs_claims v" None] query by auto
qed


section \<open>Where the checks end\<close>

text \<open>
  C7. A token without a tilde is checked for the issuer's signature only. Whoever has seen any
  SD-JWT VC of the issuer can cut off its first part and present it in any open session whose
  query the visible claims answer: no key binding is asked for, no nonce or audience is
  compared, and the credential may have expired.
\<close>

theorem issuer_jwt_alone_accepted:
  assumes "verify_issuer_jwt L presentation key = Inr (parsed, payload)"
    and "store_is s m" and "m i = Some ses" and "clock_at s (clock_reads s) \<le> ve_expires_at ses"
    and "\<forall>q. ar_dcql_query (ve_request ses) = Some q \<longrightarrow>
      list_all (query_answered (map_of (object_members payload))) (dq_credentials q)"
  shows "\<exists>s'. process_response L \<lparr> rp_vp_token = Some (JStr (issuer_jwt parsed)), rp_presentation_submission = None,
        rp_state = Some (ve_state ses) \<rparr> key s =
     (Inr \<lparr> vt_session_id = ve_id ses, vt_disclosed_claims = object_members payload \<rparr>, s')"
proof -
  obtain d where p: "sd_jwt_parse presentation = Inr parsed"
    and d: "verify_compact L (issuer_jwt parsed) key = Inr d" "json_parse L (dj_payload d) = Inr payload"
    using assms(1) by (auto simp: verify_issuer_jwt_Inr)
  have "CHR ''~'' \<notin> set (issuer_jwt parsed)"
    using p split_on_pieces [of "issuer_jwt parsed" "CHR ''~''" presentation] by (auto simp: parse_Inr)
  moreover have "object_members payload = (case payload of JObj members \<Rightarrow> members | _ \<Rightarrow> [])"
    by (cases payload) simp_all
  ultimately have "token_accepted L (issuer_jwt parsed) key ses (s\<lparr>clock_reads := Suc (clock_reads s)\<rparr>) (object_members payload)"
    using d by (auto simp: token_accepted_def verify_jwt_vp_Inr)
  from process_accepts [OF assms(2-4) this assms(5)] show ?thesis by blast
qed

lemma token_accepted_clock:
  assumes "timestamp (clock_at t (clock_reads t)) = timestamp (clock_at s (clock_reads s))"
  shows "token_accepted L token key ses t claims \<longleftrightarrow> token_accepted L token key ses s claims"
  using assms by (simp add: token_accepted_def verify_sd_jwt_vc_Inr)

lemma check_again:
  assumes "check_response L response key s = (Inr x, s1)" and "\<forall>n. clock_at s n = c"
  shows "\<exists>s2. check_response L response key s1 = (Inr x, s2) \<and>
     vr_sessions s2 = vr_sessions s \<and> vr_state_to_id s2 = vr_state_to_id s"
proof -
  obtain ses claims where x: "x = (ses, claims)" by fastforce
  from assms(1) obtain st token t where st: "rp_state response = Some st"
    and g: "get_session_by_state st s = (Inr (Some ses), t)"
    and r: "clock_at t (clock_reads t) \<le> ve_expires_at ses" "rp_vp_token response = Some (JStr token)"
      "token_accepted L token key ses (t\<lparr>clock_reads := Suc (clock_reads t)\<rparr>) claims"
      "check_request_query (ve_request ses) claims = Inr ()"
    and s1: "s1 = after_token token (t\<lparr>clock_reads := Suc (clock_reads t)\<rparr>)"
    unfolding x check_response_Inr by blast
  have t: "t = s" by (rule get_by_state_keeps [OF g])
  have same: "vr_sessions s1 = vr_sessions s" "vr_state_to_id s1 = vr_state_to_id s" "clock_at s1 = clock_at s"
    by (simp_all add: s1 t after_token_store)
  then have g1: "get_session_by_state st s1 = (Inr (Some ses), s1)"
    using g t by (auto simp: session_unfold split: mutex.splits option.splits)
  have "token_accepted L token key ses (s1\<lparr>clock_reads := Suc (clock_reads s1)\<rparr>) claims"
    using r(3) t token_accepted_clock [of "s1\<lparr>clock_reads := Suc (clock_reads s1)\<rparr>" "s\<lparr>clock_reads := Suc (clock_reads s)\<rparr>"]
      same assms(2) by simp
  then have "check_response L response key s1 =
      (Inr x, after_token token (s1\<lparr>clock_reads := Suc (clock_reads s1)\<rparr>))"
    unfolding x check_response_Inr using st g1 r(1,2,4) same assms(2) t
    by (intro exI [of _ st] exI [of _ token] exI [of _ s1]) simp
  then show ?thesis using same by (auto simp: after_token_store)
qed

text \<open>
  C32. Handled concurrently, one session gives two verification results: the session is looked
  up and deleted in two separate locked steps, so any response that is accepted is accepted a
  second time when its second copy is checked before the first deletes the session.
\<close>

theorem presentation_race:
  assumes "check_response L response key s = (Inr x, s1)" and "store_is s m" and "\<forall>n. clock_at s n = c"
  shows "\<exists>s2 s3 s4 result. check_response L response key s1 = (Inr x, s2) \<and>
     finish_response x s2 = (Inr result, s3) \<and> finish_response x s3 = (Inr result, s4)"
proof -
  obtain ses claims where x: "x = (ses, claims)" by fastforce
  obtain s2 where s2: "check_response L response key s1 = (Inr x, s2)"
    "vr_sessions s2 = vr_sessions s" "vr_state_to_id s2 = vr_state_to_id s"
    using check_again [OF assms(1,3)] by blast
  then have "store_is s2 m" using assms(2) by (simp add: store_is_def)
  from finish_run [OF this, of ses claims] obtain s3 where
    f: "finish_response x s2 = (Inr \<lparr> vt_session_id = ve_id ses, vt_disclosed_claims = claims \<rparr>, s3)"
    and m: "store_is s3 (m(ve_id ses := None))" unfolding x by blast
  from finish_run [OF m, of ses claims] obtain s4 where
    "finish_response x s3 = (Inr \<lparr> vt_session_id = ve_id ses, vt_disclosed_claims = claims \<rparr>, s4)" unfolding x by blast
  with s2 f show ?thesis by blast
qed

section \<open>A concrete presentation\<close>

definition vp_jwt :: string where
  "vp_jwt = hex_encode ''h'' @ ''.'' @ hex_encode ''v'' @ ''.'' @ hex_encode (replicate 64 (CHR ''s''))"

definition vp_compact :: string where
  "vp_compact = sd_jwt_to_compact \<lparr> issuer_jwt = vp_jwt, disclosures = [], key_binding_jwt = None \<rparr>"

definition vp_payload :: json where
  "vp_payload = issued_payload ''https://issuer'' ''pid'' [(''age'', JInt 30)] (Some (JObj [(''jwk'', JNull)])) None [] 0"

definition vp_kb_payload :: json where
  "vp_kb_payload = key_binding_payload ''nonce'' ''https://verifier'' 0 (compute_sd_hash hex_libs vp_compact)"

definition vp_libs :: libs where
  "vp_libs = table_libs
     [build_header (ec_make hex_libs ''sk'') (Some ''dc+sd-jwt''), build_header_with_jwk (ec_make hex_libs ''hk'') (Some ''kb+jwt'')]
     [vp_payload, vp_kb_payload] (kp_public_jwk (ec_make hex_libs ''hk''))"

definition vp_state :: verifier_state where
  "vp_state = sample_verifier\<lparr>vr_sessions := Unlocked [''id'' \<mapsto> sample_vp_session],
     vr_state_to_id := Unlocked [''state'' \<mapsto> ''id'']\<rparr>"

lemma vp_facts:
  "b64url_law vp_libs" "p256_law vp_libs" "ed25519_law vp_libs" "ec_make vp_libs sk = ec_make hex_libs sk"
  "header_codec vp_libs (build_header (ec_make hex_libs ''sk'') (Some ''dc+sd-jwt''))"
  "header_codec vp_libs (build_header_with_jwk (ec_make hex_libs ''hk'') (Some ''kb+jwt''))"
  "json_codec vp_libs vp_payload" "json_codec vp_libs vp_kb_payload"
  "holder_cnf vp_libs k = JObj [(''jwk'', JNull)]" "jwk_of_json vp_libs v = Some (kp_public_jwk (ec_make hex_libs ''hk''))"
  "compute_sd_hash vp_libs = compute_sd_hash hex_libs"
  by (simp_all add: vp_libs_def table_libs_laws table_key)
    (simp_all add: table_libs_def holder_cnf_def hex_libs_def compute_sd_hash_def digest_of_def fun_eq_iff)

lemma vp_store:
  "store_is vp_state [''id'' \<mapsto> sample_vp_session]" "clock_at vp_state = (\<lambda>n. 0)"
  by (auto simp: store_is_def vp_state_def sessions_wf_def sample_vp_session_def sample_verifier_fields split: if_splits)

lemma vp_issued:
  "\<exists>s'. issue_sd_jwt_vc_with_x5c vp_libs (ec_make hex_libs ''sk'') ''https://issuer'' ''pid'' [(''age'', JInt 30)] []
     (Some (JObj [(''jwk'', JNull)])) None None sample_env = (Inr (vp_compact, []), s')"
proof -
  let ?h = "(build_header (ec_make hex_libs ''sk'') (Some ''dc+sd-jwt''))\<lparr>h_x5c := None\<rparr>"
  have h: "?h = build_header (ec_make hex_libs ''sk'') (Some ''dc+sd-jwt'')" by (simp add: build_header_def)
  have e: "b64url_encode vp_libs = hex_encode" "header_print vp_libs ?h = ''h''" "json_print vp_libs vp_payload = ''v''"
    unfolding h by (simp_all add: vp_libs_def table_libs_def hex_libs_def place_in_def)
  have "sign_compact vp_libs (ec_make hex_libs ''sk'') ?h vp_payload = Inr vp_jwt"
    using e by (simp add: sign_compact_def Let_def hex_key_signs vp_jwt_def)
  then show ?thesis
    by (simp add: issue_sd_jwt_vc_with_x5c_def bindP_def ret_def utc_now_run liftR_def vp_compact_def
        sd_jwt_to_compact_def vp_payload_def issued_payload_def timestamp_def)
qed

lemma vp_kb:
  "\<exists>kb s'. create_key_binding_jwt vp_libs (ec_make hex_libs ''hk'') ''nonce'' ''https://verifier''
     (compute_sd_hash vp_libs vp_compact) sample_env = (Inr kb, s')"
  by (simp add: create_key_binding_jwt_def bindP_def utc_now_run liftR_def sign_compact_def Let_def hex_key_signs)


text \<open>Everything that the acceptance theorem asks for, at this presentation.\<close>

lemma vp_codecs:
  "issue_codecs vp_libs ((build_header (ec_make vp_libs ''sk'') (Some ''dc+sd-jwt''))\<lparr>h_x5c := None\<rparr>)
     (issued_payload ''https://issuer'' ''pid'' [(''age'', JInt 30)]
        (Some (holder_cnf vp_libs (kp_public_jwk (ec_make vp_libs ''hk'')))) None (map d_hash []) 0) []"
proof -
  have "(build_header (ec_make hex_libs ''sk'') (Some ''dc+sd-jwt''))\<lparr>h_x5c := None\<rparr> =
      build_header (ec_make hex_libs ''sk'') (Some ''dc+sd-jwt'')" by (simp add: build_header_def)
  then show ?thesis
    using vp_facts(5,7) by (simp add: issue_codecs_def vp_facts vp_payload_def)
qed

lemma vp_window:
  "0 - 0 mod day_secs \<le> timestamp (clock_at vp_state n)"
  "timestamp (clock_at vp_state n) < 0 - 0 mod day_secs + day_secs * 365"
  "clock_at vp_state n \<le> ve_expires_at sample_vp_session"
  by (simp_all add: vp_store timestamp_def day_secs_def sample_vp_session_def second_def)

lemma vp_session:
  "ve_nonce sample_vp_session = ''nonce''" "ar_client_id (ve_request sample_vp_session) = ''https://verifier''"
  "ve_state sample_vp_session = ''state''" "ve_id sample_vp_session = ''id''"
  "ar_dcql_query (ve_request sample_vp_session) = None"
  by (simp_all add: sample_vp_session_def sample_vp_request_def)

theorem presentation_accepted_witness:
  "\<exists>token result s'. process_response vp_libs \<lparr> rp_vp_token = Some (JStr token), rp_presentation_submission = None,
        rp_state = Some ''state'' \<rparr> (ec_make hex_libs ''sk'') vp_state = (Inr result, s') \<and>
     map_of (vt_disclosed_claims result) ''age'' = Some (JInt 30)"
proof -
  obtain s0' where i: "issue_sd_jwt_vc_with_x5c vp_libs (ec_make vp_libs ''sk'') ''https://issuer'' ''pid''
      [(''age'', JInt 30)] [] (Some (holder_cnf vp_libs (kp_public_jwk (ec_make vp_libs ''hk'')))) None None sample_env =
      (Inr (vp_compact, []), s0')" using vp_issued unfolding vp_facts by blast
  obtain kb s1' where kb: "create_key_binding_jwt vp_libs (ec_make vp_libs ''hk'') (ve_nonce sample_vp_session)
      (ar_client_id (ve_request sample_vp_session)) (compute_sd_hash vp_libs vp_compact) sample_env = (Inr kb, s1')"
    using vp_kb unfolding vp_facts(4) vp_session by blast
  have n: "0 = timestamp (clock_at sample_env (clock_reads sample_env))" by (rule sample_now)
  have cnf: "jwk_of_json vp_libs (json_norm (json_of_jwk vp_libs (kp_public_jwk (ec_make vp_libs ''hk'')))) =
      Some (kp_public_jwk (ec_make vp_libs ''hk''))" by (simp add: vp_facts)
  have ses: "[''id'' \<mapsto> sample_vp_session] ''id'' = Some sample_vp_session" by simp
  have hc: "header_codec vp_libs (build_header_with_jwk (ec_make vp_libs ''hk'') (Some ''kb+jwt''))"
    "json_codec vp_libs (key_binding_payload (ve_nonce sample_vp_session) (ar_client_id (ve_request sample_vp_session))
       (timestamp (clock_at sample_env (clock_reads sample_env))) (compute_sd_hash vp_libs vp_compact))"
    using vp_facts(6,8) n by (simp_all add: vp_facts(4,11) vp_session vp_kb_payload_def)
  have d: "distinct (map d_hash [])" and q: "\<forall>q. ar_dcql_query (ve_request sample_vp_session) = Some q \<longrightarrow>
      list_all (query_answered (issued_claims [(''age'', JInt 30)] [])) (dq_credentials q)"
    by (simp_all add: vp_session)
  obtain result s' where
    "process_response vp_libs \<lparr> rp_vp_token = Some (JStr (vp_compact @ kb)), rp_presentation_submission = None,
        rp_state = Some (ve_state sample_vp_session) \<rparr> (ec_make vp_libs ''sk'') vp_state = (Inr result, s')"
    "map_of (vt_disclosed_claims result) = issued_claims [(''age'', JInt 30)] []"
    using presentation_accepted [OF vp_facts(1-3) disjI1 [OF refl] disjI1 [OF refl] sample_plain i n vp_codecs
      d cnf vp_store(1) ses vp_window(3) vp_window(1,2) kb hc q] by blast
  then show ?thesis
    by (intro exI [of _ "vp_compact @ kb"] exI [of _ result] exI [of _ s'])
      (simp add: vp_session vp_facts(4) issued_claims_def)
qed

lemma vp_jwt_plain: "CHR ''~'' \<notin> set vp_jwt"
proof -
  have "CHR ''~'' \<notin> set (hex_encode b)" for b
    using hex_encode_alphabet [of b] b64url_char_special(2) by (auto simp: list_all_iff)
  then show ?thesis by (simp add: vp_jwt_def)
qed

lemma vp_plain:
  "\<exists>parsed. verify_issuer_jwt vp_libs vp_compact (ec_make hex_libs ''sk'') = Inr (parsed, json_norm vp_payload) \<and>
     issuer_jwt parsed = vp_jwt"
proof -
  have t: "timestamp (clock_at vp_state (clock_reads vp_state)) = 0" by (simp add: vp_store timestamp_def)
  obtain s0' where i: "issue_sd_jwt_vc_with_x5c vp_libs (ec_make vp_libs ''sk'') ''https://issuer'' ''pid''
      [(''age'', JInt 30)] [] (Some (holder_cnf vp_libs (kp_public_jwk (ec_make vp_libs ''hk'')))) None None sample_env =
      (Inr (vp_compact, []), s0')" using vp_issued unfolding vp_facts by blast
  have d: "distinct (map d_hash [])" by simp
  obtain v t' where v: "verify_sd_jwt_vc vp_libs vp_compact (ec_make vp_libs ''sk'') vp_state = (Inr v, t')"
    and p: "vs_payload v = json_norm (issued_payload ''https://issuer'' ''pid'' [(''age'', JInt 30)]
        (Some (holder_cnf vp_libs (kp_public_jwk (ec_make vp_libs ''hk'')))) None (map d_hash ([] :: disclosure list)) 0)"
    using issued_verifies_any [OF vp_facts(1-3) disjI1 [OF refl] sample_plain i sample_now vp_codecs d
        vp_window(1,2)] by blast
  obtain parsed payload where r: "verify_issuer_jwt vp_libs vp_compact (ec_make vp_libs ''sk'') = Inr (parsed, payload)"
    "reconstruct_claims vp_libs parsed payload (timestamp (clock_at vp_state (clock_reads vp_state))) = Inr v"
    using v by (auto simp: verify_sd_jwt_vc_Inr)
  then have "payload = json_norm vp_payload"
    using p by (auto simp: reconstruct_claims_def result_inv vp_payload_def vp_facts(9))
  moreover have "sd_jwt_wf \<lparr> issuer_jwt = vp_jwt, disclosures = [], key_binding_jwt = None \<rparr>"
    using vp_jwt_plain by (simp add: sd_jwt_wf_def) (simp add: vp_jwt_def)
  then have "issuer_jwt parsed = vp_jwt"
    using r(1) by (auto simp: verify_issuer_jwt_Inr vp_compact_def parse_compact)
  ultimately show ?thesis using r(1) vp_facts(4) by auto
qed

theorem issuer_jwt_alone_accepted_witness:
  "\<exists>result s'. process_response vp_libs \<lparr> rp_vp_token = Some (JStr vp_jwt), rp_presentation_submission = None,
        rp_state = Some ''state'' \<rparr> (ec_make hex_libs ''sk'') vp_state = (Inr result, s')"
proof -
  obtain parsed where p: "verify_issuer_jwt vp_libs vp_compact (ec_make hex_libs ''sk'') = Inr (parsed, json_norm vp_payload)"
    "issuer_jwt parsed = vp_jwt" using vp_plain by blast
  have ses: "[''id'' \<mapsto> sample_vp_session] ''id'' = Some sample_vp_session" by simp
  have q: "\<forall>q. ar_dcql_query (ve_request sample_vp_session) = Some q \<longrightarrow>
      list_all (query_answered (map_of (object_members (json_norm vp_payload)))) (dq_credentials q)"
    by (simp add: vp_session)
  from issuer_jwt_alone_accepted [OF p(1) vp_store(1) ses vp_window(3) q] p(2) show ?thesis
    unfolding vp_session by metis
qed

lemma vp_processed:
  "\<exists>result s'. process_response vp_libs \<lparr> rp_vp_token = Some (JStr vp_jwt), rp_presentation_submission = None,
        rp_state = Some ''state'' \<rparr> (ec_make hex_libs ''sk'') vp_state = (Inr result, s')"
proof -
  obtain parsed where p: "verify_issuer_jwt vp_libs vp_compact (ec_make hex_libs ''sk'') = Inr (parsed, json_norm vp_payload)"
    "issuer_jwt parsed = vp_jwt" using vp_plain by blast
  obtain d where d: "verify_compact vp_libs vp_jwt (ec_make hex_libs ''sk'') = Inr d"
    "json_parse vp_libs (dj_payload d) = Inr (json_norm vp_payload)"
    using p by (auto simp: verify_issuer_jwt_Inr)
  have "token_accepted vp_libs vp_jwt (ec_make hex_libs ''sk'') sample_vp_session
      (vp_state\<lparr>clock_reads := Suc (clock_reads vp_state)\<rparr>) (case json_norm vp_payload of JObj members \<Rightarrow> members | _ \<Rightarrow> [])"
    using d vp_jwt_plain by (auto simp: token_accepted_def verify_jwt_vp_Inr)
  from process_accepts [OF vp_store(1) _ vp_window(3) this, of "''id''" None] show ?thesis
    by (auto simp: vp_session)
qed

theorem presentation_sound_witness:
  "\<exists>response result s'. process_response vp_libs response (ec_make hex_libs ''sk'') vp_state = (Inr result, s') \<and>
     fst (process_response vp_libs response (ec_make hex_libs ''sk'') s') = Inl InvalidState"
proof -
  obtain result s' where r: "process_response vp_libs \<lparr> rp_vp_token = Some (JStr vp_jwt), rp_presentation_submission = None,
        rp_state = Some ''state'' \<rparr> (ec_make hex_libs ''sk'') vp_state = (Inr result, s')"
    using vp_processed by blast
  from presentation_sound [OF r vp_store(1)] r show ?thesis by blast
qed

theorem presentation_race_witness:
  "\<exists>response x s1 s2. check_response vp_libs response (ec_make hex_libs ''sk'') vp_state = (Inr x, s1) \<and>
     check_response vp_libs response (ec_make hex_libs ''sk'') s1 = (Inr x, s2)"
proof -
  obtain response x s1 where c: "check_response vp_libs response (ec_make hex_libs ''sk'') vp_state = (Inr x, s1)"
    using vp_processed by (auto simp: process_response_def bindP_Inr)
  have "\<forall>n. clock_at vp_state n = 0" by (simp add: vp_store)
  from presentation_race [OF c vp_store(1) this] c show ?thesis by blast
qed

theorem presentation_single_use_witness:
  "\<exists>tr t. run_ops (verifier_step vp_libs) [Ask sample_params, Present \<lparr> rp_vp_token = None,
      rp_presentation_submission = None, rp_state = None \<rparr> (ec_make hex_libs ''sk'')] (verifier_state_new sample_env) = (tr, t) \<and>
     verifier_inv t"
proof -
  obtain tr t where r: "run_ops (verifier_step vp_libs) [Ask sample_params, Present \<lparr> rp_vp_token = None,
      rp_presentation_submission = None, rp_state = None \<rparr> (ec_make hex_libs ''sk'')] (verifier_state_new sample_env) = (tr, t)"
    by fastforce
  have "inj (uuid_at sample_env)" by (simp add: inj_def show_nat_inj)
  from presentation_single_use [OF r this] r show ?thesis by blast
qed

end
