(* ===== verification/App_State.thy ===== *)
theory App_State
  imports Web Client_Attestation Dpop Response
begin

text \<open>
  The state that all handlers share, from crates/server/src/state.rs and config.rs: what is fixed
  when the server starts (\<open>server\<close>) and the three stores (\<open>app_state\<close>). The issuer's operations
  work on the application's state directly; those of the verifier and of the status manager run
  on their part of it, with the same clock and random sources.
\<close>

section \<open>Configuration\<close>

record server_config =
  sf_host :: string
  sf_port :: nat
  sf_external_url :: url
  sf_issuer_name :: string
  sf_p256_key_path :: "string option"
  sf_ed25519_key_path :: "string option"
  sf_cert_path :: "string option"
  sf_trust_anchor_path :: "string option"
  sf_client_attester_jwks_path :: "string option"
  sf_admin_token :: "string option"

text \<open>\<open>str::parse\<close> of an unsigned integer: digits, after an optional plus, and below the bound.\<close>

definition parse_unsigned :: "nat \<Rightarrow> string \<Rightarrow> nat option" where
  "parse_unsigned bound s =
     (let digits = (case s of c # r \<Rightarrow> if c = CHR ''+'' then r else s | [] \<Rightarrow> [])
      in if digits \<noteq> [] \<and> list_all (\<lambda>c. 48 \<le> (of_char c :: nat) \<and> (of_char c :: nat) \<le> 57) digits \<and> read_nat digits < bound
         then Some (read_nat digits) else None)"

lemma show_nat_chars: "c \<in> set (show_nat n) \<Longrightarrow> 48 \<le> (of_char c :: nat) \<and> (of_char c :: nat) \<le> 57"
proof (induction n rule: show_nat.induct)
  case (1 n)
  show ?case
  proof (cases "n < 10")
    case True
    with 1(2) show ?thesis by (simp add: show_nat.simps [of n])
  next
    case False
    with 1 have "c \<in> set (show_nat (n div 10)) \<or> c = char_of (48 + n mod 10)" by (auto simp: show_nat.simps [of n])
    with 1(1) False show ?thesis by (auto simp: add.commute)
  qed
qed

text \<open>A printed number reads back.\<close>

lemma parse_show_nat: "n < bound \<Longrightarrow> parse_unsigned bound (show_nat n) = Some n"
proof -
  assume n: "n < bound"
  have "show_nat n \<noteq> []" by (subst show_nat.simps) simp
  then obtain c r where c: "show_nat n = c # r" by (cases "show_nat n") auto
  moreover have "c \<noteq> CHR ''+''" using show_nat_chars [of c n] c by auto
  moreover have "list_all (\<lambda>c. 48 \<le> (of_char c :: nat) \<and> (of_char c :: nat) \<le> 57) (c # r)"
    using show_nat_chars [of _ n] c by (auto simp: list_all_iff)
  moreover have "read_nat (c # r) = n" using read_show_nat [of n] c by simp
  ultimately show ?thesis using n by (simp add: parse_unsigned_def)
qed

text \<open>The process environment is an argument; the errors of both parsers end the start-up.\<close>

definition config_from_env :: "libs \<Rightarrow> (string \<Rightarrow> string option) \<Rightarrow> server_config option" where
  "config_from_env L env =
     (let host = (case env ''SERVER_HOST'' of Some h \<Rightarrow> h | None \<Rightarrow> ''0.0.0.0'') in
      Option.bind (parse_unsigned 65536 (case env ''SERVER_PORT'' of Some p \<Rightarrow> p | None \<Rightarrow> ''3000'')) (\<lambda>port.
      Option.bind (url_parse L (case env ''EXTERNAL_URL'' of Some u \<Rightarrow> u | None \<Rightarrow> ''http://localhost:'' @ show_nat port)) (\<lambda>external_url.
      Some \<lparr> sf_host = host, sf_port = port, sf_external_url = external_url,
        sf_issuer_name = (case env ''CREDENTIAL_ISSUER_NAME'' of Some n \<Rightarrow> n | None \<Rightarrow> ''OID4VC-RS Development Issuer''),
        sf_p256_key_path = env ''ISSUER_KEY_P256_PEM'', sf_ed25519_key_path = env ''ISSUER_KEY_ED25519_PEM'',
        sf_cert_path = env ''ISSUER_CERT_PEM'', sf_trust_anchor_path = env ''ISSUER_TRUST_ANCHOR_PEM'',
        sf_client_attester_jwks_path = env ''CLIENT_ATTESTER_JWKS'',
        sf_admin_token = (case env ''ADMIN_API_TOKEN'' of Some t \<Rightarrow> if t \<noteq> [] then Some t else None | None \<Rightarrow> None) \<rparr>)))"

text \<open>The default configuration, whose URL parses or the process panics (\<open>None\<close>).\<close>

definition config_default :: "libs \<Rightarrow> server_config option" where
  "config_default L =
     Option.bind (url_parse L ''http://localhost:3000'') (\<lambda>external_url.
     Some \<lparr> sf_host = ''127.0.0.1'', sf_port = 3000, sf_external_url = external_url,
       sf_issuer_name = ''OID4VC-RS Development Issuer'', sf_p256_key_path = None, sf_ed25519_key_path = None,
       sf_cert_path = None, sf_trust_anchor_path = None, sf_client_attester_jwks_path = None, sf_admin_token = None \<rparr>)"

definition config_issuer_id :: "server_config \<Rightarrow> string" where
  "config_issuer_id config = trim_end_matches (CHR ''/'') (sf_external_url config)"

section \<open>Start-up\<close>

text \<open>Fixed for the life of the process.\<close>

record server =
  sv_metadata :: credential_issuer_metadata
  sv_primary_key :: key_pair
  sv_secondary_key :: key_pair
  sv_pki :: issuer_pki
  sv_external_url :: url
  sv_issuer_id :: string
  sv_admin_token :: string
  sv_client_attesters :: "jwk list"

record app_state = issuer_state +
  ap_sessions :: "(string \<rightharpoonup> verifier_session) mutex"
  ap_state_to_id :: "(string \<rightharpoonup> string) mutex"
  ap_status :: status_manager

text \<open>The token of the configuration, or a UUID for this process.\<close>

definition admin_token_of :: "server_config \<Rightarrow> ('x env_scheme, 'e, string) prog" where
  "admin_token_of config = (case sf_admin_token config of Some t \<Rightarrow> ret t | None \<Rightarrow> new_uuid)"

text \<open>\<open>AppState::new\<close> once the keys, the certificates and the attesters are loaded and the metadata is built.\<close>

definition metadata_config_new :: "server_config \<Rightarrow> metadata_config" where
  "metadata_config_new config = \<lparr> mf_issuer_url = sf_external_url config, mf_issuer_name = sf_issuer_name config \<rparr>"

definition server_new ::
    "credential_issuer_metadata \<Rightarrow> server_config \<Rightarrow> key_pair \<Rightarrow> key_pair \<Rightarrow> issuer_pki \<Rightarrow> jwk list \<Rightarrow> string \<Rightarrow> server" where
  "server_new metadata config p256 ed25519 pki attesters admin_token =
     \<lparr> sv_metadata = metadata,
       sv_primary_key = p256, sv_secondary_key = ed25519, sv_pki = pki, sv_external_url = sf_external_url config,
       sv_issuer_id = config_issuer_id config,
       sv_admin_token = admin_token,
       sv_client_attesters = attesters \<rparr>"

definition app_state_new :: "server_config \<Rightarrow> env \<Rightarrow> app_state" where
  "app_state_new config e = issuer_state.extend (issuer_state_new e)
     (app_state.fields (Unlocked Map.empty) (Unlocked Map.empty) (manager_new (sf_external_url config)))"

text \<open>\<open>None\<close> where the \<open>expect\<close> panics.\<close>

definition url_for :: "libs \<Rightarrow> server \<Rightarrow> string \<Rightarrow> url option" where
  "url_for L sv path = url_join L (sv_external_url sv) path"

section \<open>Running on a part of the state\<close>

definition verifier_part :: "'x app_state_scheme \<Rightarrow> verifier_state" where
  "verifier_part s = env.extend (env.truncate s) (verifier_state.fields (ap_sessions s) (ap_state_to_id s))"

definition put_verifier :: "verifier_state \<Rightarrow> 'x app_state_scheme \<Rightarrow> 'x app_state_scheme" where
  "put_verifier v s = s\<lparr>clock_reads := clock_reads v, uuids_used := uuids_used v, salts_used := salts_used v,
     draws_used := draws_used v, ap_sessions := vr_sessions v, ap_state_to_id := vr_state_to_id v\<rparr>"

definition on_verifier :: "(verifier_state, 'e, 'a) prog \<Rightarrow> ('x app_state_scheme, 'e, 'a) prog" where
  "on_verifier m = (\<lambda>s. case m (verifier_part s) of (r, v) \<Rightarrow> (r, put_verifier v s))"

definition on_status :: "(status_manager, 'e, 'a) prog \<Rightarrow> ('x app_state_scheme, 'e, 'a) prog" where
  "on_status m = (\<lambda>s. case m (ap_status s) of (r, sm) \<Rightarrow> (r, s\<lparr>ap_status := sm\<rparr>))"

text \<open>An allocation draws from the application's random source.\<close>

definition on_draws ::
    "((nat \<Rightarrow> nat) \<Rightarrow> nat \<Rightarrow> status_manager \<Rightarrow> ((manager_error + 'a) \<times> status_manager \<times> nat) option) \<Rightarrow>
       ('x app_state_scheme, manager_error option, 'a) prog" where
  "on_draws m = (\<lambda>s.
     case m (draw_at s) (draws_used s) (ap_status s) of
       None \<Rightarrow> (Inl None, s)
     | Some (r, sm, pos) \<Rightarrow> (map_err Some r, s\<lparr>ap_status := sm, draws_used := pos\<rparr>))"

definition manager_error_to_string :: "manager_error \<Rightarrow> string" where
  "manager_error_to_string e =
     (case e of
        ListNotFound l \<Rightarrow> ''status list not found: '' @ l
      | ListError m \<Rightarrow> ''status list error: '' @ m
      | NoAvailableIndex \<Rightarrow> ''no available index''
      | ManagerLockPoisoned \<Rightarrow> ''lock poisoned''
      | ManagerPanic \<Rightarrow> [])"

text \<open>The functions of other crates that the handlers use.\<close>

record platform =
  pf_libs :: libs
  pf_web :: web_libs
  pf_mdoc :: mdoc_libs
  pf_nonce_order :: "string list \<Rightarrow> string list"
  pf_claim_order :: "(string \<times> json) list \<Rightarrow> (string \<times> json) list"

lemma verifier_part_fields [simp]:
  "vr_sessions (verifier_part s) = ap_sessions s" "vr_state_to_id (verifier_part s) = ap_state_to_id s"
  "clock_at (verifier_part s) = clock_at s" "clock_reads (verifier_part s) = clock_reads s"
  "uuid_at (verifier_part s) = uuid_at s" "uuids_used (verifier_part s) = uuids_used s"
  by (simp_all add: verifier_part_def env.defs verifier_state.defs)

lemma on_verifier_Inr: "on_verifier m s = (r, s') \<longleftrightarrow> (\<exists>v. m (verifier_part s) = (r, v) \<and> s' = put_verifier v s)"
  by (auto simp: on_verifier_def split: prod.split)

lemma on_status_Inr: "on_status m s = (r, s') \<longleftrightarrow> (\<exists>sm. m (ap_status s) = (r, sm) \<and> s' = s\<lparr>ap_status := sm\<rparr>)"
  by (auto simp: on_status_def split: prod.split)

end
