(* ===== verification/Issuer_Routes.thy ===== *)
theory Issuer_Routes
  imports App_State
begin

text \<open>
  The handlers of crates/server/src/routes/issuer.rs: client attestation and DPoP headers, the
  authorization of protected resources, pushed requests, consent, tokens, nonces, credentials and
  offers. A handler ends with a response (\<open>Inr\<close>) or returns early with one (\<open>Respond\<close>);
  \<open>finish\<close> gives the response in both cases.
\<close>

section \<open>Client authentication and DPoP\<close>

definition invalid_client :: "string \<Rightarrow> payload response" where
  "invalid_client description = json_error 401 ''invalid_client'' description"

definition attested_client_of ::
    "platform \<Rightarrow> server \<Rightarrow> headers \<Rightarrow> ('x app_state_scheme, exit, attested_client option) prog" where
  "attested_client_of P sv hs =
     (case (header_str (pf_web P) hs ''oauth-client-attestation'', header_str (pf_web P) hs ''oauth-client-attestation-pop'') of
        (None, None) \<Rightarrow> ret None
      | (Some attestation, Some pop) \<Rightarrow>
          bindP (errP (\<lambda>e. if e = AttestationPanic then Crash HandlerPanics
                           else Respond (invalid_client (attestation_error_to_string e)))
                   (verify_client_attestation (pf_libs P) attestation pop (sv_client_attesters sv) (sv_issuer_id sv)))
            (\<lambda>client. ret (Some client))
      | _ \<Rightarrow> liftR (Inl (Respond (invalid_client
               ''OAuth-Client-Attestation and OAuth-Client-Attestation-PoP must be sent together''))))"

text \<open>The error is the description for the response, or \<open>None\<close> for a panic.\<close>

definition dpop_jkt_of ::
    "platform \<Rightarrow> server \<Rightarrow> headers \<Rightarrow> string \<Rightarrow> string option \<Rightarrow> ('x app_state_scheme, string option, string option) prog" where
  "dpop_jkt_of P sv hs path access_token =
     (case header_get_all hs ''dpop'' of
        [] \<Rightarrow> ret None
      | [v] \<Rightarrow>
          bindP (liftR (map_err Some (w_to_str (pf_web P) v))) (\<lambda>proof.
          bindP (liftR (ok_or None (url_for (pf_libs P) sv path))) (\<lambda>htu.
          bindP (errP (\<lambda>e. if e = DpopPanic then None else Some (dpop_error_to_string e))
                   (verify_dpop_proof (pf_libs P) proof
                     \<lparr> dc_htm = ''POST'', dc_htu = htu, dc_access_token = access_token \<rparr>)) (\<lambda>jkt.
          ret (Some jkt))))
      | _ \<Rightarrow> liftR (Inl (Some ''more than one DPoP header'')))"

definition unauthorized :: "web_libs \<Rightarrow> string \<Rightarrow> string \<Rightarrow> string \<Rightarrow> exit" where
  "unauthorized W scheme code description =
     (let response = json_error 401 code description;
          challenge = scheme @ '' '' @ attribute ''error'' code @ '', '' @ attribute ''algs'' ''ES256 EdDSA''
      in Respond (case w_header_value W challenge of
           Some v \<Rightarrow> set_header ''www-authenticate'' v response
         | None \<Rightarrow> response))"

definition check_binding ::
    "platform \<Rightarrow> server \<Rightarrow> headers \<Rightarrow> string \<Rightarrow> string \<Rightarrow> string option \<Rightarrow> bool \<Rightarrow> ('x app_state_scheme, exit, unit) prog" where
  "check_binding P sv hs path token bound is_dpop =
     (case (bound, is_dpop) of
        (Some jkt', True) \<Rightarrow>
          bindP (errP (or_crash (unauthorized (pf_web P) ''DPoP'' ''invalid_dpop_proof''))
                   (dpop_jkt_of P sv hs path (Some token))) (\<lambda>found.
          bindP (liftR (ok_or (unauthorized (pf_web P) ''DPoP'' ''invalid_dpop_proof'' ''DPoP proof required'') found)) (\<lambda>jkt.
          liftR (ensure (jkt = jkt')
            (unauthorized (pf_web P) ''DPoP'' ''invalid_dpop_proof'' ''DPoP key does not match the access token''))))
      | (Some _, False) \<Rightarrow> liftR (Inl (unauthorized (pf_web P) ''DPoP'' ''invalid_token''
            ''this access token is DPoP-bound; use the DPoP scheme''))
      | (None, True) \<Rightarrow> liftR (Inl (unauthorized (pf_web P) ''Bearer'' ''invalid_token''
            ''this access token is not DPoP-bound''))
      | (None, False) \<Rightarrow> ret ())"

text \<open>The scheme and the token of the \<open>Authorization\<close> header.\<close>

definition authorization_header :: "web_libs \<Rightarrow> headers \<Rightarrow> string \<times> string" where
  "authorization_header W hs =
     (let authorization = (case header_str W hs ''authorization'' of Some v \<Rightarrow> v | None \<Rightarrow> []);
          (scheme, token) = (case split_once (CHR '' '') authorization of Some p \<Rightarrow> p | None \<Rightarrow> ([], []))
      in (scheme, trim_str token))"

definition authorize_resource ::
    "platform \<Rightarrow> server \<Rightarrow> headers \<Rightarrow> string \<Rightarrow> ('x app_state_scheme, exit, string) prog" where
  "authorize_resource P sv hs path =
     (let (scheme, token) = authorization_header (pf_web P) hs; is_dpop = eq_ignore_ascii_case scheme ''DPoP''
      in bindP (liftR (ensure (token \<noteq> [] \<and> (is_dpop \<or> eq_ignore_ascii_case scheme ''Bearer''))
                  (unauthorized (pf_web P) ''DPoP'' ''invalid_token'' ''missing access token''))) (\<lambda>_.
         bindP (errP (\<lambda>e. Respond (server_error (state_error_to_string e))) (get_access_grant token)) (\<lambda>found.
         bindP (liftR (ok_or (unauthorized (pf_web P) ''DPoP'' ''invalid_token'' ''unknown or expired access token'') found)) (\<lambda>grant.
         bindP (check_binding P sv hs path token (gt_dpop_jkt grant) is_dpop) (\<lambda>_.
         ret token)))))"

section \<open>Authorization\<close>

definition par_error_code :: "authorization_error \<Rightarrow> string" where
  "par_error_code e =
     (case e of
        InvalidScope \<Rightarrow> ''invalid_scope''
      | UnsupportedResponseType _ \<Rightarrow> ''unsupported_response_type''
      | InvalidAuthorizationDetails _ \<Rightarrow> ''invalid_authorization_details''
      | DpopJktMismatch \<Rightarrow> ''invalid_dpop_proof''
      | _ \<Rightarrow> ''invalid_request'')"

definition par_endpoint ::
    "platform \<Rightarrow> server \<Rightarrow> headers \<Rightarrow> pushed_authorization_request \<Rightarrow> ('x app_state_scheme, crash, payload response) prog" where
  "par_endpoint P sv hs request = finish (
     bindP (attested_client_of P sv hs) (\<lambda>found.
     bindP (liftR (ok_or (Respond (invalid_client ''client attestation is required'')) found)) (\<lambda>client.
     bindP (errP (or_crash (\<lambda>e. Respond (json_error 400 ''invalid_dpop_proof'' e)))
              (dpop_jkt_of P sv hs ''/authorize/par'' None)) (\<lambda>jkt.
     bindP (errP (\<lambda>e. Respond (json_error 400 (par_error_code e) (authorization_error_to_string e)))
              (process_par request \<lparr> pc_client_id = ac_client_id client, pc_dpop_jkt = jkt \<rparr> (sv_metadata sv))) (\<lambda>response.
     ret (no_store ((json_ok (ParReply response))\<lparr>rs_status := 201\<rparr>)))))))"

datatype request_uri_error = UriPage string | UriRedirect authorization_session string

definition resolve_request_uri ::
    "string option \<Rightarrow> string option \<Rightarrow> ('x issuer_state_scheme, request_uri_error, authorization_session) prog" where
  "resolve_request_uri request_uri client_id =
     bindP (liftR (ok_or (UriPage ''request_uri is required: this server only accepts pushed requests'') request_uri)) (\<lambda>uri.
     bindP (errP (\<lambda>_. UriPage ''unknown request_uri'') (get_authorization_session uri)) (\<lambda>found.
     bindP (liftR (ok_or (UriPage ''unknown request_uri'') found)) (\<lambda>session.
     bindP (liftR (ensure (client_id = Some (sn_client_id session)) (UriPage ''request_uri was not issued to this client_id''))) (\<lambda>_.
     bindP utc_now (\<lambda>now.
     bindP (liftR (ensure (num_milliseconds (now - sn_created_at session) < REQUEST_URI_TTL_SECS * 1000)
              (UriRedirect session ''request_uri has expired''))) (\<lambda>_.
     bindP (liftR (ensure (sn_authorization_code session = None)
              (UriRedirect session ''request_uri has already been used''))) (\<lambda>_.
     ret session)))))))"

text \<open>What every redirect ends with.\<close>

definition state_and_iss :: "server \<Rightarrow> authorization_session \<Rightarrow> (string \<times> string) list" where
  "state_and_iss sv session =
     (case sn_client_state session of Some st \<Rightarrow> [(''state'', st)] | None \<Rightarrow> []) @ [(''iss'', sv_issuer_id sv)]"

definition request_uri_error :: "platform \<Rightarrow> server \<Rightarrow> request_uri_error \<Rightarrow> payload response" where
  "request_uri_error P sv e =
     (case e of
        UriPage reason \<Rightarrow> error_page ''invalid_request_uri'' reason
      | UriRedirect session reason \<Rightarrow>
          (case url_parse (pf_libs P) (sn_redirect_uri session) of
             None \<Rightarrow> error_page ''invalid_request_uri'' reason
           | Some redirect \<Rightarrow> redirect_to (w_append_pairs (pf_web P) redirect
               ([(''error'', ''invalid_request_uri''), (''error_description'', reason)] @ state_and_iss sv session))))"

definition authorize_endpoint ::
    "platform \<Rightarrow> server \<Rightarrow> string option \<Rightarrow> string option \<Rightarrow> ('x app_state_scheme, crash, payload response) prog" where
  "authorize_endpoint P sv request_uri client_id = finish (
     bindP (errP (\<lambda>e. Respond (request_uri_error P sv e)) (resolve_request_uri request_uri client_id)) (\<lambda>session.
     ret \<lparr> rs_status = 200, rs_headers = [],
       rs_body = HtmlBody (consent_page (sn_client_id session) (sn_request_uri session) (sn_configuration_ids session)) \<rparr>))"

record consent_decision =
  cd_request_uri :: string
  cd_client_id :: string
  cd_decision :: string

definition authorize_decision ::
    "platform \<Rightarrow> server \<Rightarrow> consent_decision \<Rightarrow> ('x app_state_scheme, crash, payload response) prog" where
  "authorize_decision P sv d = finish (
     bindP (errP (\<lambda>e. Respond (request_uri_error P sv e))
              (resolve_request_uri (Some (cd_request_uri d)) (Some (cd_client_id d)))) (\<lambda>session.
     bindP (liftR (ok_or (Respond (error_page ''invalid_request'' ''stored redirect_uri is not a valid URL''))
              (url_parse (pf_libs P) (sn_redirect_uri session)))) (\<lambda>redirect.
     bindP (if cd_decision d = ''approve''
            then bindP (errP (\<lambda>e. Respond (error_page ''server_error'' (authorization_error_to_string e)))
                          (generate_authorization_code (sn_request_uri session))) (\<lambda>code. ret [(''code'', code)])
            else ret [(''error'', ''access_denied''), (''error_description'', ''The user denied the request'')]) (\<lambda>pairs.
     ret (redirect_to (w_append_pairs (pf_web P) redirect (pairs @ state_and_iss sv session)))))))"

section \<open>Tokens, nonces and credentials\<close>

definition token_exit :: "token_error \<Rightarrow> exit" where
  "token_exit e =
     (if e = TokenPanic then Crash HandlerPanics
      else let (n, code) = token_status_and_code e;
               status = (case status_from_u16 n of Some st \<Rightarrow> st | None \<Rightarrow> 400)
           in Respond (json_error status code (token_error_to_string e)))"

definition token_endpoint ::
    "platform \<Rightarrow> server \<Rightarrow> headers \<Rightarrow> token_request \<Rightarrow> ('x app_state_scheme, crash, payload response) prog" where
  "token_endpoint P sv hs request = finish (
     bindP (attested_client_of P sv hs) (\<lambda>client.
     bindP (errP (or_crash (\<lambda>e. Respond (json_error 400 ''invalid_dpop_proof'' e)))
              (dpop_jkt_of P sv hs ''/token'' None)) (\<lambda>jkt.
     bindP (errP token_exit (process_token_request (pf_libs P) request
                 \<lparr> tc_authenticated_client = map_option ac_client_id client, tc_dpop_jkt = jkt \<rparr>)) (\<lambda>response.
     ret (no_store (json_ok (TokenReply response)))))))"

definition C_NONCE_TTL_SECS :: nat where
  "C_NONCE_TTL_SECS = 300"

definition nonce_endpoint :: "('x app_state_scheme, crash, payload response) prog" where
  "nonce_endpoint = finish (
     bindP new_uuid (\<lambda>c_nonce.
     bindP (errP (\<lambda>e. Respond (server_error (state_error_to_string e))) (store_c_nonce c_nonce C_NONCE_TTL_SECS)) (\<lambda>_.
     ret (no_store (json_ok (NonceReply \<lparr> nr_c_nonce = c_nonce \<rparr>))))))"

text \<open>How an allocation of the status manager fails inside a closure.\<close>

definition closure_failure :: "string \<Rightarrow> manager_error option \<Rightarrow> closure_error" where
  "closure_failure what e =
     (case e of
        None \<Rightarrow> NeverReturned
      | Some ManagerPanic \<Rightarrow> Panicked
      | Some e \<Rightarrow> closure_error.Refused (what @ manager_error_to_string e))"

text \<open>The closures capture the URIs of the lists.\<close>

definition allocate_status :: "platform \<Rightarrow> url \<Rightarrow> ('x app_state_scheme, closure_error, json option) prog" where
  "allocate_status P status_uri =
     bindP (errP (closure_failure ''could not allocate a credential status entry: '')
              (on_draws (allocate_entry (pf_libs P) Revocation))) (\<lambda>entry.
     let idx = (case parse_unsigned 18446744073709551616 (se_list_index entry) of Some n \<Rightarrow> n | None \<Rightarrow> 0)
     in ret (Some (JObj [(''status_list'', JObj [(''idx'', JInt (int idx)), (''uri'', JStr status_uri)])])))"

definition MDOC_STATUS_PATH :: string where
  "MDOC_STATUS_PATH = ''/status/mdoc''"

definition allocate_mdoc_status :: "url \<Rightarrow> ('x app_state_scheme, closure_error, status_list_ref option) prog" where
  "allocate_mdoc_status mdoc_status_uri =
     bindP (errP (closure_failure ''could not allocate an mdoc status entry: '') (on_draws allocate_mdoc_index)) (\<lambda>idx.
     ret (Some \<lparr> sr_idx = idx, sr_uri = mdoc_status_uri \<rparr>))"

text \<open>\<open>None\<close> when a URI cannot be built.\<close>

definition issuance_context_of :: "platform \<Rightarrow> server \<Rightarrow> 'x app_state_scheme issuance_context option" where
  "issuance_context_of P sv =
     Option.bind (url_for (pf_libs P) sv ''/status/revocation/token'') (\<lambda>status_uri.
     Option.bind (url_for (pf_libs P) sv MDOC_STATUS_PATH) (\<lambda>mdoc_status_uri.
     Some \<lparr> ict_issuer_key = sv_primary_key sv, ict_issuer_url = sv_issuer_id sv, ict_metadata = sv_metadata sv,
       ict_allocate_status = allocate_status P status_uri,
       ict_x5c = Some (certificate_x5c (ml_x509 (pf_mdoc P)) (pki_leaf (sv_pki sv))),
       ict_mdoc = Some \<lparr> ms_certificate = pki_mdoc_signer (sv_pki sv), ms_allocate_status = allocate_mdoc_status mdoc_status_uri \<rparr>,
       ict_mdoc_libs = pf_mdoc P, ict_nonce_order = pf_nonce_order P, ict_claim_order = pf_claim_order P \<rparr>))"

definition credential_exit :: "credential_error \<Rightarrow> exit" where
  "credential_exit e =
     (case e of
        IssuancePanic \<Rightarrow> Crash HandlerPanics
      | IssuanceNeverReturns \<Rightarrow> Crash HandlerHangs
      | _ \<Rightarrow>
          let status = (case e of InvalidAccessToken \<Rightarrow> 401 | IssuanceError _ \<Rightarrow> 500 | CredentialStateError _ \<Rightarrow> 500 | _ \<Rightarrow> 400)
          in Respond (json_error status (credential_error_code e) (credential_error_to_string e)))"

definition credential_endpoint ::
    "platform \<Rightarrow> server \<Rightarrow> headers \<Rightarrow> credential_request \<Rightarrow> ('x app_state_scheme, crash, payload response) prog" where
  "credential_endpoint P sv hs request = finish (
     bindP (authorize_resource P sv hs ''/credential'') (\<lambda>access_token.
     bindP (liftR (ok_or (Crash HandlerPanics) (issuance_context_of P sv))) (\<lambda>ctx.
     bindP (errP credential_exit (process_credential_request (pf_libs P) request access_token ctx)) (\<lambda>response.
     ret (json_ok (CredentialReply response))))))"

definition credential_offer_endpoint ::
    "platform \<Rightarrow> server \<Rightarrow> string option \<Rightarrow> ('x app_state_scheme, crash, payload response) prog" where
  "credential_offer_endpoint P sv requested = finish (
     let config_id = (case requested of Some i \<Rightarrow> i | None \<Rightarrow> ''IdentityCredential_SD_JWT_VC'');
         params = \<lparr> op_configuration_ids = [config_id], op_use_authorization_code = True,
           op_use_pre_authorized_code = True, op_require_tx_code = False \<rparr>
     in bindP (liftR (ensure (contains_key config_id (im_configurations (sv_metadata sv)))
                 (Respond (json_error 400 ''invalid_request'' (''unknown credential configuration: '' @ config_id))))) (\<lambda>_.
        bindP (create_offer (sv_external_url sv) params) (\<lambda>(offer, pre_auth_code).
        bindP (case pre_auth_code of
                 Some code \<Rightarrow> errP (\<lambda>e. Respond (server_error (state_error_to_string e)))
                   (store_pre_authorized_code code None (op_configuration_ids params))
               | None \<Rightarrow> ret ()) (\<lambda>_.
        ret (json_ok (JsonReply (JObj [(''credential_offer'', offer_to_json offer),
          (''credential_offer_uri'', JStr (encode_offer_uri (pf_libs P) offer))])))))))"

end
