(* ===== verification/Status_Routes.thy ===== *)
theory Status_Routes
  imports Issuer_Routes
begin

text \<open>
  The handlers of crates/server/src/routes/status.rs: the published status lists, the certificate
  revocation list, and the administration of statuses behind a bearer token. The index that a
  credential carries is followed from its allocation to the list in which a verifier looks it up.
\<close>

section \<open>Publication\<close>

definition read_status :: "(status_manager \<Rightarrow> manager_error + 'a) \<Rightarrow> ('x app_state_scheme, manager_error, 'a) prog" where
  "read_status f = (\<lambda>s. (f (ap_status s), s))"

definition manager_exit :: "nat \<Rightarrow> string \<Rightarrow> manager_error \<Rightarrow> exit" where
  "manager_exit status code e =
     (if e = ManagerPanic then Crash HandlerPanics else Respond (json_error status code (manager_error_to_string e)))"

definition get_status_list :: "platform \<Rightarrow> server \<Rightarrow> string \<Rightarrow> ('x app_state_scheme, crash, payload response) prog" where
  "get_status_list P sv i = finish (
     bindP utc_now (\<lambda>now.
     bindP (errP (manager_exit 404 ''not_found'')
              (on_status (build_status_list_credential (pf_libs P) i (sv_external_url sv) now))) (\<lambda>credential.
     ret (json_ok (StatusListReply credential)))))"

definition STATUS_LIST_TTL_SECS :: int where
  "STATUS_LIST_TTL_SECS = 300"

definition published_to_json :: "published_token_list \<Rightarrow> json" where
  "published_to_json list = JObj [(''bits'', JInt (int (pt_bits list))), (''lst'', JStr (pt_lst list))]"

definition status_list_claims :: "server \<Rightarrow> url \<Rightarrow> published_token_list \<Rightarrow> int \<Rightarrow> json" where
  "status_list_claims sv uri list now =
     JObj [(''exp'', JInt (now + 24 * 3600)), (''iat'', JInt now), (''iss'', JStr (sv_issuer_id sv)),
       (''status_list'', published_to_json list),
       (''sub'', JStr uri), (''ttl'', JInt STATUS_LIST_TTL_SECS)]"

definition status_list_header :: "platform \<Rightarrow> server \<Rightarrow> jws_header" where
  "status_list_header P sv = (build_header (sv_primary_key sv) (Some ''statuslist+jwt''))
     \<lparr>h_x5c := Some (certificate_x5c (ml_x509 (pf_mdoc P)) (pki_leaf (sv_pki sv)))\<rparr>"

definition typed_ok :: "string \<Rightarrow> bytes \<Rightarrow> payload response" where
  "typed_ok content_type body = \<lparr> rs_status = 200, rs_headers = [(''content-type'', content_type)], rs_body = TextBody body \<rparr>"

definition get_token_status_list :: "platform \<Rightarrow> server \<Rightarrow> string \<Rightarrow> ('x app_state_scheme, crash, payload response) prog" where
  "get_token_status_list P sv i = finish (
     bindP (errP (manager_exit 404 ''not_found'') (read_status (build_token_status_list (pf_libs P) i))) (\<lambda>list.
     bindP utc_now (\<lambda>t.
     bindP (liftR (ok_or (Crash HandlerPanics) (url_for (pf_libs P) sv (''/status/'' @ i @ ''/token'')))) (\<lambda>uri.
     bindP (errP (\<lambda>e. Respond (server_error (jws_error_to_string e)))
              (liftR (sign_compact (pf_libs P) (sv_primary_key sv) (status_list_header P sv)
                 (status_list_claims sv uri list (timestamp t))))) (\<lambda>jwt.
     ret (typed_ok ''application/statuslist+jwt'' jwt))))))"

definition get_mdoc_status_list :: "platform \<Rightarrow> server \<Rightarrow> ('x app_state_scheme, crash, payload response) prog" where
  "get_mdoc_status_list P sv = finish (
     bindP (errP (manager_exit 500 ''server_error'') (read_status (mdoc_status_list (pf_libs P)))) (\<lambda>(bits, lst).
     bindP utc_now (\<lambda>now.
     bindP (liftR (ok_or (Crash HandlerPanics) (url_for (pf_libs P) sv MDOC_STATUS_PATH))) (\<lambda>uri.
     bindP (liftR (ok_or (Crash HandlerPanics) (date_plus now (24 * 3600 * second)))) (\<lambda>expires.
     bindP (errP (\<lambda>e. Respond (server_error (mdoc_error_to_string e)))
              (liftR (sign_status_list_cwt (ml_cbor (pf_mdoc P))
                 \<lparr> sl_uri = uri, sl_cwt_bits = bits, sl_lst = lst, sl_iat = now,
                   sl_exp = expires, sl_ttl = Some (nat STATUS_LIST_TTL_SECS),
                   sl_x5chain = [xc_der (pki_mdoc_status_signer (sv_pki sv))] \<rparr> (sv_primary_key sv)))) (\<lambda>token.
     ret (typed_ok STATUS_LIST_CWT_TYPE token)))))))"

definition get_crl :: "server \<Rightarrow> payload response" where
  "get_crl sv = typed_ok ''application/pkix-crl'' (pki_crl (sv_pki sv))"

section \<open>Administration\<close>

record status_update_request =
  su_index :: nat
  su_format :: "string option"

definition is_mdoc :: "status_update_request \<Rightarrow> bool" where
  "is_mdoc r \<longleftrightarrow> su_format r = Some ''mso_mdoc''"

definition reject_mdoc_suspension :: "payload response" where
  "reject_mdoc_suspension = json_error 400 ''invalid_request''
     ''an mdoc can be revoked but not suspended: its revocation list has one bit per mdoc''"

text \<open>The comparison of the tokens looks at every byte.\<close>

definition same_bytes :: "bytes \<Rightarrow> bytes \<Rightarrow> bool" where
  "same_bytes a b \<longleftrightarrow> length a = length b \<and>
     foldl (\<lambda>acc (x, y). or acc (xor (char_byte x) (char_byte y))) 0 (zip a b) = 0"

definition reject_unauthorized_admin :: "platform \<Rightarrow> server \<Rightarrow> headers \<Rightarrow> payload response option" where
  "reject_unauthorized_admin P sv hs =
     (let presented = (case Option.bind (header_str (pf_web P) hs ''authorization'') (strip_prefix ''Bearer '') of
              Some t \<Rightarrow> t | None \<Rightarrow> [])
      in if same_bytes presented (sv_admin_token sv) then None
         else Some (json_error 401 ''invalid_token'' ''admin endpoints require a valid Bearer token''))"

definition admin_only :: "platform \<Rightarrow> server \<Rightarrow> headers \<Rightarrow> ('s, exit, unit) prog" where
  "admin_only P sv hs = liftR (case reject_unauthorized_admin P sv hs of Some r \<Rightarrow> Inl (Respond r) | None \<Rightarrow> Inr ())"

definition status_reply :: "string \<Rightarrow> nat \<Rightarrow> payload response" where
  "status_reply status index = json_ok (JsonReply (JObj [(''index'', JInt (int index)), (''status'', JStr status)]))"

definition revoke_credential ::
    "platform \<Rightarrow> server \<Rightarrow> headers \<Rightarrow> status_update_request \<Rightarrow> ('x app_state_scheme, crash, payload response) prog" where
  "revoke_credential P sv hs request = finish (
     bindP (admin_only P sv hs) (\<lambda>_.
     bindP (errP (manager_exit 400 ''invalid_request'')
              (on_status (if is_mdoc request then revoke_mdoc (su_index request) else revoke (su_index request)))) (\<lambda>_.
     ret (status_reply ''revoked'' (su_index request)))))"

definition suspend_credential ::
    "platform \<Rightarrow> server \<Rightarrow> headers \<Rightarrow> status_update_request \<Rightarrow> ('x app_state_scheme, crash, payload response) prog" where
  "suspend_credential P sv hs request = finish (
     bindP (admin_only P sv hs) (\<lambda>_.
     bindP (liftR (ensure (\<not> is_mdoc request) (Respond reject_mdoc_suspension))) (\<lambda>_.
     bindP (errP (manager_exit 400 ''invalid_request'') (on_status (suspend (su_index request)))) (\<lambda>_.
     ret (status_reply ''suspended'' (su_index request))))))"

definition reinstate_credential ::
    "platform \<Rightarrow> server \<Rightarrow> headers \<Rightarrow> status_update_request \<Rightarrow> ('x app_state_scheme, crash, payload response) prog" where
  "reinstate_credential P sv hs request = finish (
     bindP (admin_only P sv hs) (\<lambda>_.
     bindP (liftR (ensure (\<not> is_mdoc request) (Respond reject_mdoc_suspension))) (\<lambda>_.
     bindP (errP (manager_exit 400 ''invalid_request'') (on_status (reinstate (su_index request)))) (\<lambda>_.
     ret (status_reply ''reinstated'' (su_index request))))))"

section \<open>The admin token\<close>

lemma fold_or_zero: "foldl (\<lambda>acc p. or acc (f p)) (a :: u8) ps = 0 \<longleftrightarrow> a = 0 \<and> (\<forall>p\<in>set ps. f p = 0)"
  by (induction ps arbitrary: a) (auto simp: or_eq_0_iff)

lemma xor_zero: "xor (x :: u8) y = 0 \<longleftrightarrow> x = y"
proof
  assume "xor x y = 0"
  then have "bit (xor x y) n = bit (0 :: u8) n" for n by simp
  then show "x = y" by (intro bit_eqI) (simp add: bit_simps)
qed simp

lemma same_bytes_iff: "same_bytes a b \<longleftrightarrow> a = b"
proof -
  have "(\<forall>p\<in>set (zip a b). char_byte (fst p) = char_byte (snd p)) \<longleftrightarrow> a = b" if "length a = length b"
    using that
    by (induction a b rule: list_induct2) (auto, metis byte_char_byte)
  then show ?thesis by (auto simp: same_bytes_def split_def fold_or_zero xor_zero)
qed

lemma strip_prefix_Some: "strip_prefix p s = Some r \<longleftrightarrow> s = p @ r"
  by (auto simp: strip_prefix_def starts_with_def) (metis append_take_drop_id)

lemma admin_authorized_iff:
  assumes "sv_admin_token sv \<noteq> []"
  shows "reject_unauthorized_admin P sv hs = None \<longleftrightarrow>
     header_str (pf_web P) hs ''authorization'' = Some (''Bearer '' @ sv_admin_token sv)"
proof -
  let ?p = "Option.bind (header_str (pf_web P) hs ''authorization'') (strip_prefix ''Bearer '')"
  have "?p = Some t \<longleftrightarrow> header_str (pf_web P) hs ''authorization'' = Some (''Bearer '' @ t)" for t
    by (simp add: bind_eq_Some_conv strip_prefix_Some del: append.simps)
  with assms show ?thesis
    by (cases ?p) (simp_all add: reject_unauthorized_admin_def Let_def same_bytes_iff del: append.simps)
qed

text \<open>The token that the server starts with is not empty, when no UUID is.\<close>

lemma admin_token_set:
  assumes "config_from_env L env = Some config" and "admin_token_of config s = (Inr t, s')" and "\<And>n. uuid_at s n \<noteq> []"
  shows "sv_admin_token (server_new metadata config p256 ed25519 pki attesters t) \<noteq> []"
proof -
  have "sf_admin_token config \<noteq> Some []"
    using assms(1) unfolding config_from_env_def Let_def bind_eq_Some_conv
    by (elim exE conjE) (drule option.inject [THEN iffD1], drule sym, cases "env ''ADMIN_API_TOKEN''",
      simp_all only: server_config.select_convs option.case option.distinct split: if_split, simp_all)
  with assms(2,3) show ?thesis
    by (cases "sf_admin_token config") (auto simp: server_new_def admin_token_of_def new_uuid_run ret_def)
qed

end
