(* ===== verification/Verifier_Routes.thy ===== *)
theory Verifier_Routes
  imports App_State
begin

text \<open>
  The handlers of crates/server/src/routes/verifier.rs and well_known.rs: starting a presentation,
  serving its request, receiving the wallet's answer, and the metadata documents.
\<close>

section \<open>Presentations\<close>

text \<open>The query for the demo credential.\<close>

definition identity_query :: "server \<Rightarrow> dcql_query" where
  "identity_query sv = builder_build (add_sd_jwt_vc_query builder_new ''identity_credential''
     (sv_issuer_id sv @ ''/credentials/identity'') [(''given_name'', True), (''family_name'', True)])"

definition presentation_params :: "platform \<Rightarrow> server \<Rightarrow> request_params option" where
  "presentation_params P sv =
     Option.bind (url_for (pf_libs P) sv ''/verifier/response'') (\<lambda>response_uri.
     Some \<lparr> qp_client_id = sv_issuer_id sv, qp_response_uri = response_uri,
       qp_dcql_query = Some (identity_query sv), qp_session_expiry_secs = 600 \<rparr>)"

definition request_exit :: "request_error \<Rightarrow> exit" where
  "request_exit e = (case e of RequestPanic \<Rightarrow> Crash HandlerPanics | RequestError m \<Rightarrow> Respond (server_error m))"

definition create_authorization :: "platform \<Rightarrow> server \<Rightarrow> ('x app_state_scheme, crash, payload response) prog" where
  "create_authorization P sv = finish (
     bindP (liftR (ok_or (Crash HandlerPanics) (presentation_params P sv))) (\<lambda>params.
     bindP (errP request_exit (on_verifier (create_authorization_request params))) (\<lambda>(auth_request, session_id).
     bindP (liftR (ok_or (Crash HandlerPanics) (url_for (pf_libs P) sv (''/verifier/request/'' @ session_id)))) (\<lambda>request_uri.
     let L = pf_libs P;
         wallet_uri = ''openid4vp://?client_id='' @ percent_encode L (sv_issuer_id sv) @
           ''&request_uri='' @ percent_encode L request_uri
     in ret (json_ok (JsonReply (JObj [(''authorization_request'', authorization_request_to_json auth_request),
          (''request_uri'', JStr request_uri), (''session_id'', JStr session_id), (''wallet_uri'', JStr wallet_uri)])))))))"

definition get_request :: "platform \<Rightarrow> server \<Rightarrow> string \<Rightarrow> ('x app_state_scheme, crash, payload response) prog" where
  "get_request P sv i = finish (
     bindP (errP (\<lambda>e. Respond (server_error (session_error_to_string e))) (on_verifier (get_session i))) (\<lambda>found.
     bindP (liftR (ok_or (Respond (json_error 404 ''not_found'' ''Session not found'')) found)) (\<lambda>session.
     bindP (liftR (map_err (\<lambda>e. Respond (server_error e))
              (encode_request_as_jwt (pf_libs P) (ve_request session) (sv_primary_key sv)))) (\<lambda>jwt.
     ret \<lparr> rs_status = 200, rs_headers = [(''content-type'', ''application/oauth-authz-req+jwt'')], rs_body = TextBody jwt \<rparr>))))"

definition response_status_and_code :: "response_error \<Rightarrow> nat \<times> string" where
  "response_status_and_code e =
     (case e of
        InvalidState \<Rightarrow> (400, ''invalid_request'')
      | SessionExpired \<Rightarrow> (400, ''invalid_request'')
      | MissingVpToken \<Rightarrow> (400, ''invalid_request'')
      | QueryNotSatisfied _ \<Rightarrow> (400, ''invalid_presentation'')
      | NonceMismatch \<Rightarrow> (401, ''invalid_presentation'')
      | KeyBindingFailed _ \<Rightarrow> (401, ''invalid_presentation'')
      | VerificationFailed _ \<Rightarrow> (401, ''invalid_presentation'')
      | ResponseStateError _ \<Rightarrow> (500, ''server_error''))"

definition receive_response ::
    "platform \<Rightarrow> server \<Rightarrow> authorization_response \<Rightarrow> ('x app_state_scheme, crash, payload response) prog" where
  "receive_response P sv auth_response = finish (
     bindP (errP (\<lambda>e. let (status, code) = response_status_and_code e
                     in Respond (json_error status code (response_error_to_string e)))
              (on_verifier (process_response (pf_libs P) auth_response (sv_primary_key sv)))) (\<lambda>result.
     ret (json_ok (JsonReply (JObj [(''disclosed_claims'', JObj (put_members (vt_disclosed_claims result))),
       (''session_id'', JStr (vt_session_id result)), (''valid'', JBool True)])))))"

section \<open>Metadata\<close>

definition metadata_config_of :: "server \<Rightarrow> metadata_config" where
  "metadata_config_of sv = \<lparr> mf_issuer_url = sv_external_url sv, mf_issuer_name = [] \<rparr>"

definition identity_type_metadata :: "server \<Rightarrow> payload response" where
  "identity_type_metadata sv = json_ok (JsonReply (build_identity_type_metadata (metadata_config_of sv)))"

definition issuer_metadata :: "server \<Rightarrow> payload response" where
  "issuer_metadata sv = json_ok (MetadataReply (sv_metadata sv))"

definition authorization_server_metadata_endpoint :: "platform \<Rightarrow> server \<Rightarrow> ('x app_state_scheme, crash, payload response) prog" where
  "authorization_server_metadata_endpoint P sv =
     bindP (liftR (ok_or HandlerPanics (build_authorization_server_metadata (pf_libs P) (metadata_config_of sv)))) (\<lambda>metadata.
     ret (json_ok (ServerMetadataReply metadata)))"

definition jwks_reply :: "server \<Rightarrow> payload response" where
  "jwks_reply sv = json_ok (JwksReply \<lparr> jwks_keys = [kp_public_jwk (sv_primary_key sv), kp_public_jwk (sv_secondary_key sv)] \<rparr>)"

end
