(* ===== verification/Server.thy ===== *)
theory Server
  imports Status_Routes Verifier_Routes
begin

text \<open>
  The server as a machine, from crates/server/src/lib.rs: one constructor per route, and \<open>serve\<close>,
  which answers a request from the shared state. Requests come as they are sent: headers, bodies,
  query strings and path segments. axum's own extractors \<open>Query\<close>, \<open>Form\<close>, \<open>Json\<close> and \<open>Path\<close> and the
  serde decoders behind \<open>FormOrJson\<close> are the record \<open>decoders\<close>; a request that an extractor of
  axum refuses is answered with that extractor's response and does not reach a handler. Requests
  are served one at a time here; theories Token, Response and Locks look at requests that interleave.
\<close>

section \<open>Routes\<close>

text \<open>An extractor of axum gives its value or the response of its rejection.\<close>

record decoders =
  de_par_form :: "bytes \<Rightarrow> string + pushed_authorization_request"
  de_par_json :: "bytes \<Rightarrow> string + pushed_authorization_request"
  de_token_form :: "bytes \<Rightarrow> string + token_request"
  de_token_json :: "bytes \<Rightarrow> string + token_request"
  de_response_form :: "bytes \<Rightarrow> string + authorization_response"
  de_response_json :: "bytes \<Rightarrow> string + authorization_response"
  de_update_form :: "bytes \<Rightarrow> string + status_update_request"
  de_update_json :: "bytes \<Rightarrow> string + status_update_request"
  de_offer_query :: "string \<Rightarrow> payload response + string option"
  de_authorize_query :: "string \<Rightarrow> payload response + (string option \<times> string option)"
  de_decision_form :: "headers \<Rightarrow> bytes \<Rightarrow> payload response + consent_decision"
  de_credential_json :: "headers \<Rightarrow> bytes \<Rightarrow> payload response + credential_request"
  de_segment :: "string \<Rightarrow> payload response + string"

datatype http_request =
    GetIssuerMetadata
  | GetServerMetadata
  | GetJwks
  | GetIdentityType
  | GetCredentialOffer string
  | PostPar headers bytes
  | GetAuthorize string
  | PostDecision headers bytes
  | PostToken headers bytes
  | PostNonce
  | PostCredential headers bytes
  | PostVerifierAuthorize
  | GetVerifierRequest string
  | PostVerifierResponse headers bytes
  | GetStatus string
  | GetStatusToken string
  | GetMdocStatus
  | GetCrl
  | PostRevoke headers bytes
  | PostSuspend headers bytes
  | PostReinstate headers bytes

definition with_body ::
    "platform \<Rightarrow> (bytes \<Rightarrow> string + 'a) \<Rightarrow> (bytes \<Rightarrow> string + 'a) \<Rightarrow> headers \<Rightarrow> bytes \<Rightarrow>
       ('a \<Rightarrow> ('s, crash, payload response) prog) \<Rightarrow> ('s, crash, payload response) prog" where
  "with_body P from_form from_json hs b handler =
     (case form_or_json (pf_web P) from_form from_json hs b of Inl rejection \<Rightarrow> ret rejection | Inr x \<Rightarrow> handler x)"

definition extracted ::
    "payload response + 'a \<Rightarrow> ('a \<Rightarrow> ('s, crash, payload response) prog) \<Rightarrow> ('s, crash, payload response) prog" where
  "extracted x handler = (case x of Inl rejection \<Rightarrow> ret rejection | Inr v \<Rightarrow> handler v)"

fun serve :: "platform \<Rightarrow> decoders \<Rightarrow> server \<Rightarrow> http_request \<Rightarrow> ('x app_state_scheme, crash, payload response) prog" where
  "serve P D sv GetIssuerMetadata = ret (issuer_metadata sv)"
| "serve P D sv GetServerMetadata = authorization_server_metadata_endpoint P sv"
| "serve P D sv GetJwks = ret (jwks_reply sv)"
| "serve P D sv GetIdentityType = ret (identity_type_metadata sv)"
| "serve P D sv (GetCredentialOffer q) = extracted (de_offer_query D q) (credential_offer_endpoint P sv)"
| "serve P D sv (PostPar hs b) = with_body P (de_par_form D) (de_par_json D) hs b (par_endpoint P sv hs)"
| "serve P D sv (GetAuthorize q) = extracted (de_authorize_query D q) (\<lambda>(u, c). authorize_endpoint P sv u c)"
| "serve P D sv (PostDecision hs b) = extracted (de_decision_form D hs b) (authorize_decision P sv)"
| "serve P D sv (PostToken hs b) = with_body P (de_token_form D) (de_token_json D) hs b (token_endpoint P sv hs)"
| "serve P D sv PostNonce = nonce_endpoint"
| "serve P D sv (PostCredential hs b) = extracted (de_credential_json D hs b) (credential_endpoint P sv hs)"
| "serve P D sv PostVerifierAuthorize = create_authorization P sv"
| "serve P D sv (GetVerifierRequest i) = extracted (de_segment D i) (get_request P sv)"
| "serve P D sv (PostVerifierResponse hs b) =
     with_body P (de_response_form D) (de_response_json D) hs b (receive_response P sv)"
| "serve P D sv (GetStatus i) = extracted (de_segment D i) (get_status_list P sv)"
| "serve P D sv (GetStatusToken i) = extracted (de_segment D i) (get_token_status_list P sv)"
| "serve P D sv GetMdocStatus = get_mdoc_status_list P sv"
| "serve P D sv GetCrl = ret (get_crl sv)"
| "serve P D sv (PostRevoke hs b) =
     with_body P (de_update_form D) (de_update_json D) hs b (revoke_credential P sv hs)"
| "serve P D sv (PostSuspend hs b) =
     with_body P (de_update_form D) (de_update_json D) hs b (suspend_credential P sv hs)"
| "serve P D sv (PostReinstate hs b) =
     with_body P (de_update_form D) (de_update_json D) hs b (reinstate_credential P sv hs)"

text \<open>The rejection of a request by the extractor of axum that its route has.\<close>

definition refusal :: "payload response + 'a \<Rightarrow> payload response option" where
  "refusal x = (case x of Inl rejection \<Rightarrow> Some rejection | Inr _ \<Rightarrow> None)"

fun rejection_of :: "decoders \<Rightarrow> http_request \<Rightarrow> payload response option" where
  "rejection_of D (GetCredentialOffer q) = refusal (de_offer_query D q)"
| "rejection_of D (GetAuthorize q) = refusal (de_authorize_query D q)"
| "rejection_of D (PostDecision hs b) = refusal (de_decision_form D hs b)"
| "rejection_of D (PostCredential hs b) = refusal (de_credential_json D hs b)"
| "rejection_of D (GetVerifierRequest i) = refusal (de_segment D i)"
| "rejection_of D (GetStatus i) = refusal (de_segment D i)"
| "rejection_of D (GetStatusToken i) = refusal (de_segment D i)"
| "rejection_of D _ = None"

text \<open>A sequence of requests, each from the state that the one before left, crashed or not.\<close>

fun serve_all :: "platform \<Rightarrow> decoders \<Rightarrow> server \<Rightarrow> http_request list \<Rightarrow> 'x app_state_scheme \<Rightarrow> 'x app_state_scheme" where
  "serve_all P D sv [] s = s"
| "serve_all P D sv (r # rs) s = serve_all P D sv rs (snd (serve P D sv r s))"

section \<open>What a handler can answer\<close>

text \<open>The responses of a handler's early returns, and of its end.\<close>

definition refuses :: "(payload response \<Rightarrow> bool) \<Rightarrow> ('s, exit, 'a) prog \<Rightarrow> bool" where
  "refuses ok m \<longleftrightarrow> (\<forall>s r s'. m s = (Inl (Respond r), s') \<longrightarrow> ok r)"

definition replies :: "(payload response \<Rightarrow> bool) \<Rightarrow> ('s, 'e, payload response) prog \<Rightarrow> bool" where
  "replies ok m \<longleftrightarrow> (\<forall>s r s'. m s = (Inr r, s') \<longrightarrow> ok r)"

definition exit_ok :: "(payload response \<Rightarrow> bool) \<Rightarrow> exit \<Rightarrow> bool" where
  "exit_ok ok e = (case e of Respond r \<Rightarrow> ok r | Crash c \<Rightarrow> True)"

lemma exit_ok_simps [simp]: "exit_ok ok (Respond r) = ok r" "exit_ok ok (Crash c)"
  by (simp_all add: exit_ok_def)

named_theorems answers

lemma refuses_ret [answers]: "refuses ok (ret x)"
  by (simp add: refuses_def ret_def)

lemma refuses_bindP [answers]: "refuses ok m \<Longrightarrow> (\<And>x. refuses ok (f x)) \<Longrightarrow> refuses ok (bindP m f)"
  by (auto simp: refuses_def bindP_def split: prod.splits sum.splits)

lemma refuses_errP [answers]: "(\<And>e. exit_ok ok (f e)) \<Longrightarrow> refuses ok (errP f m)"
  by (auto simp: refuses_def errP_def exit_ok_def map_err_def split: prod.splits sum.splits exit.splits)
    (metis exit.simps(5))

lemma refuses_ensure [answers]: "exit_ok ok e \<Longrightarrow> refuses ok (liftR (ensure b e))"
  by (auto simp: refuses_def liftR_def ensure_def split: if_splits)

lemma refuses_ok_or [answers]: "exit_ok ok e \<Longrightarrow> refuses ok (liftR (ok_or e x))"
  by (auto simp: refuses_def liftR_def ok_or_def split: option.splits)

lemma refuses_map_err [answers]: "(\<And>e. exit_ok ok (f e)) \<Longrightarrow> refuses ok (liftR (map_err f r))"
  by (auto simp: refuses_def liftR_def exit_ok_def map_err_def split: sum.splits exit.splits) (metis exit.simps(5))

lemma refuses_Inl [answers]: "exit_ok ok e \<Longrightarrow> refuses ok (liftR (Inl e))"
  by (auto simp: refuses_def liftR_def)

lemma refuses_option [answers]:
  "refuses ok m \<Longrightarrow> (\<And>y. refuses ok (f y)) \<Longrightarrow> refuses ok (case x of None \<Rightarrow> m | Some y \<Rightarrow> f y)"
  by (cases x) auto

lemma refuses_prod [answers]: "(\<And>a b. refuses ok (f a b)) \<Longrightarrow> refuses ok (case x of (a, b) \<Rightarrow> f a b)"
  by (cases x) auto

lemma answers_Let [answers]:
  "(\<And>y. refuses ok (f y)) \<Longrightarrow> refuses ok (let y = a in f y)"
  "(\<And>y. replies ok (g y)) \<Longrightarrow> replies ok (let y = a in g y)"
  by (simp_all add: Let_def)

lemma refuses_if [answers]: "refuses ok m \<Longrightarrow> refuses ok n \<Longrightarrow> refuses ok (if b then m else n)"
  by simp

lemma refuses_sources [answers]: "refuses ok new_uuid" "refuses ok utc_now"
  by (simp_all add: refuses_def new_uuid_def utc_now_def)

lemma replies_bindP [answers]: "(\<And>x. replies ok (f x)) \<Longrightarrow> replies ok (bindP m f)"
  unfolding replies_def bindP_Inr by blast

lemma replies_prod [answers]: "(\<And>a b. replies ok (f a b)) \<Longrightarrow> replies ok (case x of (a, b) \<Rightarrow> f a b)"
  by (cases x) auto

lemma replies_ret [answers]: "ok r \<Longrightarrow> replies ok (ret r)"
  by (simp add: replies_def ret_def)

lemma replies_finish: "refuses ok m \<Longrightarrow> replies ok m \<Longrightarrow> replies ok (finish m)"
  unfolding replies_def refuses_def finish_Inr by blast

lemma replies_with_body:
  "(\<And>e. ok (json_error 400 ''invalid_request'' e)) \<Longrightarrow> (\<And>x. replies ok (handler x)) \<Longrightarrow>
     replies ok (with_body P ff fj hs b handler)"
  by (auto simp: with_body_def form_or_json_def map_err_def Let_def replies_ret split: sum.splits)

section \<open>Conforming responses\<close>

text \<open>The error codes of the server.\<close>

definition error_codes :: "string list" where
  "error_codes = [''invalid_request'', ''invalid_client'', ''invalid_grant'', ''unsupported_grant_type'',
     ''invalid_scope'', ''unsupported_response_type'', ''invalid_authorization_details'', ''invalid_dpop_proof'',
     ''invalid_token'', ''invalid_credential_request'', ''unknown_credential_configuration'',
     ''unknown_credential_identifier'', ''invalid_proof'', ''invalid_nonce'', ''invalid_presentation'',
     ''not_found'', ''server_error'']"

text \<open>
  A body that fits its status: values with 200 or 201, redirects with 303 and a target, pages with
  200 or 400, and errors with 400, 401, 404 or 500, a code of the list and a description in the
  character set of RFC 6749; the status is 500 just for \<open>server_error\<close> and 404 for \<open>not_found\<close>.
\<close>

definition response_ok :: "payload response \<Rightarrow> bool" where
  "response_ok r =
     (case rs_body r of
        JsonBody _ \<Rightarrow> rs_status r = 200 \<or> rs_status r = 201
      | HtmlBody _ \<Rightarrow> rs_status r = 200 \<or> rs_status r = 400
      | TextBody _ \<Rightarrow> rs_status r = 200 \<and> map fst (rs_headers r) = [''content-type'']
      | NoBody \<Rightarrow> rs_status r = 303 \<and> map fst (rs_headers r) = [''location'']
      | ErrorBody e \<Rightarrow> rs_status r \<in> {400, 401, 404, 500} \<and> er_error e \<in> set error_codes \<and>
          (rs_status r = 500 \<longleftrightarrow> er_error e = ''server_error'') \<and> (rs_status r = 404 \<longleftrightarrow> er_error e = ''not_found'') \<and>
          (case er_error_description e of Some d \<Rightarrow> list_all rfc6749_char d | None \<Rightarrow> False))"

lemma json_error_ok:
  "response_ok (json_error status code d) \<longleftrightarrow> status \<in> {400, 401, 404, 500} \<and> code \<in> set error_codes \<and>
     (status = 500 \<longleftrightarrow> code = ''server_error'') \<and> (status = 404 \<longleftrightarrow> code = ''not_found'')"
  by (simp add: response_ok_def json_error_def description_conforms)

lemma set_header_ok: "response_ok r \<Longrightarrow> (\<exists>e. rs_body r = ErrorBody e) \<or> (\<exists>v. rs_body r = JsonBody v) \<Longrightarrow>
    response_ok (set_header n v r)"
  by (auto simp: response_ok_def set_header_def)

named_theorems conforming

lemmas [conforming] = json_error_ok error_codes_def server_error_def invalid_client_def reject_mdoc_suspension_def

lemma page_ok [conforming]:
  "response_ok (error_page c d)" "response_ok (redirect_to u)" "response_ok (typed_ok t b)" "response_ok (json_ok v)"
  "response_ok (status_reply st i)" "response_ok (no_store (json_ok v))" "response_ok (no_store ((json_ok v)\<lparr>rs_status := 201\<rparr>))"
  "response_ok \<lparr> rs_status = 200, rs_headers = hs, rs_body = HtmlBody h \<rparr>"
  "response_ok \<lparr> rs_status = 200, rs_headers = [(''content-type'', t)], rs_body = TextBody b \<rparr>"
  by (simp_all add: response_ok_def error_page_def redirect_to_def typed_ok_def json_ok_def status_reply_def
      no_store_def set_header_def)

lemma unauthorized_ok [conforming]:
  "code = ''invalid_token'' \<or> code = ''invalid_dpop_proof'' \<Longrightarrow> exit_ok response_ok (unauthorized W scheme code d)"
  by (auto simp: unauthorized_def Let_def conforming split: option.split intro!: set_header_ok) (auto simp: json_error_def)

lemma request_uri_error_ok [conforming]: "response_ok (request_uri_error P sv e)"
  by (simp add: request_uri_error_def conforming split: request_uri_error.split option.split)

lemma manager_exit_ok [conforming]:
  "exit_ok response_ok (manager_exit 400 ''invalid_request'' e)" "exit_ok response_ok (manager_exit 404 ''not_found'' e)"
  "exit_ok response_ok (manager_exit 500 ''server_error'' e)"
  by (simp_all add: manager_exit_def conforming)

lemma par_error_ok [answers]: "exit_ok response_ok (Respond (json_error 400 (par_error_code e) d))"
  by (simp add: par_error_code_def conforming split: authorization_error.split)

lemma token_error_ok [answers]: "exit_ok response_ok (token_exit e)"
  by (cases e) (simp_all add: token_exit_def conforming status_from_u16_def)

lemma or_crash_ok [answers]: "(\<And>d. exit_ok ok (f d)) \<Longrightarrow> exit_ok ok (or_crash f e)"
  by (simp add: or_crash_def split: option.split)

lemma credential_exit_ok [conforming]: "exit_ok response_ok (credential_exit e)"
  by (cases e) (simp_all add: credential_exit_def conforming)

lemma response_error_ok [answers]:
  "exit_ok response_ok (let (status, code) = response_status_and_code e in Respond (json_error status code d))"
  by (cases e) (simp_all add: response_status_and_code_def conforming)

lemma request_exit_ok [conforming]: "exit_ok response_ok (request_exit e)"
  by (cases e) (simp_all add: request_exit_def conforming)

lemma attested_refuses [answers]: "refuses response_ok (attested_client_of P sv hs)"
  unfolding attested_client_of_def prod.case
  by (auto intro!: answers simp: conforming split: option.split)

lemma binding_refuses [answers]: "refuses response_ok (check_binding P sv hs path token bound d)"
  unfolding check_binding_def prod.case
  by (cases bound; cases d) (auto intro!: answers simp: conforming)

lemma authorize_refuses [answers]: "refuses response_ok (authorize_resource P sv hs path)"
  unfolding authorize_resource_def Let_def by (auto intro!: answers simp: conforming)

lemma admin_refuses [answers]: "refuses response_ok (admin_only P sv hs)"
  by (auto simp: admin_only_def reject_unauthorized_admin_def Let_def refuses_def liftR_def conforming split: if_splits)

lemma refuses_offer [answers]: "refuses ok (create_offer u params)"
  unfolding create_offer_def by (intro answers)

lemma server_metadata_ok: "replies response_ok (authorization_server_metadata_endpoint P sv)"
  unfolding authorization_server_metadata_endpoint_def by (intro answers) (simp add: conforming)

lemma handlers_ok:
  "replies response_ok (par_endpoint P sv hs par_request)" "replies response_ok (authorize_endpoint P sv u c)"
  "replies response_ok (authorize_decision P sv d)" "replies response_ok (token_endpoint P sv hs token_request)"
  "replies response_ok (nonce_endpoint)" "replies response_ok (credential_endpoint P sv hs credential_request)"
  "replies response_ok (credential_offer_endpoint P sv i)" "replies response_ok (create_authorization P sv)"
  "replies response_ok (get_request P sv j)" "replies response_ok (receive_response P sv answer)"
  "replies response_ok (get_status_list P sv j)" "replies response_ok (get_token_status_list P sv j)"
  "replies response_ok (get_mdoc_status_list P sv)" "replies response_ok (revoke_credential P sv hs update)"
  "replies response_ok (suspend_credential P sv hs update)" "replies response_ok (reinstate_credential P sv hs update)"
  unfolding par_endpoint_def authorize_endpoint_def authorize_decision_def token_endpoint_def nonce_endpoint_def
    credential_endpoint_def credential_offer_endpoint_def create_authorization_def get_request_def receive_response_def
    get_status_list_def get_token_status_list_def get_mdoc_status_list_def revoke_credential_def suspend_credential_def
    reinstate_credential_def
  by ((intro replies_finish answers | simp add: conforming)+)

lemma with_body_ok: "(\<And>x. replies response_ok (handler x)) \<Longrightarrow> replies response_ok (with_body P ff fj hs b handler)"
  by (rule replies_with_body) (simp_all add: conforming)

lemma replies_extracted:
  "refusal x = None \<Longrightarrow> (\<And>v. replies ok (handler v)) \<Longrightarrow> replies ok (extracted x handler)"
  by (simp add: refusal_def extracted_def split: sum.splits)

lemma serve_rejected: "rejection_of D request = Some r \<Longrightarrow> serve P D sv request = ret r"
  by (cases request) (simp_all add: refusal_def extracted_def split: sum.splits)

lemma serve_accepted: "rejection_of D request = None \<Longrightarrow> replies response_ok (serve P D sv request)"
  by (cases request)
    (auto intro!: handlers_ok server_metadata_ok with_body_ok replies_extracted replies_prod replies_ret simp: conforming get_crl_def issuer_metadata_def
      jwks_reply_def identity_type_metadata_def)

text \<open>
  C24. Whatever is asked of the server, in whatever state. A request that the Query, Form, Json or
  Path extractor of its route rejects is answered with that rejection, in the extractor's own
  format, and changes nothing. Every other response has a status that fits its body, and every
  error among them has one of the registered codes and a description in printable ASCII without
  quotes or backslashes. Its status is 500 exactly with the code server_error and 404 exactly with
  the code not_found: this ties the status to the code, not to the cause, since a failing store
  can also be answered with 400 or 404.
\<close>

theorem server_responses_conform:
  "case rejection_of D request of Some r \<Rightarrow> serve P D sv request = ret r
     | None \<Rightarrow> replies response_ok (serve P D sv request)"
  by (auto split: option.split intro: serve_rejected serve_accepted)

end
