(* ===== verification/Server_Status.thy ===== *)
theory Server_Status
  imports Server
begin

text \<open>
  The status of credentials across the whole server: which requests can change it, and what a
  verifier reads after an index was handed out, revoked, and anything else was served.
\<close>

section \<open>Requests that allocate at most\<close>

text \<open>Publishing a list is among them, since it can poison the lists.\<close>

definition allocation :: "libs \<Rightarrow> status_manager \<Rightarrow> status_manager \<Rightarrow> bool" where
  "allocation L m m' \<longleftrightarrow>
     (\<exists>p rnd pos r pos'. allocate_entry L p rnd pos m = Some (r, m', pos')) \<or>
     (\<exists>rnd pos r pos'. allocate_mdoc_index rnd pos m = Some (r, m', pos')) \<or>
     (\<exists>list_id issuer now r. build_status_list_credential L list_id issuer now m = (r, m'))"

lemma allocationI:
  "allocate_entry L p rnd pos m = Some (r, m', pos') \<Longrightarrow> allocation L m m'"
  "allocate_mdoc_index rnd pos m = Some (q, m', pos') \<Longrightarrow> allocation L m m'"
  "build_status_list_credential L list_id issuer now m = (c, m') \<Longrightarrow> allocation L m m'"
  unfolding allocation_def by blast+

definition only_allocates :: "libs \<Rightarrow> 'x app_state_scheme \<Rightarrow> 'x app_state_scheme \<Rightarrow> bool" where
  "only_allocates L s s' \<longleftrightarrow> (allocation L)\<^sup>*\<^sup>* (ap_status s) (ap_status s')"

lemma same_status: "ap_status s' = ap_status s \<Longrightarrow> only_allocates L s s'"
  by (simp add: only_allocates_def)

lemma allocates_refl: "only_allocates L s s"
  by (simp add: same_status)

lemma allocates_trans: "only_allocates L s t \<Longrightarrow> only_allocates L t u \<Longrightarrow> only_allocates L s u"
  unfolding only_allocates_def by (rule rtranclp_trans)

text \<open>Programs whose runs only allocate.\<close>

abbreviation allocates :: "libs \<Rightarrow> ('x app_state_scheme, 'e, 'a) prog \<Rightarrow> bool" where
  "allocates L m \<equiv> keeps (only_allocates L) m"

named_theorems allocating

lemma allocates_basic [allocating]:
  "allocates L (ret x)" "allocates L (liftR r)" "allocates L utc_now" "allocates L new_uuid" "allocates L new_salt"
  by (auto simp: keeps_def ret_def liftR_def utc_now_def new_uuid_def new_salt_def intro!: same_status)

lemma allocates_bindP [allocating]: "allocates L m \<Longrightarrow> (\<And>x. allocates L (f x)) \<Longrightarrow> allocates L (bindP m f)"
  by (rule keeps_bindP [OF allocates_trans])

lemma allocates_errP [allocating]: "allocates L m \<Longrightarrow> allocates L (errP f m)"
  by (rule keeps_errP)

lemma allocates_mapP [allocating]: "(\<And>x. allocates L (f x)) \<Longrightarrow> allocates L (mapP f xs)"
  by (rule keeps_mapP [OF allocates_refl allocates_trans])

lemma allocates_cases [allocating]:
  "allocates L m \<Longrightarrow> allocates L n \<Longrightarrow> allocates L (if b then m else n)"
  "allocates L m \<Longrightarrow> (\<And>y. allocates L (f y)) \<Longrightarrow> allocates L (case x of None \<Rightarrow> m | Some y \<Rightarrow> f y)"
  "(\<And>a c. allocates L (g a c)) \<Longrightarrow> allocates L (case p of (a, c) \<Rightarrow> g a c)"
  "(\<And>y. allocates L (f y)) \<Longrightarrow> allocates L (let y = a in f y)"
  by (auto split: option.split prod.split)

lemma allocates_finish [allocating]: "allocates L m \<Longrightarrow> allocates L (finish m)"
  by (auto simp: keeps_def finish_def match_result_def ret_def liftR_def split: prod.split sum.split exit.split)
    (metis snd_conv)+

lemma allocates_state [allocating]:
  "allocates L (store_authorization_session u session)" "allocates L (get_authorization_session u)"
  "allocates L (set_authorization_code u c)" "allocates L (get_session_by_code c)"
  "allocates L (consume_authorization_code c)" "allocates L (record_token_for_code c t)"
  "allocates L (revoke_tokens_for_code c)" "allocates L (record_jti k ttl)"
  "allocates L (store_pre_authorized_code c tx ids)" "allocates L (redeem_pre_authorized_code c tx)"
  "allocates L (store_access_token t g n)" "allocates L (get_access_grant t)"
  "allocates L (store_c_nonce c n)" "allocates L (consume_c_nonce c)"
  by (auto simp: keeps_def state_unfold Let_def intro!: same_status split: mutex.splits option.splits)

lemma allocates_verifier [allocating]: "allocates L (on_verifier m)"
  by (auto simp: keeps_def on_verifier_def put_verifier_def intro!: same_status split: prod.split)

lemma allocates_status [allocating]:
  "allocates L (read_status f)" "allocates L (on_draws (allocate_entry L p))" "allocates L (on_draws allocate_mdoc_index)"
  "allocates L (on_status (build_status_list_credential L list_id issuer now))"
  by (auto simp: keeps_def read_status_def on_draws_def on_status_def only_allocates_def
      intro: allocationI split: option.split prod.split)

lemma allocates_draw [allocating]: "allocates L (draw_digest_id ids)"
  by (auto simp: keeps_def draw_digest_id_def intro!: same_status split: option.split)

lemma allocates_items [allocating]: "allocates L (issue_items L' C ids elements)"
proof (induction elements arbitrary: ids)
  case (Cons e es)
  obtain i v where "e = (i, v)" by fastforce
  then show ?case by (auto intro!: allocating Cons.IH)
qed (simp add: allocates_basic)


lemma allocates_nonces [allocating]: "allocates L (consume_nonces ns)"
  by (induction ns) (auto intro!: allocating)

lemma allocates_issuance [allocating]:
  "allocates L (issue_sd_jwt_vc_with_x5c L' key url vct plain ds holder status x5c)"
  "allocates L (mdoc_issue L' C T q key)"
  unfolding issue_sd_jwt_vc_with_x5c_def disclosure_new_def mdoc_issue_def issue_namespace_def
  by ((intro allocating)+)

lemma bind_liftR: "bindP (liftR (Inr x)) f = f x" "bindP (liftR (Inl e)) f = liftR (Inl e)"
  by (simp_all add: bindP_def liftR_def fun_eq_iff)

lemma bind_ok_or_Some: "bindP (liftR (ok_or e (Some x))) f = f x"
  by (simp add: bind_liftR)

lemma allocates_credential:
  "allocates L (issue_credential L i config ctx k)" if "L = pf_libs P" "issuance_context_of P sv = Some ctx"
proof -
  from that(2) obtain u v where ctx: "ctx = \<lparr> ict_issuer_key = sv_primary_key sv, ict_issuer_url = sv_issuer_id sv,
       ict_metadata = sv_metadata sv, ict_allocate_status = allocate_status P u,
       ict_x5c = Some (certificate_x5c (ml_x509 (pf_mdoc P)) (pki_leaf (sv_pki sv))),
       ict_mdoc = Some \<lparr> ms_certificate = pki_mdoc_signer (sv_pki sv), ms_allocate_status = allocate_mdoc_status v \<rparr>,
       ict_mdoc_libs = pf_mdoc P, ict_nonce_order = pf_nonce_order P, ict_claim_order = pf_claim_order P \<rparr>"
    by (auto simp: issuance_context_of_def bind_eq_Some_conv)
  show ?thesis
    unfolding ctx issue_credential_def issue_sd_jwt_credential_def issue_mdoc_credential_def
      allocate_status_def allocate_mdoc_status_def issuance_context.select_convs bind_ok_or_Some mdoc_signer.select_convs that(1)
    by (auto intro!: allocating simp: Let_def)
qed

lemma allocates_given:
  "(\<And>x. v = Some x \<Longrightarrow> allocates L (f x)) \<Longrightarrow> allocates L (bindP (liftR (ok_or e v)) f)"
  by (cases v) (auto simp: bind_liftR allocates_basic)

lemma allocates_clients [allocating]:
  "allocates L (attested_client_of P sv hs)" "allocates L (dpop_jkt_of P sv hs path t)"
  unfolding attested_client_of_def verify_client_attestation_def dpop_jkt_of_def verify_dpop_proof_def
  by (auto intro!: allocating simp: Let_def split: option.split list.split)


lemma allocates_verify [allocating]: "allocates L (verify_proof_jwt L' jwt url config)"
  unfolding verify_proof_jwt_def by (intro allocating)

lemma allocates_token [allocating]: "allocates L (process_token_request L' r ctx)"
  unfolding process_token_request_def process_authorization_code_grant_def check_authorization_code_def
    redeem_authorization_code_def process_pre_authorized_code_grant_def issue_access_token_def mint_details_def
    mint_detail_def stateP_def
  by (auto intro!: allocating simp: Let_def)

lemma allocates_parts [allocating]:
  "allocates L (authorize_resource P sv hs path)" "allocates L (process_par r ctx metadata)"
  "allocates L (resolve_request_uri u c)" "allocates L (create_offer url params)" "allocates L (generate_authorization_code uri)"
  unfolding authorize_resource_def check_binding_def process_par_def resolve_request_uri_def create_offer_def
    generate_authorization_code_def
  by (auto intro!: allocating simp: Let_def split: option.split bool.split)

lemma allocates_credential_endpoint: "allocates (pf_libs P) (credential_endpoint P sv hs request)"
  unfolding credential_endpoint_def process_credential_request_def
  by (intro allocates_finish allocates_bindP [OF allocates_parts(1)] allocates_given)
    (intro allocating allocates_credential [OF refl], assumption)

lemma allocates_handlers:
  "allocates (pf_libs P) (par_endpoint P sv hs par_request)" "allocates (pf_libs P) (authorize_endpoint P sv u c)"
  "allocates (pf_libs P) (authorize_decision P sv d)" "allocates (pf_libs P) (token_endpoint P sv hs token_request)"
  "allocates (pf_libs P) (nonce_endpoint)" "allocates (pf_libs P) (authorization_server_metadata_endpoint P sv)"
  "allocates (pf_libs P) (credential_offer_endpoint P sv i)" "allocates (pf_libs P) (create_authorization P sv)"
  "allocates (pf_libs P) (get_request P sv j)" "allocates (pf_libs P) (receive_response P sv answer)"
  "allocates (pf_libs P) (get_status_list P sv j)" "allocates (pf_libs P) (get_token_status_list P sv j)"
  "allocates (pf_libs P) (get_mdoc_status_list P sv)"
  unfolding par_endpoint_def authorize_endpoint_def authorize_decision_def token_endpoint_def nonce_endpoint_def
    authorization_server_metadata_endpoint_def credential_offer_endpoint_def create_authorization_def
    get_request_def receive_response_def get_status_list_def get_token_status_list_def get_mdoc_status_list_def
  by (intro allocating)+

section \<open>The manager behind the server\<close>

text \<open>What the lists say: the bits of both purposes and the mdoc list.\<close>

definition statuses :: "status_manager \<Rightarrow> (status_purpose \<Rightarrow> nat \<Rightarrow> bool) \<times> token_status_list" where
  "statuses m = ((\<lambda>p i. is_flagged p i m), mdoc_tsl (mdoc_of m))"

lemma allocation_step: "allocation L m m' \<Longrightarrow> manager_step L m m'"
  unfolding allocation_def by (blast intro: manager_step.intros)

lemma allocation_statuses:
  assumes "allocation L m m'" and ok: "manager_ok L m"
  shows "statuses m' = statuses m"
  using assms(1) unfolding allocation_def
proof (elim disjE exE)
  note inv = manager_ok_inv [OF ok]
  fix p rnd pos r pos'
  assume a: "allocate_entry L p rnd pos m = Some (r, m', pos')"
  from allocate_entry_effect [OF inv a allocate_entry_returned [OF ok a]]
  have "\<forall>q j. is_flagged q j m' = is_flagged q j m" "sm_mdoc m' = sm_mdoc m" by blast+
  then show ?thesis by (simp add: statuses_def mdoc_of_def)
next
  fix rnd pos r pos'
  assume "allocate_mdoc_index rnd pos m = Some (r, m', pos')"
  from allocate_mdoc_effect [OF manager_ok_inv [OF ok] this]
  have "list_of m' = list_of m" "mdoc_tsl (mdoc_of m') = mdoc_tsl (mdoc_of m)" using same_lists by blast+
  then show ?thesis by (simp add: statuses_def is_flagged_def)
next
  fix i issuer now r
  assume "build_status_list_credential L i issuer now m = (r, m')"
  from publish_effect [OF this] ok show ?thesis by (auto simp: manager_ok_def)
qed

lemma allocation_keeps:
  assumes "allocation L m m'" and ok: "manager_ok L m"
  shows "manager_ok L m' \<and> statuses m' = statuses m \<and> manager_step L m m'"
proof -
  have step: "manager_step L m m'" using assms(1) by (rule allocation_step)
  then have "manager_steps L m m'" by (auto simp: manager_steps_def)
  with manager_steps_keep [OF _ ok] allocation_statuses [OF assms] step show ?thesis by blast
qed

lemma allocations_keep:
  assumes "(allocation L)\<^sup>*\<^sup>* m m'" and "manager_ok L m"
  shows "manager_ok L m' \<and> statuses m' = statuses m \<and> manager_steps L m m'"
  using assms(1)
proof (induction rule: rtranclp_induct)
  case base
  with assms(2) show ?case by (simp add: manager_steps_def)
next
  case (step y z)
  with allocation_keeps [of L y z] have "manager_ok L z" "statuses z = statuses m" "manager_step L y z" by simp_all
  with step.IH show ?case unfolding manager_steps_def by (simp add: rtranclp.rtrancl_into_rtrancl [of _ m y z])
qed

text \<open>An administrative request leaves the manager, or runs one operation on it with the right token.\<close>

definition admin_effect ::
    "platform \<Rightarrow> server \<Rightarrow> headers \<Rightarrow> (status_manager \<Rightarrow> status_manager \<Rightarrow> bool) \<Rightarrow>
       'x app_state_scheme \<Rightarrow> 'x app_state_scheme \<Rightarrow> bool" where
  "admin_effect P sv hs op s s' \<longleftrightarrow> ap_status s' = ap_status s \<or>
     reject_unauthorized_admin P sv hs = None \<and> op (ap_status s) (ap_status s')"

lemma admin_effectE:
  assumes "admin_effect P sv hs op s s'"
  obtains "ap_status s' = ap_status s"
    | "reject_unauthorized_admin P sv hs = None" "op (ap_status s) (ap_status s')"
  using assms by (auto simp: admin_effect_def)

lemma admin_bind:
  assumes "\<And>s. reject_unauthorized_admin P sv hs = None \<Longrightarrow> ap_status (snd (f () s)) = ap_status s \<or>
      op (ap_status s) (ap_status (snd (f () s)))"
  shows "admin_effect P sv hs op s (snd (finish (bindP (admin_only P sv hs) f) s))"
  using assms [of s]
  by (cases "reject_unauthorized_admin P sv hs"; cases "f () s")
    (auto simp: admin_effect_def finish_def match_result_def admin_only_def bindP_def liftR_def ret_def
      split: sum.split exit.split)

lemma status_op_effect:
  "ap_status (snd (bindP (errP e (on_status op)) (\<lambda>_. ret r) s)) = snd (op (ap_status s))"
  by (auto simp: bindP_def errP_def on_status_def ret_def map_err_def split: prod.split sum.split)

lemma guarded_effect:
  "ap_status (snd (bindP (liftR (ensure b e')) (\<lambda>_. bindP (errP e (on_status op)) (\<lambda>_. ret r)) s)) =
     (if b then snd (op (ap_status s)) else ap_status s)"
  by (simp add: ensure_def bind_liftR status_op_effect) (simp add: liftR_def)

lemma admin_handlers:
  "admin_effect P sv hs (\<lambda>m m'. \<exists>i. m' = snd (revoke i m) \<or> m' = snd (revoke_mdoc i m))
     s (snd (revoke_credential P sv hs request s))"
  "admin_effect P sv hs (\<lambda>m m'. \<exists>i. m' = snd (suspend i m)) s (snd (suspend_credential P sv hs request s))"
  "admin_effect P sv hs (\<lambda>m m'. \<exists>i. m' = snd (reinstate i m)) s (snd (reinstate_credential P sv hs request s))"
  unfolding revoke_credential_def suspend_credential_def reinstate_credential_def
  by (rule admin_bind, auto simp only: status_op_effect guarded_effect if_True if_False split: if_split)+

lemma body_effect:
  "(\<And>x. admin_effect P sv hs op s (snd (handler x s))) \<Longrightarrow>
     admin_effect P sv hs op s (snd (with_body P ff fj hs' b handler s))"
  by (auto simp: with_body_def ret_def admin_effect_def split: sum.split)

lemma allocates_body: "(\<And>x. allocates L (handler x)) \<Longrightarrow> allocates L (with_body P ff fj hs b handler)"
  by (auto simp: with_body_def allocates_basic split: sum.split)

lemma allocates_extracted: "(\<And>x. allocates L (handler x)) \<Longrightarrow> allocates L (extracted y handler)"
  by (auto simp: extracted_def allocates_basic split: sum.split)

text \<open>The requests of an administrator.\<close>

fun administrative :: "http_request \<Rightarrow> bool" where
  "administrative (PostRevoke hs b) = True"
| "administrative (PostSuspend hs b) = True"
| "administrative (PostReinstate hs b) = True"
| "administrative _ = False"

lemma administrative_cases: "administrative r \<Longrightarrow>
    (\<exists>hs b. r = PostRevoke hs b) \<or> (\<exists>hs b. r = PostSuspend hs b) \<or> (\<exists>hs b. r = PostReinstate hs b)"
  by (cases r) simp_all

lemma serve_allocates: "\<not> administrative request \<Longrightarrow> allocates (pf_libs P) (serve P D sv request)"
  by (cases request) (auto simp: allocates_basic allocates_handlers allocates_credential_endpoint intro!: allocates_body allocates_extracted)

lemma serve_cases:
  obtains (allocates) "only_allocates (pf_libs P) s (snd (serve P D sv request s))"
    | (revoked) hs b i where "request = PostRevoke hs b" "reject_unauthorized_admin P sv hs = None"
        "ap_status (snd (serve P D sv request s)) = snd (revoke i (ap_status s)) \<or>
         ap_status (snd (serve P D sv request s)) = snd (revoke_mdoc i (ap_status s))"
    | (suspended) hs b i where "request = PostSuspend hs b" "reject_unauthorized_admin P sv hs = None"
        "ap_status (snd (serve P D sv request s)) = snd (suspend i (ap_status s))"
    | (reinstated) hs b i where "request = PostReinstate hs b" "reject_unauthorized_admin P sv hs = None"
        "ap_status (snd (serve P D sv request s)) = snd (reinstate i (ap_status s))"
proof -
  let ?s' = "snd (serve P D sv request s)"
  show thesis
  proof (cases "administrative request")
    case False
    show thesis by (rule that(1), rule keepsD [OF serve_allocates [OF False]], rule prod.collapse [symmetric])
  next
    case True
    from administrative_cases [OF this] show thesis
    proof (elim disjE exE)
      fix hs b assume r: "request = PostRevoke hs b"
      have "admin_effect P sv hs (\<lambda>m m'. \<exists>i. m' = snd (revoke i m) \<or> m' = snd (revoke_mdoc i m)) s ?s'"
        unfolding r serve.simps by (rule body_effect, rule admin_handlers)
      then show thesis by (rule admin_effectE) (rule that(1) [OF same_status], assumption, elim exE, rule that(2) [OF r], assumption+)
    next
      fix hs b assume r: "request = PostSuspend hs b"
      have "admin_effect P sv hs (\<lambda>m m'. \<exists>i. m' = snd (suspend i m)) s ?s'"
        unfolding r serve.simps by (rule body_effect, rule admin_handlers)
      then show thesis by (rule admin_effectE) (rule that(1) [OF same_status], assumption, elim exE, rule that(3) [OF r], assumption+)
    next
      fix hs b assume r: "request = PostReinstate hs b"
      have "admin_effect P sv hs (\<lambda>m m'. \<exists>i. m' = snd (reinstate i m)) s ?s'"
        unfolding r serve.simps by (rule body_effect, rule admin_handlers)
      then show thesis by (rule admin_effectE) (rule that(1) [OF same_status], assumption, elim exE, rule that(4) [OF r], assumption+)
    qed
  qed
qed

lemma serve_steps:
  assumes inv: "manager_ok (pf_libs P) (ap_status s)"
  shows "manager_steps (pf_libs P) (ap_status s) (ap_status (snd (serve P D sv request s)))"
proof (cases rule: serve_cases [of P s D sv request])
  case allocates
  then show ?thesis using allocations_keep [OF _ inv] by (simp add: only_allocates_def)
next
  case (revoked hs b i)
  then show ?thesis unfolding manager_steps_def
    by (metis r_into_rtranclp manager_step.revoke manager_step.revoke_mdoc prod.collapse)
next
  case (suspended hs b i)
  then show ?thesis unfolding manager_steps_def by (metis r_into_rtranclp manager_step.suspend prod.collapse)
next
  case (reinstated hs b i)
  then show ?thesis unfolding manager_steps_def by (metis r_into_rtranclp manager_step.reinstate prod.collapse)
qed

lemma serve_all_steps:
  "manager_ok (pf_libs P) (ap_status s) \<Longrightarrow> manager_steps (pf_libs P) (ap_status s) (ap_status (serve_all P D sv requests s))"
proof (induction requests arbitrary: s)
  case (Cons r rs)
  let ?t = "snd (serve P D sv r s)"
  from serve_steps [OF Cons.prems] have st: "manager_steps (pf_libs P) (ap_status s) (ap_status ?t)" .
  then have "manager_ok (pf_libs P) (ap_status ?t)" using manager_steps_keep Cons.prems by blast
  from Cons.IH [OF this] st show ?case by (simp add: manager_steps_def)
qed (simp add: manager_steps_def)

lemma app_state_new_status [simp]: "ap_status (app_state_new config e) = manager_new (sf_external_url config)"
  by (simp add: app_state_new_def issuer_state.defs app_state.defs)

text \<open>
  The statuses of credentials are the administrator's: a request that changes any bit of a
  status list is one of the three administrative requests, and carries the server's token.
\<close>

lemma status_change_needs_token:
  assumes "sv_admin_token sv \<noteq> []" and inv: "manager_ok (pf_libs P) (ap_status s)"
    and change: "statuses (ap_status (snd (serve P D sv request s))) \<noteq> statuses (ap_status s)"
  shows "\<exists>hs b. (request = PostRevoke hs b \<or> request = PostSuspend hs b \<or> request = PostReinstate hs b) \<and>
     header_str (pf_web P) hs ''authorization'' = Some (''Bearer '' @ sv_admin_token sv)"
proof (cases rule: serve_cases [of P s D sv request])
  case allocates
  then show ?thesis using allocations_keep [OF _ inv] change unfolding only_allocates_def by blast
next
  case (revoked hs b i)
  then show ?thesis using admin_authorized_iff [OF assms(1), of P hs] by blast
next
  case (suspended hs b i)
  then show ?thesis using admin_authorized_iff [OF assms(1), of P hs] by blast
next
  case (reinstated hs b i)
  then show ?thesis using admin_authorized_iff [OF assms(1), of P hs] by blast
qed

section \<open>From allocation to publication\<close>

lemma allocate_status_Inr:
  assumes run: "allocate_status P uri s = (Inr claim, s')" and inv: "manager_inv (ap_status s)"
  shows "\<exists>i. i < LIST_CAPACITY \<and> claim = Some (JObj [(''status_list'', JObj [(''idx'', JInt (int i)), (''uri'', JStr uri)])]) \<and>
     allocation (pf_libs P) (ap_status s) (ap_status s')"
proof -
  obtain entry where d: "on_draws (allocate_entry (pf_libs P) Revocation) s = (Inr entry, s')"
    and claim: "claim = Some (JObj [(''status_list'', JObj [(''idx'', JInt (int
        (case parse_unsigned 18446744073709551616 (se_list_index entry) of Some n \<Rightarrow> n | None \<Rightarrow> 0))), (''uri'', JStr uri)])])"
    using run unfolding allocate_status_def bindP_Inr errP_Inr Let_def ret_Inr by blast
  from d obtain m' pos where a: "allocate_entry (pf_libs P) Revocation (draw_at s) (draws_used s) (ap_status s) = Some (Inr entry, m', pos)"
    and s': "s' = s\<lparr>ap_status := m', draws_used := pos\<rparr>"
    by (auto simp: on_draws_def map_err_Inr split: option.splits prod.splits)
  from allocate_entry_effect [OF inv a] obtain i where i: "i < LIST_CAPACITY" "se_list_index entry = show_nat i" by auto
  then have "i < 18446744073709551616" by (simp add: LIST_CAPACITY_def)
  with i claim have "claim = Some (JObj [(''status_list'', JObj [(''idx'', JInt (int i)), (''uri'', JStr uri)])])"
    by (simp add: parse_show_nat)
  moreover have "allocation (pf_libs P) (ap_status s) (ap_status s')" using allocationI(1) [OF a] s' by simp
  ultimately show ?thesis using i(1) by blast
qed

text \<open>The closure that the credential endpoint passes to the issuance.\<close>

lemma context_status:
  assumes "issuance_context_of P sv = Some ctx"
  obtains uri where "url_for (pf_libs P) sv ''/status/revocation/token'' = Some uri" "ict_allocate_status ctx = allocate_status P uri"
  using assms by (auto simp: issuance_context_of_def bind_eq_Some_conv)

lemma errP_Respond:
  "errP f m s = (Inl e', s') \<longleftrightarrow> (\<exists>e. m s = (Inl e, s') \<and> e' = f e)"
  by (auto simp: errP_def map_err_def split: prod.split sum.split)

lemma bindP_Inl:
  "bindP m f s = (Inl e, s') \<longleftrightarrow> m s = (Inl e, s') \<or> (\<exists>x t. m s = (Inr x, t) \<and> f x t = (Inl e, s'))"
  by (auto simp: bindP_def split: prod.split sum.split)

lemma get_token_status_list_200:
  assumes "get_token_status_list P sv i s = (Inr answer, s')" and "rs_status answer = 200"
  shows "\<exists>jwt list now uri. rs_body answer = TextBody jwt \<and> build_token_status_list (pf_libs P) i (ap_status s) = Inr list \<and>
     url_for (pf_libs P) sv (''/status/'' @ i @ ''/token'') = Some uri \<and>
     sign_compact (pf_libs P) (sv_primary_key sv) (status_list_header P sv) (status_list_claims sv uri list now) = Inr jwt"
proof -
  let ?body = "bindP (errP (manager_exit 404 ''not_found'') (read_status (build_token_status_list (pf_libs P) i))) (\<lambda>list.
     bindP utc_now (\<lambda>t.
     bindP (liftR (ok_or (Crash HandlerPanics) (url_for (pf_libs P) sv (''/status/'' @ i @ ''/token'')))) (\<lambda>uri.
     bindP (errP (\<lambda>e. Respond (server_error (jws_error_to_string e)))
              (liftR (sign_compact (pf_libs P) (sv_primary_key sv) (status_list_header P sv)
                 (status_list_claims sv uri list (timestamp t))))) (\<lambda>jwt.
     ret (typed_ok ''application/statuslist+jwt'' jwt)))))"
  have "?body s \<noteq> (Inl (Respond answer), s')"
    using assms(2)
    by (auto simp: bindP_Inl errP_Respond errP_Inr utc_now_run liftR_def ret_def manager_exit_def server_error_def
        json_error_def ok_or_def split: if_splits option.splits)
  with assms(1) have "?body s = (Inr answer, s')" unfolding get_token_status_list_def finish_Inr by blast
  then show ?thesis
    by (auto simp: bindP_Inr errP_Inr liftR_Inr ok_or_Inr ret_Inr read_status_def typed_ok_def)
qed

lemma revoke_credential_run:
  assumes ok: "manager_ok (pf_libs P) (ap_status s)" and i: "su_index request < LIST_CAPACITY"
    and admin: "reject_unauthorized_admin P sv hs = None" and kind: "\<not> is_mdoc request"
  shows "\<exists>s'. revoke_credential P sv hs request s = (Inr (status_reply ''revoked'' (su_index request)), s') \<and>
     manager_ok (pf_libs P) (ap_status s') \<and> is_flagged Revocation (su_index request) (ap_status s')"
proof -
  from update_status_in [OF manager_ok_inv [OF ok] i, of Revocation True] obtain m where
    m: "revoke (su_index request) (ap_status s) = (Inr (), m)" "manager_inv m"
      "is_flagged Revocation (su_index request) m"
    by (auto simp: revoke_def)
  have "on_status (revoke (su_index request)) s = (Inr (), s\<lparr>ap_status := m\<rparr>)" using m(1) by (simp add: on_status_def)
  then have "revoke_credential P sv hs request s = (Inr (status_reply ''revoked'' (su_index request)), s\<lparr>ap_status := m\<rparr>)"
    unfolding revoke_credential_def finish_Inr using admin kind
    by (simp add: admin_only_def bind_liftR bindP_Inr errP_Inr ret_Inr)
  moreover have "manager_ok (pf_libs P) m"
    using m ok update_status_url [of _ _ _ _ _ m] by (simp add: manager_ok_def revoke_def)
  ultimately show ?thesis using m(3) by simp
qed

text \<open>
  C21. Revocation works end to end, across all that the server does: the status claim that the
  credential endpoint puts into an SD-JWT VC names the published list and an index; once the
  administrator has revoked that index, which always succeeds, every later copy of the signed list
  marks it invalid, whatever requests came before, in between and after. The server's URL is one
  that paths can be joined to, as it is for every server that starts.
\<close>

theorem revocation_end_to_end:
  assumes laws: "b64url_law (pf_libs P)" "zlib_law (pf_libs P)"
    and url: "joins (pf_libs P) (sf_external_url config)"
    and s1: "s1 = serve_all P D sv before (app_state_new config e)"
    and ctx: "issuance_context_of P sv = Some ctx"
    and allocate: "ict_allocate_status ctx s1 = (Inr claim, s2)"
    and claim: "claim = Some (JObj [(''status_list'', JObj [(''idx'', JInt (int (su_index request))), (''uri'', JStr uri)])])"
    and s3: "s3 = serve_all P D sv between s2"
    and admin: "reject_unauthorized_admin P sv hs = None" "\<not> is_mdoc request"
    and revoke: "revoke_credential P sv hs request s3 = (outcome, s4)"
    and s5: "s5 = serve_all P D sv afterwards s4"
    and answer: "get_token_status_list P sv ''revocation'' s5 = (Inr answer, s6)" "rs_status answer = 200"
  shows "outcome = Inr (status_reply ''revoked'' (su_index request)) \<and>
     url_for (pf_libs P) sv ''/status/revocation/token'' = Some uri \<and>
     (\<exists>jwt list now t. rs_body answer = TextBody jwt \<and>
        sign_compact (pf_libs P) (sv_primary_key sv) (status_list_header P sv) (status_list_claims sv uri list now) = Inr jwt \<and>
        tsl_decode (pf_libs P) (pt_lst list) LIST_CAPACITY (pt_bits list) = Inr t \<and>
        tsl_get_status t (su_index request) = Inr Invalid)"
proof -
  let ?i = "su_index request"
  have ok1: "manager_ok (pf_libs P) (ap_status s1)"
    using manager_steps_keep [OF serve_all_steps] manager_new_ok [OF url] unfolding s1 by (metis app_state_new_status)
  from context_status [OF ctx] obtain u where u: "url_for (pf_libs P) sv ''/status/revocation/token'' = Some u"
    and closure: "ict_allocate_status ctx = allocate_status P u" .
  from allocate_status_Inr [OF allocate [unfolded closure] manager_ok_inv [OF ok1]] claim
  have i: "?i < LIST_CAPACITY" and uri: "uri = u" and alloc: "allocation (pf_libs P) (ap_status s1) (ap_status s2)" by auto
  have ok2: "manager_ok (pf_libs P) (ap_status s2)" using allocation_keeps [OF alloc ok1] by blast
  have ok3: "manager_ok (pf_libs P) (ap_status s3)"
    using manager_steps_keep [OF serve_all_steps [OF ok2] ok2] unfolding s3 by blast
  from revoke_credential_run [OF ok3 i admin] revoke
  have out: "outcome = Inr (status_reply ''revoked'' ?i)" and ok4: "manager_ok (pf_libs P) (ap_status s4)"
    and f4: "is_flagged Revocation ?i (ap_status s4)" by auto
  have ok5: "manager_ok (pf_libs P) (ap_status s5)" and f5: "is_flagged Revocation ?i (ap_status s5)"
    using manager_steps_keep [OF serve_all_steps [OF ok4] ok4] f4 unfolding s5 by blast+
  note inv5 = manager_ok_inv [OF ok5]
  from get_token_status_list_200 [OF answer] u uri obtain jwt list now where
    r: "rs_body answer = TextBody jwt" "build_token_status_list (pf_libs P) ''revocation'' (ap_status s5) = Inr list"
      "sign_compact (pf_libs P) (sv_primary_key sv) (status_list_header P sv) (status_list_claims sv uri list now) = Inr jwt"
    by auto
  have "tsl_get_status (ml_tsl (list_of (ap_status s5) Revocation)) ?i = Inr Invalid"
    using formats_agree [OF inv5 i, of Revocation] f5 by simp
  with published_decodes [OF laws inv5 r(2)] r(1,3) out uri u show ?thesis by blast
qed

text \<open>The suspension list is not the one that credentials refer to.\<close>

lemma suspend_elsewhere:
  assumes inv: "manager_inv m" and run: "update_status ''suspension'' i v m = (r, m')"
  shows "build_token_status_list L ''revocation'' m' = build_token_status_list L ''revocation'' m"
proof -
  have inv': "manager_inv m'" using update_status_run [OF inv, of Suspension] run by simp
  obtain ls ls' where l: "sm_lists m = Unlocked ls" "sm_lists m' = Unlocked ls'"
    using inv inv' by (auto simp: manager_inv_def)
  have "ls' ''revocation'' = ls ''revocation''"
    using run l by (auto simp: update_status_def Let_def split: option.splits sum.splits status_list_error.splits
        token_status_list_error.splits)
  with l show ?thesis by (simp add: build_token_status_list_def)
qed

text \<open>
  C26. Suspending a credential has no effect on it: the status claim that the credential endpoint
  puts into an SD-JWT VC refers to the revocation list, and whatever the administrator suspends,
  that list is published as before. The server's URL is one that paths can be joined to.
\<close>

theorem suspension_not_published:
  assumes url: "joins (pf_libs P) (sf_external_url config)"
    and s: "s = serve_all P D sv before (app_state_new config e)"
    and ctx: "issuance_context_of P sv = Some ctx"
    and allocate: "ict_allocate_status ctx s = (Inr claim, s1)"
    and suspend: "suspend_credential P sv hs request s1 = (outcome, s2)"
  shows "(\<exists>i uri. url_for (pf_libs P) sv ''/status/revocation/token'' = Some uri \<and>
       claim = Some (JObj [(''status_list'', JObj [(''idx'', JInt (int i)), (''uri'', JStr uri)])])) \<and>
     build_token_status_list (pf_libs P) ''revocation'' (ap_status s2) =
       build_token_status_list (pf_libs P) ''revocation'' (ap_status s1)"
proof -
  have ok: "manager_ok (pf_libs P) (ap_status s)"
    using manager_steps_keep [OF serve_all_steps] manager_new_ok [OF url] unfolding s by (metis app_state_new_status)
  from context_status [OF ctx] obtain u where u: "url_for (pf_libs P) sv ''/status/revocation/token'' = Some u"
    and closure: "ict_allocate_status ctx = allocate_status P u" .
  from allocate_status_Inr [OF allocate [unfolded closure] manager_ok_inv [OF ok]] obtain i where
    i: "claim = Some (JObj [(''status_list'', JObj [(''idx'', JInt (int i)), (''uri'', JStr u)])])"
    and alloc: "allocation (pf_libs P) (ap_status s) (ap_status s1)" by blast
  have inv1: "manager_inv (ap_status s1)" using allocation_keeps [OF alloc ok] manager_ok_inv by blast
  have "admin_effect P sv hs (\<lambda>m m'. \<exists>i. m' = snd (suspend i m)) s1 s2"
    using admin_handlers(2) [of P sv hs s1 request] suspend by simp
  then have "build_token_status_list (pf_libs P) ''revocation'' (ap_status s2) =
      build_token_status_list (pf_libs P) ''revocation'' (ap_status s1)"
  proof (rule admin_effectE)
    assume "\<exists>i. ap_status s2 = snd (suspend i (ap_status s1))"
    then obtain i where "update_status ''suspension'' i True (ap_status s1) =
        (fst (update_status ''suspension'' i True (ap_status s1)), ap_status s2)"
      unfolding suspend_def by (metis prod.collapse)
    then show ?thesis by (rule suspend_elsewhere [OF inv1])
  qed simp
  with i u show ?thesis by blast
qed

text \<open>
  C25. Without the right token an administrative request is answered with 401, or 400 when its body
  does not parse, and nothing in the server changes.
\<close>

theorem admin_refused:
  assumes "sv_admin_token sv \<noteq> []"
    and "header_str (pf_web P) hs ''authorization'' \<noteq> Some (''Bearer '' @ sv_admin_token sv)"
    and "request = PostRevoke hs b \<or> request = PostSuspend hs b \<or> request = PostReinstate hs b"
  shows "\<exists>r. serve P D sv request s = (Inr r, s) \<and> (rs_status r = 400 \<or> rs_status r = 401)"
proof -
  obtain r where r: "reject_unauthorized_admin P sv hs = Some r"
    using admin_authorized_iff [OF assms(1), of P hs] assms(2) by auto
  then have "rs_status r = 401"
    by (auto simp: reject_unauthorized_admin_def Let_def json_error_def split: if_splits)
  moreover have "finish (bindP (admin_only P sv hs) f) s = (Inr r, s)" for f :: "unit \<Rightarrow> ('a app_state_scheme, exit, payload response) prog"
    using r by (simp add: admin_only_def bind_liftR) (simp add: finish_def match_result_def liftR_def ret_def)
  ultimately have h: "\<exists>r. revoke_credential P sv hs x s = (Inr r, s) \<and> rs_status r = 401"
    "\<exists>r. suspend_credential P sv hs x s = (Inr r, s) \<and> rs_status r = 401"
    "\<exists>r. reinstate_credential P sv hs x s = (Inr r, s) \<and> rs_status r = 401" for x
    unfolding revoke_credential_def suspend_credential_def reinstate_credential_def by blast+
  have body: "\<exists>r. with_body P ff fj hs b handler s = (Inr r, s) \<and> (rs_status r = 400 \<or> rs_status r = 401)"
    if "\<And>x. \<exists>r. handler x s = (Inr r, s) \<and> rs_status r = 401"
    for ff fj and handler :: "status_update_request \<Rightarrow> ('a app_state_scheme, crash, payload response) prog"
    using that by (auto simp: with_body_def form_or_json_def Let_def map_err_def json_error_def ret_def split: sum.split)
  from assms(3) show ?thesis
    by (elim disjE; simp only: serve.simps) (rule body, rule h)+
qed

end
