(* ===== verification/Minting.thy ===== *)
theory Minting
  imports X509
begin

text \<open>
  Minting the development PKI, from crates/crypto/src/x509.rs. Building and signing the
  certificates is rcgen's, and writing the values of extensions is the der crate's: both are
  parameters. What the sources ask of them is not: the parameters of every certificate, in the
  records below, with a field for each one that the sources set.
\<close>

section \<open>What a certificate is asked to hold\<close>

datatype dn_type = CountryName | CommonName
datatype dn_value = PrintableString string | Utf8String string
datatype ca_kind = NoCa | ExplicitNoCa | CaConstrained nat
datatype key_usage = DigitalSignature | KeyCertSign | CrlSign
datatype key_id_method = DefaultMethod | PreSpecified bytes

record custom_extension =
  ce_oid :: "nat list"
  ce_content :: bytes
  ce_critical :: bool

text \<open>A name is the DER encoding that it gets.\<close>

record certificate_params =
  cp_distinguished_name :: bytes
  cp_subject_alt_names :: "string list"
  cp_serial_number :: "bytes option"
  cp_not_before :: instant
  cp_not_after :: instant
  cp_is_ca :: ca_kind
  cp_key_usages :: "key_usage list"
  cp_key_identifier_method :: key_id_method
  cp_use_authority_key_identifier :: bool
  cp_custom_extensions :: "custom_extension list"
  cp_crl_distribution_points :: "string list list"

record crl_params =
  cl_this_update :: instant
  cl_next_update :: instant
  cl_crl_number :: nat
  cl_issuing_distribution_point :: "string option"
  cl_revoked_certs :: "bytes list"
  cl_key_identifier_method :: key_id_method

text \<open>
  The crates' functions: rcgen's parameters, names, keys (generated from random bytes, or read
  from PEM) and signatures, each with its error; the DER encodings of the three extension values
  and the string types in them; and SHA-1. A certificate is signed over the subject's key by the
  issuer's parameters and key.
\<close>

record rcgen_libs =
  rg_default :: certificate_params
  rg_new :: "string list \<Rightarrow> string + certificate_params"
  rg_empty_name :: bytes
  rg_push :: "bytes \<Rightarrow> dn_type \<Rightarrow> dn_value \<Rightarrow> bytes"
  rg_printable :: "string \<Rightarrow> string + string"
  rg_generate :: "bytes \<Rightarrow> string + bytes"
  rg_key_from_pem :: "string \<Rightarrow> string + bytes"
  rg_public_key :: "bytes \<Rightarrow> bytes"
  rg_self_signed :: "certificate_params \<Rightarrow> bytes \<Rightarrow> string + bytes"
  rg_signed_by :: "certificate_params \<Rightarrow> bytes \<Rightarrow> certificate_params \<times> bytes \<Rightarrow> string + bytes"
  rg_sign_crl :: "crl_params \<Rightarrow> certificate_params \<times> bytes \<Rightarrow> string + bytes"
  rg_sha1 :: "bytes \<Rightarrow> bytes"
  rg_octet_string :: "bytes \<Rightarrow> string + bytes"
  rg_ia5 :: "string \<Rightarrow> string + string"
  rg_der_key_identifier :: "bytes \<Rightarrow> string + bytes"
  rg_der_key_usage :: "string list \<Rightarrow> string + bytes"
  rg_der_alt_name :: "string list \<Rightarrow> string + bytes"

definition OID_MDL_DS :: string where "OID_MDL_DS = ''1.0.18013.5.1.2''"
definition DEVELOPMENT_COUNTRY :: string where "DEVELOPMENT_COUNTRY = ''ZZ''"
definition CRL_PATH :: string where "CRL_PATH = ''/iaca.crl''"

definition subject_name :: "rcgen_libs \<Rightarrow> string \<Rightarrow> x509_error + bytes" where
  "subject_name G common_name =
     bindR (map_err CertificateGeneration (rg_printable G DEVELOPMENT_COUNTRY)) (\<lambda>country.
     Inr (rg_push G (rg_push G (rg_empty_name G) CountryName (PrintableString country)) CommonName (Utf8String common_name)))"

definition sha1_key_id :: "rcgen_libs \<Rightarrow> bytes \<Rightarrow> bytes" where
  "sha1_key_id G public_key = rg_sha1 G public_key"

text \<open>Sixteen random octets, the first of them made positive and odd.\<close>

definition serial_of :: "bytes \<Rightarrow> bytes" where
  "serial_of b =
     (case b of
        [] \<Rightarrow> []
      | c # r \<Rightarrow> char_of (((of_char c :: nat) AND 0x7F) OR 0x01) # r)"

definition random_serial :: "('x env_scheme, 'e, bytes) prog" where
  "random_serial = bindP new_salt (\<lambda>b. ret (serial_of b))"

definition cert_extension :: "nat list \<Rightarrow> string + bytes \<Rightarrow> bool \<Rightarrow> x509_error + custom_extension" where
  "cert_extension oid value critical =
     bindR (map_err CertificateGeneration value) (\<lambda>der.
     Inr \<lparr> ce_oid = oid, ce_content = der, ce_critical = critical \<rparr>)"

definition subject_key_identifier :: "rcgen_libs \<Rightarrow> bytes \<Rightarrow> x509_error + custom_extension" where
  "subject_key_identifier G key_id =
     bindR (map_err CertificateGeneration (rg_octet_string G key_id)) (\<lambda>octets.
     cert_extension [2, 5, 29, 14] (rg_der_key_identifier G octets) False)"

definition mdl_ds_eku :: "rcgen_libs \<Rightarrow> x509_error + custom_extension" where
  "mdl_ds_eku G = cert_extension [2, 5, 29, 37] (rg_der_key_usage G [OID_MDL_DS]) True"

definition issuer_alt_name :: "rcgen_libs \<Rightarrow> string \<Rightarrow> x509_error + custom_extension" where
  "issuer_alt_name G uri =
     bindR (map_err CertificateGeneration (rg_ia5 G uri)) (\<lambda>uri.
     cert_extension [2, 5, 29, 18] (rg_der_alt_name G [uri]) False)"

section \<open>Minting\<close>

record development_pki_params =
  dp_key_pkcs8_pem :: string
  dp_host :: string
  dp_issuer_url :: string

definition day :: int where "day = 86400 * second"

text \<open>The certificates in the order they are built; \<open>now\<close> is the start of minting.\<close>

definition root_params :: "rcgen_libs \<Rightarrow> instant \<Rightarrow> bytes \<Rightarrow> bytes \<Rightarrow> bytes \<Rightarrow> custom_extension \<Rightarrow> certificate_params" where
  "root_params G now name serial ski alt_name =
     (rg_default G)\<lparr>cp_distinguished_name := name, cp_serial_number := Some serial,
       cp_not_before := now - 1 * day, cp_not_after := now + 9 * 365 * day, cp_is_ca := CaConstrained 0,
       cp_key_usages := [KeyCertSign, CrlSign], cp_key_identifier_method := PreSpecified ski,
       cp_custom_extensions := [alt_name]\<rparr>"

definition leaf_params ::
    "rcgen_libs \<Rightarrow> instant \<Rightarrow> bytes \<Rightarrow> string \<Rightarrow> custom_extension list \<Rightarrow> ('x env_scheme, x509_error, certificate_params) prog" where
  "leaf_params G now key_id common_name extra =
     bindP (liftR (subject_name G common_name)) (\<lambda>name.
     bindP random_serial (\<lambda>serial.
     bindP (liftR (subject_key_identifier G key_id)) (\<lambda>ski.
     ret ((rg_default G)\<lparr>cp_distinguished_name := name, cp_serial_number := Some serial,
       cp_not_before := now - 1 * day, cp_not_after := now + 400 * day, cp_is_ca := NoCa,
       cp_key_usages := [DigitalSignature], cp_use_authority_key_identifier := True,
       cp_custom_extensions := extra @ [ski]\<rparr>))))"

definition x5c_params :: "rcgen_libs \<Rightarrow> instant \<Rightarrow> bytes \<Rightarrow> string \<Rightarrow> ('x env_scheme, x509_error, certificate_params) prog" where
  "x5c_params G now key_id host =
     bindP (liftR (map_err CertificateGeneration (rg_new G [host]))) (\<lambda>p.
     bindP random_serial (\<lambda>serial.
     ret (p\<lparr>cp_distinguished_name := rg_push G (cp_distinguished_name p) CommonName (Utf8String host),
       cp_serial_number := Some serial, cp_not_before := now - 1 * day, cp_not_after := now + 400 * day,
       cp_is_ca := ExplicitNoCa, cp_key_usages := [DigitalSignature], cp_key_identifier_method := PreSpecified key_id,
       cp_use_authority_key_identifier := True\<rparr>)))"

definition root_crl :: "instant \<Rightarrow> bytes \<Rightarrow> crl_params" where
  "root_crl now root_ski =
     \<lparr> cl_this_update = now - 1 * day, cl_next_update = now + 400 * day, cl_crl_number = 1,
       cl_issuing_distribution_point = None, cl_revoked_certs = [], cl_key_identifier_method = PreSpecified root_ski \<rparr>"

definition sign_leaf :: "rcgen_libs \<Rightarrow> bytes \<Rightarrow> certificate_params \<times> bytes \<Rightarrow> certificate_params \<Rightarrow> x509_error + issuer_certificate" where
  "sign_leaf G key issuer params =
     bindR (map_err CertificateGeneration (rg_signed_by G params key issuer)) (\<lambda>der. Inr \<lparr> xc_der = der \<rparr>)"

text \<open>The root and its key, which nothing keeps: random bytes for the key, then for the serial number.\<close>

definition mint_root ::
    "rcgen_libs \<Rightarrow> instant \<Rightarrow> custom_extension \<Rightarrow> ('x env_scheme, x509_error, bytes \<times> certificate_params \<times> bytes) prog" where
  "mint_root G now alt_name =
     bindP new_salt (\<lambda>random.
     bindP (liftR (map_err CertificateGeneration (rg_generate G random))) (\<lambda>root_key.
     bindP (liftR (subject_name G ''oid4vc-rs Development IACA'')) (\<lambda>name.
     bindP random_serial (\<lambda>serial.
     let root = root_params G now name serial (sha1_key_id G (rg_public_key G root_key)) alt_name in
     bindP (liftR (map_err CertificateGeneration (rg_self_signed G root root_key))) (\<lambda>der.
     ret (der, root, root_key))))))"

text \<open>The leaves for the issuer's \<open>key\<close>, and the revocation list, signed by the root.\<close>

definition mint_leaves ::
    "rcgen_libs \<Rightarrow> development_pki_params \<Rightarrow> instant \<Rightarrow> custom_extension \<Rightarrow> bytes \<Rightarrow> certificate_params \<Rightarrow> bytes \<Rightarrow> bytes \<Rightarrow>
       ('x env_scheme, x509_error, issuer_pki) prog" where
  "mint_leaves G params now alt_name root_der root root_key key =
     (let key_id = sha1_key_id G (rg_public_key G key);
          crl_uri = trim_end_matches (CHR ''/'') (dp_issuer_url params) @ CRL_PATH in
     bindP (x5c_params G now key_id (dp_host params)) (\<lambda>x5c_leaf.
     bindP (liftR (mdl_ds_eku G)) (\<lambda>eku.
     bindP (leaf_params G now key_id ''oid4vc-rs Development Document Signer'' [eku, alt_name]) (\<lambda>ds.
     bindP (leaf_params G now key_id ''oid4vc-rs Development Status List Signer'' []) (\<lambda>status_signer.
     bindP (liftR (map_err CertificateGeneration
       (rg_sign_crl G (root_crl now (sha1_key_id G (rg_public_key G root_key))) (root, root_key)))) (\<lambda>crl.
     bindP (liftR (sign_leaf G key (root, root_key) x5c_leaf)) (\<lambda>leaf.
     bindP (liftR (sign_leaf G key (root, root_key) (ds\<lparr>cp_crl_distribution_points := [[crl_uri]]\<rparr>))) (\<lambda>mdoc_signer.
     bindP (liftR (sign_leaf G key (root, root_key) status_signer)) (\<lambda>mdoc_status_signer.
     ret \<lparr> pki_trust_anchor = root_der, pki_leaf = leaf, pki_mdoc_signer = mdoc_signer,
           pki_mdoc_status_signer = mdoc_status_signer, pki_crl = crl \<rparr>)))))))))"

definition mint_development ::
    "rcgen_libs \<Rightarrow> development_pki_params \<Rightarrow> ('x env_scheme, x509_error, issuer_pki) prog" where
  "mint_development G params =
     bindP utc_now (\<lambda>now.
     bindP (liftR (issuer_alt_name G (dp_issuer_url params))) (\<lambda>alt_name.
     bindP (mint_root G now alt_name) (\<lambda>(root_der, root, root_key).
     bindP (liftR (map_err CertificateGeneration (rg_key_from_pem G (dp_key_pkcs8_pem params)))) (\<lambda>key.
     mint_leaves G params now alt_name root_der root root_key key))))"

record development_chain =
  dc_trust_anchor_pem :: string
  dc_leaf :: issuer_certificate

definition issue_development_chain ::
    "x509_libs \<Rightarrow> rcgen_libs \<Rightarrow> string \<Rightarrow> string \<Rightarrow> ('x env_scheme, x509_error, development_chain) prog" where
  "issue_development_chain X G key_pkcs8_pem host =
     bindP (mint_development G \<lparr> dp_key_pkcs8_pem = key_pkcs8_pem, dp_host = host, dp_issuer_url = ''https://'' @ host \<rparr>) (\<lambda>pki.
     ret \<lparr> dc_trust_anchor_pem = pki_trust_anchor_pem X pki, dc_leaf = pki_leaf pki \<rparr>)"

section \<open>Serial numbers\<close>

text \<open>A serial number is positive, and no longer than the twenty octets that RFC 5280 allows.\<close>

lemma serial_of_positive:
  assumes "length b = 16"
  shows "length (serial_of b) = 16 \<and> odd (of_char (hd (serial_of b)) :: nat) \<and> (of_char (hd (serial_of b)) :: nat) < 128"
proof -
  obtain c r where b: "b = c # r" using assms by (cases b) auto
  define m where "m = (of_char c :: nat) mod 128"
  have "(of_char c :: nat) AND 0x7F = m"
    using take_bit_eq_mask [of 7 "of_char c :: nat"] by (simp add: m_def take_bit_eq_mod mask_eq_exp_minus_1)
  then have "((of_char c :: nat) AND 0x7F) OR 0x01 = m + of_bool (even m)" using or_one_eq [of m] by simp
  moreover have "m + of_bool (even m) < 128 \<and> odd (m + of_bool (even m))"
  proof -
    have "m < 128" by (simp add: m_def)
    then show ?thesis by (cases "even m") (auto elim!: evenE)
  qed
  ultimately show ?thesis using assms b by (simp add: serial_of_def)
qed

section \<open>What minting returns\<close>

text \<open>
  What rcgen documents: a certificate holds what its parameters ask, in whole seconds, over the
  subject's key, and the issuer's key signed it. \<open>keys\<close> are the P-256 keys of rcgen's: those it
  generates are among them.
\<close>

definition describes :: "certificate_params \<Rightarrow> bytes \<Rightarrow> bytes \<Rightarrow> certificate \<Rightarrow> bool" where
  "describes p issuer_name public_key c \<longleftrightarrow>
     ct_subject c = cp_distinguished_name p \<and> ct_issuer c = issuer_name \<and>
     ct_not_before c = nat (timestamp (cp_not_before p)) \<and> ct_not_after c = nat (timestamp (cp_not_after p)) \<and>
     ct_public_key c = public_key \<and> ct_key_algorithm c = ID_EC_PUBLIC_KEY \<and> ct_key_curve c = Some SECP_256_R_1 \<and>
     ct_signature_algorithm c = ECDSA_WITH_SHA_256"

definition rcgen_law :: "libs \<Rightarrow> x509_libs \<Rightarrow> rcgen_libs \<Rightarrow> bytes set \<Rightarrow> bool" where
  "rcgen_law L X G keys \<longleftrightarrow>
     (\<forall>r k. rg_generate G r = Inr k \<longrightarrow> k \<in> keys) \<and>
     (\<forall>k\<in>keys. is_ok (x_sec1_key X (rg_public_key G k))) \<and>
     (\<forall>p. \<forall>k\<in>keys. \<forall>der. rg_self_signed G p k = Inr der \<longrightarrow>
        (\<exists>c. x_parse X der = Inr c \<and> describes p (cp_distinguished_name p) (rg_public_key G k) c)) \<and>
     (\<forall>p ip. \<forall>k\<in>keys. \<forall>ik\<in>keys. \<forall>der. rg_signed_by G p k (ip, ik) = Inr der \<longrightarrow>
        (\<exists>c tbs sig. x_parse X der = Inr c \<and> describes p (cp_distinguished_name ip) (rg_public_key G k) c \<and>
           ct_tbs c = Inr tbs \<and> x_der_signature X (ct_signature c) = Some sig \<and>
           (\<forall>v. x_sec1_key X (rg_public_key G ik) = Inr v \<longrightarrow> p256_verify L v tbs sig = Inr ())))"

lemma rcgen_generated: "rcgen_law L X G keys \<Longrightarrow> rg_generate G r = Inr k \<Longrightarrow> k \<in> keys"
  unfolding rcgen_law_def by blast

lemma rcgen_point: "rcgen_law L X G keys \<Longrightarrow> k \<in> keys \<Longrightarrow> \<exists>v. x_sec1_key X (rg_public_key G k) = Inr v"
  unfolding rcgen_law_def is_ok_iff by blast

lemma rcgen_root: "rcgen_law L X G keys \<Longrightarrow> k \<in> keys \<Longrightarrow> rg_self_signed G p k = Inr der \<Longrightarrow>
    \<exists>c. x_parse X der = Inr c \<and> describes p (cp_distinguished_name p) (rg_public_key G k) c"
  unfolding rcgen_law_def by blast

lemma rcgen_leaf: "rcgen_law L X G keys \<Longrightarrow> k \<in> keys \<Longrightarrow> ik \<in> keys \<Longrightarrow> rg_signed_by G p k (ip, ik) = Inr der \<Longrightarrow>
    \<exists>c tbs sig. x_parse X der = Inr c \<and> describes p (cp_distinguished_name ip) (rg_public_key G k) c \<and>
      ct_tbs c = Inr tbs \<and> x_der_signature X (ct_signature c) = Some sig \<and>
      (\<forall>v. x_sec1_key X (rg_public_key G ik) = Inr v \<longrightarrow> p256_verify L v tbs sig = Inr ())"
  unfolding rcgen_law_def by blast

text \<open>A leaf's and the root's validity, from the instant of minting, and what else a leaf asks.\<close>

definition leaf_profile :: "instant \<Rightarrow> certificate_params \<Rightarrow> bool" where
  "leaf_profile now p \<longleftrightarrow>
     cp_not_before p = now - day \<and> cp_not_after p = now + 400 * day \<and> cp_is_ca p \<in> {NoCa, ExplicitNoCa} \<and>
     cp_key_usages p = [DigitalSignature] \<and> cp_use_authority_key_identifier p \<and>
     (\<exists>b. cp_serial_number p = Some (serial_of b))"

definition root_profile :: "instant \<Rightarrow> certificate_params \<Rightarrow> bool" where
  "root_profile now p \<longleftrightarrow>
     cp_not_before p = now - day \<and> cp_not_after p = now + 9 * 365 * day \<and> cp_is_ca p = CaConstrained 0 \<and>
     cp_key_usages p = [KeyCertSign, CrlSign] \<and> (\<exists>b. cp_serial_number p = Some (serial_of b))"

lemma random_serial_run [run_simps]:
  "random_serial s = (Inr (serial_of (salt_at s (salts_used s))), s\<lparr>salts_used := Suc (salts_used s)\<rparr>)"
  by (simp add: random_serial_def bindP_def new_salt_run ret_def)

lemma leaf_params_profile: "leaf_params G now key_id cn extra s = (Inr p, s') \<Longrightarrow> leaf_profile now p"
  by (auto simp: leaf_params_def leaf_profile_def bindP_Inr random_serial_run ret_Inr)

lemma x5c_params_profile: "x5c_params G now key_id host s = (Inr p, s') \<Longrightarrow> leaf_profile now p"
  by (auto simp: x5c_params_def leaf_profile_def bindP_Inr random_serial_run ret_Inr)

lemma mint_root_Inr:
  assumes "mint_root G now alt_name s = (Inr (der, root, root_key), s')"
  shows "(\<exists>r. rg_generate G r = Inr root_key) \<and> rg_self_signed G root root_key = Inr der \<and> root_profile now root"
  using assms
  by (auto simp: mint_root_def bindP_Inr random_serial_run new_salt_run ret_Inr liftR_Inr map_err_Inr Let_def
      root_profile_def root_params_def)

text \<open>What minting returns: three leaves of the profile, signed by one root, and its list.\<close>

lemma mint_leaves_Inr:
  assumes "mint_leaves G params now alt_name root_der root root_key key s = (Inr pki, s')"
  shows "pki_trust_anchor pki = root_der \<and>
    (\<forall>c\<in>{pki_leaf pki, pki_mdoc_signer pki, pki_mdoc_status_signer pki}.
       \<exists>p. leaf_profile now p \<and> sign_leaf G key (root, root_key) p = Inr c) \<and>
    (\<exists>ski. rg_sign_crl G (root_crl now ski) (root, root_key) = Inr (pki_crl pki))"
proof -
  have profile: "leaf_profile now p \<Longrightarrow> leaf_profile now (p\<lparr>cp_crl_distribution_points := uris\<rparr>)" for p uris
    by (simp add: leaf_profile_def)
  note params = x5c_params_profile leaf_params_profile leaf_params_profile [THEN profile]
  from assms show ?thesis
    unfolding mint_leaves_def Let_def bindP_Inr liftR_Inr ret_Inr map_err_Inr
    by (elim exE conjE, simp only: simp_thms issuer_pki.simps ball_simps insert_iff)
      (intro conjI; (blast intro: params))
qed

definition minted_by :: "rcgen_libs \<Rightarrow> bytes \<Rightarrow> instant \<Rightarrow> issuer_pki \<Rightarrow> certificate_params \<Rightarrow> bytes \<Rightarrow> bool" where
  "minted_by G key now pki root root_key \<longleftrightarrow>
     (\<exists>r. rg_generate G r = Inr root_key) \<and> rg_self_signed G root root_key = Inr (pki_trust_anchor pki) \<and>
     root_profile now root \<and>
     (\<forall>c\<in>{pki_leaf pki, pki_mdoc_signer pki, pki_mdoc_status_signer pki}.
        \<exists>p. leaf_profile now p \<and> sign_leaf G key (root, root_key) p = Inr c) \<and>
     (\<exists>ski. rg_sign_crl G (root_crl now ski) (root, root_key) = Inr (pki_crl pki))"

lemma mint_development_Inr:
  assumes "mint_development G params s = (Inr pki, s')"
  shows "\<exists>key root root_key. rg_key_from_pem G (dp_key_pkcs8_pem params) = Inr key \<and>
    minted_by G key (clock_at s (clock_reads s)) pki root root_key"
proof -
  from assms obtain alt_name t root_der root root_key t' key
    where root: "mint_root G (clock_at s (clock_reads s)) alt_name t = (Inr (root_der, root, root_key), t')"
    and key: "rg_key_from_pem G (dp_key_pkcs8_pem params) = Inr key"
    and leaves: "mint_leaves G params (clock_at s (clock_reads s)) alt_name root_der root root_key key t' = (Inr pki, s')"
    by (auto simp: mint_development_def bindP_Inr utc_now_run liftR_Inr map_err_Inr)
  show ?thesis using key mint_root_Inr [OF root] mint_leaves_Inr [OF leaves] unfolding minted_by_def by blast
qed

section \<open>A minted bundle loads\<close>

text \<open>Instants whose seconds chrono and X.509 both represent.\<close>

definition datable :: "instant \<Rightarrow> bool" where
  "datable t \<longleftrightarrow> 0 \<le> t \<and> t < 253402300800 * second"

lemma datable_to_datetime: "datable t \<Longrightarrow> to_datetime (nat (timestamp t)) = timestamp t * second"
proof -
  assume t: "datable t"
  then have "0 \<le> timestamp t" by (simp add: datable_def timestamp_def second_def pos_imp_zdiv_nonneg_iff)
  moreover have "timestamp t < 253402300800"
    using t zdiv_mono1 [of t "253402300800 * second - 1" second] by (simp add: timestamp_def datable_def second_def)
  ultimately show ?thesis by (simp add: to_datetime_def wrap_i64_def from_timestamp_def)
qed

lemma timestamp_floor: "timestamp t * second \<le> t" "t - second < timestamp t * second"
  using pos_mod_sign [of second t] pos_mod_bound [of second t] minus_mult_div_eq_mod [of t second]
  by (simp_all add: timestamp_def second_def algebra_simps)

lemma described_valid:
  assumes "describes p n k c" and "datable (cp_not_before p)" and "datable (cp_not_after p)"
    and "cp_not_before p \<le> at" and "at \<le> cp_not_after p - second"
  shows "valid_at at c"
  using assms timestamp_floor [of "cp_not_before p"] timestamp_floor [of "cp_not_after p"]
  by (simp add: valid_at_def describes_def datable_to_datetime)

text \<open>The instants at which a certificate minted at \<open>now\<close> is valid, to the second.\<close>

definition leaf_valid :: "instant \<Rightarrow> instant \<Rightarrow> bool" where
  "leaf_valid now at \<longleftrightarrow> now - day \<le> at \<and> at \<le> now + 400 * day - second"

lemma sign_leaf_Inr: "sign_leaf G key issuer p = Inr c \<Longrightarrow> rg_signed_by G p key issuer = Inr (xc_der c)"
  by (auto simp: sign_leaf_def bindR_Inr map_err_Inr)

lemma minted_leaf_loads:
  assumes law: "rcgen_law L X G keys" and minted: "minted_by G key now pki root root_key" and key: "key \<in> keys"
    and c: "c \<in> {pki_leaf pki, pki_mdoc_signer pki, pki_mdoc_status_signer pki}"
    and now: "day \<le> now" "datable (now + 9 * 365 * day)"
  shows "certificate_from_der X (xc_der c) (rg_public_key G key) = Inr c \<and>
    (\<forall>at. leaf_valid now at \<longrightarrow> is_ok (validate_chain L X [xc_der c] [pki_trust_anchor pki] at))"
proof -
  have dates: "datable (now - day)" "datable (now + 400 * day)"
    using now by (auto simp: datable_def day_def second_def)
  obtain p where p: "leaf_profile now p" and signed: "rg_signed_by G p key (root, root_key) = Inr (xc_der c)"
    using minted c sign_leaf_Inr unfolding minted_by_def by blast
  obtain r where root: "rg_self_signed G root root_key = Inr (pki_trust_anchor pki)" "root_profile now root"
    and r: "rg_generate G r = Inr root_key"
    using minted unfolding minted_by_def by blast
  note k = rcgen_generated [OF law r]
  obtain rc where rc: "x_parse X (pki_trust_anchor pki) = Inr rc" "describes root (cp_distinguished_name root) (rg_public_key G root_key) rc"
    using rcgen_root [OF law k root(1)] by blast
  obtain lc tbs sig where lc: "x_parse X (xc_der c) = Inr lc" "describes p (cp_distinguished_name root) (rg_public_key G key) lc"
    and sig: "ct_tbs lc = Inr tbs" "x_der_signature X (ct_signature lc) = Some sig"
      "\<And>v. x_sec1_key X (rg_public_key G root_key) = Inr v \<Longrightarrow> p256_verify L v tbs sig = Inr ()"
    using rcgen_leaf [OF law key k signed] by blast
  obtain v w where v: "x_sec1_key X (rg_public_key G root_key) = Inr v" and w: "x_sec1_key X (rg_public_key G key) = Inr w"
    using rcgen_point [OF law] k key by blast
  have issued: "signed_by_cert L X lc rc"
    using rc(2) lc(2) sig v by (simp add: signed_by_cert_def is_ok_iff verify_issued_by_Inr describes_def p256_verifying_key_def)
  have valid: "valid_at at lc \<and> valid_at at rc" if "leaf_valid now at" for at
    using that p root(2) described_valid [OF lc(2)] described_valid [OF rc(2)] dates now(2)
    by (auto simp: leaf_valid_def leaf_profile_def root_profile_def day_def second_def)
  have "\<exists>j. p256_jwk L X (ct_public_key lc) = Inr j" using w lc(2) by (simp add: p256_jwk_def describes_def)
  then have "is_ok (validate_chain L X [xc_der c] [pki_trust_anchor pki] at)" if "leaf_valid now at" for at
    unfolding is_ok_iff validate_chain_Inr using valid [OF that] lc(1) rc(1) issued
    by (auto intro!: exI [of _ "[lc]"])
  moreover have "certificate_from_der X (xc_der c) (rg_public_key G key) = Inr c"
    using lc by (simp add: certificate_from_der_def parse_certificate_def describes_def)
  ultimately show ?thesis by blast
qed

text \<open>
  The bundle that minting wrote is read back, for the key it was minted for, at any time of the
  next 400 days.
\<close>

lemma minted_bundle_loads:
  assumes "b64_law X" and "rcgen_law L X G keys" and "minted_by G key now pki root root_key" and "key \<in> keys"
    and "day \<le> now" and "datable (now + 9 * 365 * day)" and "\<And>n. leaf_valid now (clock_at t n)"
  shows "fst (pki_from_pem L X (pki_to_pem X pki) (rg_public_key G key) t) = Inr pki"
  using minted_leaf_loads [OF assms(2-4) _ assms(5,6)] assms(7) by (intro bundle_loads [OF assms(1)]) auto

end
