(* ===== verification/Key_Storage.thy ===== *)
theory Key_Storage
  imports Keys
begin

text \<open>
  Making, reading and writing the issuer's key pairs, from crates/crypto/src/keys.rs: random
  generation, PKCS#8 PEM and the SEC1 point. The codec of private keys and the generation of a
  key from random bytes are the p256 and ed25519-dalek crates', and parameters.
\<close>

record key_codec =
  kc_p256_random :: "bytes \<Rightarrow> bytes"
  kc_p256_read :: "string \<Rightarrow> string + bytes"
  kc_p256_write :: "bytes \<Rightarrow> string + string"
  kc_ed25519_random :: "bytes \<Rightarrow> bytes"
  kc_ed25519_read :: "string \<Rightarrow> string + bytes"
  kc_ed25519_write :: "bytes \<Rightarrow> string + string"

definition key_codec_law :: "key_codec \<Rightarrow> bool" where
  "key_codec_law K \<longleftrightarrow>
     (\<forall>k pem. kc_p256_write K k = Inr pem \<longrightarrow> kc_p256_read K pem = Inr k) \<and>
     (\<forall>k pem. kc_ed25519_write K k = Inr pem \<longrightarrow> kc_ed25519_read K pem = Inr k)"

definition ec_generate :: "libs \<Rightarrow> key_codec \<Rightarrow> ('x env_scheme, key_error, ecdsa_p256_key_pair) prog" where
  "ec_generate L K = bindP new_salt (\<lambda>random. ret (ec_from_signing_key L (kc_p256_random K random)))"

definition ec_from_pkcs8_pem :: "libs \<Rightarrow> key_codec \<Rightarrow> string \<Rightarrow> key_error + ecdsa_p256_key_pair" where
  "ec_from_pkcs8_pem L K pem =
     bindR (map_err InvalidKeyMaterial (kc_p256_read K pem)) (\<lambda>sk. Inr (ec_from_signing_key L sk))"

definition ec_to_pkcs8_pem :: "key_codec \<Rightarrow> ecdsa_p256_key_pair \<Rightarrow> key_error + string" where
  "ec_to_pkcs8_pem K k = map_err InvalidKeyMaterial (kc_p256_write K (ec_signing_key k))"

text \<open>The uncompressed point: the octet 4 and both coordinates.\<close>

definition ec_public_key_sec1 :: "libs \<Rightarrow> ecdsa_p256_key_pair \<Rightarrow> bytes" where
  "ec_public_key_sec1 L k =
     (let point = p256_point L (ec_verifying_key k) in CHR 0x04 # fst point @ snd point)"

definition ed_generate :: "libs \<Rightarrow> key_codec \<Rightarrow> ('x env_scheme, key_error, ed25519_key_pair) prog" where
  "ed_generate L K = bindP new_salt (\<lambda>random. ret (ed_from_signing_key L (kc_ed25519_random K random)))"

definition ed_from_pkcs8_pem :: "libs \<Rightarrow> key_codec \<Rightarrow> string \<Rightarrow> key_error + ed25519_key_pair" where
  "ed_from_pkcs8_pem L K pem =
     bindR (map_err InvalidKeyMaterial (kc_ed25519_read K pem)) (\<lambda>sk. Inr (ed_from_signing_key L sk))"

definition ed_to_pkcs8_pem :: "key_codec \<Rightarrow> ed25519_key_pair \<Rightarrow> key_error + string" where
  "ed_to_pkcs8_pem K k = map_err InvalidKeyMaterial (kc_ed25519_write K (ed_signing_key k))"

section \<open>Keys that read back\<close>

text \<open>A key pair that was generated or read: everything else follows from its signing key.\<close>

definition ec_well_formed :: "libs \<Rightarrow> ecdsa_p256_key_pair \<Rightarrow> bool" where
  "ec_well_formed L k \<longleftrightarrow> k = ec_from_signing_key L (ec_signing_key k)"

definition ed_well_formed :: "libs \<Rightarrow> ed25519_key_pair \<Rightarrow> bool" where
  "ed_well_formed L k \<longleftrightarrow> k = ed_from_signing_key L (ed_signing_key k)"

lemma well_formed_from_signing_key [simp]:
  "ec_well_formed L (ec_from_signing_key L sk)" "ed_well_formed L (ed_from_signing_key L sk')"
  by (simp_all add: ec_well_formed_def ed_well_formed_def ec_from_signing_key_def ed_from_signing_key_def Let_def)

lemma generate_run [run_simps]:
  "ec_generate L K s = (Inr (ec_from_signing_key L (kc_p256_random K (salt_at s (salts_used s)))), s\<lparr>salts_used := Suc (salts_used s)\<rparr>)"
  "ed_generate L K s = (Inr (ed_from_signing_key L (kc_ed25519_random K (salt_at s (salts_used s)))), s\<lparr>salts_used := Suc (salts_used s)\<rparr>)"
  by (simp_all add: ec_generate_def ed_generate_def bindP_def new_salt_run ret_def)

lemma pem_round_trip:
  "key_codec_law K \<Longrightarrow> ec_well_formed L k \<Longrightarrow> ec_to_pkcs8_pem K k = Inr pem \<Longrightarrow> ec_from_pkcs8_pem L K pem = Inr k"
  "key_codec_law K \<Longrightarrow> ed_well_formed L k' \<Longrightarrow> ed_to_pkcs8_pem K k' = Inr pem' \<Longrightarrow> ed_from_pkcs8_pem L K pem' = Inr k'"
  by (simp_all add: key_codec_law_def ec_to_pkcs8_pem_def ed_to_pkcs8_pem_def ec_from_pkcs8_pem_def ed_from_pkcs8_pem_def
      map_err_Inr ec_well_formed_def ed_well_formed_def)

lemma read_well_formed:
  "ec_from_pkcs8_pem L K pem = Inr k \<Longrightarrow> ec_well_formed L k"
  "ed_from_pkcs8_pem L K pem' = Inr k' \<Longrightarrow> ed_well_formed L k'"
  by (auto simp: ec_from_pkcs8_pem_def ed_from_pkcs8_pem_def bindR_Inr map_err_Inr)

end
