(* ===== verification/Startup.thy ===== *)
theory Startup
  imports App_State Minting Key_Storage
begin

text \<open>
  The start of the server, from crates/server/src/state.rs: the key files, the certificates and
  the attester keys are read from the file system, or made and written to it. The file system
  is part of the state: paths with their contents and permissions. Which calls fail is a
  source like the clock, so every error path is a run.
\<close>

section \<open>The file system\<close>

record stored_file =
  sd_contents :: string
  sd_mode :: nat

datatype os_call = ReadFile string | CreateDirs string | WriteFile string | SetMode string nat

text \<open>
  \<open>st_fault\<close> is the error of the n-th call, if it fails, \<open>st_left\<close> what a failed write leaves at
  the path, and \<open>st_new_mode\<close> the permissions that the umask gives to a new file. Directories
  are not kept: creating one can only fail.
\<close>

record startup = env +
  st_files :: "string \<rightharpoonup> stored_file"
  st_new_mode :: nat
  st_fault :: "nat \<Rightarrow> os_call \<Rightarrow> string option"
  st_left :: "nat \<Rightarrow> stored_file option"
  st_calls :: nat

definition os_do :: "os_call \<Rightarrow> ('x startup_scheme, string, unit) prog" where
  "os_do c = (\<lambda>s.
     ((case st_fault s (st_calls s) c of None \<Rightarrow> Inr () | Some e \<Rightarrow> Inl e), s\<lparr>st_calls := Suc (st_calls s)\<rparr>))"

definition path_exists :: "string \<Rightarrow> ('x startup_scheme, 'e, bool) prog" where
  "path_exists p = (\<lambda>s. (Inr (st_files s p \<noteq> None), s))"

text \<open>\<open>std::fs::read_to_string\<close>, \<open>std::fs::write\<close> and \<open>std::fs::set_permissions\<close>.\<close>

definition read_to_string :: "string \<Rightarrow> ('x startup_scheme, string, string) prog" where
  "read_to_string p = bindP (os_do (ReadFile p)) (\<lambda>_ s.
     ((case st_files s p of Some f \<Rightarrow> Inr (sd_contents f) | None \<Rightarrow> Inl ''No such file or directory (os error 2)''), s))"

definition fs_write :: "string \<Rightarrow> string \<Rightarrow> ('x startup_scheme, string, unit) prog" where
  "fs_write p contents = (\<lambda>s.
     case os_do (WriteFile p) s of
       (Inl e, t) \<Rightarrow> (Inl e, t\<lparr>st_files := (st_files t)(p := st_left s (st_calls s))\<rparr>)
     | (Inr _, t) \<Rightarrow>
         (Inr (), t\<lparr>st_files := (st_files t)(p \<mapsto>
            \<lparr> sd_contents = contents, sd_mode = (case st_files t p of Some f \<Rightarrow> sd_mode f | None \<Rightarrow> st_new_mode t) \<rparr>)\<rparr>))"

definition set_permissions :: "string \<Rightarrow> nat \<Rightarrow> ('x startup_scheme, string, unit) prog" where
  "set_permissions p mode = bindP (os_do (SetMode p mode)) (\<lambda>_ s.
     (Inr (), s\<lparr>st_files := (st_files s)(p := map_option (\<lambda>f. f\<lparr>sd_mode := mode\<rparr>) (st_files s p))\<rparr>))"

text \<open>
  \<open>Path::parent\<close>: without the last component, empty components and dots apart. The separators
  of the result are not those of the path, the directory is.
\<close>

definition path_parts :: "string \<Rightarrow> string list" where
  "path_parts p =
     (case split_on (CHR ''/'') p of
        [] \<Rightarrow> []
      | c # cs \<Rightarrow> filter (\<lambda>c. c \<noteq> []) [c] @ filter (\<lambda>c. c \<noteq> [] \<and> c \<noteq> ''.'') cs)"

definition path_parent :: "string \<Rightarrow> string option" where
  "path_parent p =
     (if path_parts p = [] then None
      else Some ((if take 1 p = ''/'' then ''/'' else []) @ join_with ''/'' (butlast (path_parts p))))"

definition create_parent :: "string \<Rightarrow> ('x startup_scheme, string, unit) prog" where
  "create_parent p =
     (case path_parent p of
        Some parent \<Rightarrow> if parent \<noteq> [] then os_do (CreateDirs parent) else ret ()
      | None \<Rightarrow> ret ())"

definition write_public_file :: "string \<Rightarrow> string \<Rightarrow> ('x startup_scheme, string, unit) prog" where
  "write_public_file p contents = bindP (create_parent p) (\<lambda>_. fs_write p contents)"

text \<open>Owner-readable only, as the octal 600.\<close>

definition OWNER_ONLY :: nat where "OWNER_ONLY = 384"

definition write_key_file :: "string \<Rightarrow> string \<Rightarrow> ('x startup_scheme, string, unit) prog" where
  "write_key_file p pem =
     bindP (create_parent p) (\<lambda>_.
     bindP (fs_write p pem) (\<lambda>_.
     set_permissions p OWNER_ONLY))"

section \<open>Loading\<close>

definition load_or_create_p256 ::
    "libs \<Rightarrow> key_codec \<Rightarrow> string option \<Rightarrow> ('x startup_scheme, string, ecdsa_p256_key_pair) prog" where
  "load_or_create_p256 L K path =
     (case path of
        None \<Rightarrow> errP key_error_to_string (ec_generate L K)
      | Some p \<Rightarrow>
          bindP (path_exists p) (\<lambda>found.
          if found then
            bindP (read_to_string p) (\<lambda>pem.
            liftR (map_err key_error_to_string (ec_from_pkcs8_pem L K pem)))
          else
            bindP (errP key_error_to_string (ec_generate L K)) (\<lambda>key.
            bindP (liftR (map_err key_error_to_string (ec_to_pkcs8_pem K key))) (\<lambda>pem.
            bindP (write_key_file p pem) (\<lambda>_.
            ret key)))))"

definition load_or_create_ed25519 ::
    "libs \<Rightarrow> key_codec \<Rightarrow> string option \<Rightarrow> ('x startup_scheme, string, ed25519_key_pair) prog" where
  "load_or_create_ed25519 L K path =
     (case path of
        None \<Rightarrow> errP key_error_to_string (ed_generate L K)
      | Some p \<Rightarrow>
          bindP (path_exists p) (\<lambda>found.
          if found then
            bindP (read_to_string p) (\<lambda>pem.
            liftR (map_err key_error_to_string (ed_from_pkcs8_pem L K pem)))
          else
            bindP (errP key_error_to_string (ed_generate L K)) (\<lambda>key.
            bindP (liftR (map_err key_error_to_string (ed_to_pkcs8_pem K key))) (\<lambda>pem.
            bindP (write_key_file p pem) (\<lambda>_.
            ret key)))))"

text \<open>The trusted attester keys without private parts; serde's decoder is an argument.\<close>

definition load_client_attesters ::
    "(string \<Rightarrow> string + jwks) \<Rightarrow> string option \<Rightarrow> ('x startup_scheme, string, jwk list) prog" where
  "load_client_attesters parse path =
     (case path of
        None \<Rightarrow> ret []
      | Some p \<Rightarrow>
          bindP (read_to_string p) (\<lambda>text.
          bindP (liftR (map_err (\<lambda>e. p @ '': '' @ e) (parse text))) (\<lambda>js.
          ret (map (\<lambda>k. k\<lparr>jwk_d := None\<rparr>) (jwks_keys js)))))"

text \<open>
  Loading the certificates: the bundle at the configured path when there is one with more or
  fewer than one certificate, else a new PKI, with the bundle and the trust anchor written.
  \<open>host_str\<close> of the url crate is an argument.
\<close>

definition create_pki ::
    "x509_libs \<Rightarrow> rcgen_libs \<Rightarrow> key_codec \<Rightarrow> (url \<Rightarrow> string option) \<Rightarrow> server_config \<Rightarrow> ecdsa_p256_key_pair \<Rightarrow>
       ('x startup_scheme, string, issuer_pki) prog" where
  "create_pki X G K host_str config key =
     bindP (liftR (map_err key_error_to_string (ec_to_pkcs8_pem K key))) (\<lambda>pem.
     bindP (errP x509_error_to_string (mint_development G
       \<lparr> dp_key_pkcs8_pem = pem,
         dp_host = (case host_str (sf_external_url config) of Some h \<Rightarrow> h | None \<Rightarrow> ''localhost''),
         dp_issuer_url = config_issuer_id config \<rparr>)) (\<lambda>pki.
     bindP (case sf_cert_path config of Some p \<Rightarrow> write_public_file p (pki_to_pem X pki) | None \<Rightarrow> ret ()) (\<lambda>_.
     bindP (case sf_trust_anchor_path config of Some p \<Rightarrow> write_public_file p (pki_trust_anchor_pem X pki) | None \<Rightarrow> ret ()) (\<lambda>_.
     ret pki))))"

definition load_or_create_pki ::
    "libs \<Rightarrow> x509_libs \<Rightarrow> rcgen_libs \<Rightarrow> key_codec \<Rightarrow> (url \<Rightarrow> string option) \<Rightarrow> server_config \<Rightarrow> ecdsa_p256_key_pair \<Rightarrow>
       ('x startup_scheme, string, issuer_pki) prog" where
  "load_or_create_pki L X G K host_str config key =
     bindP (case sf_cert_path config of Some p \<Rightarrow> path_exists p | None \<Rightarrow> ret False) (\<lambda>found.
     if found then
       let p = the (sf_cert_path config) in
       bindP (read_to_string p) (\<lambda>pem.
       if length (pem_blocks X pem ''CERTIFICATE'') = 1 then create_pki X G K host_str config key
       else errP (\<lambda>e. p @ '': '' @ x509_error_to_string e @ ''; delete it to mint a new one'')
              (pki_from_pem L X pem (ec_public_key_sec1 L key)))
     else create_pki X G K host_str config key)"

text \<open>\<open>AppState::new\<close>. A generated admin token is a UUID.\<close>

definition app_new ::
    "libs \<Rightarrow> x509_libs \<Rightarrow> rcgen_libs \<Rightarrow> key_codec \<Rightarrow> (url \<Rightarrow> string option) \<Rightarrow> (string \<Rightarrow> string + jwks) \<Rightarrow> server_config \<Rightarrow>
       ('x startup_scheme, string, server \<times> app_state) prog" where
  "app_new L X G K host_str parse_jwks config =
     bindP (load_or_create_p256 L K (sf_p256_key_path config)) (\<lambda>p256.
     bindP (load_or_create_pki L X G K host_str config p256) (\<lambda>pki.
     bindP (load_or_create_ed25519 L K (sf_ed25519_key_path config)) (\<lambda>ed25519.
     bindP (liftR (ok_or ''valid URL join'' (build_metadata L (metadata_config_new config)))) (\<lambda>metadata.
     bindP (admin_token_of config) (\<lambda>admin_token.
     bindP (load_client_attesters parse_jwks (sf_client_attester_jwks_path config)) (\<lambda>attesters s.
     (Inr (server_new metadata config (ec_key_pair L p256) (ed_key_pair L ed25519) pki attesters admin_token,
           app_state_new config (env.truncate s)), s)))))))"

section \<open>What a start leaves on disk\<close>

text \<open>Nothing but the counters of the sources and the files differs.\<close>

lemma os_do_Inr: "os_do c s = (Inr u, s') \<longleftrightarrow> st_fault s (st_calls s) c = None \<and> s' = s\<lparr>st_calls := Suc (st_calls s)\<rparr>"
  by (auto simp: os_do_def split: option.splits)

lemma path_exists_run [run_simps]: "path_exists p s = (Inr (st_files s p \<noteq> None), s)"
  by (simp add: path_exists_def)

lemma same_calls: "s\<lparr>st_calls := st_calls s\<rparr> = s"
  by simp

lemma create_parent_Inr:
  assumes "create_parent p s = (Inr u, s')"
  shows "\<exists>n. s' = s\<lparr>st_calls := n\<rparr>"
proof -
  have "s' = s \<or> s' = s\<lparr>st_calls := Suc (st_calls s)\<rparr>"
    using assms by (auto simp: create_parent_def os_do_Inr ret_Inr split: option.splits if_splits)
  then show ?thesis using same_calls [of s] by metis
qed

lemma fs_write_Inr:
  assumes "fs_write p contents s = (Inr u, s')"
  shows "\<exists>n. s' = s\<lparr>st_calls := n, st_files := (st_files s)(p \<mapsto>
    \<lparr> sd_contents = contents, sd_mode = (case st_files s p of Some f \<Rightarrow> sd_mode f | None \<Rightarrow> st_new_mode s) \<rparr>)\<rparr>"
  using assms by (cases "st_files s p") (auto simp: fs_write_def os_do_Inr split: prod.splits sum.splits)

lemma set_permissions_Inr:
  "set_permissions p mode s = (Inr u, s') \<Longrightarrow>
     \<exists>n. s' = s\<lparr>st_calls := n, st_files := (st_files s)(p := map_option (\<lambda>f. f\<lparr>sd_mode := mode\<rparr>) (st_files s p))\<rparr>"
  by (auto simp: set_permissions_def bindP_Inr os_do_Inr)

lemma write_key_file_Inr:
  assumes "write_key_file p pem s = (Inr u, s')"
  shows "\<exists>n. s' = s\<lparr>st_calls := n, st_files := (st_files s)(p \<mapsto> \<lparr> sd_contents = pem, sd_mode = OWNER_ONLY \<rparr>)\<rparr>"
proof -
  obtain t t' u1 u2 where "create_parent p s = (Inr u1, t)" "fs_write p pem t = (Inr u2, t')" "set_permissions p OWNER_ONLY t' = (Inr u, s')"
    using assms by (auto simp: write_key_file_def bindP_Inr)
  from create_parent_Inr [OF this(1)] fs_write_Inr [OF this(2)] set_permissions_Inr [OF this(3)]
  show ?thesis by auto
qed

lemma write_public_file_Inr:
  assumes "write_public_file p contents s = (Inr u, s')"
  shows "\<exists>n m. s' = s\<lparr>st_calls := n, st_files := (st_files s)(p \<mapsto> \<lparr> sd_contents = contents, sd_mode = m \<rparr>)\<rparr>"
proof -
  obtain t u1 where "create_parent p s = (Inr u1, t)" "fs_write p contents t = (Inr u, s')"
    using assms by (auto simp: write_public_file_def bindP_Inr)
  from create_parent_Inr [OF this(1)] fs_write_Inr [OF this(2)] obtain n n' where "t = s\<lparr>st_calls := n'\<rparr>"
    and "s' = t\<lparr>st_calls := n, st_files := (st_files t)(p \<mapsto>
      \<lparr> sd_contents = contents, sd_mode = (case st_files t p of Some f \<Rightarrow> sd_mode f | None \<Rightarrow> st_new_mode t) \<rparr>)\<rparr>"
    by blast
  then have "s' = s\<lparr>st_calls := n, st_files := (st_files s)(p \<mapsto>
      \<lparr> sd_contents = contents, sd_mode = (case st_files t p of Some f \<Rightarrow> sd_mode f | None \<Rightarrow> st_new_mode t) \<rparr>)\<rparr>"
    by simp
  then show ?thesis by blast
qed

text \<open>A key that was created is in its file, for the owner only; no other file changed.\<close>

lemma p256_created:
  assumes "load_or_create_p256 L K (Some p) s = (Inr key, s')" and "st_files s p = None"
  shows "\<exists>pem n m. ec_well_formed L key \<and> ec_to_pkcs8_pem K key = Inr pem \<and>
    s' = s\<lparr>salts_used := m, st_calls := n, st_files := (st_files s)(p \<mapsto> \<lparr> sd_contents = pem, sd_mode = OWNER_ONLY \<rparr>)\<rparr>"
proof -
  obtain pem where "ec_well_formed L key" "ec_to_pkcs8_pem K key = Inr pem"
    and w: "write_key_file p pem (s\<lparr>salts_used := Suc (salts_used s)\<rparr>) = (Inr (), s')"
    using assms
    by (auto simp: load_or_create_p256_def bindP_Inr path_exists_run errP_Inr generate_run liftR_Inr map_err_Inr ret_Inr)
  moreover obtain n where "s' = s\<lparr>salts_used := Suc (salts_used s), st_calls := n,
      st_files := (st_files s)(p \<mapsto> \<lparr> sd_contents = pem, sd_mode = OWNER_ONLY \<rparr>)\<rparr>"
    using write_key_file_Inr [OF w] by auto
  ultimately show ?thesis by blast
qed

lemma ed25519_created:
  assumes "load_or_create_ed25519 L K (Some p) s = (Inr key, s')" and "st_files s p = None"
  shows "\<exists>pem n m. ed_well_formed L key \<and> ed_to_pkcs8_pem K key = Inr pem \<and>
    s' = s\<lparr>salts_used := m, st_calls := n, st_files := (st_files s)(p \<mapsto> \<lparr> sd_contents = pem, sd_mode = OWNER_ONLY \<rparr>)\<rparr>"
proof -
  obtain pem where "ed_well_formed L key" "ed_to_pkcs8_pem K key = Inr pem"
    and w: "write_key_file p pem (s\<lparr>salts_used := Suc (salts_used s)\<rparr>) = (Inr (), s')"
    using assms
    by (auto simp: load_or_create_ed25519_def bindP_Inr path_exists_run errP_Inr generate_run liftR_Inr map_err_Inr ret_Inr)
  moreover obtain n where "s' = s\<lparr>salts_used := Suc (salts_used s), st_calls := n,
      st_files := (st_files s)(p \<mapsto> \<lparr> sd_contents = pem, sd_mode = OWNER_ONLY \<rparr>)\<rparr>"
    using write_key_file_Inr [OF w] by auto
  ultimately show ?thesis by blast
qed

section \<open>Starting again\<close>

definition no_faults :: "'x startup_scheme \<Rightarrow> bool" where
  "no_faults t \<longleftrightarrow> (\<forall>n c. st_fault t n c = None)"

lemma create_parent_runs:
  "(\<And>n d. st_fault s n (CreateDirs d) = None) \<Longrightarrow> \<exists>n. create_parent p s = (Inr (), s\<lparr>st_calls := n\<rparr>)"
  using same_calls [of s]
  by (auto simp: create_parent_def os_do_def ret_def split: option.splits intro: exI [of _ "st_calls s"])

lemma writes_run:
  assumes "no_faults s"
  shows "\<exists>s'. write_key_file p pem s = (Inr (), s')" and "\<exists>s'. write_public_file p contents s = (Inr (), s')"
proof -
  obtain n where "create_parent p s = (Inr (), s\<lparr>st_calls := n\<rparr>)"
    using create_parent_runs [of s p] assms by (auto simp: no_faults_def)
  then show "\<exists>s'. write_key_file p pem s = (Inr (), s')" "\<exists>s'. write_public_file p contents s = (Inr (), s')"
    using assms
    by (simp_all add: write_key_file_def write_public_file_def bindP_def fs_write_def set_permissions_def os_do_def no_faults_def)
qed

lemma read_run: "no_faults t \<Longrightarrow> st_files t p = Some f \<Longrightarrow>
    read_to_string p t = (Inr (sd_contents f), t\<lparr>st_calls := Suc (st_calls t)\<rparr>)"
  by (simp add: read_to_string_def bindP_def os_do_def no_faults_def)

lemma p256_loaded:
  assumes "key_codec_law K" and "no_faults t" and "st_files t p = Some f"
    and "ec_well_formed L key" and "ec_to_pkcs8_pem K key = Inr (sd_contents f)"
  shows "load_or_create_p256 L K (Some p) t = (Inr key, t\<lparr>st_calls := Suc (st_calls t)\<rparr>)"
  using assms(3) read_run [OF assms(2,3)] pem_round_trip(1) [OF assms(1,4,5)]
  by (simp add: load_or_create_p256_def bindP_def path_exists_run liftR_run)

lemma ed25519_loaded:
  assumes "key_codec_law K" and "no_faults t" and "st_files t p = Some f"
    and "ed_well_formed L key" and "ed_to_pkcs8_pem K key = Inr (sd_contents f)"
  shows "load_or_create_ed25519 L K (Some p) t = (Inr key, t\<lparr>st_calls := Suc (st_calls t)\<rparr>)"
  using assms(3) read_run [OF assms(2,3)] pem_round_trip(2) [OF assms(1,4,5)]
  by (simp add: load_or_create_ed25519_def bindP_def path_exists_run liftR_run)

text \<open>Minting and loading certificates read the clock and random bytes, and change nothing else.\<close>

definition draws_only :: "'x env_scheme \<Rightarrow> 'x env_scheme \<Rightarrow> bool" where
  "draws_only s s' \<longleftrightarrow> (\<exists>m n. s' = s\<lparr>clock_reads := m, salts_used := n\<rparr>)"

lemma draws_only_refl: "draws_only s s"
  unfolding draws_only_def by (rule exI [of _ "clock_reads s"], rule exI [of _ "salts_used s"]) simp

lemma draws_only_trans: "draws_only s t \<Longrightarrow> draws_only t u \<Longrightarrow> draws_only s u"
  unfolding draws_only_def by (elim exE) (simp, blast)

lemma draws_only_clock: "draws_only s (s\<lparr>clock_reads := m\<rparr>)"
  unfolding draws_only_def by (rule exI [of _ m], rule exI [of _ "salts_used s"]) simp

lemma draws_only_salts: "draws_only s (s\<lparr>salts_used := n\<rparr>)"
  unfolding draws_only_def by (rule exI [of _ "clock_reads s"], rule exI [of _ n]) simp

lemma draws_only_steps: "keeps draws_only utc_now" "keeps draws_only new_salt" "keeps draws_only random_serial"
  by (simp_all add: keeps_def utc_now_run new_salt_run random_serial_run draws_only_clock draws_only_salts)

lemmas draws_only_rules = draws_only_steps keeps_bindP [where R = draws_only, OF draws_only_trans]
  keeps_ret [where R = draws_only, OF draws_only_refl] keeps_liftR [where R = draws_only, OF draws_only_refl]

lemma leaf_draws_only: "keeps draws_only (leaf_params G now key_id cn extra)"
  unfolding leaf_params_def by (intro draws_only_rules)

lemma x5c_draws_only: "keeps draws_only (x5c_params G now key_id host)"
  unfolding x5c_params_def by (intro draws_only_rules)

lemma root_draws_only: "keeps draws_only (mint_root G now alt_name)"
  unfolding mint_root_def Let_def by (intro draws_only_rules)

lemmas params_draws_only = leaf_draws_only x5c_draws_only root_draws_only

lemma mint_draws_only: "keeps draws_only (mint_development G params)"
proof -
  have "keeps draws_only (mint_leaves G params now alt_name d root rk k)" for now alt_name d root rk k
    unfolding mint_leaves_def Let_def by (intro draws_only_rules params_draws_only)
  then show ?thesis unfolding mint_development_def split_def by (intro draws_only_rules params_draws_only)
qed

lemma pki_from_pem_draws_only: "keeps draws_only (pki_from_pem L X pem key)"
proof -
  have "keeps draws_only (validate_leaves L X anchors cs)" for anchors cs
    by (induction cs) (simp_all add: draws_only_rules)
  then show ?thesis unfolding pki_from_pem_def split_def by (intro draws_only_rules)
qed

lemma draws_only_files: "draws_only s s' \<Longrightarrow> st_files s' = st_files s" for s s' :: "'x startup_scheme"
  by (auto simp: draws_only_def)

text \<open>The parent's certificate bundle holds four certificates.\<close>

lemma pki_from_pem_four: "pki_from_pem L X pem key s = (Inr pki, s') \<Longrightarrow> length (pem_blocks X pem ''CERTIFICATE'') = 4"
  by (auto simp: pki_from_pem_def bindP_Inr liftR_Inr split: list.splits)

lemma create_pki_Inr:
  assumes run: "create_pki X G K host_str config key s = (Inr pki, s')" and c: "sf_cert_path config = Some c"
    and a: "sf_trust_anchor_path config \<noteq> Some c"
  shows "\<exists>pem k root rk m. ec_to_pkcs8_pem K key = Inr pem \<and> rg_key_from_pem G pem = Inr k \<and>
    minted_by G k (clock_at s (clock_reads s)) pki root rk \<and>
    st_files s' c = Some \<lparr> sd_contents = pki_to_pem X pki, sd_mode = m \<rparr> \<and>
    (\<forall>q. q \<noteq> c \<and> sf_trust_anchor_path config \<noteq> Some q \<longrightarrow> st_files s' q = st_files s q)"
proof -
  let ?params = "\<lambda>pem. \<lparr> dp_key_pkcs8_pem = pem,
    dp_host = (case host_str (sf_external_url config) of Some h \<Rightarrow> h | None \<Rightarrow> ''localhost''),
    dp_issuer_url = config_issuer_id config \<rparr>"
  obtain pem t t' where pem: "ec_to_pkcs8_pem K key = Inr pem"
    and mint: "mint_development G (?params pem) s = (Inr pki, t)"
    and w: "write_public_file c (pki_to_pem X pki) t = (Inr (), t')"
    and w': "(case sf_trust_anchor_path config of Some p \<Rightarrow> write_public_file p (pki_trust_anchor_pem X pki) | None \<Rightarrow> ret ()) t' = (Inr (), s')"
    using run c unfolding create_pki_def bindP_Inr liftR_Inr errP_Inr map_err_Inr ret_Inr by auto
  note files = draws_only_files [OF keepsD [OF mint_draws_only mint]]
  obtain m where f: "st_files t' = (st_files s)(c \<mapsto> \<lparr> sd_contents = pki_to_pem X pki, sd_mode = m \<rparr>)"
    using write_public_file_Inr [OF w] files by auto
  have g: "st_files s' q = st_files t' q" if "sf_trust_anchor_path config \<noteq> Some q" for q
    using w' that write_public_file_Inr by (cases "sf_trust_anchor_path config") (fastforce simp: ret_Inr)+
  from mint_development_Inr [OF mint] obtain k root rk where "rg_key_from_pem G pem = Inr k"
      "minted_by G k (clock_at s (clock_reads s)) pki root rk" using pem by auto
  moreover have "st_files s' c = Some \<lparr> sd_contents = pki_to_pem X pki, sd_mode = m \<rparr>" using g [OF a] f by simp
  moreover have "\<forall>q. q \<noteq> c \<and> sf_trust_anchor_path config \<noteq> Some q \<longrightarrow> st_files s' q = st_files s q" using g f by simp
  ultimately show ?thesis using pem by blast
qed

lemma draws_only_faults: "draws_only s s' \<Longrightarrow> no_faults s' \<longleftrightarrow> no_faults s" for s s' :: "'x startup_scheme"
  by (auto simp: draws_only_def no_faults_def)

text \<open>rcgen reads the PEM that p256 writes, to a P-256 key with the same public point.\<close>

definition codecs_agree :: "libs \<Rightarrow> key_codec \<Rightarrow> rcgen_libs \<Rightarrow> bytes set \<Rightarrow> bool" where
  "codecs_agree L K G keys \<longleftrightarrow>
     (\<forall>sk pem k. kc_p256_write K sk = Inr pem \<and> rg_key_from_pem G pem = Inr k \<longrightarrow>
        k \<in> keys \<and> rg_public_key G k = ec_public_key_sec1 L (ec_from_signing_key L sk))"

lemma codecs_agreeD:
  assumes "codecs_agree L K G keys" and "ec_well_formed L key" and "ec_to_pkcs8_pem K key = Inr pem"
    and "rg_key_from_pem G pem = Inr k"
  shows "k \<in> keys \<and> rg_public_key G k = ec_public_key_sec1 L key"
proof -
  have "kc_p256_write K (ec_signing_key key) = Inr pem" using assms(3) by (simp add: ec_to_pkcs8_pem_def map_err_Inr)
  with assms(1,4) have "k \<in> keys \<and> rg_public_key G k = ec_public_key_sec1 L (ec_from_signing_key L (ec_signing_key key))"
    unfolding codecs_agree_def by blast
  then show ?thesis using assms(2) by (simp add: ec_well_formed_def)
qed

text \<open>What the crates document, and a deployment whose files are all configured, and distinct.\<close>

definition crates_lawful :: "libs \<Rightarrow> x509_libs \<Rightarrow> rcgen_libs \<Rightarrow> key_codec \<Rightarrow> bytes set \<Rightarrow> bool" where
  "crates_lawful L X G K keys \<longleftrightarrow> b64_law X \<and> rcgen_law L X G keys \<and> key_codec_law K \<and> codecs_agree L K G keys"

definition persistent :: "server_config \<Rightarrow> string \<Rightarrow> string \<Rightarrow> string \<Rightarrow> bool" where
  "persistent config p256 cert ed25519 \<longleftrightarrow>
     sf_p256_key_path config = Some p256 \<and> sf_cert_path config = Some cert \<and> sf_ed25519_key_path config = Some ed25519 \<and>
     p256 \<noteq> cert \<and> p256 \<noteq> ed25519 \<and> cert \<noteq> ed25519 \<and>
     sf_trust_anchor_path config \<notin> {Some p256, Some cert, Some ed25519}"

lemma pki_loaded:
  assumes laws: "crates_lawful L X G K keys" and minted: "minted_by G k now pki root rk"
    and k: "k \<in> keys" "rg_public_key G k = ec_public_key_sec1 L key"
    and now: "day \<le> now" "datable (now + 9 * 365 * day)" and t: "no_faults t" "\<And>n. leaf_valid now (clock_at t n)"
    and c: "sf_cert_path config = Some c" "st_files t c = Some \<lparr> sd_contents = pki_to_pem X pki, sd_mode = m \<rparr>"
  shows "\<exists>t'. load_or_create_pki L X G K host_str config key t = (Inr pki, t') \<and> no_faults t' \<and> st_files t' = st_files t"
proof -
  let ?u = "t\<lparr>st_calls := Suc (st_calls t)\<rparr>"
  have "fst (pki_from_pem L X (pki_to_pem X pki) (ec_public_key_sec1 L key) ?u) = Inr pki"
    using minted_bundle_loads [OF _ _ minted k(1) now, of X L ?u] laws t(2) k(2) by (simp add: crates_lawful_def)
  then obtain t' where load: "pki_from_pem L X (pki_to_pem X pki) (ec_public_key_sec1 L key) ?u = (Inr pki, t')"
    by (metis prod.collapse)
  note d = keepsD [OF pki_from_pem_draws_only load]
  have "load_or_create_pki L X G K host_str config key t = (Inr pki, t')"
    using load pki_from_pem_four [OF load] read_run [OF t(1) c(2)] c
    by (simp add: load_or_create_pki_def bindP_def path_exists_run errP_def load)
  then show ?thesis using draws_only_files [OF d] draws_only_faults [OF d] t(1) by (simp add: no_faults_def)
qed

lemma pki_absent:
  "sf_cert_path config = Some c \<Longrightarrow> st_files s c = None \<Longrightarrow>
     load_or_create_pki L X G K host_str config key s = create_pki X G K host_str config key s"
  by (simp add: load_or_create_pki_def bindP_def path_exists_run)

lemma attesters_loaded:
  assumes "load_client_attesters parse path s = (Inr js, s')"
  shows "st_files s' = st_files s \<and>
    (no_faults t \<and> st_files t = st_files s \<longrightarrow> (\<exists>n. load_client_attesters parse path t = (Inr js, t\<lparr>st_calls := n\<rparr>)))"
proof (cases path)
  case None
  with assms show ?thesis using same_calls [of t] by (auto simp: load_client_attesters_def ret_def intro: exI [of _ "st_calls t"])
next
  case (Some p)
  obtain f j where f: "st_files s p = Some f" and j: "parse (sd_contents f) = Inr j" "js = map (\<lambda>k. k\<lparr>jwk_d := None\<rparr>) (jwks_keys j)"
    and s': "st_files s' = st_files s"
    using assms Some
    by (auto simp: load_client_attesters_def bindP_Inr read_to_string_def os_do_Inr liftR_Inr map_err_Inr ret_Inr split: option.splits)
  have "load_client_attesters parse path t = (Inr js, t\<lparr>st_calls := Suc (st_calls t)\<rparr>)" if "no_faults t" "st_files t = st_files s"
    using read_run [OF that(1), of p f] that(2) f j Some
    by (simp add: load_client_attesters_def bindP_def liftR_run ret_def)
  then show ?thesis using s' by blast
qed

text \<open>
  The first start of a deployment with a file for each key and for the certificates, then another
  one on the files it left, within the leaves' validity: the same server.
\<close>

definition on_disk ::
    "libs \<Rightarrow> x509_libs \<Rightarrow> key_codec \<Rightarrow> (string \<rightharpoonup> stored_file) \<Rightarrow> string \<Rightarrow> string \<Rightarrow> string \<Rightarrow>
       ecdsa_p256_key_pair \<Rightarrow> issuer_pki \<Rightarrow> ed25519_key_pair \<Rightarrow> bool" where
  "on_disk L X K files p c e p256 pki ed \<longleftrightarrow>
     ec_well_formed L p256 \<and> ed_well_formed L ed \<and>
     (\<exists>f. files p = Some f \<and> ec_to_pkcs8_pem K p256 = Inr (sd_contents f)) \<and>
     (\<exists>f. files e = Some f \<and> ed_to_pkcs8_pem K ed = Inr (sd_contents f)) \<and>
     (\<exists>f. files c = Some f \<and> sd_contents f = pki_to_pem X pki)"

lemma first_start:
  fixes s :: "'x startup_scheme"
  assumes run: "app_new L X G K host_str parse config s = (Inr (sv, app), s')" and config: "persistent config p c e"
    and fresh: "st_files s p = None" "st_files s c = None" "st_files s e = None"
    and laws: "crates_lawful L X G K keys"
  shows "\<exists>p256 pki ed metadata k root rk token js. sv = server_new metadata config (ec_key_pair L p256) (ed_key_pair L ed) pki js token \<and>
    build_metadata L (metadata_config_new config) = Some metadata \<and>
    on_disk L X K (st_files s') p c e p256 pki ed \<and> minted_by G k (clock_at s (clock_reads s)) pki root rk \<and>
    k \<in> keys \<and> rg_public_key G k = ec_public_key_sec1 L p256 \<and> (\<forall>t. sf_admin_token config = Some t \<longrightarrow> token = t) \<and>
    (\<forall>t :: 'x startup_scheme. no_faults t \<and> st_files t = st_files s' \<longrightarrow>
       (\<exists>n. load_client_attesters parse (sf_client_attester_jwks_path config) t = (Inr js, t\<lparr>st_calls := n\<rparr>)))"
proof -
  obtain p256 s1 pki s2 ed s3 metadata token s4 js s5 where r1: "load_or_create_p256 L K (Some p) s = (Inr p256, s1)"
    and r2: "load_or_create_pki L X G K host_str config p256 s1 = (Inr pki, s2)"
    and r3: "load_or_create_ed25519 L K (Some e) s2 = (Inr ed, s3)"
    and r4: "(admin_token_of config :: (_, string, _) prog) s3 = (Inr token, s4)"
    and r5: "load_client_attesters parse (sf_client_attester_jwks_path config) s4 = (Inr js, s5)"
    and sv: "sv = server_new metadata config (ec_key_pair L p256) (ed_key_pair L ed) pki js token" "s' = s5"
    and metadata: "build_metadata L (metadata_config_new config) = Some metadata"
    using run config unfolding app_new_def bindP_Inr liftR_Inr ok_or_Inr persistent_def by auto
  from p256_created [OF r1 fresh(1)] obtain pem n m where w: "ec_well_formed L p256" "ec_to_pkcs8_pem K p256 = Inr pem"
    and s1: "s1 = s\<lparr>salts_used := m, st_calls := n, st_files := (st_files s)(p \<mapsto> \<lparr> sd_contents = pem, sd_mode = OWNER_ONLY \<rparr>)\<rparr>" by blast
  have paths: "sf_cert_path config = Some c" "sf_trust_anchor_path config \<noteq> Some p" "sf_trust_anchor_path config \<noteq> Some c"
      "sf_trust_anchor_path config \<noteq> Some e" "p \<noteq> c" "c \<noteq> p" "p \<noteq> e" "e \<noteq> p" "c \<noteq> e" "e \<noteq> c"
    using config unfolding persistent_def by auto
  have "st_files s1 c = None" using fresh(2) paths by (simp add: s1)
  with r2 paths(1) have "create_pki X G K host_str config p256 s1 = (Inr pki, s2)" by (simp add: pki_absent)
  from create_pki_Inr [OF this paths(1,3)] obtain pem' k root rk mode where
    pem': "ec_to_pkcs8_pem K p256 = Inr pem'" "rg_key_from_pem G pem' = Inr k"
    and minted: "minted_by G k (clock_at s1 (clock_reads s1)) pki root rk"
    and f2: "st_files s2 c = Some \<lparr> sd_contents = pki_to_pem X pki, sd_mode = mode \<rparr>"
      "\<And>q. q \<noteq> c \<Longrightarrow> sf_trust_anchor_path config \<noteq> Some q \<Longrightarrow> st_files s2 q = st_files s1 q"
    by blast
  have "st_files s2 e = None" using f2(2) [of e] paths fresh(3) by (simp add: s1)
  from ed25519_created [OF r3 this] obtain pem3 n3 m3 where w3: "ed_well_formed L ed" "ed_to_pkcs8_pem K ed = Inr pem3"
    and s3: "s3 = s2\<lparr>salts_used := m3, st_calls := n3, st_files := (st_files s2)(e \<mapsto> \<lparr> sd_contents = pem3, sd_mode = OWNER_ONLY \<rparr>)\<rparr>" by blast
  have f4: "st_files s4 = st_files s3" and token: "\<forall>t. sf_admin_token config = Some t \<longrightarrow> token = t"
    using r4 by (auto simp: admin_token_of_def ret_def new_uuid_run split: option.splits)
  have f5: "st_files s4 = st_files s'" using conjunct1 [OF attesters_loaded [OF r5]] sv(2) by simp
  have "on_disk L X K (st_files s') p c e p256 pki ed"
    using f2 paths w w3 unfolding on_disk_def by (simp add: f5 [symmetric] f4 s3 s1)
  moreover have "\<forall>t :: 'x startup_scheme. no_faults t \<and> st_files t = st_files s' \<longrightarrow>
      (\<exists>n. load_client_attesters parse (sf_client_attester_jwks_path config) t = (Inr js, t\<lparr>st_calls := n\<rparr>))"
    using attesters_loaded [OF r5] unfolding f5 by blast
  moreover have "k \<in> keys \<and> rg_public_key G k = ec_public_key_sec1 L p256"
    using codecs_agreeD [of L K G keys, OF _ w(1) pem'] laws by (simp add: crates_lawful_def)
  moreover have "minted_by G k (clock_at s (clock_reads s)) pki root rk" using minted by (simp add: s1)
  ultimately show ?thesis using sv(1) token metadata by blast
qed

text \<open>
  C16. A deployment that configures files for both keys and for the certificates keeps its
  identity. After a first start that found none of them, any later start on the files it left
  (within the 400 days for which the development certificates are valid, with an admin token
  configured) returns the very same server: the same keys and key ids, certificates and trusted
  attesters; and it leaves the files alone.
\<close>

theorem restart_same_server:
  fixes s t :: "'x startup_scheme"
  assumes first: "app_new L X G K host_str parse config s = (Inr (sv, app), s')" and config: "persistent config p c e"
    and token: "sf_admin_token config \<noteq> None"
    and fresh: "st_files s p = None" "st_files s c = None" "st_files s e = None"
    and laws: "crates_lawful L X G K keys"
    and now: "day \<le> clock_at s (clock_reads s)" "datable (clock_at s (clock_reads s) + 9 * 365 * day)"
    and later: "st_files t = st_files s'" "no_faults t" "\<And>n. leaf_valid (clock_at s (clock_reads s)) (clock_at t n)"
  shows "\<exists>app' t'. app_new L X G K host_str parse config t = (Inr (sv, app'), t') \<and> st_files t' = st_files s'"
proof -
  from first_start [OF first config fresh laws] obtain p256 pki ed metadata k root rk tok js
    where sv: "sv = server_new metadata config (ec_key_pair L p256) (ed_key_pair L ed) pki js tok"
    and metadata: "build_metadata L (metadata_config_new config) = Some metadata"
    and disk: "on_disk L X K (st_files s') p c e p256 pki ed"
    and minted: "minted_by G k (clock_at s (clock_reads s)) pki root rk"
    and k: "k \<in> keys" "rg_public_key G k = ec_public_key_sec1 L p256"
    and tok: "\<forall>t. sf_admin_token config = Some t \<longrightarrow> tok = t"
    and att: "\<forall>t :: 'x startup_scheme. no_faults t \<and> st_files t = st_files s' \<longrightarrow>
       (\<exists>n. load_client_attesters parse (sf_client_attester_jwks_path config) t = (Inr js, t\<lparr>st_calls := n\<rparr>))"
    by blast
  from disk obtain fp fc fe where wf: "ec_well_formed L p256" "ed_well_formed L ed"
    and pem: "ec_to_pkcs8_pem K p256 = Inr (sd_contents fp)" "ed_to_pkcs8_pem K ed = Inr (sd_contents fe)"
      "sd_contents fc = pki_to_pem X pki"
    and files: "st_files s' p = Some fp" "st_files s' c = Some fc" "st_files s' e = Some fe"
    unfolding on_disk_def by blast
  have K: "key_codec_law K" using laws by (simp add: crates_lawful_def)
  let ?t1 = "t\<lparr>st_calls := Suc (st_calls t)\<rparr>"
  have r1: "load_or_create_p256 L K (Some p) t = (Inr p256, ?t1)"
    using p256_loaded [OF K later(2) _ wf(1) pem(1)] files(1) later(1) by simp
  have "st_files ?t1 c = Some \<lparr> sd_contents = pki_to_pem X pki, sd_mode = sd_mode fc \<rparr>"
    using files(2) pem(3) later(1) by simp
  from pki_loaded [OF laws minted k now _ _ _ this] later config obtain t2
    where r2: "load_or_create_pki L X G K host_str config p256 ?t1 = (Inr pki, t2)" and t2: "no_faults t2" "st_files t2 = st_files s'"
    by (fastforce simp: persistent_def no_faults_def)
  let ?t3 = "t2\<lparr>st_calls := Suc (st_calls t2)\<rparr>"
  have r3: "load_or_create_ed25519 L K (Some e) t2 = (Inr ed, ?t3)"
    using ed25519_loaded [OF K t2(1) _ wf(2) pem(2)] files(3) t2(2) by simp
  have r4: "(admin_token_of config :: ('x startup_scheme, string, string) prog) ?t3 = (Inr tok, ?t3)"
    using token tok by (auto simp: admin_token_of_def ret_def)
  obtain n where r5: "load_client_attesters parse (sf_client_attester_jwks_path config) ?t3 = (Inr js, ?t3\<lparr>st_calls := n\<rparr>)"
    using spec [OF att, of ?t3] t2 by (auto simp: no_faults_def)
  have "app_new L X G K host_str parse config t =
      (Inr (sv, app_state_new config (env.truncate (?t3\<lparr>st_calls := n\<rparr>))), ?t3\<lparr>st_calls := n\<rparr>)"
    using config r1 r2 r3 r4 r5 sv metadata by (simp add: app_new_def bindP_def liftR_run persistent_def)
  then show ?thesis using t2(2) by auto
qed

section \<open>A key file that stayed readable\<close>

text \<open>The key is written first, with the permissions of the umask, and protected afterwards.\<close>

definition only_chmod_fails :: "string \<Rightarrow> 'x startup_scheme \<Rightarrow> bool" where
  "only_chmod_fails err s \<longleftrightarrow>
     (\<forall>n c. st_fault s n c = (case c of SetMode _ _ \<Rightarrow> Some err | _ \<Rightarrow> None))"

lemma write_key_file_unprotected:
  assumes "only_chmod_fails err s" and "st_files s p = None"
  shows "\<exists>n. write_key_file p pem s =
    (Inl err, s\<lparr>st_calls := n, st_files := (st_files s)(p \<mapsto> \<lparr> sd_contents = pem, sd_mode = st_new_mode s \<rparr>)\<rparr>)"
proof -
  obtain n where "create_parent p s = (Inr (), s\<lparr>st_calls := n\<rparr>)"
    using create_parent_runs [of s p] assms(1) by (auto simp: only_chmod_fails_def)
  then show ?thesis
    using assms
    by (intro exI [of _ "Suc (Suc n)"])
      (simp add: write_key_file_def bindP_def fs_write_def set_permissions_def os_do_def only_chmod_fails_def)
qed

text \<open>
  Writing a new key file can fail half-way: when setting the permissions fails, start-up
  ends with the error, but the private key stays on disk with the permissions that the umask
  gives. The next start takes the key from that file, and leaves its permissions as they are.
\<close>

lemma exposed_key_used:
  assumes "key_codec_law K" and "only_chmod_fails err s" and "st_files s p = None"
    and "kc_p256_write K (kc_p256_random K (salt_at s (salts_used s))) = Inr pem"
  shows "\<exists>s' key. load_or_create_p256 L K (Some p) s = (Inl err, s') \<and> ec_to_pkcs8_pem K key = Inr pem \<and>
    st_files s' p = Some \<lparr> sd_contents = pem, sd_mode = st_new_mode s \<rparr> \<and>
    (\<forall>t :: 'x startup_scheme. no_faults t \<and> st_files t = st_files s' \<longrightarrow>
       (\<exists>t'. load_or_create_p256 L K (Some p) t = (Inr key, t') \<and> st_files t' p = st_files s' p))"
proof -
  define key where "key = ec_from_signing_key L (kc_p256_random K (salt_at s (salts_used s)))"
  have key: "ec_well_formed L key" "ec_to_pkcs8_pem K key = Inr pem"
    using assms(4) by (simp add: key_def, simp add: key_def ec_to_pkcs8_pem_def ec_from_signing_key_def Let_def)
  let ?s = "s\<lparr>salts_used := Suc (salts_used s)\<rparr>"
  obtain n where w: "write_key_file p pem ?s =
      (Inl err, ?s\<lparr>st_calls := n, st_files := (st_files ?s)(p \<mapsto> \<lparr> sd_contents = pem, sd_mode = st_new_mode ?s \<rparr>)\<rparr>)"
    (is "_ = (_, ?s')") using write_key_file_unprotected [of err ?s p pem] assms(2,3) by (auto simp: only_chmod_fails_def)
  have r: "load_or_create_p256 L K (Some p) s = (Inl err, ?s')"
    using w key(2) assms(3)
    by (simp add: load_or_create_p256_def bindP_def path_exists_run errP_def generate_run liftR_run key_def)
  have f: "st_files ?s' p = Some \<lparr> sd_contents = pem, sd_mode = st_new_mode s \<rparr>" by simp
  have "\<exists>t'. load_or_create_p256 L K (Some p) t = (Inr key, t') \<and> st_files t' p = st_files ?s' p"
    if "no_faults t \<and> st_files t = st_files ?s'" for t :: "'x startup_scheme"
    using p256_loaded [OF assms(1) _ _ key(1), of t p "\<lparr> sd_contents = pem, sd_mode = st_new_mode s \<rparr>"] that key(2) by simp
  with r key(2) f show ?thesis by blast
qed

end
