(* ===== verification/Process.thy ===== *)
theory Process
  imports Server_Status Startup
begin

text \<open>
  The server process, from crates/server/src/main.rs: the configuration is read from the
  environment, the state is built, and requests are served from it. Opening the socket and the
  tracing subscriber are left out, and so is the text of a configuration error.
\<close>

definition server_main ::
    "libs \<Rightarrow> x509_libs \<Rightarrow> rcgen_libs \<Rightarrow> key_codec \<Rightarrow> (url \<Rightarrow> string option) \<Rightarrow> (string \<Rightarrow> string + jwks) \<Rightarrow>
       (string \<Rightarrow> string option) \<Rightarrow> ('x startup_scheme, string, server \<times> app_state) prog" where
  "server_main L X G K host_str parse_jwks vars =
     bindP (liftR (ok_or ''invalid configuration'' (config_from_env L vars))) (\<lambda>config.
     app_new L X G K host_str parse_jwks config)"

section \<open>The start keeps the source of UUIDs\<close>

definition same_uuids :: "'x env_scheme \<Rightarrow> 'x env_scheme \<Rightarrow> bool" where
  "same_uuids s s' \<longleftrightarrow> uuid_at s' = uuid_at s"

lemma same_uuids_trans: "same_uuids s t \<Longrightarrow> same_uuids t u \<Longrightarrow> same_uuids s u"
  by (simp add: same_uuids_def)

lemma same_uuids_refl: "same_uuids s s"
  by (simp add: same_uuids_def)

lemma draws_only_same_uuids: "draws_only s s' \<Longrightarrow> same_uuids s s'"
  by (auto simp: draws_only_def same_uuids_def)

lemma draws_only_uuids: "keeps draws_only m \<Longrightarrow> keeps same_uuids m"
  unfolding keeps_def using draws_only_same_uuids by blast

lemma same_uuids_steps:
  "keeps same_uuids new_salt" "keeps same_uuids (path_exists p)" "keeps same_uuids (os_do c)" "keeps same_uuids (fs_write p x)"
  by (auto simp: keeps_def same_uuids_def new_salt_run path_exists_run os_do_def fs_write_def split: option.splits)

lemmas same_uuids_rules = same_uuids_steps keeps_bindP [where R = same_uuids, OF same_uuids_trans]
  keeps_ret [where R = same_uuids, OF same_uuids_refl] keeps_liftR [where R = same_uuids, OF same_uuids_refl] keeps_errP
  draws_only_uuids [OF mint_draws_only] draws_only_uuids [OF pki_from_pem_draws_only]

lemma read_uuids: "keeps same_uuids (read_to_string p)"
  unfolding read_to_string_def by (intro same_uuids_rules) (simp_all add: keeps_def same_uuids_def)

lemma set_permissions_uuids: "keeps same_uuids (set_permissions p m)"
  unfolding set_permissions_def by (intro same_uuids_rules) (simp_all add: keeps_def same_uuids_def)

lemma create_parent_uuids: "keeps same_uuids (create_parent p)"
  unfolding create_parent_def by (auto intro!: same_uuids_rules split: option.split)

lemmas files_keep_uuids = read_uuids set_permissions_uuids create_parent_uuids

lemma write_key_file_uuids: "keeps same_uuids (write_key_file p x)"
  unfolding write_key_file_def by (intro same_uuids_rules files_keep_uuids)

lemma write_public_file_uuids: "keeps same_uuids (write_public_file p x)"
  unfolding write_public_file_def by (intro same_uuids_rules files_keep_uuids)

lemma load_p256_uuids: "keeps same_uuids (load_or_create_p256 L K path)"
  unfolding load_or_create_p256_def ec_generate_def
  by (cases path) (auto intro!: same_uuids_rules files_keep_uuids write_key_file_uuids)

lemma load_ed25519_uuids: "keeps same_uuids (load_or_create_ed25519 L K path)"
  unfolding load_or_create_ed25519_def ed_generate_def
  by (cases path) (auto intro!: same_uuids_rules files_keep_uuids write_key_file_uuids)

lemma create_pki_uuids: "keeps same_uuids (create_pki X G K h config key)"
proof -
  have w: "keeps same_uuids (case path of Some p \<Rightarrow> write_public_file p x | None \<Rightarrow> ret ())" for path x
    by (cases path) (auto intro: write_public_file_uuids same_uuids_rules)
  show ?thesis unfolding create_pki_def by (intro same_uuids_rules w)
qed

lemma load_pki_uuids: "keeps same_uuids (load_or_create_pki L X G K h config key)"
  unfolding load_or_create_pki_def Let_def
  by (auto intro!: same_uuids_rules files_keep_uuids create_pki_uuids split: option.split)

section \<open>From the environment to the requests\<close>

text \<open>A server that started has a token for the administration, fresh stores and a URL that takes paths.\<close>

lemma started:
  assumes "server_main L X G K h parse vars s = (Inr (sv, app), s')" and "\<And>n. uuid_at s n \<noteq> []" and law: "url_law L"
  shows "sv_admin_token sv \<noteq> [] \<and> (\<exists>config e. app = app_state_new config e \<and> joins L (sf_external_url config))"
proof -
  obtain config p256 s1 pki s2 ed s3 metadata token s4 js where config: "config_from_env L vars = Some config"
    and r1: "load_or_create_p256 L K (sf_p256_key_path config) s = (Inr p256, s1)"
    and r2: "load_or_create_pki L X G K h config p256 s1 = (Inr pki, s2)"
    and r3: "load_or_create_ed25519 L K (sf_ed25519_key_path config) s2 = (Inr ed, s3)"
    and r4: "(admin_token_of config :: (_, string, _) prog) s3 = (Inr token, s4)"
    and r5: "load_client_attesters parse (sf_client_attester_jwks_path config) s4 = (Inr js, s')"
    and m: "build_metadata L (metadata_config_new config) = Some metadata"
    and sv: "sv = server_new metadata config (ec_key_pair L p256) (ed_key_pair L ed) pki js token"
    and app: "app = app_state_new config (env.truncate s')"
    using assms(1) by (auto simp: server_main_def app_new_def bindP_Inr liftR_Inr ok_or_Inr)
  have "uuid_at s3 = uuid_at s"
    using keepsD [OF load_p256_uuids r1] keepsD [OF load_pki_uuids r2] keepsD [OF load_ed25519_uuids r3]
    by (simp add: same_uuids_def)
  then have "sv_admin_token sv \<noteq> []" using admin_token_set [OF config r4] assms(2) by (simp add: sv)
  moreover have "joins L (sf_external_url config)"
    using build_metadata_joins [OF law m] by (simp add: metadata_config_new_def)
  ultimately show ?thesis using app by blast
qed

text \<open>
  C22. From the start of the process on, the statuses of credentials are the administrator's.
  Whatever the environment, the files and the failures of the start, and whatever was asked
  before: a request that changes any bit of a status list is one of the three administrative
  requests, and carries the server's token, which is never empty. Of the url crate this uses that
  a URL to which one path can be joined takes every path.
\<close>

theorem started_server_guards_statuses:
  assumes "server_main (pf_libs P) X G K h parse vars s = (Inr (sv, app), s')" and "\<And>n. uuid_at s n \<noteq> []"
    and "url_law (pf_libs P)"
    and "statuses (ap_status (snd (serve P D sv request (serve_all P D sv before app)))) \<noteq>
      statuses (ap_status (serve_all P D sv before app))"
  shows "\<exists>hs b. (request = PostRevoke hs b \<or> request = PostSuspend hs b \<or> request = PostReinstate hs b) \<and>
     sv_admin_token sv \<noteq> [] \<and> header_str (pf_web P) hs ''authorization'' = Some (''Bearer '' @ sv_admin_token sv)"
proof -
  from started [OF assms(1-3)] obtain config e where sv: "sv_admin_token sv \<noteq> []" and app: "app = app_state_new config e"
    and url: "joins (pf_libs P) (sf_external_url config)" by blast
  have "manager_ok (pf_libs P) (ap_status app)" using manager_new_ok [OF url] by (simp add: app)
  then have "manager_ok (pf_libs P) (ap_status (serve_all P D sv before app))"
    using manager_steps_keep [OF serve_all_steps] by blast
  from status_change_needs_token [OF sv this assms(4)] sv show ?thesis by blast
qed

end
