(* ===== verification/Code_Flow.thy ===== *)
theory Code_Flow
  imports Token
begin

text \<open>
  The authorization code flow of crates/issuer as a whole: a pushed request, the user's approval
  and the token request, each on the state that the one before left; and the machine of these three
  operations in any order, in which a code is single use.
\<close>

lemma generate_code_Inr:
  "generate_authorization_code u s = (Inr code, s') \<longleftrightarrow>
     code = uuid_at s (uuids_used s) \<and> set_authorization_code u code (s\<lparr>uuids_used := Suc (uuids_used s)\<rparr>) = (Inr (), s')"
  by (auto simp: generate_authorization_code_def bindP_Inr errP_Inr ret_Inr new_uuid_run)

lemma set_code_Inr:
  "set_authorization_code u code s = (Inr (), s') \<longleftrightarrow>
     (\<exists>sessions session codes. is_sessions s = Unlocked sessions \<and> sessions u = Some session \<and> is_code_to_uri s = Unlocked codes \<and>
        s' = s\<lparr>clock_reads := Suc (clock_reads s), is_sessions := Unlocked (sessions(u \<mapsto> session\<lparr>
            sn_authorization_code := Some code, sn_code_issued_at := Some (clock_at s (clock_reads s))\<rparr>)),
          is_code_to_uri := Unlocked (codes(code \<mapsto> u))\<rparr>)"
  by (auto simp: set_authorization_code_def with_lock_Inr bindP_Inr liftR_Inr utc_now_run split: option.splits)

lemma mint_returns: "\<exists>details k. mint_details via ids s = (Inr details, s\<lparr>uuids_used := k\<rparr>)"
proof -
  have "\<exists>ds k. mapP mint_detail ids s = (Inr ds, s\<lparr>uuids_used := k\<rparr>)" for s :: "'a issuer_state_scheme"
  proof (induction ids arbitrary: s)
    case Nil
    have "s = s\<lparr>uuids_used := uuids_used s\<rparr>" by simp
    then show ?case by (metis mapP.simps(1) ret_run)
  next
    case (Cons i ids)
    obtain d where d: "mint_detail i s = (Inr d, s\<lparr>uuids_used := Suc (uuids_used s)\<rparr>)" using mint_detail_run by blast
    from Cons [of "s\<lparr>uuids_used := Suc (uuids_used s)\<rparr>"] obtain ds k where
      "mapP mint_detail ids (s\<lparr>uuids_used := Suc (uuids_used s)\<rparr>) = (Inr ds, s\<lparr>uuids_used := k\<rparr>)" by auto
    with d show ?case by (auto simp: bindP_def ret_def)
  qed
  then obtain ds k where "mapP mint_detail ids s = (Inr ds, s\<lparr>uuids_used := k\<rparr>)" by blast
  then have "via \<Longrightarrow> mint_details via ids s = (Inr (Some ds), s\<lparr>uuids_used := k\<rparr>)"
    by (simp add: mint_details_def bindP_def ret_def)
  moreover have "\<not> via \<Longrightarrow> mint_details via ids s = (Inr None, s\<lparr>uuids_used := uuids_used s\<rparr>)"
    by (simp add: mint_details_def ret_def)
  ultimately show ?thesis by blast
qed

lemma issue_returns:
  assumes "is_access_tokens s = Unlocked tokens" and "expiry (clock_at s (clock_reads s)) ACCESS_TOKEN_TTL_SECS = Some e"
  shows "\<exists>response s'. issue_access_token ids via jkt s = (Inr response, s')"
proof -
  obtain details k where m: "mint_details via ids (s\<lparr>uuids_used := Suc (uuids_used s)\<rparr>) = (Inr details, s\<lparr>uuids_used := k\<rparr>)"
    using mint_returns [of via ids "s\<lparr>uuids_used := Suc (uuids_used s)\<rparr>"] by auto
  then show ?thesis using assms
    by (simp add: issue_access_token_def bindP_def new_uuid_run stateP_def errP_def store_access_token_def with_lock_def
        utc_now_run Let_def ret_def)
qed

text \<open>
  C11. A client that follows the flow gets its token: a request it pushed that the user then
  approved is redeemed, within 60 seconds, by a token request of the same client with the code, the
  redirect_uri, the PKCE verifier and a DPoP key that fits; the stored grant is for the requested
  configurations, bound to that key, and lasts an hour.
\<close>

theorem code_flow_completes:
  assumes par: "process_par request pctx metadata s = (Inr pushed, s1)"
    and approve: "generate_authorization_code (ps_request_uri pushed) s1 = (Inr code, s2)"
    and locks: "is_access_tokens s = Unlocked tokens" "is_tokens_by_code s \<noteq> Poisoned"
    and grant: "tr_grant_type tr = ''authorization_code''" "tr_code tr = Some code"
      "tr_redirect_uri tr = Some (pr_redirect_uri request)" "tr_code_verifier tr = Some verifier"
      "verify_pkce L verifier (pr_code_challenge request)"
    and client: "tc_authenticated_client tctx = Some (pr_client_id request)" "tr_client_id tr = None"
    and dpop: "tc_dpop_jkt tctx = Some jkt" "par_dpop_jkt (pr_dpop_jkt request) (pc_dpop_jkt pctx) = Inr bound"
      "bound = None \<or> bound = Some jkt"
    and in_time: "num_seconds (clock_at s2 (clock_reads s2) - clock_at s1 (clock_reads s1)) \<le> AUTHORIZATION_CODE_TTL_SECS"
    and lifetime: "expiry (clock_at s2 (Suc (clock_reads s2))) ACCESS_TOKEN_TTL_SECS = Some e"
  shows "\<exists>token s3 ids via identifiers. process_token_request L tr tctx s2 = (Inr token, s3) \<and>
     requested_configurations request metadata = Inr (ids, via) \<and> tp_token_type token = ''DPoP'' \<and>
     is_access_tokens s3 = Unlocked (tokens(tp_access_token token \<mapsto>
       \<lparr> te_grant = \<lparr> gt_configuration_ids = ids, gt_identifiers = identifiers, gt_dpop_jkt = Some jkt \<rparr>, te_expires_at = e \<rparr>))"
proof -
  let ?u = "ps_request_uri pushed"
  obtain ids via sessions ses where check: "check_par request pctx metadata = Inr (bound, ids, via)"
    and s1: "s1 = s\<lparr>uuids_used := Suc (uuids_used s), clock_reads := Suc (clock_reads s),
        is_sessions := Unlocked (sessions(?u \<mapsto> ses))\<rparr>"
    and ses: "sn_code_challenge ses = pr_code_challenge request" "sn_client_id ses = pr_client_id request"
      "sn_redirect_uri ses = pr_redirect_uri request" "sn_configuration_ids ses = ids" "sn_via_details ses = via"
      "sn_dpop_jkt ses = bound" "\<not> sn_consumed ses"
    using process_par_Inr [OF par] dpop(2) by (auto simp: check_par_def bindR_Inr ensure_Inr)
  have req: "requested_configurations request metadata = Inr (ids, via)" using check_par_Inr [OF check] by blast
  let ?ses = "ses\<lparr>sn_authorization_code := Some code, sn_code_issued_at := Some (clock_at s1 (clock_reads s1))\<rparr>"
  from approve [unfolded generate_code_Inr set_code_Inr] s1 obtain codes k where
    s2: "s2 = s1\<lparr>uuids_used := k, clock_reads := Suc (clock_reads s1),
        is_sessions := Unlocked (sessions(?u \<mapsto> ?ses)), is_code_to_uri := Unlocked (codes(code \<mapsto> ?u))\<rparr>"
    by auto
  let ?s3 = "s2\<lparr>clock_reads := Suc (clock_reads s2)\<rparr>"
  have checked: "check_authorization_code L tr tctx s2 = (Inr (code, ?ses, jkt), ?s3)"
    using grant client dpop(1,3) ses in_time
    by (simp add: check_authorization_code_def bindP_def liftR_def stateP_def errP_def ret_def get_session_by_code_def
        with_lock_def utc_now_run s2) auto
  let ?s4 = "?s3\<lparr>is_sessions := Unlocked (sessions(?u \<mapsto> ?ses\<lparr>sn_consumed := True\<rparr>))\<rparr>"
  have consumed: "consume_authorization_code code ?s3 = (Inr (), ?s4)"
    by (simp add: consume_authorization_code_def with_lock_def s2)
  have open4: "is_access_tokens ?s4 = Unlocked tokens" "is_tokens_by_code ?s4 = is_tokens_by_code s" using locks(1) s1 s2 by simp_all
  have "expiry (clock_at ?s4 (clock_reads ?s4)) ACCESS_TOKEN_TTL_SECS = Some e" using lifetime by (simp add: s2 s1)
  from issue_returns [OF open4(1) this, of ids via "Some jkt"] obtain token s5 where
    issued: "issue_access_token ids via (Some jkt) ?s4 = (Inr token, s5)" by blast
  from issue_access_token_Inr [OF issued] open4 lifetime obtain ds k' where
    s5: "s5 = ?s4\<lparr>uuids_used := k', clock_reads := Suc (clock_reads ?s4), is_access_tokens := Unlocked (tokens(tp_access_token token \<mapsto>
        \<lparr> te_grant = \<lparr> gt_configuration_ids = ids, gt_identifiers = identifiers_of ds, gt_dpop_jkt = Some jkt \<rparr>,
          te_expires_at = e \<rparr>))\<rparr>" and type: "tp_token_type token = ''DPoP''"
    by (auto simp: s2 s1)
  obtain by_code where "is_tokens_by_code s5 = Unlocked by_code" using locks(2) open4(2) s5 by (cases "is_tokens_by_code s") auto
  then obtain s6 where "record_token_for_code code (tp_access_token token) s5 = (Inr (), s6)"
    and s6: "is_access_tokens s6 = is_access_tokens s5"
    by (simp add: record_token_for_code_def with_lock_def)
  with consumed issued checked ses grant(1) client have "process_token_request L tr tctx s2 = (Inr token, s6)"
    by (simp add: process_token_request_def process_authorization_code_grant_def redeem_authorization_code_def bindP_def
        stateP_def errP_def ret_def liftR_def)
  then show ?thesis using req type s6 s5 by auto
qed

theorem code_flow_completes_witness:
  "\<exists>pushed s1 code s2 token s3. process_par sample_par sample_par_context sample_metadata sample_store = (Inr pushed, s1) \<and>
     generate_authorization_code (ps_request_uri pushed) s1 = (Inr code, s2) \<and>
     process_token_request hex_libs (sample_token_request\<lparr>tr_code := Some code\<rparr>) sample_token_context s2 = (Inr token, s3) \<and>
     tp_token_type token = ''DPoP''"
proof -
  obtain pushed s1 where par: "process_par sample_par sample_par_context sample_metadata sample_store = (Inr pushed, s1)"
    using sample_process_par by blast
  from process_par_Inr [OF par] obtain session sessions where
    s1: "s1 = sample_store\<lparr>uuids_used := Suc (uuids_used sample_store), clock_reads := Suc (clock_reads sample_store),
        is_sessions := Unlocked (sessions(ps_request_uri pushed \<mapsto> session))\<rparr>" by auto
  obtain code s2 where code: "generate_authorization_code (ps_request_uri pushed) s1 = (Inr code, s2)"
    and s2: "clock_at s2 = (\<lambda>n. 0)"
    by (simp add: generate_authorization_code_def set_authorization_code_def bindP_def errP_def new_uuid_def with_lock_def
        utc_now_def ret_def s1)
  from code_flow_completes [OF par code, of Map.empty "sample_token_request\<lparr>tr_code := Some code\<rparr>" "''verifier''" hex_libs
      sample_token_context "''jkt''" "Some ''jkt''" "3600 * second"] par code
  show ?thesis
    by (auto simp: s1 s2 sample_token_request_def sample_token_context_def sample_par_def sample_par_context_def par_dpop_jkt_def
        verify_pkce_def hex_libs_def num_seconds_def trunc_div_def AUTHORIZATION_CODE_TTL_SECS_def expiry_hour)
qed

section \<open>Codes are single use when requests run one after another\<close>

text \<open>
  The operations of the flow, in any order: a push stores a session, an approval draws a code
  for it, a token request may exchange the code. The request URIs and the codes are UUIDs that
  the server draws.
\<close>

datatype flow_op =
    Push pushed_authorization_request par_context credential_issuer_metadata
  | Approve string
  | TokenRequest token_request token_context

datatype flow_reply =
    Pushed "authorization_error + pushed_authorization_response"
  | Approved "authorization_error + string"
  | Tokens "token_error + token_response"

fun flow_step :: "libs \<Rightarrow> flow_op \<Rightarrow> 'x issuer_state_scheme \<Rightarrow> flow_reply \<times> 'x issuer_state_scheme" where
  "flow_step L (Push request ctx metadata) s = map_prod Pushed id (process_par request ctx metadata s)"
| "flow_step L (Approve request_uri) s = map_prod Approved id (generate_authorization_code request_uri s)"
| "flow_step L (TokenRequest request ctx) s = map_prod Tokens id (process_token_request L request ctx s)"

fun code_issued :: "string \<Rightarrow> flow_op \<times> flow_reply \<Rightarrow> bool" where
  "code_issued code (Approve request_uri, Approved (Inr c)) \<longleftrightarrow> c = code"
| "code_issued code x \<longleftrightarrow> False"

fun code_exchanged :: "string \<Rightarrow> flow_op \<times> flow_reply \<Rightarrow> bool" where
  "code_exchanged code (TokenRequest request ctx, Tokens (Inr response)) \<longleftrightarrow>
     tr_grant_type request = ''authorization_code'' \<and> tr_code request = Some code"
| "code_exchanged code x \<longleftrightarrow> False"

text \<open>A code is live when it leads to a session that is not consumed.\<close>

definition code_session_live :: "'x issuer_state_scheme \<Rightarrow> string \<Rightarrow> bool" where
  "code_session_live s code \<longleftrightarrow>
     (\<exists>codes sessions uri session. is_code_to_uri s = Unlocked codes \<and> is_sessions s = Unlocked sessions \<and>
        codes code = Some uri \<and> sessions uri = Some session \<and> \<not> sn_consumed session)"

text \<open>Every request URI in the store is built from a UUID that has been drawn.\<close>

definition drawn :: "'x env_scheme \<Rightarrow> string set" where
  "drawn s = uuid_at s ` {..<uuids_used s}"

definition pushed_uris :: "'x env_scheme \<Rightarrow> string set" where
  "pushed_uris s = (\<lambda>uuid. ''urn:ietf:params:oauth:request_uri:'' @ uuid) ` drawn s"

definition flow_inv :: "'x issuer_state_scheme \<Rightarrow> bool" where
  "flow_inv s \<longleftrightarrow> inj (uuid_at s) \<and>
     (\<forall>sessions. is_sessions s = Unlocked sessions \<longrightarrow> dom sessions \<subseteq> pushed_uris s) \<and>
     (\<forall>codes. is_code_to_uri s = Unlocked codes \<longrightarrow> ran codes \<subseteq> pushed_uris s)"

lemma next_not_drawn: "inj (uuid_at s) \<Longrightarrow> uuid_at s (uuids_used s) \<notin> drawn s"
  by (auto simp: drawn_def inj_eq)

lemma drawn_mono: "uuid_at s' = uuid_at s \<Longrightarrow> uuids_used s \<le> uuids_used s' \<Longrightarrow> drawn s \<subseteq> drawn s'"
  by (auto simp: drawn_def)

lemma pushed_uris_mono: "uuid_at s' = uuid_at s \<Longrightarrow> uuids_used s \<le> uuids_used s' \<Longrightarrow> pushed_uris s \<subseteq> pushed_uris s'"
  unfolding pushed_uris_def by (intro image_mono drawn_mono)

lemma drawn_Suc: "uuid_at s (uuids_used s) \<in> drawn (s\<lparr>uuids_used := Suc (uuids_used s)\<rparr>)"
  by (auto simp: drawn_def)

text \<open>What token requests do to the sessions and the codes: they only consume sessions.\<close>

definition sessions_spent :: "(string \<rightharpoonup> authorization_session) \<Rightarrow> (string \<rightharpoonup> authorization_session) \<Rightarrow> bool" where
  "sessions_spent sessions sessions' \<longleftrightarrow> dom sessions' = dom sessions \<and>
     (\<forall>uri session'. sessions' uri = Some session' \<longrightarrow> \<not> sn_consumed session' \<longrightarrow>
        (\<exists>session. sessions uri = Some session \<and> \<not> sn_consumed session))"

lemma sessions_spent_upd:
  "sessions u = Some session \<Longrightarrow> (sn_consumed session \<Longrightarrow> sn_consumed session') \<Longrightarrow>
     sessions_spent sessions (sessions(u \<mapsto> session'))"
  by (auto simp: sessions_spent_def)

definition spends :: "'x issuer_state_scheme \<Rightarrow> 'x issuer_state_scheme \<Rightarrow> bool" where
  "spends s s' \<longleftrightarrow> uuid_at s' = uuid_at s \<and> uuids_used s \<le> uuids_used s' \<and> is_code_to_uri s' = is_code_to_uri s \<and>
     (\<forall>sessions'. is_sessions s' = Unlocked sessions' \<longrightarrow>
        (\<exists>sessions. is_sessions s = Unlocked sessions \<and> sessions_spent sessions sessions'))"

lemma sessions_spent_refl: "sessions_spent m m"
  by (simp add: sessions_spent_def)

lemma sessions_spent_trans: "sessions_spent m n \<Longrightarrow> sessions_spent n k \<Longrightarrow> sessions_spent m k"
  unfolding sessions_spent_def by blast

lemma spends_same:
  "uuid_at s' = uuid_at s \<Longrightarrow> uuids_used s \<le> uuids_used s' \<Longrightarrow> is_code_to_uri s' = is_code_to_uri s \<Longrightarrow>
     is_sessions s' = is_sessions s \<Longrightarrow> spends s s'"
  by (simp add: spends_def sessions_spent_refl)

lemma spends_refl: "spends s s"
  by (simp add: spends_same)

lemma spends_trans: "spends s t \<Longrightarrow> spends t u \<Longrightarrow> spends s u"
  unfolding spends_def by (fastforce intro: sessions_spent_trans)

lemma spends_live: "spends s s' \<Longrightarrow> code_session_live s' k \<Longrightarrow> code_session_live s k"
  unfolding spends_def code_session_live_def sessions_spent_def by metis

lemma spends_inv:
  assumes "spends s s'" and "flow_inv s"
  shows "flow_inv s'"
proof -
  have "pushed_uris s \<subseteq> pushed_uris s'" using assms(1) by (intro pushed_uris_mono) (simp_all add: spends_def)
  then have up: "A \<subseteq> pushed_uris s \<Longrightarrow> A \<subseteq> pushed_uris s'" for A by blast
  have "inj (uuid_at s')" "\<forall>codes. is_code_to_uri s' = Unlocked codes \<longrightarrow> ran codes \<subseteq> pushed_uris s'"
    using assms up by (auto simp: spends_def flow_inv_def)
  moreover have "dom sessions' \<subseteq> pushed_uris s'" if "is_sessions s' = Unlocked sessions'" for sessions'
  proof -
    obtain sessions where "is_sessions s = Unlocked sessions" "dom sessions' = dom sessions"
      using assms(1) \<open>is_sessions s' = _\<close> unfolding spends_def sessions_spent_def by blast
    with assms(2) up show ?thesis by (simp add: flow_inv_def)
  qed
  ultimately show ?thesis unfolding flow_inv_def by blast
qed

lemma keeps_spends_bind: "keeps spends m \<Longrightarrow> (\<And>x. keeps spends (f x)) \<Longrightarrow> keeps spends (bindP m f)"
  by (rule keeps_bindP [OF spends_trans])

lemma keeps_spends_basic:
  "keeps spends (ret x)" "keeps spends (liftR r)" "keeps spends utc_now" "keeps spends new_uuid"
  by (auto simp: keeps_def ret_def liftR_def utc_now_def new_uuid_def spends_refl spends_same)

lemma keeps_spends_if: "keeps spends m \<Longrightarrow> keeps spends n \<Longrightarrow> keeps spends (if b then m else n)"
  by simp

lemma keeps_spends_stateP: "keeps spends m \<Longrightarrow> keeps spends (stateP m)"
  unfolding stateP_def by (rule keeps_errP)

lemma keeps_spends_state:
  "keeps spends (get_session_by_code c)" "keeps spends (revoke_tokens_for_code c)"
  "keeps spends (record_token_for_code c t)" "keeps spends (store_access_token t g n)"
  "keeps spends (redeem_pre_authorized_code c tx)"
  by (auto simp: keeps_def state_unfold spends_refl intro!: spends_same split: mutex.splits option.splits)

lemma keeps_spends_consume: "keeps spends (consume_authorization_code c)"
  by (auto simp: keeps_def state_unfold spends_def sessions_spent_def split: mutex.splits option.splits if_splits)

lemma keeps_spends_mint: "keeps spends (mint_details via ids)"
proof -
  have "keeps spends (mapP mint_detail ids)"
    unfolding mint_detail_def
    by (rule keeps_mapP [OF spends_refl spends_trans])
      (assumption | intro keeps_spends_bind keeps_spends_basic)+
  then show ?thesis
    unfolding mint_details_def by (intro keeps_spends_if keeps_spends_bind keeps_spends_basic)
qed

lemmas keeps_spends = keeps_spends_bind keeps_spends_basic keeps_spends_if keeps_spends_stateP
  keeps_spends_state keeps_spends_consume keeps_spends_mint

lemma keeps_spends_issue: "keeps spends (issue_access_token ids via jkt)"
  unfolding issue_access_token_def Let_def by (intro keeps_spends)

lemma keeps_spends_check: "keeps spends (check_authorization_code L request ctx)"
  unfolding check_authorization_code_def by (intro keeps_spends)

lemma keeps_spends_redeem: "keeps spends (redeem_authorization_code x)"
  unfolding redeem_authorization_code_def
  by (cases x) (auto intro!: keeps_spends keeps_spends_issue)

lemma keeps_spends_request: "keeps spends (process_token_request L request ctx)"
  unfolding process_token_request_def process_authorization_code_grant_def
    process_pre_authorized_code_grant_def
  by (intro keeps_spends keeps_spends_issue keeps_spends_check keeps_spends_redeem)

text \<open>The exact effect of a push and of an approval, whether or not they succeed.\<close>

lemma push_cases:
  assumes "process_par request ctx metadata s = (r, s')"
  obtains (stored) sessions session n where "is_sessions s = Unlocked sessions"
      "s' = s\<lparr>uuids_used := Suc (uuids_used s), clock_reads := n, is_sessions := Unlocked (sessions(
         ''urn:ietf:params:oauth:request_uri:'' @ uuid_at s (uuids_used s) \<mapsto> session))\<rparr>"
    | (refused) "spends s s'"
proof (cases "is_sessions s")
  case Poisoned
  then have "spends s s'" using assms
    by (auto simp: process_par_def bindP_def liftR_def new_uuid_def utc_now_def Let_def errP_def ret_def
        store_authorization_session_def with_lock_def intro: spends_same split: sum.splits prod.splits)
  then show thesis by (rule refused)
next
  case (Unlocked sessions)
  show thesis
  proof (cases r)
    case (Inl e)
    with assms Unlocked have "spends s s'"
      by (auto simp: process_par_def bindP_def liftR_def new_uuid_def utc_now_def Let_def errP_def ret_def
          store_authorization_session_def with_lock_def intro: spends_refl split: sum.splits prod.splits)
    then show thesis by (rule refused)
  next
    case (Inr response)
    with assms have "process_par request ctx metadata s = (Inr response, s')" by simp
    from process_par_Inr [OF this] show thesis by (auto intro: stored)
  qed
qed

lemma approve_cases:
  assumes "generate_authorization_code u s = (r, s')"
  obtains (issued) sessions session codes where "is_sessions s = Unlocked sessions" "sessions u = Some session"
      "is_code_to_uri s = Unlocked codes" "r = Inr (uuid_at s (uuids_used s))"
      "s' = s\<lparr>uuids_used := Suc (uuids_used s), clock_reads := Suc (clock_reads s), is_sessions := Unlocked (sessions(u \<mapsto>
         session\<lparr>sn_authorization_code := Some (uuid_at s (uuids_used s)),
           sn_code_issued_at := Some (clock_at s (clock_reads s))\<rparr>)),
         is_code_to_uri := Unlocked (codes(uuid_at s (uuids_used s) \<mapsto> u))\<rparr>"
    | (refused) e where "r = Inl e" "spends s s'"
proof (cases r)
  case (Inl e)
  with assms have "spends s s'"
    by (auto simp: generate_authorization_code_def bindP_def new_uuid_def errP_def ret_def liftR_def utc_now_def
        set_authorization_code_def with_lock_def spends_def sessions_spent_refl intro!: sessions_spent_upd
        split: mutex.splits option.splits sum.splits prod.splits)
  with Inl show thesis by (rule refused)
next
  case (Inr code)
  with assms have "generate_authorization_code u s = (Inr code, s')" by simp
  then show thesis using Inr
    by (auto simp: generate_code_Inr set_code_Inr intro: issued)
qed

lemma flow_step_inv:
  assumes "flow_step L a s = (r, s')" and "flow_inv s"
  shows "flow_inv s'"
proof (cases a)
  case (Push request ctx metadata)
  with assms(1) obtain q where "process_par request ctx metadata s = (q, s')" by (cases "process_par request ctx metadata s") simp
  then show ?thesis
  proof (cases rule: push_cases)
    case (stored sessions session n)
    have "pushed_uris s' = insert (''urn:ietf:params:oauth:request_uri:'' @ uuid_at s (uuids_used s)) (pushed_uris s)"
      unfolding stored(2) by (simp add: pushed_uris_def drawn_def lessThan_Suc)
    with assms(2) stored show ?thesis by (auto simp: flow_inv_def)
  qed (rule spends_inv [OF _ assms(2)])
next
  case (Approve u)
  with assms(1) obtain q where "generate_authorization_code u s = (q, s')" by (cases "generate_authorization_code u s") simp
  then show ?thesis
  proof (cases rule: approve_cases)
    case (issued sessions session codes)
    have "pushed_uris s \<subseteq> pushed_uris s'" unfolding issued(5) by (rule pushed_uris_mono) simp_all
    moreover have "u \<in> pushed_uris s" using assms(2) issued(1,2) by (auto simp: flow_inv_def)
    moreover have "ran (codes(uuid_at s (uuids_used s) \<mapsto> u)) \<subseteq> insert u (ran codes)" by (auto simp: ran_def split: if_splits)
    ultimately show ?thesis using assms(2) issued by (fastforce simp: flow_inv_def)
  qed (rule spends_inv [OF _ assms(2)])
next
  case (TokenRequest request ctx)
  with assms(1) have "s' = snd (process_token_request L request ctx s)" by (cases "process_token_request L request ctx s") simp
  with keeps_spends_request have "spends s s'" unfolding keeps_def by blast
  then show ?thesis using assms(2) by (rule spends_inv)
qed

lemma exchanged_live:
  assumes "flow_step L a s = (r, s')" and "code_exchanged k (a, r)"
  shows "code_session_live s k \<and> \<not> code_session_live s' k"
proof -
  obtain request ctx response where a: "a = TokenRequest request ctx" "tr_grant_type request = ''authorization_code''"
    "tr_code request = Some k" and r: "r = Tokens (Inr response)"
    using assms(2) by (cases "(k, (a, r))" rule: code_exchanged.cases) auto
  have "process_authorization_code_grant L request ctx s = (Inr response, s')"
    using assms(1) a r by (cases "process_token_request L request ctx s") (auto simp: result_inv process_token_request_def)
  from code_grant_Inr [OF this] obtain code codes uri sessions session jkt s1 where
    c: "check_authorization_code L request ctx s = (Inr (code, session, jkt), s1)"
    and m: "is_code_to_uri s = Unlocked codes" "codes code = Some uri"
      "is_sessions s = Unlocked sessions" "sessions uri = Some session"
      "is_code_to_uri s' = Unlocked codes" "is_sessions s' = Unlocked (sessions(uri \<mapsto> session\<lparr>sn_consumed := True\<rparr>))"
    by (elim exE conjE) simp
  from check_code_Inr [OF c] a(3) have "code = k" "\<not> sn_consumed session" by auto
  with m show ?thesis by (simp add: code_session_live_def)
qed

lemma revived_issued:
  assumes "flow_step L a s = (r, s')" and "flow_inv s" and "code_session_live s' k" and "\<not> code_session_live s k"
  shows "code_issued k (a, r)"
proof (cases a)
  case (Push request ctx metadata)
  with assms(1) obtain q where "process_par request ctx metadata s = (q, s')" by (cases "process_par request ctx metadata s") simp
  then have False
  proof (cases rule: push_cases)
    case (stored sessions session n)
    let ?uri = "''urn:ietf:params:oauth:request_uri:'' @ uuid_at s (uuids_used s)"
    have "?uri \<notin> pushed_uris s" using assms(2) next_not_drawn [of s] by (auto simp: flow_inv_def pushed_uris_def)
    then have "\<forall>codes. is_code_to_uri s = Unlocked codes \<longrightarrow> codes k \<noteq> Some ?uri"
      using assms(2) by (auto simp: flow_inv_def ran_def)
    with stored assms(3,4) show False by (auto simp: code_session_live_def split: if_splits)
  qed (use assms(3,4) spends_live in blast)
  then show ?thesis ..
next
  case (Approve u)
  with assms(1) obtain q where q: "generate_authorization_code u s = (q, s')" "r = Approved q"
    by (cases "generate_authorization_code u s") simp
  from q(1) show ?thesis
  proof (cases rule: approve_cases)
    case (issued sessions session codes)
    with assms(3,4) have "k = uuid_at s (uuids_used s)" by (auto simp: code_session_live_def split: if_splits)
    with issued q(2) Approve show ?thesis by simp
  qed (use assms(3,4) spends_live in blast)
next
  case (TokenRequest request ctx)
  with assms(1) have "s' = snd (process_token_request L request ctx s)" by (cases "process_token_request L request ctx s") simp
  with keeps_spends_request have "spends s s'" unfolding keeps_def by blast
  with assms(3,4) spends_live show ?thesis by blast
qed

interpretation auth_code: single_use_under "flow_step L" code_issued code_exchanged code_session_live flow_inv
  for L
proof (unfold_locales, goal_cases)
  case 1 then show ?case by (rule flow_step_inv)
next
  case 2 then show ?case using exchanged_live by blast
next
  case 3 then show ?case using exchanged_live by blast
next
  case 4 then show ?case by (rule revived_issued)
qed

text \<open>A code is issued at most once, because its UUID is drawn at most once.\<close>

lemma flow_step_draws:
  assumes "flow_step L a s = (r, s')"
  shows "drawn s \<subseteq> drawn s' \<and> (\<forall>k. code_issued k (a, r) \<longrightarrow> k = uuid_at s (uuids_used s) \<and> k \<in> drawn s')"
proof (cases a)
  case (Push request ctx metadata)
  with assms obtain q where q: "process_par request ctx metadata s = (q, s')" by (cases "process_par request ctx metadata s") simp
  then have "drawn s \<subseteq> drawn s'" by (cases rule: push_cases) (auto simp: drawn_def spends_def)
  with Push show ?thesis by simp
next
  case (Approve u)
  with assms obtain q where q: "generate_authorization_code u s = (q, s')" "r = Approved q"
    by (cases "generate_authorization_code u s") simp
  from q(1) show ?thesis using Approve q(2)
    by (cases rule: approve_cases) (auto simp: drawn_def spends_def)
next
  case (TokenRequest request ctx)
  with assms have "s' = snd (process_token_request L request ctx s)" by (cases "process_token_request L request ctx s") simp
  with keeps_spends_request have "spends s s'" unfolding keeps_def by blast
  with TokenRequest show ?thesis by (auto simp: drawn_def spends_def)
qed

interpretation fresh_code: single_use_under "flow_step L" "\<lambda>_ _. False" code_issued "\<lambda>s k. k \<notin> drawn s" flow_inv
  for L
proof (unfold_locales, goal_cases)
  case 1 then show ?case by (rule flow_step_inv)
next
  case (2 a s r s' k)
  with flow_step_draws next_not_drawn show ?case unfolding flow_inv_def by metis
next
  case 3 then show ?case using flow_step_draws by blast
next
  case 4 then show ?case using flow_step_draws by blast
qed

lemma flow_inv_new: "inj (uuid_at e) \<Longrightarrow> flow_inv (issuer_state_new e)"
  by (simp add: flow_inv_def issuer_state_new_def env.defs issuer_state.defs)

text \<open>
  C12. When pushed requests, approvals and token requests are handled one after another, from an
  empty store, in any order and with any contents, an authorization code is exchanged for a token
  only if it was issued, and at most once. The UUIDs the server draws are assumed not to repeat.
\<close>

theorem authorization_code_single_use:
  assumes "run_ops (flow_step L) as (issuer_state_new e) = (tr, t)" and "inj (uuid_at e)"
  shows "count_ops (code_exchanged code) tr \<le> count_ops (code_issued code) tr \<and>
    count_ops (code_exchanged code) tr \<le> 1"
proof -
  note inv = flow_inv_new [OF assms(2)]
  have "\<not> code_session_live (issuer_state_new e) code"
    by (simp add: code_session_live_def issuer_state_new_def env.defs issuer_state.defs)
  with auth_code.hits_bounded_under [OF assms(1) inv, of code]
  have "count_ops (code_exchanged code) tr \<le> count_ops (code_issued code) tr" by simp
  moreover have "count_ops (code_issued code) tr \<le> 1"
    using fresh_code.hits_bounded_under [OF assms(1) inv, of code]
    by (cases "code \<in> drawn (issuer_state_new e)") (simp_all add: count_ops_def)
  ultimately show ?thesis by simp
qed

text \<open>A push, its approval and the same token request twice: the first gets a token, the second is refused.\<close>

definition sample_flow :: "flow_op list" where
  "sample_flow = [Push sample_par sample_par_context sample_metadata,
     Approve (''urn:ietf:params:oauth:request_uri:'' @ show_nat 0),
     TokenRequest (sample_token_request\<lparr>tr_code := Some (show_nat 1)\<rparr>) sample_token_context,
     TokenRequest (sample_token_request\<lparr>tr_code := Some (show_nat 1)\<rparr>) sample_token_context]"

lemma sample_par_fields:
  "pr_code_challenge sample_par = hex_encode ''verifier''" "pr_client_id sample_par = ''wallet''"
  "pr_redirect_uri sample_par = ''https://wallet/cb''"
  by (simp_all add: sample_par_def)

lemma sample_flow_runs:
  "\<exists>tr t. run_ops (flow_step hex_libs) sample_flow sample_store = (tr, t) \<and>
     count_ops (code_issued (show_nat 1)) tr = 1 \<and> count_ops (code_exchanged (show_nat 1)) tr = 1"
  by (simp add: sample_flow_def run_ops.simps(2) process_par_def sample_check_par bindP_def liftR_def new_uuid_run
      utc_now_run Let_def errP_def store_authorization_session_def with_lock_def ret_def generate_authorization_code_def
      set_authorization_code_def process_token_request_def process_authorization_code_grant_def stateP_def
      check_authorization_code_def get_session_by_code_def sample_token_request_def sample_token_context_def
      sample_par_fields verify_pkce_def hex_libs_def num_seconds_def trunc_div_def AUTHORIZATION_CODE_TTL_SECS_def
      redeem_authorization_code_def consume_authorization_code_def issue_access_token_def mint_details_def
      store_access_token_def expiry_hour record_token_for_code_def revoke_tokens_for_code_def)

theorem authorization_code_single_use_witness:
  "\<exists>tr t. run_ops (flow_step hex_libs) sample_flow (issuer_state_new sample_env) = (tr, t) \<and> inj (uuid_at sample_env) \<and>
     count_ops (code_issued (show_nat 1)) tr = 1 \<and> count_ops (code_exchanged (show_nat 1)) tr = 1"
proof -
  from sample_flow_runs obtain tr t where
    r: "run_ops (flow_step hex_libs) sample_flow (issuer_state_new sample_env) = (tr, t)"
    and n: "count_ops (code_issued (show_nat 1)) tr = 1" "count_ops (code_exchanged (show_nat 1)) tr \<ge> 1"
    unfolding sample_store_def by fastforce
  have u: "inj (uuid_at sample_env)" by (simp add: inj_def show_nat_inj)
  from authorization_code_single_use [OF r u, of "show_nat 1"] r u n show ?thesis by (metis le_antisym)
qed

end
