(* ===== verification/Issuer_Endpoints.thy ===== *)
theory Issuer_Endpoints
  imports Issuer_Routes Code_Flow
begin

text \<open>
  What the issuer's routes guarantee: whom a protected resource lets in, where a decision of the
  user redirects and when it hands out a code, and that a client that follows the flow gets a token.
\<close>

section \<open>Protected resources\<close>

lemma dpop_jkt_of_Inr:
  "dpop_jkt_of P sv hs path t s = (Inr (Some jkt), s') \<longleftrightarrow>
     (\<exists>v proof htu. header_get_all hs ''dpop'' = [v] \<and> w_to_str (pf_web P) v = Inr proof \<and>
        url_for (pf_libs P) sv path = Some htu \<and> verify_dpop_proof (pf_libs P) proof
          \<lparr> dc_htm = ''POST'', dc_htu = htu, dc_access_token = t \<rparr> s = (Inr jkt, s'))"
  by (auto simp: dpop_jkt_of_def bindP_Inr errP_Inr liftR_Inr map_err_Inr ok_or_Inr ret_Inr split: list.split)

text \<open>
  C20. The credential endpoint lets a request in only with a live access token, and with a token
  that is bound to a key only under the DPoP scheme, with exactly one proof, which verifies for this
  method, URL and token and is made with that key; a token that is not bound goes as a bearer token.
\<close>

theorem authorize_resource_sound:
  assumes "authorize_resource P sv hs path s = (Inr token, s')"
  shows "\<exists>scheme grant t. authorization_header (pf_web P) hs = (scheme, token) \<and>
     get_access_grant token s = (Inr (Some grant), t) \<and>
     (case gt_dpop_jkt grant of
        None \<Rightarrow> eq_ignore_ascii_case scheme ''Bearer'' \<and> s' = t
      | Some jkt \<Rightarrow> eq_ignore_ascii_case scheme ''DPoP'' \<and>
          (\<exists>v proof htu. header_get_all hs ''dpop'' = [v] \<and> w_to_str (pf_web P) v = Inr proof \<and>
             url_for (pf_libs P) sv path = Some htu \<and> verify_dpop_proof (pf_libs P) proof
               \<lparr> dc_htm = ''POST'', dc_htu = htu, dc_access_token = Some token \<rparr> t = (Inr jkt, s')))"
proof -
  obtain scheme tok where h: "authorization_header (pf_web P) hs = (scheme, tok)" by fastforce
  from assms obtain grant t where tok: "tok = token"
    and scheme: "eq_ignore_ascii_case scheme ''DPoP'' \<or> eq_ignore_ascii_case scheme ''Bearer''"
    and grant: "get_access_grant token s = (Inr (Some grant), t)"
    and binding: "check_binding P sv hs path token (gt_dpop_jkt grant) (eq_ignore_ascii_case scheme ''DPoP'') t = (Inr (), s')"
    by (auto simp: authorize_resource_def h Let_def bindP_Inr errP_Inr liftR_Inr ensure_Inr ok_or_Inr ret_Inr)
  show ?thesis
  proof (cases "gt_dpop_jkt grant")
    case None
    with binding have "\<not> eq_ignore_ascii_case scheme ''DPoP''" "s' = t"
      by (auto simp: check_binding_def liftR_Inr ret_Inr split: bool.splits)
    with None h tok scheme grant show ?thesis by auto
  next
    case (Some jkt)
    with binding have "eq_ignore_ascii_case scheme ''DPoP''" "dpop_jkt_of P sv hs path (Some token) t = (Inr (Some jkt), s')"
      by (auto simp: check_binding_def bindP_Inr errP_Inr liftR_Inr ok_or_Inr ensure_Inr split: bool.splits)
    with Some h tok grant show ?thesis by (auto simp: dpop_jkt_of_Inr)
  qed
qed

section \<open>Decisions\<close>

lemma resolve_authorization_Inr:
  "resolve_request_uri (Some u) (Some c) s = (Inr session, s') \<longleftrightarrow>
     (\<exists>sessions. is_sessions s = Unlocked sessions \<and> sessions u = Some session) \<and> sn_client_id session = c \<and>
     num_milliseconds (clock_at s (clock_reads s) - sn_created_at session) < REQUEST_URI_TTL_SECS * 1000 \<and>
     sn_authorization_code session = None \<and> s' = s\<lparr>clock_reads := Suc (clock_reads s)\<rparr>"
  by (auto simp: resolve_request_uri_def get_authorization_session_def bindP_Inr errP_Inr liftR_Inr ok_or_Inr ensure_Inr
      ret_Inr with_lock_Inr utc_now_run)

lemma resolve_keeps:
  "keeps (\<lambda>s s'. is_sessions s' = is_sessions s) (resolve_request_uri u c :: ('x issuer_state_scheme, _, _) prog)"
proof -
  have basic: "keeps (\<lambda>s s'. is_sessions s' = is_sessions s) (get_authorization_session v :: ('x issuer_state_scheme, _, _) prog)"
    "keeps (\<lambda>s s'. is_sessions s' = is_sessions s) (utc_now :: ('x issuer_state_scheme, 'e, _) prog)" for v
    by (auto simp: keeps_def get_authorization_session_def with_lock_def ret_def utc_now_def split: mutex.split)
  show ?thesis unfolding resolve_request_uri_def
    by (intro keeps_bindP keeps_errP keeps_liftR keeps_ret basic) simp_all
qed

definition denial :: "(string \<times> string) list" where
  "denial = [(''error'', ''access_denied''), (''error_description'', ''The user denied the request'')]"

lemma decision_resolved:
  assumes "resolve_request_uri (Some (cd_request_uri d)) (Some (cd_client_id d)) s = (Inr session, t)"
    and "url_parse (pf_libs P) (sn_redirect_uri session) = Some base"
  shows "authorize_decision P sv d s =
    (if cd_decision d = ''approve'' then
       (case generate_authorization_code (sn_request_uri session) t of
          (Inr code, s') \<Rightarrow> (Inr (redirect_to (w_append_pairs (pf_web P) base ((''code'', code) # state_and_iss sv session))), s')
        | (Inl e, s') \<Rightarrow> (Inr (error_page ''server_error'' (authorization_error_to_string e)), s'))
     else (Inr (redirect_to (w_append_pairs (pf_web P) base (denial @ state_and_iss sv session))), t))"
  unfolding authorize_decision_def finish_def match_result_def
  using assms
  by (auto simp: bindP_def errP_def liftR_def ret_def denial_def map_err_def split: prod.split sum.split)

lemma redirect_to_ok [simp]: "redirect_to u = redirect_to v \<longleftrightarrow> u = v"
  by (simp add: redirect_to_def)

text \<open>The response of the endpoint carries a code.\<close>

definition redirects_with_code :: "platform \<Rightarrow> server \<Rightarrow> authorization_session \<Rightarrow> string \<Rightarrow> payload response \<Rightarrow> bool" where
  "redirects_with_code P sv session code r \<longleftrightarrow>
     (\<exists>base. url_parse (pf_libs P) (sn_redirect_uri session) = Some base \<and>
        r = redirect_to (w_append_pairs (pf_web P) base ((''code'', code) # state_and_iss sv session)))"

text \<open>
  C23. A code is handed out only to whom the user approved: when a decision changes anything in the
  issuer's store, the user approved, the request was pushed by this client less than 60 seconds ago
  and had no code yet, the code is a fresh UUID stored for that request, and the redirect that
  carries it goes to the redirect_uri the client pushed.
\<close>

theorem decision_sound:
  assumes run: "authorize_decision P sv d s = (Inr r, s')"
    and changed: "is_sessions s' \<noteq> is_sessions s"
  shows "cd_decision d = ''approve'' \<and>
     (\<exists>sessions session. is_sessions s = Unlocked sessions \<and> sessions (cd_request_uri d) = Some session \<and>
        sn_client_id session = cd_client_id d \<and> sn_authorization_code session = None \<and>
        num_milliseconds (clock_at s (clock_reads s) - sn_created_at session) < REQUEST_URI_TTL_SECS * 1000 \<and>
        (\<exists>now stored. sessions (sn_request_uri session) = Some stored \<and>
           is_sessions s' = Unlocked (sessions(sn_request_uri session \<mapsto> stored\<lparr>
             sn_authorization_code := Some (uuid_at s (uuids_used s)), sn_code_issued_at := Some now\<rparr>))) \<and>
        (redirects_with_code P sv session (uuid_at s (uuids_used s)) r \<or> is_code_to_uri s = Poisoned))"
proof (cases "resolve_request_uri (Some (cd_request_uri d)) (Some (cd_client_id d)) s")
  case (Pair res t)
  show ?thesis
  proof (cases res)
    case (Inl e)
    have "is_sessions t = is_sessions s" using keepsD [OF resolve_keeps Pair] .
    with run changed Pair Inl show ?thesis
      by (simp add: authorize_decision_def finish_def match_result_def bindP_def errP_def ret_def)
  next
    case (Inr session)
    note resolved = Pair [unfolded Inr]
    from resolved obtain sessions where ses: "is_sessions s = Unlocked sessions" "sessions (cd_request_uri d) = Some session"
      "sn_client_id session = cd_client_id d" "sn_authorization_code session = None"
      "num_milliseconds (clock_at s (clock_reads s) - sn_created_at session) < REQUEST_URI_TTL_SECS * 1000"
      and t: "t = s\<lparr>clock_reads := Suc (clock_reads s)\<rparr>" by (auto simp: resolve_authorization_Inr)
    obtain base where base: "url_parse (pf_libs P) (sn_redirect_uri session) = Some base"
    proof (cases "url_parse (pf_libs P) (sn_redirect_uri session)")
      case None
      have "is_sessions t = is_sessions s" using t by simp
      with None run resolved changed show ?thesis
        by (auto simp: authorize_decision_def finish_def match_result_def bindP_def errP_def ret_def liftR_def)
    qed blast
    note d = decision_resolved [OF resolved base, where sv = sv]
    have approve: "cd_decision d = ''approve''" using d run changed t by (auto split: if_splits)
    let ?u = "sn_request_uri session" and ?code = "uuid_at s (uuids_used s)"
    obtain outcome s2 where g: "generate_authorization_code ?u t = (outcome, s2)" by fastforce
    with d run approve have s2: "s' = s2" by (auto split: sum.splits)
    from g changed ses(1) t s2 obtain stored now where stored: "sessions ?u = Some stored"
      "is_sessions s' = Unlocked (sessions(?u \<mapsto> stored\<lparr>sn_authorization_code := Some ?code, sn_code_issued_at := Some now\<rparr>))"
      "outcome = Inr ?code \<or> is_code_to_uri s = Poisoned"
      by (auto simp: generate_authorization_code_def set_authorization_code_def bindP_def errP_def new_uuid_def with_lock_def
          liftR_def utc_now_def ret_def map_err_def split: option.splits mutex.splits)
    have "redirects_with_code P sv session ?code r" if "outcome = Inr ?code"
      using d run approve g that base by (simp add: redirects_with_code_def)
    with stored ses approve show ?thesis by blast
  qed
qed

text \<open>
  C14. A decision to deny is not final: the client is told that the user denied the request, but
  nothing is recorded, and approving the same request_uri afterwards, within its 60 seconds, still
  gives the client a code.
\<close>

theorem denied_then_approved:
  assumes ses: "is_sessions s = Unlocked sessions" "sessions u = Some session" "sn_request_uri session = u"
      "sn_authorization_code session = None"
    and codes: "is_code_to_uri s = Unlocked codes"
    and fresh: "\<And>n. n \<le> 1 \<Longrightarrow>
      num_milliseconds (clock_at s (clock_reads s + n) - sn_created_at session) < REQUEST_URI_TTL_SECS * 1000"
    and base: "url_parse (pf_libs P) (sn_redirect_uri session) = Some base"
  shows "\<exists>s1 s2. authorize_decision P sv \<lparr> cd_request_uri = u, cd_client_id = sn_client_id session, cd_decision = ''deny'' \<rparr> s =
       (Inr (redirect_to (w_append_pairs (pf_web P) base (denial @ state_and_iss sv session))), s1) \<and>
     authorize_decision P sv \<lparr> cd_request_uri = u, cd_client_id = sn_client_id session, cd_decision = ''approve'' \<rparr> s1 =
       (Inr (redirect_to (w_append_pairs (pf_web P) base ((''code'', uuid_at s (uuids_used s)) # state_and_iss sv session))), s2)"
proof -
  let ?d = "\<lparr> cd_request_uri = u, cd_client_id = sn_client_id session, cd_decision = ''deny'' \<rparr>"
  let ?a = "\<lparr> cd_request_uri = u, cd_client_id = sn_client_id session, cd_decision = ''approve'' \<rparr>"
  let ?s1 = "s\<lparr>clock_reads := Suc (clock_reads s)\<rparr>" and ?s2 = "s\<lparr>clock_reads := Suc (Suc (clock_reads s))\<rparr>"
  have r1: "resolve_request_uri (Some (cd_request_uri ?d)) (Some (cd_client_id ?d)) s = (Inr session, ?s1)"
    unfolding resolve_authorization_Inr using ses fresh [of 0] by simp
  have r2: "resolve_request_uri (Some (cd_request_uri ?a)) (Some (cd_client_id ?a)) ?s1 = (Inr session, ?s2)"
    unfolding resolve_authorization_Inr using ses fresh [of 1] by simp
  obtain s3 where g: "generate_authorization_code (sn_request_uri session) ?s2 = (Inr (uuid_at s (uuids_used s)), s3)"
    using ses codes
    by (simp add: generate_authorization_code_def set_authorization_code_def bindP_def errP_def new_uuid_def with_lock_def
        utc_now_def ret_def)
  show ?thesis
    using decision_resolved [OF r1 base, where sv = sv] decision_resolved [OF r2 base, where sv = sv] g
    by (intro exI [of _ ?s1] exI [of _ s3]) simp
qed

section \<open>A concrete server\<close>

definition sample_web :: web_libs where
  "sample_web = \<lparr> w_to_str = Inr, w_header_value = Some,
     w_append_pairs = (\<lambda>u ps. u @ ''?'' @ join_with ''&'' (map (\<lambda>(k, v). k @ ''='' @ v) ps)) \<rparr>"

definition sample_pending :: authorization_session where
  "sample_pending = \<lparr> sn_request_uri = ''urn:1'', sn_authorization_code = None,
     sn_code_challenge = hex_encode ''verifier'', sn_client_id = ''wallet'',
     sn_redirect_uri = ''https://wallet/cb'', sn_configuration_ids = [''pid''], sn_via_details = False,
     sn_issuer_state = None, sn_client_state = Some ''st'', sn_created_at = 0, sn_code_issued_at = None,
     sn_dpop_jkt = Some ''jkt'', sn_consumed = False \<rparr>"

definition sample_config :: server_config where
  "sample_config = \<lparr> sf_host = ''127.0.0.1'', sf_port = 3000, sf_external_url = ''https://issuer/'', sf_issuer_name = ''Issuer'',
     sf_p256_key_path = None, sf_ed25519_key_path = None, sf_cert_path = None, sf_trust_anchor_path = None,
     sf_client_attester_jwks_path = None, sf_admin_token = Some ''token'' \<rparr>"

definition sample_pending_state :: app_state where
  "sample_pending_state = (app_state_new sample_config sample_env)
     \<lparr>is_sessions := Unlocked [''urn:1'' \<mapsto> sample_pending], is_access_tokens := Unlocked [''at'' \<mapsto>
        \<lparr> te_grant = \<lparr> gt_configuration_ids = [''pid''], gt_identifiers = Map.empty, gt_dpop_jkt = None \<rparr>, te_expires_at = 1 \<rparr>]\<rparr>"

lemma sample_pending_fields [simp]:
  "is_sessions sample_pending_state = Unlocked [''urn:1'' \<mapsto> sample_pending]"
  "is_code_to_uri sample_pending_state = Unlocked Map.empty" "clock_at sample_pending_state = (\<lambda>n. 0)"
  "clock_reads sample_pending_state = 0" "uuid_at sample_pending_state = show_nat" "uuids_used sample_pending_state = 0"
  "is_access_tokens sample_pending_state = Unlocked [''at'' \<mapsto>
     \<lparr> te_grant = \<lparr> gt_configuration_ids = [''pid''], gt_identifiers = Map.empty, gt_dpop_jkt = None \<rparr>, te_expires_at = 1 \<rparr>]"
  by (simp_all add: sample_pending_state_def app_state_new_def issuer_state_new_def issuer_state.defs app_state.defs env.defs
      sample_env_def)

end
