(* ===== verification/Mdoc_Verification.thy ===== *)
theory Mdoc_Verification
  imports Mdoc
begin

text \<open>
  What a verified mdoc is, and that issued and presented mdocs verify. The CBOR and COSE crates
  enter by two laws: a value of moderate depth that was written reads back, and so does a
  COSE_Sign1 that the sources built.
\<close>

section \<open>Laws of the crates\<close>

text \<open>
  ciborium reads back what it wrote up to its recursion limit of 256; integers are those of CBOR,
  and floats, whose NaN payloads are not kept, are left out.
\<close>

fun cbor_within :: "nat \<Rightarrow> cbor \<Rightarrow> bool" where
  "cbor_within n (CInt i) \<longleftrightarrow> - 18446744073709551616 \<le> i \<and> i < 18446744073709551616"
| "cbor_within n (CFloat f) \<longleftrightarrow> False"
| "cbor_within n (CTag t v) \<longleftrightarrow> 0 < n \<and> t < 18446744073709551616 \<and> cbor_within (n - 1) v"
| "cbor_within n (CArray vs) \<longleftrightarrow> 0 < n \<and> list_all (cbor_within (n - 1)) vs"
| "cbor_within n (CMap kvs) \<longleftrightarrow> 0 < n \<and> list_all (\<lambda>(k, v). cbor_within (n - 1) k \<and> cbor_within (n - 1) v) kvs"
| "cbor_within n _ \<longleftrightarrow> True"

definition cbor_law :: "cbor_libs \<Rightarrow> bool" where
  "cbor_law C \<longleftrightarrow> (\<forall>v b. cbor_within 100 v \<longrightarrow> cb_write C v = Inr b \<longrightarrow> cb_read C b = Inr v)"

text \<open>A COSE_Sign1 as the sources build it: \<open>rest\<close> labels beyond the ones coset reserves.\<close>

definition built_header :: "cose_header \<Rightarrow> bool" where
  "built_header h \<longleftrightarrow> ch_other h = [] \<and> distinct (map fst (ch_rest h)) \<and>
     (ch_alg h = None \<or> (\<exists>a. ch_alg h = Some (cose_algorithm a))) \<and>
     list_all (\<lambda>(l, v). (\<exists>n>7. l = LabelInt n \<and> in_i64 n) \<and> cbor_within 10 v) (ch_rest h)"

definition built_sign1 :: "cose_sign1 \<Rightarrow> bool" where
  "built_sign1 s \<longleftrightarrow> cs_original_data s = None \<and> built_header (cs_protected s) \<and> built_header (cs_unprotected s)"

definition cose_law :: "cbor_libs \<Rightarrow> bool" where
  "cose_law C \<longleftrightarrow> (\<forall>s. built_sign1 s \<longrightarrow>
     (\<forall>v. cose_value_of C s = Inr v \<longrightarrow> cbor_within 20 v \<and> cose_codec C s) \<and>
     (\<forall>b. cose_tagged_vec C s = Inr b \<longrightarrow> (\<exists>v. cose_value_of C s = Inr v \<and> cb_read C b = Inr (CTag 18 v))))"

lemma cbor_within_mono: "cbor_within n v \<Longrightarrow> n \<le> m \<Longrightarrow> cbor_within m v"
proof (induction n v arbitrary: m rule: cbor_within.induct)
  case (4 n vs)
  then show ?case by (auto simp: list_all_iff)
next
  case (5 n kvs)
  have "cbor_within (m - 1) k \<and> cbor_within (m - 1) v" if "(k, v) \<in> set kvs" for k v
    using 5(1) [OF that refl, of "m - 1"] 5(2) [OF that refl, of "m - 1"] 5(3,4) that
    by (auto simp: list_all_iff)
  with 5(3,4) show ?case by (auto simp: list_all_iff)
qed auto

lemma cbor_reads: "cbor_law C \<Longrightarrow> cb_write C v = Inr b \<Longrightarrow> cbor_within 100 v \<Longrightarrow> cb_read C b = Inr v"
  by (simp add: cbor_law_def)

lemma embed_Inr: "embed C v = Inr e \<longleftrightarrow> (\<exists>b. cb_write C v = Inr b \<and> e = CTag 24 (CBytes b))"
  by (auto simp: embed_def mdoc_encode_def TAG_ENCODED_CBOR_def result_inv)

lemma mdoc_encode_Inr: "mdoc_encode C v = Inr b \<longleftrightarrow> cb_write C v = Inr b"
  by (simp add: mdoc_encode_def map_err_Inr)

lemma mdoc_decode_Inr: "mdoc_decode C b = Inr v \<longleftrightarrow> cb_read C b = Inr v"
  by (simp add: mdoc_decode_def map_err_Inr)

lemma unembed_Inr: "unembed C e = Inr v \<longleftrightarrow> (\<exists>b. e = CTag 24 (CBytes b) \<and> cb_read C b = Inr v)"
  by (auto simp: unembed_def TAG_ENCODED_CBOR_def mdoc_decode_Inr split: cbor.splits if_splits)

lemma cbor_require_Inr: "cbor_require m k c = Inr v \<longleftrightarrow> cbor_get m k = Some v"
  by (simp add: cbor_require_def ok_or_Inr)

lemma require_text_Inr: "require_text m k c = Inr s \<longleftrightarrow> cbor_get m k = Some (CText s)"
proof -
  have "as_text v = Some s \<longleftrightarrow> v = CText s" for v by (cases v) auto
  then show ?thesis by (auto simp: require_text_def result_inv cbor_require_Inr)
qed

lemma as_bytes_Some: "as_bytes v = Some b \<longleftrightarrow> v = CBytes b"
  by (cases v) auto

lemma as_integer_Some: "as_integer v = Some i \<longleftrightarrow> v = CInt i"
  by (cases v) auto

lemma as_map_Some: "as_map v = Some m \<longleftrightarrow> v = CMap m"
  by (cases v) auto

lemma as_text_Some: "as_text v = Some s \<longleftrightarrow> v = CText s"
  by (cases v) auto

lemma as_cbor_array_Some: "as_cbor_array v = Some vs \<longleftrightarrow> v = CArray vs"
  by (cases v) auto

lemmas as_Some = as_bytes_Some as_integer_Some as_map_Some as_text_Some as_cbor_array_Some

section \<open>What a verified element is\<close>

text \<open>
  \<open>j\<close> is the value of element \<open>e\<close> in namespace \<open>ns\<close> in an item that was sent and whose bytes hash
  to a digest of that namespace in the MSO.
\<close>

definition item_signed :: "libs \<Rightarrow> cbor_libs \<Rightarrow> cbor \<Rightarrow> string \<Rightarrow> string \<Rightarrow> json \<Rightarrow> cbor \<Rightarrow> bool" where
  "item_signed L C digests ns e j item_bytes \<longleftrightarrow>
     (\<exists>m n encoded item v. digests = CMap m \<and> cb_write C item_bytes = Inr encoded \<and>
        label_value m n = Some (CBytes (sha256 L encoded)) \<and> unembed C item_bytes = Inr item \<and>
        cbor_get item ''digestID'' = Some (CInt n) \<and> cbor_get item ''elementIdentifier'' = Some (CText e) \<and>
        cbor_get item ''elementValue'' = Some v \<and> j = cbor_to_json L C v)"

lemma check_item_Inr: "check_item L C ns digests b = Inr (e, j) \<longleftrightarrow> item_signed L C digests ns e j b"
  by (auto simp: check_item_def item_signed_def bindR_Inr require_text_Inr cbor_require_Inr ok_or_Inr ensure_Inr
      mdoc_encode_Inr as_Some Option.bind_eq_Some_conv)

lemma verify_items_sound:
  assumes "verify_items L C ns digests items elements = Inr m" and "m e = Some j"
  shows "elements e = Some j \<or> (\<exists>b\<in>set items. item_signed L C digests ns e j b)"
  using assms
proof (induction items arbitrary: elements)
  case (Cons b items)
  then obtain e' j' where b: "item_signed L C digests ns e' j' b"
    and r: "verify_items L C ns digests items (elements(e' \<mapsto> j')) = Inr m"
    by (auto simp: bindR_Inr check_item_Inr split: if_splits)
  from Cons.IH [OF r Cons.prems(2)] b show ?case by (auto split: if_splits)
qed simp

definition element_signed :: "libs \<Rightarrow> cbor_libs \<Rightarrow> cbor \<Rightarrow> (cbor \<times> cbor) list \<Rightarrow> string \<Rightarrow> string \<Rightarrow> json \<Rightarrow> bool" where
  "element_signed L C value_digests sent ns e j \<longleftrightarrow>
     (\<exists>digests items b. cbor_get value_digests ns = Some digests \<and> (CText ns, CArray items) \<in> set sent \<and>
        b \<in> set items \<and> item_signed L C digests ns e j b)"

lemma verify_namespaces_sound:
  assumes "verify_namespaces L C value_digests kvs claims = Inr claims'"
    and "claims' ns = Some m" and "m e = Some j"
  shows "(\<exists>m. claims ns = Some m \<and> m e = Some j) \<or> element_signed L C value_digests kvs ns e j"
  using assms(1)
proof (induction kvs arbitrary: claims)
  case Nil
  with assms(2,3) show ?case by auto
next
  case (Cons kv kvs)
  obtain k v where kv: "kv = (k, v)" by fastforce
  from Cons.prems obtain n digests items elements where p: "k = CText n" "v = CArray items"
      "cbor_get value_digests n = Some digests"
      "verify_items L C n digests items (case claims n of Some m \<Rightarrow> m | None \<Rightarrow> Map.empty) = Inr elements"
    and r: "verify_namespaces L C value_digests kvs (claims(n \<mapsto> elements)) = Inr claims'"
    by (auto simp: kv bindR_Inr ok_or_Inr as_Some)
  from Cons.IH [OF r] consider (rest) "element_signed L C value_digests kvs ns e j"
    | (here) m' where "(claims(n \<mapsto> elements)) ns = Some m'" "m' e = Some j" by blast
  then show ?case
  proof cases
    case rest
    then show ?thesis by (auto simp: element_signed_def kv)
  next
    case here
    show ?thesis
    proof (cases "ns = n")
      case True
      with here have "elements e = Some j" by simp
      from verify_items_sound [OF p(4) this] True p show ?thesis
        by (cases "claims n") (auto simp: element_signed_def kv)
    qed (use here in auto)
  qed
qed

section \<open>What an accepted presentation shows\<close>

text \<open>The MSO's own statements: type, period, device key and revocation entry.\<close>

definition mso_says :: "libs \<Rightarrow> time_libs \<Rightarrow> cbor \<Rightarrow> verified_mdoc \<Rightarrow> bool" where
  "mso_says L T mso v \<longleftrightarrow>
     cbor_get mso ''docType'' = Some (CText (vm_doc_type v)) \<and>
     (\<exists>validity info key.
        cbor_get mso ''validityInfo'' = Some validity \<and> cbor_get mso ''deviceKeyInfo'' = Some info \<and>
        cbor_get info ''deviceKey'' = Some key \<and> jwk_from_cose_key L key = Inr (vm_device_key v) \<and>
        bindR (cbor_require validity ''signed'' ''validityInfo'') (\<lambda>x. parse_tdate T x ''signed'') = Inr (vm_signed v) \<and>
        bindR (cbor_require validity ''validFrom'' ''validityInfo'') (\<lambda>x. parse_tdate T x ''validFrom'') = Inr (vm_valid_from v) \<and>
        bindR (cbor_require validity ''validUntil'' ''validityInfo'') (\<lambda>x. parse_tdate T x ''validUntil'') = Inr (vm_valid_until v)) \<and>
     parse_status mso = Inr (vm_status v)"

text \<open>
  The issuer vouches for \<open>v\<close>: a certificate chain that is trusted now and was trusted when the
  MSO was signed, the MSO's signature under its leaf, the MSO's statements, and a digest in the
  MSO for every revealed element.
\<close>

definition issuer_vouches ::
    "libs \<Rightarrow> cbor_libs \<Rightarrow> x509_libs \<Rightarrow> time_libs \<Rightarrow> cbor \<Rightarrow> bytes list \<Rightarrow> instant \<Rightarrow> verified_mdoc \<Rightarrow> bool" where
  "issuer_vouches L C X T iss anchors now v \<longleftrightarrow>
     (\<exists>auth_value auth chain key payload mso value_digests.
        cbor_get iss ''issuerAuth'' = Some auth_value \<and> cose_from_value C auth_value = Inr auth \<and>
        issuer_x5chain auth = Inr chain \<and> validate_chain L X chain anchors now = Inr key \<and>
        validate_chain L X chain anchors (vm_signed v) = Inr key \<and> cose_verify L C auth key = Inr () \<and>
        cs_payload auth = Some payload \<and> bindR (mdoc_decode C payload) (unembed C) = Inr mso \<and>
        mso_says L T mso v \<and> vm_valid_from v \<le> now \<and> now \<le> vm_valid_until v \<and>
        cbor_get mso ''valueDigests'' = Some value_digests \<and> vm_signer_certificate v = hd chain \<and>
        (\<forall>ns e j. vm_claim v ns e = Some j \<longrightarrow>
           (\<exists>sent. cbor_get iss ''nameSpaces'' = Some (CMap sent) \<and> element_signed L C value_digests sent ns e j)))"

lemma check_mso_Inr:
  "check_mso T expected mso = Inr (doc_type, signed_at, valid_from, valid_until) \<longleftrightarrow>
     cbor_get mso ''version'' = Some (CText ''1.0'') \<and> cbor_get mso ''digestAlgorithm'' = Some (CText ''SHA-256'') \<and>
     cbor_get mso ''docType'' = Some (CText doc_type) \<and> (\<forall>e. expected = Some e \<longrightarrow> doc_type = e) \<and>
     (\<exists>validity. cbor_get mso ''validityInfo'' = Some validity \<and>
        bindR (cbor_require validity ''signed'' ''validityInfo'') (\<lambda>x. parse_tdate T x ''signed'') = Inr signed_at \<and>
        bindR (cbor_require validity ''validFrom'' ''validityInfo'') (\<lambda>x. parse_tdate T x ''validFrom'') = Inr valid_from \<and>
        bindR (cbor_require validity ''validUntil'' ''validityInfo'') (\<lambda>x. parse_tdate T x ''validUntil'') = Inr valid_until)"
proof -
  have e: "check_doc_type expected d = Inr u \<longleftrightarrow> (\<forall>e. expected = Some e \<longrightarrow> d = e)" for d u
    by (cases expected) (simp_all add: check_doc_type_def ensure_Inr)
  show ?thesis by (auto simp: check_mso_def bindR_Inr require_text_Inr cbor_require_Inr ensure_Inr e)
qed

lemma verify_issuer_signed_value_sound:
  assumes "verify_issuer_signed_value L C X T iss expected anchors now = Inr v"
  shows "issuer_vouches L C X T iss anchors now v" and "\<And>e. expected = Some e \<Longrightarrow> vm_doc_type v = e"
proof -
  obtain auth_value auth chain key payload mso doc_type signed_at valid_from valid_until k2 vd claims info dk device_key status
    where a: "cbor_get iss ''issuerAuth'' = Some auth_value" "cose_from_value C auth_value = Inr auth"
      "issuer_x5chain auth = Inr chain" "validate_chain L X chain anchors now = Inr key"
      "cose_verify L C auth key = Inr ()" "cs_payload auth = Some payload"
      "bindR (mdoc_decode C payload) (unembed C) = Inr mso"
    and m: "check_mso T expected mso = Inr (doc_type, signed_at, valid_from, valid_until)"
    and t: "valid_from \<le> now" "now \<le> valid_until" "validate_chain L X chain anchors signed_at = Inr k2"
    and vd: "cbor_get mso ''valueDigests'' = Some vd"
    and c: "(case cbor_get iss ''nameSpaces'' of None \<Rightarrow> Inr Map.empty
            | Some name_spaces \<Rightarrow>
                bindR (ok_or (MdocMalformed ''nameSpaces is not a map'') (as_map name_spaces)) (\<lambda>kvs.
                verify_namespaces L C vd kvs Map.empty)) = Inr claims"
    and k: "cbor_get mso ''deviceKeyInfo'' = Some info" "cbor_get info ''deviceKey'' = Some dk"
      "jwk_from_cose_key L dk = Inr device_key"
    and s: "parse_status mso = Inr status"
    and v: "v = \<lparr> vm_doc_type = doc_type, vm_claims = claims, vm_device_key = device_key, vm_signed = signed_at,
           vm_valid_from = valid_from, vm_valid_until = valid_until, vm_status = status,
           vm_signer_certificate = hd chain \<rparr>"
    using assms
    unfolding verify_issuer_signed_value_def bindR_Inr map_err_Inr cbor_require_Inr ok_or_Inr ensure_Inr split_paired_Ex prod.case
    by (elim exE conjE) (rule that, (assumption | simp add: bindR_Inr)+)
  have "k2 = key" by (rule validate_chain_same_key [OF a(4) t(3)])
  have sent: "\<exists>sent. cbor_get iss ''nameSpaces'' = Some (CMap sent) \<and> element_signed L C vd sent ns e j"
    if "vm_claim v ns e = Some j" for ns e j
  proof -
    from that v obtain mm where mm: "claims ns = Some mm" "mm e = Some j"
      by (auto simp: vm_claim_def Option.bind_eq_Some_conv)
    with c obtain sent where "cbor_get iss ''nameSpaces'' = Some (CMap sent)" "verify_namespaces L C vd sent Map.empty = Inr claims"
      by (auto simp: bindR_Inr ok_or_Inr as_Some split: option.splits)
    with verify_namespaces_sound [OF this(2) mm] show ?thesis by auto
  qed
  have says: "mso_says L T mso v" using m k s by (auto simp: mso_says_def check_mso_Inr v)
  show "issuer_vouches L C X T iss anchors now v"
    unfolding issuer_vouches_def
    using a t \<open>k2 = key\<close> vd sent says
    by (intro exI [of _ auth_value] exI [of _ auth] exI [of _ chain] exI [of _ key] exI [of _ payload] exI [of _ mso]
        exI [of _ vd]) (simp add: v)
  show "vm_doc_type v = e" if "expected = Some e" for e
    using m that by (simp add: check_mso_Inr v)
qed

lemma verify_document_Inr:
  "verify_document L C X T transcript anchors now doc = Inr v \<longleftrightarrow>
     (\<exists>doc_type iss device_signed names auth sig_value signature signed_bytes.
        cbor_get doc ''docType'' = Some (CText doc_type) \<and> cbor_get doc ''issuerSigned'' = Some iss \<and>
        verify_issuer_signed_value L C X T iss (Some doc_type) anchors now = Inr v \<and>
        cbor_get doc ''deviceSigned'' = Some device_signed \<and> cbor_get device_signed ''nameSpaces'' = Some names \<and>
        cbor_get device_signed ''deviceAuth'' = Some auth \<and> cbor_get auth ''deviceSignature'' = Some sig_value \<and>
        cose_from_value C sig_value = Inr signature \<and>
        device_authentication_bytes C transcript doc_type names = Inr signed_bytes \<and>
        cose_verify_detached L C signature signed_bytes (vm_device_key v) = Inr ())"
proof -
  have d: "device_signature C auth = Inr signature \<longleftrightarrow>
      (\<exists>v. cbor_get auth ''deviceSignature'' = Some v \<and> cose_from_value C v = Inr signature)" for auth signature
    by (auto simp: device_signature_def map_err_Inr split: option.splits)
  show ?thesis
    by (auto simp: verify_document_def bindR_Inr require_text_Inr cbor_require_Inr map_err_Inr d)
qed

lemma verify_device_response_Inr:
  "verify_device_response L C X T response transcript anchors now = Inr vs \<longleftrightarrow>
     (\<exists>r docs. mdoc_decode C response = Inr r \<and> cbor_get r ''version'' = Some (CText ''1.0'') \<and>
        cbor_get r ''status'' = Some (CInt 0) \<and> cbor_get r ''documents'' = Some (CArray docs) \<and> docs \<noteq> [] \<and>
        mapR (verify_document L C X T transcript anchors now) docs = Inr vs)"
proof -
  have d: "(case Option.bind (cbor_get r ''documents'') as_cbor_array of
        Some docs \<Rightarrow> if docs \<noteq> [] then Some docs else None | None \<Rightarrow> None) = Some docs \<longleftrightarrow>
      cbor_get r ''documents'' = Some (CArray docs) \<and> docs \<noteq> []" for r docs
    by (auto simp: Option.bind_eq_Some_conv as_Some split: option.splits if_splits)
  show ?thesis
    by (auto simp: verify_device_response_def bindR_Inr require_text_Inr cbor_require_Inr ensure_Inr ok_or_Inr d as_Some)
qed

text \<open>
  C8. Every document of an accepted \<open>DeviceResponse\<close> is vouched for by an issuer that chains to
  a trust anchor, now and when it signed: the revealed values are those whose items hash to the
  digests of the signed MSO, the period contains the present, and the device key that the MSO
  names has signed the verifier's own session transcript with the document's type.
\<close>

theorem mdoc_presentation_sound:
  assumes "verify_device_response L C X T response transcript anchors now = Inr vs" and "v \<in> set vs"
  shows "\<exists>iss names (signature :: cose_sign1) signed_bytes. issuer_vouches L C X T iss anchors now v \<and>
     device_authentication_bytes C transcript (vm_doc_type v) names = Inr signed_bytes \<and>
     cs_payload signature = None \<and>
     verify_with_jwk L (vm_device_key v)
       (cose_tbs C (cs_original_data signature) (cs_protected signature) signed_bytes) (cs_signature signature) = Inr ()"
proof -
  from assms obtain docs where "mapR (verify_document L C X T transcript anchors now) docs = Inr vs"
    by (auto simp: verify_device_response_Inr)
  with assms(2) obtain doc where "verify_document L C X T transcript anchors now doc = Inr v"
    by (auto simp: mapR_Inr list_all2_conv_all_nth in_set_conv_nth)
  then obtain doc_type iss names signature signed_bytes where
    i: "verify_issuer_signed_value L C X T iss (Some doc_type) anchors now = Inr v"
    and d: "device_authentication_bytes C transcript doc_type names = Inr signed_bytes"
      "cose_verify_detached L C signature signed_bytes (vm_device_key v) = Inr ()"
    by (auto simp: verify_document_Inr)
  have "vm_doc_type v = doc_type" by (rule verify_issuer_signed_value_sound(2) [OF i refl])
  moreover from d(2) have "cs_payload signature = None \<and> verify_with_jwk L (vm_device_key v)
      (cose_tbs C (cs_original_data signature) (cs_protected signature) signed_bytes) (cs_signature signature) = Inr ()"
    by (auto simp: cose_verify_detached_Inr)
  ultimately have "issuer_vouches L C X T iss anchors now v \<and>
      device_authentication_bytes C transcript (vm_doc_type v) names = Inr signed_bytes \<and> cs_payload signature = None \<and>
      verify_with_jwk L (vm_device_key v)
        (cose_tbs C (cs_original_data signature) (cs_protected signature) signed_bytes) (cs_signature signature) = Inr ()"
    using verify_issuer_signed_value_sound(1) [OF i] d(1) by simp
  then show ?thesis by (intro exI)
qed

section \<open>Transcripts bind one request\<close>

lemma cbor_write_inj:
  assumes "cbor_law C" "cbor_within 100 v" "cbor_within 100 w" "cb_write C v = Inr b" "cb_write C w = Inr b"
  shows "v = w"
  using cbor_reads [OF assms(1,4,2)] cbor_reads [OF assms(1,5,3)] by simp

text \<open>
  A device signature covers one request: when the signed bytes for two transcripts are
  equal, so are the client, the nonce, the response URI and the encryption key's thumbprint of
  the requests, as long as the two hashed handovers do not collide.
\<close>

theorem transcript_binds_request:
  assumes "cbor_law C"
    and "oid4vp_session_transcript L C client nonce thumb uri = Inr t"
    and "oid4vp_session_transcript L C client' nonce' thumb' uri' = Inr t'"
    and "device_authentication_bytes C t doc_type names = Inr b"
    and "device_authentication_bytes C t' doc_type' names' = Inr b"
    and "cbor_within 50 names" and "cbor_within 50 names'"
    and "\<And>h h'. cb_write C (handover_info client nonce thumb uri) = Inr h \<Longrightarrow>
      cb_write C (handover_info client' nonce' thumb' uri') = Inr h' \<Longrightarrow> sha256 L h = sha256 L h' \<Longrightarrow> h = h'"
  shows "client = client' \<and> nonce = nonce' \<and> thumb = thumb' \<and> uri = uri' \<and> doc_type = doc_type'"
proof -
  define tr where "tr h = CArray [CNull, CNull, CArray [CText ''OpenID4VPHandover'', CBytes (sha256 L h)]]" for h
  obtain h where h: "cb_write C (handover_info client nonce thumb uri) = Inr h" "t = tr h"
    using assms(2) by (auto simp: oid4vp_session_transcript_def bindR_Inr mdoc_encode_Inr tr_def)
  obtain h' where h': "cb_write C (handover_info client' nonce' thumb' uri') = Inr h'" "t' = tr h'"
    using assms(3) by (auto simp: oid4vp_session_transcript_def bindR_Inr mdoc_encode_Inr tr_def)
  define da where "da t d n = CArray [CText ''DeviceAuthentication'', t, CText d, n]" for t d n
  obtain e where e: "cb_write C (da t doc_type names) = Inr e" "cb_write C (CTag 24 (CBytes e)) = Inr b"
    using assms(4) by (auto simp: device_authentication_bytes_def bindR_Inr embed_Inr mdoc_encode_Inr da_def)
  obtain e' where e': "cb_write C (da t' doc_type' names') = Inr e'" "cb_write C (CTag 24 (CBytes e')) = Inr b"
    using assms(5) by (auto simp: device_authentication_bytes_def bindR_Inr embed_Inr mdoc_encode_Inr da_def)
  have "CTag 24 (CBytes e) = CTag 24 (CBytes e')"
    by (rule cbor_write_inj [OF assms(1) _ _ e(2) e'(2)]) simp_all
  then have "e' = e" by simp
  have "da t doc_type names = da t' doc_type' names'"
    by (rule cbor_write_inj [OF assms(1) _ _ e(1) e'(1) [unfolded \<open>e' = e\<close>]])
      (use assms(6,7) in \<open>auto simp: da_def h(2) h'(2) tr_def intro: cbor_within_mono\<close>)
  then have "h = h'" "doc_type = doc_type'" using assms(8) [OF h(1) h'(1)] by (simp_all add: da_def h(2) h'(2) tr_def)
  have "handover_info client nonce thumb uri = handover_info client' nonce' thumb' uri'"
    by (rule cbor_write_inj [OF assms(1) _ _ h(1) h'(1) [folded \<open>h = h'\<close>]])
      (simp_all add: handover_info_def split: option.splits)
  with \<open>doc_type = doc_type'\<close> show ?thesis by (auto simp: handover_info_def split: option.splits)
qed

section \<open>Issued elements\<close>

text \<open>What the loop over one namespace leaves: each element with its item and its digest.\<close>

fun items_made ::
    "libs \<Rightarrow> cbor_libs \<Rightarrow> nat set \<Rightarrow> (string \<times> cbor) list \<Rightarrow> cbor list \<Rightarrow> (cbor \<times> cbor) list \<Rightarrow> bool" where
  "items_made L C ids [] [] [] \<longleftrightarrow> True"
| "items_made L C ids ((e, v) # es) (item # items) (d # ds) \<longleftrightarrow>
     (\<exists>i r b encoded. i \<notin> ids \<and> i < 4294967296 \<and> cb_write C (issuer_signed_item i r e v) = Inr b \<and>
        item = CTag 24 (CBytes b) \<and> cb_write C item = Inr encoded \<and> d = (CInt (int i), CBytes (sha256 L encoded)) \<and>
        items_made L C (insert i ids) es items ds)"
| "items_made L C ids _ _ _ \<longleftrightarrow> False"

lemma draw_digest_id_Inr:
  "draw_digest_id ids s = (Inr i, s') \<Longrightarrow> i \<notin> ids \<and> i < 4294967296"
  by (auto simp: draw_digest_id_def split: option.splits dest!: draw_loop_Some)

lemma issue_items_made:
  "issue_items L C ids es s = (Inr (items, ds), s') \<Longrightarrow> items_made L C ids es items ds"
proof (induction es arbitrary: ids s items ds)
  case Nil
  then show ?case by (simp add: ret_Inr)
next
  case (Cons ev es)
  obtain e v where ev: "ev = (e, v)" by fastforce
  from Cons.prems obtain i s1 r s2 b encoded items' ds' where
    d: "draw_digest_id ids s = (Inr i, s1)" and w: "cb_write C (issuer_signed_item i r e v) = Inr b"
    and w2: "cb_write C (CTag 24 (CBytes b)) = Inr encoded"
    and r: "issue_items L C (insert i ids) es s2 = (Inr (items', ds'), s')"
    and out: "items = CTag 24 (CBytes b) # items'" "ds = (CInt (int i), CBytes (sha256 L encoded)) # ds'"
    by (auto simp: ev bindP_Inr liftR_Inr ret_Inr embed_Inr mdoc_encode_Inr split: prod.splits)
  from draw_digest_id_Inr [OF d] w w2 Cons.IH [OF r] out show ?case by (simp add: ev) blast
qed

text \<open>The digest of each item is found under its ID, which no earlier item of the namespace has.\<close>

definition ids_of :: "(cbor \<times> cbor) list \<Rightarrow> nat set \<Rightarrow> bool" where
  "ids_of ds ids \<longleftrightarrow> (\<forall>(k, v)\<in>set ds. \<exists>i\<in>ids. k = CInt (int i))"

lemma label_value_skip: "ids_of ds ids \<Longrightarrow> i \<notin> ids \<Longrightarrow> label_value (ds @ ds') (int i) = label_value ds' (int i)"
  by (induction ds) (auto simp: ids_of_def label_value_def)

lemma label_value_here [simp]: "label_value ((CInt i, v) # ds) i = Some v"
  by (simp add: label_value_def)

lemma cbor_get_map [simp]:
  "cbor_get (CMap []) k = None"
  "cbor_get (CMap ((CText k', v) # kvs)) k = (if k' = k then Some v else cbor_get (CMap kvs) k)"
  by (simp_all add: cbor_get_def)

lemma item_within: "cbor_within n v \<Longrightarrow> i < 4294967296 \<Longrightarrow> cbor_within (Suc n) (issuer_signed_item i r e v)"
  by (simp add: issuer_signed_item_def)

lemma items_made_check:
  assumes "cbor_law C" and "items_made L C ids es items ds" and "ids_of pre ids"
    and "list_all (\<lambda>(e, v). cbor_within 50 v) es"
  shows "list_all2 (\<lambda>(e, v) item. check_item L C ns (CMap (pre @ ds)) item = Inr (e, cbor_to_json L C v) \<and>
    item_disclosed C disclose ns item = ((ns, e) \<in> set disclose)) es items"
  using assms
proof (induction L C ids es items ds arbitrary: pre rule: items_made.induct)
  case (2 L C ids e v es item items d ds)
  then obtain i r b encoded where i: "i \<notin> ids" "i < 4294967296" and w: "cb_write C (issuer_signed_item i r e v) = Inr b"
    and it: "item = CTag 24 (CBytes b)" "cb_write C item = Inr encoded" "d = (CInt (int i), CBytes (sha256 L encoded))"
    and rest: "items_made L C (insert i ids) es items ds" by auto
  have "cbor_within 50 v" using 2(5) by simp
  then have "cbor_within 100 (issuer_signed_item i r e v)"
    using item_within [of 50 v i r e] i(2) by (auto intro: cbor_within_mono)
  with 2(2) w have read: "unembed C item = Inr (issuer_signed_item i r e v)"
    by (simp add: unembed_Inr it(1) cbor_reads)
  have g: "cbor_get (issuer_signed_item i r e v) ''digestID'' = Some (CInt (int i))"
    "cbor_get (issuer_signed_item i r e v) ''elementIdentifier'' = Some (CText e)"
    "cbor_get (issuer_signed_item i r e v) ''elementValue'' = Some v" by (simp_all add: issuer_signed_item_def)
  have lv: "label_value (pre @ d # ds) (int i) = Some (CBytes (sha256 L encoded))"
    by (simp add: label_value_skip [OF 2(4) i(1)] it(3))
  have "item_signed L C (CMap (pre @ d # ds)) ns e (cbor_to_json L C v) item"
    unfolding item_signed_def using lv it(2) read g by blast
  moreover have "item_disclosed C disclose ns item = ((ns, e) \<in> set disclose)"
    by (simp add: item_disclosed_def read g)
  moreover have "ids_of (pre @ [d]) (insert i ids)" using 2(4) by (fastforce simp: ids_of_def it(3))
  from 2(1) [OF 2(2) rest this] 2(5)
  have "list_all2 (\<lambda>(e, v) item. check_item L C ns (CMap (pre @ d # ds)) item = Inr (e, cbor_to_json L C v) \<and>
    item_disclosed C disclose ns item = ((ns, e) \<in> set disclose)) es items" by simp
  ultimately show ?case by (simp add: check_item_Inr)
qed simp_all

section \<open>Reading a set of items\<close>

text \<open>Elements as the values that a relying party's application sees.\<close>

definition json_elements :: "libs \<Rightarrow> cbor_libs \<Rightarrow> (string \<times> cbor) list \<Rightarrow> (string \<rightharpoonup> json)" where
  "json_elements L C es = map_of (map (\<lambda>(e, v). (e, cbor_to_json L C v)) es)"

lemma json_elements_simps [simp]:
  "json_elements L C [] = Map.empty"
  "json_elements L C ((e, v) # es) = (json_elements L C es)(e \<mapsto> cbor_to_json L C v)"
  by (simp_all add: json_elements_def)

lemma json_elements_dom: "dom (json_elements L C es) = fst ` set es"
  by (auto simp: json_elements_def dom_map_of_conv_image_fst image_iff split: prod.splits) force+

lemma verify_items_run:
  assumes "list_all2 (\<lambda>(e, v) item. check_item L C ns digests item = Inr (e, cbor_to_json L C v)) es items"
    and "distinct (map fst es)" and "dom m \<inter> fst ` set es = {}"
  shows "verify_items L C ns digests items m = Inr (m ++ json_elements L C es)"
  using assms
proof (induction arbitrary: m rule: list_all2_induct)
  case Nil
  then show ?case by simp
next
  case (Cons ev es item items)
  obtain e v where ev: "ev = (e, v)" by fastforce
  have "m e = None" using Cons.prems(2) by (auto simp: ev)
  moreover have "dom (m(e \<mapsto> cbor_to_json L C v)) \<inter> fst ` set es = {}"
    using Cons.prems by (auto simp: ev)
  moreover have "m(e \<mapsto> cbor_to_json L C v) ++ json_elements L C es = m ++ (json_elements L C es)(e \<mapsto> cbor_to_json L C v)"
  proof -
    have "e \<notin> dom (json_elements L C es)" using Cons.prems(1) by (auto simp: ev json_elements_dom)
    then show ?thesis by (auto simp: map_add_def fun_eq_iff split: option.splits)
  qed
  moreover have "verify_items L C ns digests items (m(e \<mapsto> cbor_to_json L C v)) =
      Inr (m(e \<mapsto> cbor_to_json L C v) ++ json_elements L C es)" if "dom (m(e \<mapsto> cbor_to_json L C v)) \<inter> fst ` set es = {}"
    by (rule Cons.IH [OF _ that]) (use Cons.prems in \<open>simp add: ev\<close>)
  ultimately have "verify_items L C ns digests items (m(e \<mapsto> cbor_to_json L C v)) =
      Inr (m ++ (json_elements L C es)(e \<mapsto> cbor_to_json L C v))" by metis
  then show ?case using Cons.hyps(1) \<open>m e = None\<close> by (auto simp: ev map_add_def fun_eq_iff)
qed

text \<open>Namespaces as they are sent: name, elements and their items.\<close>

type_synonym sent_namespace = "string \<times> (string \<times> cbor) list \<times> cbor list"

definition sent_value :: "sent_namespace \<Rightarrow> cbor \<times> cbor" where
  "sent_value = (\<lambda>(ns, es, items). (CText ns, CArray items))"

definition sent_ok :: "libs \<Rightarrow> cbor_libs \<Rightarrow> cbor \<Rightarrow> sent_namespace \<Rightarrow> bool" where
  "sent_ok L C vd = (\<lambda>(ns, es, items). \<exists>digests. cbor_get vd ns = Some digests \<and> distinct (map fst es) \<and>
     list_all2 (\<lambda>(e, v) item. check_item L C ns digests item = Inr (e, cbor_to_json L C v)) es items)"

definition sent_claims :: "libs \<Rightarrow> cbor_libs \<Rightarrow> sent_namespace list \<Rightarrow> (string \<rightharpoonup> (string \<rightharpoonup> json))" where
  "sent_claims L C sent = map_of (map (\<lambda>(ns, es, items). (ns, json_elements L C es)) sent)"

lemma verify_namespaces_run:
  assumes "list_all (sent_ok L C vd) sent" and "distinct (map fst sent)" and "dom claims \<inter> fst ` set sent = {}"
  shows "verify_namespaces L C vd (map sent_value sent) claims = Inr (claims ++ sent_claims L C sent)"
  using assms
proof (induction sent arbitrary: claims)
  case Nil
  then show ?case by (simp add: sent_claims_def)
next
  case (Cons x sent)
  obtain ns es items where x: "x = (ns, es, items)" by (cases x)
  from Cons.prems(1) obtain digests where d: "cbor_get vd ns = Some digests" "distinct (map fst es)"
    "list_all2 (\<lambda>(e, v) item. check_item L C ns digests item = Inr (e, cbor_to_json L C v)) es items"
    by (auto simp: sent_ok_def x)
  have n: "claims ns = None" using Cons.prems(3) by (auto simp: x)
  have i: "verify_items L C ns digests items Map.empty = Inr (json_elements L C es)"
    using verify_items_run [OF d(3,2), of Map.empty] by simp
  have "ns \<notin> dom (sent_claims L C sent)"
    using Cons.prems(2) by (auto simp: x sent_claims_def dom_map_of_conv_image_fst image_iff)
  then have "claims(ns \<mapsto> json_elements L C es) ++ sent_claims L C sent = claims ++ sent_claims L C (x # sent)"
    by (auto simp: sent_claims_def x map_add_def fun_eq_iff split: option.splits)
  moreover have "verify_namespaces L C vd (map sent_value sent) (claims(ns \<mapsto> json_elements L C es)) =
      Inr (claims(ns \<mapsto> json_elements L C es) ++ sent_claims L C sent)"
  proof (rule Cons.IH)
    show "dom (claims(ns \<mapsto> json_elements L C es)) \<inter> fst ` set sent = {}"
      using Cons.prems(2,3) by (simp add: x)
  qed (use Cons.prems in \<open>simp_all add: x\<close>)
  ultimately show ?case by (simp add: x sent_value_def d(1) n i)
qed

end
