(* ===== verification/Mdoc_Round_Trip.thy ===== *)
theory Mdoc_Round_Trip
  imports Mdoc_Verification
begin

text \<open>
  What the issuer makes verifies, at the wallet that receives it and, after the holder has chosen
  what to reveal, at the verifier that asked.
\<close>

section \<open>What issuing leaves\<close>

text \<open>What the sources' types and their callers guarantee of a request to issue.\<close>

definition request_ok :: "issue_request \<Rightarrow> bool" where
  "request_ok q \<longleftrightarrow> distinct (map fst (iq_namespaces q)) \<and>
     list_all (\<lambda>(ns, es). distinct (map fst es) \<and> list_all (\<lambda>(e, v). cbor_within 50 v) es) (iq_namespaces q) \<and>
     iq_x5chain q \<noteq> [] \<and> (\<forall>r. iq_status q = Some r \<longrightarrow> sr_idx r < 18446744073709551616)"

definition sent_item_ok ::
    "libs \<Rightarrow> cbor_libs \<Rightarrow> cbor \<Rightarrow> (string \<times> string) list \<Rightarrow> sent_namespace \<Rightarrow> bool" where
  "sent_item_ok L C vd disclose = (\<lambda>(ns, es, items). \<exists>digests. cbor_get vd ns = Some digests \<and> distinct (map fst es) \<and>
     list_all2 (\<lambda>(e, v) item. check_item L C ns digests item = Inr (e, cbor_to_json L C v) \<and>
       item_disclosed C disclose ns item = ((ns, e) \<in> set disclose)) es items)"

lemma sent_item_ok: "sent_item_ok L C vd disclose x \<Longrightarrow> sent_ok L C vd x"
  by (cases x) (fastforce simp: sent_item_ok_def sent_ok_def elim!: list_all2_mono)

definition made_namespace ::
    "libs \<Rightarrow> cbor_libs \<Rightarrow> string \<times> (string \<times> cbor) list \<Rightarrow> (cbor \<times> cbor) \<times> (cbor \<times> cbor) \<Rightarrow> bool" where
  "made_namespace L C = (\<lambda>(ns, es) p. \<exists>items ds. p = ((CText ns, CArray items), (CText ns, CMap ds)) \<and>
     items_made L C {} es items ds)"

lemma issue_namespaces_made:
  "mapP (issue_namespace L C) nss s = (Inr ps, s') \<Longrightarrow> list_all2 (made_namespace L C) nss ps"
proof (induction nss arbitrary: s ps)
  case (Cons x nss)
  obtain ns es where x: "x = (ns, es)" by fastforce
  from Cons.prems obtain p s1 ps' where p: "issue_namespace L C x s = (Inr p, s1)"
    and ps: "mapP (issue_namespace L C) nss s1 = (Inr ps', s')" "ps = p # ps'"
    by (auto simp: result_inv)
  from p have "made_namespace L C x p"
    by (auto simp: issue_namespace_def made_namespace_def x bindP_Inr ret_Inr dest!: issue_items_made)
  with Cons.IH [OF ps(1)] ps(2) show ?case by simp
qed (simp add: ret_Inr)

lemma items_made_within:
  "items_made L C ids es items ds \<Longrightarrow> list_all (cbor_within 5) items \<and>
     list_all (\<lambda>(k, v). cbor_within 5 k \<and> cbor_within 5 v) ds"
  by (induction L C ids es items ds rule: items_made.induct) auto

lemma cbor_get_names:
  assumes "list_all2 (made_namespace L C) nss ps" and "distinct (map fst nss)" and "(ns, es) \<in> set nss"
  shows "\<exists>items ds. items_made L C {} es items ds \<and> cbor_get (CMap (map snd ps)) ns = Some (CMap ds) \<and>
       ((ns, es), ((CText ns, CArray items), (CText ns, CMap ds))) \<in> set (zip nss ps)"
  using assms
proof (induction rule: list_all2_induct)
  case (Cons x nss p ps)
  show ?case
  proof (cases "x = (ns, es)")
    case True
    with Cons.hyps(1) show ?thesis by (auto simp: made_namespace_def)
  next
    case False
    with Cons.prems have m: "(ns, es) \<in> set nss" "fst x \<noteq> ns" by (auto simp: image_iff)
    obtain n v v' where p: "p = ((CText n, v), (CText n, v'))" "n = fst x"
      using Cons.hyps(1) by (cases x) (auto simp: made_namespace_def)
    from Cons.IH [OF _ m(1)] Cons.prems(1) p m(2) show ?thesis by auto
  qed
qed simp

definition sent_of :: "(string \<times> (string \<times> cbor) list) list \<Rightarrow> ((cbor \<times> cbor) \<times> (cbor \<times> cbor)) list \<Rightarrow> sent_namespace list" where
  "sent_of nss ps = map (\<lambda>((ns, es), ((_, v), _)). (ns, es, (case v of CArray items \<Rightarrow> items | _ \<Rightarrow> []))) (zip nss ps)"

lemma sent_of_made:
  assumes "list_all2 (made_namespace L C) nss ps"
  shows "map fst ps = map sent_value (sent_of nss ps)" and "map (\<lambda>(ns, es, _). (ns, es)) (sent_of nss ps) = nss"
    and "map fst (sent_of nss ps) = map fst nss"
  using assms
  by (induction rule: list_all2_induct) (auto simp: sent_of_def sent_value_def made_namespace_def)

lemma sent_of_ok:
  assumes law: "cbor_law C" and made: "list_all2 (made_namespace L C) nss ps" and d: "distinct (map fst nss)"
    and es: "list_all (\<lambda>(ns, es). distinct (map fst es) \<and> list_all (\<lambda>(e, v). cbor_within 50 v) es) nss"
  shows "list_all (sent_item_ok L C (CMap (map snd ps)) disclose) (sent_of nss ps)"
  unfolding list_all_iff
proof
  fix x
  assume "x \<in> set (sent_of nss ps)"
  then obtain ns es k v p where z: "((ns, es), ((k, v), p)) \<in> set (zip nss ps)"
    and x: "x = (ns, es, (case v of CArray items \<Rightarrow> items | _ \<Rightarrow> []))" by (auto simp: sent_of_def)
  then have n: "(ns, es) \<in> set nss" by (auto dest: set_zip_leftD)
  with made z have "made_namespace L C (ns, es) ((k, v), p)" by (auto simp: list_all2_iff)
  then obtain items ds where m: "items_made L C {} es items ds" "v = CArray items" "p = (CText ns, CMap ds)"
    by (auto simp: made_namespace_def)
  obtain items' ds' where "cbor_get (CMap (map snd ps)) ns = Some (CMap ds')"
    and z': "((ns, es), ((CText ns, CArray items'), (CText ns, CMap ds'))) \<in> set (zip nss ps)"
    using cbor_get_names [OF made d n] by blast
  moreover have "ds' = ds"
  proof -
    have "distinct (map fst (zip nss ps))"
      using d made by (auto simp: list_all2_iff distinct_map)
    with z z' m(3) show ?thesis by (auto dest: eq_key_imp_eq_value)
  qed
  moreover have "distinct (map fst es)" "list_all (\<lambda>(e, v). cbor_within 50 v) es"
    using es n by (auto simp: list_all_iff)
  moreover have "ids_of [] {}" by (simp add: ids_of_def)
  from items_made_check [OF law m(1) this, where ns = ns and disclose = disclose] \<open>list_all _ es\<close>
  have "list_all2 (\<lambda>(e, v) item. check_item L C ns (CMap ds) item = Inr (e, cbor_to_json L C v) \<and>
    item_disclosed C disclose ns item = ((ns, e) \<in> set disclose)) es items" by simp
  ultimately show "sent_item_ok L C (CMap (map snd ps)) disclose x"
    by (auto simp: sent_item_ok_def x m(2))
qed

section \<open>An issued mdoc\<close>

text \<open>
  \<open>bytes\<close> is an \<open>IssuerSigned\<close> for the request: the namespaces that were sent, the signature over
  an MSO with their digests, the device key, the three times and the revocation entry.
\<close>

definition issued_mdoc ::
    "libs \<Rightarrow> cbor_libs \<Rightarrow> time_libs \<Rightarrow> issue_request \<Rightarrow> key_pair \<Rightarrow> bytes \<Rightarrow> sent_namespace list \<Rightarrow> cbor \<Rightarrow>
       cose_sign1 \<Rightarrow> cbor \<Rightarrow> bool" where
  "issued_mdoc L C T q key bytes sent auth_value auth mso \<longleftrightarrow>
     (\<exists>vds dk ts payload.
        cb_read C bytes = Inr (CMap [(CText ''nameSpaces'', CMap (map sent_value sent)), (CText ''issuerAuth'', auth_value)]) \<and>
        map (\<lambda>(ns, es, _). (ns, es)) sent = iq_namespaces q \<and>
        (\<forall>disclose. list_all (sent_item_ok L C (CMap vds) disclose) sent) \<and>
        cose_from_value C auth_value = Inr auth \<and> (\<forall>k. key_pair_verifies L key k \<longrightarrow> cose_verify L C auth k = Inr ()) \<and>
        cbor_within 20 auth_value \<and> issuer_x5chain auth = Inr (iq_x5chain q) \<and> cs_payload auth = Some payload \<and>
        bindR (mdoc_decode C payload) (unembed C) = Inr mso \<and> issue_times q = Inr ts \<and>
        cose_key L C (iq_device_key q) = Inr dk \<and> mso = mso_value T q vds dk ts)"

lemma cose_key_within: "cose_key L C k = Inr v \<Longrightarrow> cbor_within 5 v"
  by (auto simp: cose_key_def bindR_Inr split: if_splits)

lemma x5chain_value_within: "cbor_within 10 (x5chain_value chain)"
  by (auto simp: x5chain_value_def list_all_iff split: list.split)

lemma map_pairs_within: "list_all2 (made_namespace L C) nss ps \<Longrightarrow>
    cbor_within 10 (CMap (map fst ps)) \<and> cbor_within 10 (CMap (map snd ps))"
proof (induction rule: list_all2_induct)
  case (Cons x nss p ps)
  then obtain ns es items ds where p: "p = ((CText ns, CArray items), (CText ns, CMap ds))"
    and m: "items_made L C {} es items ds" by (cases x) (auto simp: made_namespace_def)
  have "list_all (cbor_within 8) items" "list_all (\<lambda>(k, v). cbor_within 8 k \<and> cbor_within 8 v) ds"
    using items_made_within [OF m] by (auto simp: list_all_iff intro: cbor_within_mono)
  with Cons.IH p show ?case by simp
qed simp

lemma mso_within:
  assumes "cbor_within 10 (CMap vds)" "cbor_within 5 dk" "\<forall>r. iq_status q = Some r \<longrightarrow> sr_idx r < 18446744073709551616"
  shows "cbor_within 30 (mso_value T q vds dk ts)"
proof -
  have "list_all (\<lambda>(k, v). cbor_within 28 k \<and> cbor_within 28 v) vds"
    using assms(1) by (auto simp: list_all_iff intro: cbor_within_mono)
  moreover have "cbor_within 28 dk" by (rule cbor_within_mono [OF assms(2)]) simp
  ultimately show ?thesis using assms(3)
    by (cases ts) (auto simp: mso_value_def tdate_def TAG_TDATE_def split: option.split)
qed

lemma header_with_other [simp]: "ch_other (header_with a vs) = []"
proof -
  have "ch_other (foldl (\<lambda>h (label, v). h\<lparr>ch_rest := ch_rest h @ [(LabelInt label, v)]\<rparr>) h vs) = ch_other h"
    for h :: cose_header
    by (induction vs arbitrary: h) auto
  then show ?thesis by (simp add: header_with_def)
qed

lemma sign_built:
  assumes "cose_sign C key payload prot unprot = Inr s"
    and "distinct (map fst prot)" "distinct (map fst unprot)"
    and "list_all (\<lambda>(l, v). 7 < l \<and> in_i64 l \<and> cbor_within 10 v) prot" "list_all (\<lambda>(l, v). 7 < l \<and> in_i64 l \<and> cbor_within 10 v) unprot"
  shows "built_sign1 s"
proof -
  have h: "built_header (header_with a vs)" if "distinct (map fst vs)" "a = None \<or> (\<exists>b. a = Some (cose_algorithm b))"
    "list_all (\<lambda>(l, v). 7 < l \<and> in_i64 l \<and> cbor_within 10 v) vs" for a vs
  proof -
    have "distinct (map fst (map (map_prod LabelInt id) vs))"
    proof -
      have "map fst (map (map_prod LabelInt id) vs) = map LabelInt (map fst vs)" by simp
      also have "distinct \<dots>" using that(1) by (simp only: distinct_map) (simp add: inj_on_def)
      finally show ?thesis .
    qed
    with that show ?thesis by (auto simp: built_header_def list_all_iff map_prod_def split: prod.splits)
  qed
  show ?thesis
    using sign_parts [OF assms(1)] h [OF assms(2), of "Some (cose_algorithm (kp_algorithm key))"] h [OF assms(3), of None] assms(4,5)
    by (simp add: built_sign1_def protected_header_def unprotected_header_def)
qed

lemma cose_value_reads:
  assumes "cose_law C" "built_sign1 s" "cose_to_value C s = Inr v"
  obtains d where "cose_from_value C v = Inr (reread s d)" "cbor_within 20 v"
    "\<And>p. cose_tbs C (Some d) (cs_protected s) p = cose_tbs C (cs_original_data s) (cs_protected s) p"
proof -
  from assms have "cbor_within 20 v" "cose_codec C s" by (auto simp: cose_law_def cose_to_value_def map_err_Inr)
  with assms(3) that show thesis by (auto elim!: cose_value_round)
qed

lemma mdoc_issue_issued:
  assumes laws: "cbor_law C" "cose_law C" and ok: "request_ok q"
    and run: "mdoc_issue L C T q key s = (Inr bytes, s')"
  shows "\<exists>sent auth_value auth mso. issued_mdoc L C T q key bytes sent auth_value auth mso"
proof -
  obtain ts ps s1 dk mb payload auth auth_value where ts: "issue_times q = Inr ts"
    and ps: "mapP (issue_namespace L C) (iq_namespaces q) s = (Inr ps, s1)"
    and dk: "cose_key L C (iq_device_key q) = Inr dk"
    and mb: "cb_write C (mso_value T q (map snd ps) dk ts) = Inr mb"
    and payload: "cb_write C (CTag 24 (CBytes mb)) = Inr payload"
    and auth: "cose_sign C key payload [] [(HEADER_X5CHAIN, x5chain_value (iq_x5chain q))] = Inr auth"
    and av: "cose_to_value C auth = Inr auth_value"
    and top: "cb_write C (CMap [(CText ''nameSpaces'', CMap (map fst ps)), (CText ''issuerAuth'', auth_value)]) = Inr bytes"
    using run by (auto simp: mdoc_issue_def bindP_Inr liftR_Inr map_err_Inr embed_Inr mdoc_encode_Inr)
  note made = issue_namespaces_made [OF ps]
  define sent where "sent = sent_of (iq_namespaces q) ps"
  have sent: "map fst ps = map sent_value sent" "map (\<lambda>(ns, es, _). (ns, es)) sent = iq_namespaces q"
    using sent_of_made [OF made] by (simp_all add: sent_def)
  have items: "list_all (sent_item_ok L C (CMap (map snd ps)) disclose) sent" for disclose
    unfolding sent_def by (rule sent_of_ok [OF laws(1) made]) (use ok in \<open>simp_all add: request_ok_def\<close>)
  have built: "built_sign1 auth"
    by (rule sign_built [OF auth]) (simp_all add: HEADER_X5CHAIN_def in_i64_def x5chain_value_within)
  from cose_value_reads [OF laws(2) built av] obtain d where d: "cose_from_value C auth_value = Inr (reread auth d)"
    "cbor_within 20 auth_value"
    "\<And>p. cose_tbs C (Some d) (cs_protected auth) p = cose_tbs C (cs_original_data auth) (cs_protected auth) p" by blast
  have within: "cbor_within 10 (CMap (map fst ps))" "cbor_within 10 (CMap (map snd ps))"
    using map_pairs_within [OF made] by simp_all
  have "cbor_within 100 (CMap [(CText ''nameSpaces'', CMap (map fst ps)), (CText ''issuerAuth'', auth_value)])"
    using cbor_within_mono [OF within(1), of 99] cbor_within_mono [OF d(2), of 99] by simp
  from cbor_reads [OF laws(1) top this] have r: "cb_read C bytes = Inr (CMap [(CText ''nameSpaces'', CMap (map sent_value sent)),
    (CText ''issuerAuth'', auth_value)])" by (simp add: sent(1))
  have "cbor_within 30 (mso_value T q (map snd ps) dk ts)"
    using ok by (intro mso_within within(2) cose_key_within [OF dk]) (simp add: request_ok_def)
  then have "cbor_within 100 (mso_value T q (map snd ps) dk ts)" by (rule cbor_within_mono) simp
  from cbor_reads [OF laws(1) mb this] cbor_reads [OF laws(1) payload]
  have mso: "bindR (mdoc_decode C payload) (unembed C) = Inr (mso_value T q (map snd ps) dk ts)"
    by (simp add: bindR_Inr mdoc_decode_Inr unembed_Inr)
  have "x5chain (cs_unprotected auth) = Inr (iq_x5chain q)"
    using sign_parts(3) [OF auth] ok
    by (auto simp: unprotected_header_def request_ok_def HEADER_X5CHAIN_def intro!: x5chain_header)
  then have chain: "issuer_x5chain (reread auth d) = Inr (iq_x5chain q)"
    using ok by (simp add: issuer_x5chain_def reread_def request_ok_def)
  have "cose_verify L C (reread auth d) k = Inr ()" if "key_pair_verifies L key k" for k
    by (rule sign_verifies [OF auth that d(3)])
  with r sent(2) items d(1,2) chain mso ts dk sign_parts(1) [OF auth]
  have "issued_mdoc L C T q key bytes sent auth_value (reread auth d) (mso_value T q (map snd ps) dk ts)"
    unfolding issued_mdoc_def
    by (intro exI [of _ "map snd ps"] exI [of _ dk] exI [of _ ts] exI [of _ payload]) (simp add: reread_def)
  then show ?thesis by blast
qed

section \<open>Reading it\<close>

text \<open>chrono reads back a whole second of the years 0 to 9999 from its RFC 3339 text.\<close>

definition rfc3339_instant :: "instant \<Rightarrow> bool" where
  "rfc3339_instant t \<longleftrightarrow> - 62167219200 * second \<le> t \<and> t < 253402300800 * second"

definition time_law :: "time_libs \<Rightarrow> bool" where
  "time_law T \<longleftrightarrow> (\<forall>t. rfc3339_instant t \<longrightarrow> t mod second = 0 \<longrightarrow> t_parse_rfc3339 T (t_rfc3339_secs T t) = Some t)"

definition times_readable :: "issue_request \<Rightarrow> bool" where
  "times_readable q \<longleftrightarrow> rfc3339_instant (iq_signed q) \<and> rfc3339_instant (iq_valid_from q) \<and> rfc3339_instant (iq_valid_until q)"

lemma whole_seconds_readable: "rfc3339_instant t \<Longrightarrow> rfc3339_instant (whole_seconds t) \<and> whole_seconds t mod second = 0"
proof -
  assume t: "rfc3339_instant t"
  have "t = 1000000000 * (t div 1000000000) + t mod 1000000000" by simp
  moreover have "0 \<le> t mod 1000000000" "t mod 1000000000 < 1000000000" by simp_all
  ultimately have "- 62167219200 \<le> t div second" "t div second < 253402300800"
    using t unfolding rfc3339_instant_def second_def by linarith+
  then show ?thesis by (simp add: rfc3339_instant_def whole_seconds_def timestamp_def second_def)
qed

lemma issue_times_readable:
  assumes "issue_times q = Inr (sg, vf, vu)" and "times_readable q" and "time_law T"
  shows "parse_tdate T (tdate T sg) f = Inr sg" "parse_tdate T (tdate T vf) f = Inr vf" "parse_tdate T (tdate T vu) f = Inr vu"
    and "sg = whole_seconds (iq_signed q)"
proof -
  have p: "parse_tdate T (tdate T t) f = Inr t" if "rfc3339_instant t \<and> t mod second = 0" for t
    using that assms(3) by (simp add: parse_tdate_def tdate_def time_law_def)
  have e: "sg = whole_seconds (iq_signed q)" "vf = max (whole_seconds (iq_valid_from q)) sg" "vu = whole_seconds (iq_valid_until q)"
    using assms(1) by (auto simp: issue_times_def Let_def split: if_splits)
  have r: "rfc3339_instant sg \<and> sg mod second = 0" "rfc3339_instant vf \<and> vf mod second = 0" "rfc3339_instant vu \<and> vu mod second = 0"
    using assms(2) whole_seconds_readable [of "iq_signed q"] whole_seconds_readable [of "iq_valid_from q"]
      whole_seconds_readable [of "iq_valid_until q"]
    by (simp_all add: e times_readable_def max_def)
  show "parse_tdate T (tdate T sg) f = Inr sg" "parse_tdate T (tdate T vf) f = Inr vf" "parse_tdate T (tdate T vu) f = Inr vu"
    using p r by simp_all
  show "sg = whole_seconds (iq_signed q)" by (rule e(1))
qed

lemma mso_value_get:
  "cbor_get (mso_value T q vds dk (sg, vf, vu)) ''version'' = Some (CText ''1.0'')"
  "cbor_get (mso_value T q vds dk (sg, vf, vu)) ''digestAlgorithm'' = Some (CText ''SHA-256'')"
  "cbor_get (mso_value T q vds dk (sg, vf, vu)) ''valueDigests'' = Some (CMap vds)"
  "cbor_get (mso_value T q vds dk (sg, vf, vu)) ''deviceKeyInfo'' = Some (CMap [(CText ''deviceKey'', dk)])"
  "cbor_get (mso_value T q vds dk (sg, vf, vu)) ''docType'' = Some (CText (iq_doc_type q))"
  "cbor_get (mso_value T q vds dk (sg, vf, vu)) ''validityInfo'' =
     Some (CMap [(CText ''signed'', tdate T sg), (CText ''validFrom'', tdate T vf), (CText ''validUntil'', tdate T vu)])"
  by (simp_all add: mso_value_def)

lemma mso_value_status:
  "\<forall>r. iq_status q = Some r \<longrightarrow> sr_idx r < 18446744073709551616 \<Longrightarrow>
     parse_status (mso_value T q vds dk (sg, vf, vu)) = Inr (iq_status q)"
  by (cases "iq_status q") (simp_all add: mso_value_def parse_status_def cbor_require_def require_text_def)

definition public_part :: "jwk \<Rightarrow> jwk" where
  "public_part k = public_jwk (kty k) (the (crv k)) (the (jwk_x k)) (if kty k = ''EC'' then jwk_y k else None)"

definition canonical_key :: "libs \<Rightarrow> jwk \<Rightarrow> bool" where
  "canonical_key L k \<longleftrightarrow> canonical_coordinate L (jwk_x k) \<and> canonical_coordinate L (jwk_y k)"

text \<open>
  When the signing key and the chain are the issuer's: now and when the mdoc was signed the chain
  leads to an anchor, and what the key pair signs verifies under the leaf.
\<close>

definition issuer_trusted ::
    "libs \<Rightarrow> x509_libs \<Rightarrow> issue_request \<Rightarrow> key_pair \<Rightarrow> bytes list \<Rightarrow> instant \<Rightarrow> bool" where
  "issuer_trusted L X q key anchors now \<longleftrightarrow>
     (\<exists>k. validate_chain L X (iq_x5chain q) anchors now = Inr k \<and> key_pair_verifies L key k) \<and>
     is_ok (validate_chain L X (iq_x5chain q) anchors (whole_seconds (iq_signed q)))"

definition valid_during :: "issue_request \<Rightarrow> instant \<Rightarrow> bool" where
  "valid_during q now \<longleftrightarrow> (\<forall>sg vf vu. issue_times q = Inr (sg, vf, vu) \<longrightarrow> vf \<le> now \<and> now \<le> vu)"

lemma issued_value_verifies:
  assumes issued: "issued_mdoc L C T q key bytes sent auth_value auth mso"
    and ok: "request_ok q" and readable: "times_readable q" "time_law T" and device: "canonical_key L (iq_device_key q)"
    and trusted: "issuer_trusted L X q key anchors now" and now: "valid_during q now"
    and iss: "cbor_get iss ''issuerAuth'' = Some auth_value" "cbor_get iss ''nameSpaces'' = Some (CMap (map sent_value sel))"
    and sel: "\<And>vd. cbor_get mso ''valueDigests'' = Some vd \<Longrightarrow> list_all (sent_ok L C vd) sel" "distinct (map fst sel)"
    and expected: "expected = None \<or> expected = Some (iq_doc_type q)"
  shows "\<exists>v. verify_issuer_signed_value L C X T iss expected anchors now = Inr v \<and> vm_claims v = sent_claims L C sel \<and>
     vm_doc_type v = iq_doc_type q \<and> vm_device_key v = public_part (iq_device_key q) \<and> vm_status v = iq_status q \<and>
     vm_signed v = whole_seconds (iq_signed q)"
proof -
  obtain vds dk sg vf vu payload where
    a: "cose_from_value C auth_value = Inr auth" "\<And>k. key_pair_verifies L key k \<Longrightarrow> cose_verify L C auth k = Inr ()"
      "issuer_x5chain auth = Inr (iq_x5chain q)" "cs_payload auth = Some payload"
      "bindR (mdoc_decode C payload) (unembed C) = Inr mso"
    and ts: "issue_times q = Inr (sg, vf, vu)" and dk: "cose_key L C (iq_device_key q) = Inr dk"
    and mso: "mso = mso_value T q vds dk (sg, vf, vu)"
    using issued unfolding issued_mdoc_def by auto
  note t = issue_times_readable [OF ts readable]
  obtain k k2 where k: "validate_chain L X (iq_x5chain q) anchors now = Inr k" "key_pair_verifies L key k"
    and k2: "validate_chain L X (iq_x5chain q) anchors sg = Inr k2"
    using trusted t(4) by (auto simp: issuer_trusted_def is_ok_iff)
  have m: "check_mso T expected mso = Inr (iq_doc_type q, sg, vf, vu)"
    using expected t(1-3) by (auto simp: check_mso_Inr mso mso_value_get bindR_Inr cbor_require_Inr)
  have n: "verify_namespaces L C (CMap vds) (map sent_value sel) Map.empty = Inr (sent_claims L C sel)"
    using verify_namespaces_run [OF sel(1) [of "CMap vds"] sel(2), of Map.empty] by (simp add: mso mso_value_get)
  have j: "jwk_from_cose_key L dk = Inr (public_part (iq_device_key q))"
    using cose_key_round [OF dk] device by (simp add: canonical_key_def public_part_def)
  have st: "parse_status mso = Inr (iq_status q)" using ok by (simp add: mso mso_value_status request_ok_def)
  have r: "cbor_require iss ''issuerAuth'' ''IssuerSigned'' = Inr auth_value"
    "cbor_require mso ''valueDigests'' ''MSO'' = Inr (CMap vds)"
    "bindR (cbor_require mso ''deviceKeyInfo'' ''MSO'') (\<lambda>info. cbor_require info ''deviceKey'' ''deviceKeyInfo'') = Inr dk"
    by (simp_all add: cbor_require_Inr iss mso mso_value_get bindR_Inr)
  have w: "vf \<le> now" "now \<le> vu" using now ts by (auto simp: valid_during_def)
  show ?thesis
    unfolding verify_issuer_signed_value_def
    using a(2) [OF k(2)] w
    by (simp add: r a k(1) k2 [unfolded t(4)] m n j st iss(2) t(4))
qed

section \<open>The wallet's reading\<close>

text \<open>The JSON value of an element of the request.\<close>

definition issued_element :: "libs \<Rightarrow> cbor_libs \<Rightarrow> issue_request \<Rightarrow> string \<Rightarrow> string \<Rightarrow> json option" where
  "issued_element L C q ns e =
     Option.bind (map_of (iq_namespaces q) ns) (\<lambda>es. map_option (cbor_to_json L C) (map_of es e))"

lemma json_elements_get: "json_elements L C es e = map_option (cbor_to_json L C) (map_of es e)"
  by (induction es) auto

lemma sent_claims_issued:
  "map (\<lambda>(ns, es, _). (ns, es)) sent = iq_namespaces q \<Longrightarrow>
     Option.bind (sent_claims L C sent ns) (\<lambda>m. m e) = issued_element L C q ns e"
proof -
  have "Option.bind (sent_claims L C sent ns) (\<lambda>m. m e) =
      Option.bind (map_of (map (\<lambda>(ns, es, _). (ns, es)) sent) ns) (\<lambda>es. map_option (cbor_to_json L C) (map_of es e))"
    by (induction sent) (auto simp: sent_claims_def json_elements_get)
  then show "map (\<lambda>(ns, es, _). (ns, es)) sent = iq_namespaces q \<Longrightarrow> ?thesis" by (simp add: issued_element_def)
qed

lemma sent_names: "map (\<lambda>(ns, es, _). (ns, es)) sent = nss \<Longrightarrow> map fst sent = map fst nss"
  by (induction sent arbitrary: nss) auto

lemma issued_mdoc_verifies:
  assumes "cbor_law C" "cose_law C" "time_law T"
    and "request_ok q" "times_readable q" "canonical_key L (iq_device_key q)"
    and "mdoc_issue L C T q key s = (Inr bytes, s')"
    and "issuer_trusted L X q key anchors now" "valid_during q now"
  shows "\<exists>v. verify_issuer_signed L C X T bytes anchors now = Inr v \<and> vm_doc_type v = iq_doc_type q \<and>
     vm_claim v = issued_element L C q \<and> vm_device_key v = public_part (iq_device_key q) \<and>
     vm_status v = iq_status q \<and> vm_signed v = whole_seconds (iq_signed q)"
proof -
  from mdoc_issue_issued [OF assms(1,2,4,7)] obtain sent auth_value auth mso where
    i: "issued_mdoc L C T q key bytes sent auth_value auth mso" by blast
  then obtain vds dk ts where
    read: "cb_read C bytes = Inr (CMap [(CText ''nameSpaces'', CMap (map sent_value sent)), (CText ''issuerAuth'', auth_value)])"
    and sent: "map (\<lambda>(ns, es, _). (ns, es)) sent = iq_namespaces q"
    and all: "\<forall>disclose. list_all (sent_item_ok L C (CMap vds) disclose) sent" and mso: "mso = mso_value T q vds dk ts"
    unfolding issued_mdoc_def by (elim exE conjE) (rule that, assumption+)
  from all have items: "list_all (sent_item_ok L C (CMap vds) []) sent" ..
  have "list_all (sent_ok L C vd) sent" if "cbor_get mso ''valueDigests'' = Some vd" for vd
    using that items by (cases ts) (auto simp: mso mso_value_get list_all_iff intro: sent_item_ok)
  moreover have "distinct (map fst sent)" using assms(4) sent_names [OF sent] by (simp add: request_ok_def)
  ultimately obtain v where v: "verify_issuer_signed_value L C X T (CMap [(CText ''nameSpaces'', CMap (map sent_value sent)),
      (CText ''issuerAuth'', auth_value)]) None anchors now = Inr v" "vm_claims v = sent_claims L C sent"
      "vm_doc_type v = iq_doc_type q" "vm_device_key v = public_part (iq_device_key q)" "vm_status v = iq_status q"
      "vm_signed v = whole_seconds (iq_signed q)"
    using issued_value_verifies [OF i assms(4,5,3,6,8,9), where sel = sent and expected = None and
        iss = "CMap [(CText ''nameSpaces'', CMap (map sent_value sent)), (CText ''issuerAuth'', auth_value)]"] by auto
  moreover have "vm_claim v = issued_element L C q"
    using sent_claims_issued [OF sent] by (intro ext) (simp add: vm_claim_def v(2))
  ultimately show ?thesis by (simp add: verify_issuer_signed_def read mdoc_decode_def)
qed

text \<open>
  What the issuer makes verifies at the wallet: it shows the requested document type, every
  element with its value and no other, the holder's public key, the revocation entry and the
  rounded signing time.
\<close>

theorem mdoc_issue_verify:
  assumes "cbor_law C" "cose_law C" "time_law T"
    and "request_ok q" "times_readable q" "canonical_key L (iq_device_key q)"
    and "mdoc_issue L C T q key s = (Inr bytes, s')"
    and "issuer_trusted L X q key anchors now" "valid_during q now"
  shows "\<exists>v. verify_issuer_signed L C X T bytes anchors now = Inr v \<and> vm_doc_type v = iq_doc_type q \<and>
     vm_claim v = issued_element L C q \<and> vm_device_key v = public_part (iq_device_key q) \<and>
     vm_status v = iq_status q \<and> vm_signed v = whole_seconds (iq_signed q)"
  using assms by (rule issued_mdoc_verifies)

section \<open>What the holder reveals\<close>

definition chosen :: "cbor_libs \<Rightarrow> (string \<times> string) list \<Rightarrow> sent_namespace list \<Rightarrow> sent_namespace list" where
  "chosen C disclose sent = filter (\<lambda>(ns, es, items). items \<noteq> [])
     (map (\<lambda>(ns, es, items). (ns, filter (\<lambda>(e, v). (ns, e) \<in> set disclose) es, filter (item_disclosed C disclose ns) items)) sent)"

lemma reveal_chosen: "reveal C disclose (map sent_value sent) = map sent_value (chosen C disclose sent)"
  by (induction sent) (auto simp: chosen_def sent_value_def Let_def)

lemma list_all2_filter:
  "list_all2 P xs ys \<Longrightarrow> (\<And>x y. P x y \<Longrightarrow> Q x = R y) \<Longrightarrow> list_all2 P (filter Q xs) (filter R ys)"
  by (induction rule: list_all2_induct) auto

lemma sent_item_length:
  assumes "sent_item_ok L C vd disclose (n, es, items)"
  shows "length (filter (\<lambda>(e, v). (n, e) \<in> set disclose) es) = length (filter (item_disclosed C disclose n) items)"
proof -
  from assms have "list_all2 (\<lambda>(e, v) item. item_disclosed C disclose n item = ((n, e) \<in> set disclose)) es items"
    by (auto simp: sent_item_ok_def elim!: list_all2_mono)
  from list_all2_lengthD [OF list_all2_filter [OF this]] show ?thesis by auto
qed

lemma chosen_ok:
  assumes "list_all (sent_item_ok L C vd disclose) sent"
  shows "list_all (sent_ok L C vd) (chosen C disclose sent)"
  unfolding list_all_iff
proof
  fix x
  assume "x \<in> set (chosen C disclose sent)"
  then obtain ns es items where m: "(ns, es, items) \<in> set sent"
    and x: "x = (ns, filter (\<lambda>(e, v). (ns, e) \<in> set disclose) es, filter (item_disclosed C disclose ns) items)"
    by (auto simp: chosen_def)
  from m assms obtain digests where d: "cbor_get vd ns = Some digests" "distinct (map fst es)"
    and a: "list_all2 (\<lambda>(e, v) item. check_item L C ns digests item = Inr (e, cbor_to_json L C v) \<and>
       item_disclosed C disclose ns item = ((ns, e) \<in> set disclose)) es items"
    by (auto simp: list_all_iff sent_item_ok_def)
  have "list_all2 (\<lambda>(e, v) item. check_item L C ns digests item = Inr (e, cbor_to_json L C v))
      (filter (\<lambda>(e, v). (ns, e) \<in> set disclose) es) (filter (item_disclosed C disclose ns) items)"
    by (rule list_all2_mono [OF list_all2_filter [OF a]]) auto
  moreover have "distinct (map fst (filter (\<lambda>(e, v). (ns, e) \<in> set disclose) es))"
    using d(2) by (rule distinct_map_filter)
  ultimately show "sent_ok L C vd x" by (auto simp: sent_ok_def x d(1))
qed

lemma chosen_names:
  assumes "distinct (map fst sent)"
  shows "distinct (map fst (chosen C disclose sent))"
  unfolding chosen_def
proof (rule distinct_map_filter)
  have "map fst (map (\<lambda>(ns, es, items). (ns, filter (\<lambda>(e, v). (ns, e) \<in> set disclose) es,
      filter (item_disclosed C disclose ns) items)) sent) = map fst sent" by (induction sent) auto
  with assms show "distinct (map fst (map (\<lambda>(ns, es, items). (ns, filter (\<lambda>(e, v). (ns, e) \<in> set disclose) es,
      filter (item_disclosed C disclose ns) items)) sent))" by (simp only:)
qed

lemma map_of_filter_key: "map_of (filter (\<lambda>(e, v). P e) es) e = (if P e then map_of es e else None)"
  by (induction es) auto

lemma chosen_claims:
  assumes "list_all (sent_item_ok L C vd disclose) sent" and "distinct (map fst sent)"
  shows "Option.bind (sent_claims L C (chosen C disclose sent) ns) (\<lambda>m. m e) =
    (if (ns, e) \<in> set disclose then Option.bind (sent_claims L C sent ns) (\<lambda>m. m e) else None)"
  using assms
proof (induction sent)
  case Nil
  then show ?case by (simp add: chosen_def sent_claims_def)
next
  case (Cons x sent)
  obtain n es items where x: "x = (n, es, items)" by (cases x)
  define es' where "es' = filter (\<lambda>(e, v). (n, e) \<in> set disclose) es"
  define items' where "items' = filter (item_disclosed C disclose n) items"
  have c: "chosen C disclose (x # sent) = (if items' = [] then chosen C disclose sent else (n, es', items') # chosen C disclose sent)"
    by (simp add: chosen_def x es'_def items'_def)
  have g: "json_elements L C es' e = (if (n, e) \<in> set disclose then json_elements L C es e else None)"
    by (simp add: json_elements_get es'_def map_of_filter_key)
  show ?case
  proof (cases "n = ns")
    case True
    then have "ns \<notin> fst ` set sent" using Cons.prems(2) by (simp add: x)
    then have "ns \<notin> fst ` set (chosen C disclose sent)" by (auto simp: chosen_def image_iff)
    then have none: "sent_claims L C (chosen C disclose sent) ns = None"
      by (auto simp: sent_claims_def map_of_eq_None_iff image_iff split: prod.splits)
    have "length es' = length items'"
      unfolding es'_def items'_def by (rule sent_item_length [of L C vd]) (use Cons.prems(1) in \<open>simp add: x\<close>)
    then have "items' = [] \<Longrightarrow> json_elements L C es' e = None" by simp
    with True none g c show ?thesis by (auto simp: sent_claims_def x)
  next
    case False
    with Cons c show ?thesis by (auto simp: sent_claims_def x)
  qed
qed

section \<open>The verifier's reading\<close>

lemma sign_detached_built:
  assumes "cose_sign_detached C key payload = Inr s"
  shows "built_sign1 s"
proof -
  have "cs_unprotected s = header_with None []"
    using assms by (auto simp: cose_sign_detached_def Let_def bindR_Inr unprotected_header_def)
  with sign_detached_parts [OF assms] show ?thesis
    by (simp add: built_sign1_def built_header_def protected_header_def)
qed

lemma checked_items_within:
  assumes "list_all (sent_ok L C vd) sent"
  shows "cbor_within 10 (CMap (map sent_value sent))"
proof -
  have "cbor_within 8 item" if "(ns, es, items) \<in> set sent" and i: "item \<in> set items" for ns es items item
  proof -
    from that(1) assms obtain digests where
      "list_all2 (\<lambda>(e, v) item. check_item L C ns digests item = Inr (e, cbor_to_json L C v)) es items"
      by (auto simp: list_all_iff sent_ok_def)
    then obtain e j where "check_item L C ns digests item = Inr (e, j)"
      using i by (auto simp: list_all2_conv_all_nth in_set_conv_nth case_prod_beta)
    then obtain b where "item = CTag 24 (CBytes b)" by (auto simp: check_item_Inr item_signed_def unembed_Inr)
    then show ?thesis by simp
  qed
  then show ?thesis by (auto simp: list_all_iff sent_value_def)
qed

lemma present_parts:
  assumes "mdoc_present C bytes disclose transcript device_key = Inr response" and "mdoc_decode C bytes = Inr iss"
    and "cbor_get iss ''issuerAuth'' = Some auth_value" and "cose_from_value C auth_value = Inr auth"
    and "cs_payload auth = Some payload" and "bindR (mdoc_decode C payload) (unembed C) = Inr mso"
    and "cbor_get mso ''docType'' = Some (CText doc_type)" and "cbor_get iss ''nameSpaces'' = Some (CMap name_spaces)"
  obtains e signed_bytes sig sig_value where "cb_write C (CMap []) = Inr e"
    "device_authentication_bytes C transcript doc_type (CTag 24 (CBytes e)) = Inr signed_bytes"
    "cose_sign_detached C device_key signed_bytes = Inr sig" "cose_to_value C sig = Inr sig_value"
    "cb_write C (CMap [(CText ''version'', CText ''1.0''),
       (CText ''documents'', CArray [CMap [(CText ''docType'', CText doc_type),
          (CText ''issuerSigned'', CMap [(CText ''nameSpaces'', CMap (reveal C disclose name_spaces)), (CText ''issuerAuth'', auth_value)]),
          (CText ''deviceSigned'', CMap [(CText ''nameSpaces'', CTag 24 (CBytes e)),
             (CText ''deviceAuth'', CMap [(CText ''deviceSignature'', sig_value)])])]]),
       (CText ''status'', CInt 0)]) = Inr response"
proof -
  have "require_text mso ''docType'' ''MSO'' = Inr doc_type" using assms(7) by (simp add: require_text_Inr)
  moreover have "cbor_require iss ''issuerAuth'' ''IssuerSigned'' = Inr auth_value" using assms(3) by (simp add: cbor_require_Inr)
  ultimately show thesis
    using assms(1) that
    by (auto simp: mdoc_present_def assms(2,4-6,8) bindR_Inr embed_Inr mdoc_encode_Inr map_err_Inr)
qed

lemma public_part_verifies:
  assumes "key_pair_verifies L key k" and "cose_key L C k = Inr v"
  shows "key_pair_verifies L key (public_part k)"
proof -
  have "kty k = ''EC'' \<and> crv k = Some ''P-256'' \<and> (\<exists>x y. jwk_x k = Some x \<and> jwk_y k = Some y) \<or>
      kty k = ''OKP'' \<and> crv k = Some ''Ed25519'' \<and> (\<exists>x. jwk_x k = Some x)"
    using assms(2) by (auto simp: cose_key_def bindR_Inr key_coordinate_Inr split: if_splits)
  then have "verify_with_jwk L (public_part k) = verify_with_jwk L k \<and> algorithm_for_jwk (public_part k) = algorithm_for_jwk k"
    by (elim disjE conjE exE) (simp_all add: verify_with_jwk_def algorithm_for_jwk_def public_part_def public_jwk_def fun_eq_iff)
  with assms(1) show ?thesis by (simp add: key_pair_verifies_def)
qed

lemma presentation_verifies:
  assumes laws: "cbor_law C" "cose_law C" "time_law T"
    and ok: "request_ok q" "times_readable q" "canonical_key L (iq_device_key q)"
    and run: "mdoc_issue L C T q key s = (Inr bytes, s')"
    and present: "mdoc_present C bytes disclose transcript device_key = Inr response"
    and device: "key_pair_verifies L device_key (iq_device_key q)"
    and trusted: "issuer_trusted L X q key anchors now" "valid_during q now"
  shows "\<exists>v. verify_device_response L C X T response transcript anchors now = Inr [v] \<and>
     vm_doc_type v = iq_doc_type q \<and> vm_device_key v = public_part (iq_device_key q) \<and>
     vm_claim v = (\<lambda>ns e. if (ns, e) \<in> set disclose then issued_element L C q ns e else None)"
proof -
  from mdoc_issue_issued [OF laws(1,2) ok(1) run] obtain sent auth_value auth mso where
    i: "issued_mdoc L C T q key bytes sent auth_value auth mso" by blast
  then obtain vds dk ts payload where
    read: "cb_read C bytes = Inr (CMap [(CText ''nameSpaces'', CMap (map sent_value sent)), (CText ''issuerAuth'', auth_value)])"
    and sent: "map (\<lambda>(ns, es, _). (ns, es)) sent = iq_namespaces q"
    and all: "\<forall>disclose. list_all (sent_item_ok L C (CMap vds) disclose) sent" and mso: "mso = mso_value T q vds dk ts"
    and auth: "cose_from_value C auth_value = Inr auth" "cbor_within 20 auth_value" "cs_payload auth = Some payload"
      "bindR (mdoc_decode C payload) (unembed C) = Inr mso"
    unfolding issued_mdoc_def by (elim exE conjE) (rule that, assumption+)
  obtain sg vf vu where ts: "ts = (sg, vf, vu)" by (cases ts)
  have items: "list_all (sent_item_ok L C (CMap vds) disclose) sent" using all ..
  have names: "distinct (map fst sent)" using ok(1) sent_names [OF sent] by (simp add: request_ok_def)
  define sel where "sel = chosen C disclose sent"
  have sel: "list_all (sent_ok L C (CMap vds)) sel" "distinct (map fst sel)"
    by (simp_all add: sel_def chosen_ok [OF items] chosen_names [OF names])
  define iss where "iss = CMap [(CText ''nameSpaces'', CMap (map sent_value sel)), (CText ''issuerAuth'', auth_value)]"
  obtain e signed_bytes sig sig_value where e: "cb_write C (CMap []) = Inr e"
    and sb: "device_authentication_bytes C transcript (iq_doc_type q) (CTag 24 (CBytes e)) = Inr signed_bytes"
    and sig: "cose_sign_detached C device_key signed_bytes = Inr sig" "cose_to_value C sig = Inr sig_value"
    and out: "cb_write C (CMap [(CText ''version'', CText ''1.0''),
       (CText ''documents'', CArray [CMap [(CText ''docType'', CText (iq_doc_type q)), (CText ''issuerSigned'', iss),
          (CText ''deviceSigned'', CMap [(CText ''nameSpaces'', CTag 24 (CBytes e)),
             (CText ''deviceAuth'', CMap [(CText ''deviceSignature'', sig_value)])])]]),
       (CText ''status'', CInt 0)]) = Inr response"
    by (rule present_parts [OF present, where iss = "CMap [(CText ''nameSpaces'', CMap (map sent_value sent)), (CText ''issuerAuth'', auth_value)]"
          and auth_value = auth_value and auth = auth and payload = payload and mso = mso and doc_type = "iq_doc_type q"
          and name_spaces = "map sent_value sent"])
      (simp_all add: mdoc_decode_Inr read auth mso ts mso_value_get reveal_chosen iss_def sel_def)
  from cose_value_reads [OF laws(2) sign_detached_built [OF sig(1)] sig(2)] obtain d where
    d: "cose_from_value C sig_value = Inr (reread sig d)" "cbor_within 20 sig_value"
    "\<And>p. cose_tbs C (Some d) (cs_protected sig) p = cose_tbs C (cs_original_data sig) (cs_protected sig) p" by blast
  obtain v where v: "verify_issuer_signed_value L C X T iss (Some (iq_doc_type q)) anchors now = Inr v"
      "vm_claims v = sent_claims L C sel" "vm_doc_type v = iq_doc_type q" "vm_device_key v = public_part (iq_device_key q)"
    using issued_value_verifies [OF i ok(1,2) laws(3) ok(3) trusted, where sel = sel and expected = "Some (iq_doc_type q)" and iss = iss]
      sel by (auto simp: iss_def mso ts mso_value_get)
  from i obtain dk' where "cose_key L C (iq_device_key q) = Inr dk'" unfolding issued_mdoc_def by blast
  note dev = public_part_verifies [OF device this]
  from sign_detached_verifies [OF sig(1) dev d(3)]
  have dv: "cose_verify_detached L C (reread sig d) signed_bytes (vm_device_key v) = Inr ()" by (simp add: v(4))
  have "verify_document L C X T transcript anchors now
     (CMap [(CText ''docType'', CText (iq_doc_type q)), (CText ''issuerSigned'', iss),
          (CText ''deviceSigned'', CMap [(CText ''nameSpaces'', CTag 24 (CBytes e)),
             (CText ''deviceAuth'', CMap [(CText ''deviceSignature'', sig_value)])])]) = Inr v"
    using v(1) d(1) sb dv by (simp add: verify_document_Inr)
  moreover have "cbor_within 50 iss"
    using cbor_within_mono [OF checked_items_within [OF sel(1)], of 49] cbor_within_mono [OF auth(2), of 49] by (simp add: iss_def)
  then have "cbor_within 97 iss" by (rule cbor_within_mono) simp
  moreover have "cbor_within 94 sig_value" by (rule cbor_within_mono [OF d(2)]) simp
  moreover have "cbor_within 95 sig_value" by (rule cbor_within_mono [OF d(2)]) simp
  ultimately have "verify_device_response L C X T response transcript anchors now = Inr [v]"
    using cbor_reads [OF laws(1) out] by (auto simp: verify_device_response_Inr mdoc_decode_Inr)
  moreover have "vm_claim v ns el = (if (ns, el) \<in> set disclose then issued_element L C q ns el else None)" for ns el
    using chosen_claims [OF items names, of ns el] sent_claims_issued [OF sent, of L C ns el]
    by (simp add: vm_claim_def v(2) sel_def)
  ultimately show ?thesis using v(3,4) by (intro exI [of _ v] conjI ext) simp_all
qed

text \<open>
  C9. What the holder presents verifies at the verifier that computes the same transcript: it
  shows the elements that the holder chose, with the issued values, and none of the others, under
  the holder's key.
\<close>

theorem mdoc_present_verify:
  assumes laws: "cbor_law C" "cose_law C" "time_law T"
    and ok: "request_ok q" "times_readable q" "canonical_key L (iq_device_key q)"
    and run: "mdoc_issue L C T q key s = (Inr bytes, s')"
    and present: "mdoc_present C bytes disclose transcript device_key = Inr response"
    and device: "key_pair_verifies L device_key (iq_device_key q)"
    and trusted: "issuer_trusted L X q key anchors now" "valid_during q now"
  shows "\<exists>v. verify_device_response L C X T response transcript anchors now = Inr [v] \<and>
     vm_doc_type v = iq_doc_type q \<and> vm_device_key v = public_part (iq_device_key q) \<and>
     vm_claim v = (\<lambda>ns e. if (ns, e) \<in> set disclose then issued_element L C q ns e else None)"
  using assms by (rule presentation_verifies)

end
