(* ===== verification/Mdoc_Status.thy ===== *)
theory Mdoc_Status
  imports Mdoc_Round_Trip
begin

text \<open>
  The Status List Token in CWT format: what is signed verifies; and issuing an mdoc ends.
\<close>

section \<open>The revocation list reads back\<close>

definition cwt_ok :: "status_list_cwt \<Rightarrow> bool" where
  "cwt_ok l \<longleftrightarrow> sl_x5chain l \<noteq> [] \<and> sl_cwt_bits l < 256 \<and> rfc3339_instant (sl_iat l) \<and> rfc3339_instant (sl_exp l) \<and>
     (\<forall>t. sl_ttl l = Some t \<longrightarrow> t < 18446744073709551616)"

lemma timestamp_readable:
  "rfc3339_instant t \<Longrightarrow> - 62167219200 \<le> timestamp t \<and> timestamp t < 253402300800"
proof -
  assume t: "rfc3339_instant t"
  have "t = 1000000000 * (t div 1000000000) + t mod 1000000000" by simp
  moreover have "0 \<le> t mod 1000000000" "t mod 1000000000 < 1000000000" by simp_all
  ultimately show ?thesis using t unfolding rfc3339_instant_def second_def timestamp_def by linarith
qed

lemma cwt_claim_get:
  "cwt_claim (cwt_claims l) CWT_EXP = Inr (CInt (timestamp (sl_exp l)))"
  "cwt_claim (cwt_claims l) CWT_SUB = Inr (CText (sl_uri l))"
  "cwt_claim (cwt_claims l) CWT_STATUS_LIST =
     Inr (CMap [(CText ''bits'', CInt (int (sl_cwt_bits l))), (CText ''lst'', CBytes (sl_lst l))])"
  by (simp_all add: cwt_claim_def cwt_claims_def label_value_def CWT_EXP_def CWT_SUB_def CWT_IAT_def CWT_TTL_def
      CWT_STATUS_LIST_def split: option.split)

lemma cwt_claims_within: "cwt_ok l \<Longrightarrow> cbor_within 100 (cwt_claims l)"
  using timestamp_readable [of "sl_iat l"] timestamp_readable [of "sl_exp l"]
  by (auto simp: cwt_ok_def cwt_claims_def CWT_EXP_def CWT_SUB_def CWT_IAT_def CWT_TTL_def CWT_STATUS_LIST_def
      split: option.split)

text \<open>
  A revocation list that the issuer signs verifies under its chain until it expires, and
  gives the list's address, width and bytes.
\<close>

theorem status_list_cwt_round_trip:
  assumes laws: "cbor_law C" "cose_law C" and ok: "cwt_ok l"
    and run: "sign_status_list_cwt C l key = Inr token"
    and chain: "validate_chain L X (sl_x5chain l) anchors now = Inr k" "key_pair_verifies L key k"
    and now: "now \<le> whole_seconds (sl_exp l)"
  shows "verify_status_list_cwt L C X token anchors now =
     Inr \<lparr> vl_uri = sl_uri l, vl_bits = sl_cwt_bits l, vl_lst = sl_lst l, vl_exp = whole_seconds (sl_exp l) \<rparr>"
proof -
  let ?prot = "[(HEADER_TYP, CText STATUS_LIST_CWT_TYPE), (HEADER_X5CHAIN, x5chain_value (sl_x5chain l))]"
  obtain payload s where p: "cb_write C (cwt_claims l) = Inr payload" and s: "cose_sign C key payload ?prot [] = Inr s"
    and t: "cose_tagged_vec C s = Inr token"
    using run by (auto simp: sign_status_list_cwt_def bindR_Inr mdoc_encode_Inr map_err_Inr cose_to_tagged_vec_def)
  have built: "built_sign1 s"
    by (rule sign_built [OF s]) (simp_all add: HEADER_TYP_def HEADER_X5CHAIN_def in_i64_def x5chain_value_within)
  obtain v where v: "cose_value_of C s = Inr v" "cb_read C token = Inr (CTag 18 v)"
    using laws(2) built t unfolding cose_law_def by blast
  then have codec: "cose_codec C s" using laws(2) built unfolding cose_law_def by blast
  obtain items d where d: "v = CArray items" "cose_of_value C v = Inr (reread s d)"
    "\<And>p. cose_tbs C (Some d) (cs_protected s) p = cose_tbs C (cs_original_data s) (cs_protected s) p"
    using v(1) codec by (auto simp: cose_codec_def reread_def)
  have read: "cose_from_slice C token = Inr (reread s d)"
    by (simp add: cose_from_slice_def v(2) cose_from_value_def d(2))
  have prot: "cs_protected (reread s d) = header_with (Some (cose_algorithm (kp_algorithm key))) ?prot"
    "cs_payload (reread s d) = Some payload"
    using sign_parts(1,2) [OF s] by (simp_all add: reread_def protected_header_def)
  have header_typ: "Option.bind (find (\<lambda>(label, _). label = LabelInt HEADER_TYP) (ch_rest (cs_protected (reread s d)))) (\<lambda>(_, v). as_text v)
      = Some STATUS_LIST_CWT_TYPE"
    by (simp add: prot)
  have ch: "x5chain (cs_protected (reread s d)) = Inr (sl_x5chain l)"
    unfolding prot by (rule x5chain_header) (use ok in \<open>simp_all add: cwt_ok_def HEADER_TYP_def HEADER_X5CHAIN_def\<close>)
  have ver: "cose_verify L C (reread s d) k = Inr ()" by (rule sign_verifies [OF s chain(2) d(3)])
  have claims: "mdoc_decode C payload = Inr (cwt_claims l)"
    using cbor_reads [OF laws(1) p cwt_claims_within [OF ok]] by (simp add: mdoc_decode_def)
  have e: "in_i64 (timestamp (sl_exp l))" "from_timestamp (timestamp (sl_exp l)) = Some (whole_seconds (sl_exp l))"
    using ok timestamp_readable [of "sl_exp l"] by (auto simp: cwt_ok_def in_i64_def from_timestamp_def whole_seconds_def)
  have b: "sl_cwt_bits l < 256" using ok by (simp add: cwt_ok_def)
  show ?thesis
    unfolding verify_status_list_cwt_def
    using now b by (simp add: read header_typ ch chain(1) ver prot(2) claims cwt_claim_get e Let_def cbor_require_def)
qed

section \<open>Issuing returns\<close>

text \<open>Every \<open>u32\<close> keeps coming up in the draws.\<close>

definition fair_draws :: "(nat \<Rightarrow> nat) \<Rightarrow> bool" where
  "fair_draws rnd \<longleftrightarrow> (\<forall>n. \<forall>i<4294967296. \<exists>m\<ge>n. rnd m mod 4294967296 = i)"

definition returns :: "('s, mdoc_error, 'a) prog \<Rightarrow> 's \<Rightarrow> bool" where
  "returns m s \<longleftrightarrow> fst (m s) \<noteq> Inl MdocNeverReturns"

lemma returns_ret [intro]: "returns (ret x) s"
  by (simp add: returns_def ret_def)

lemma returns_liftR: "returns (liftR r) s \<longleftrightarrow> r \<noteq> Inl MdocNeverReturns"
  by (simp add: returns_def liftR_def)

lemma returns_bindP:
  "returns m s \<Longrightarrow> (\<And>x s'. m s = (Inr x, s') \<Longrightarrow> returns (f x) s') \<Longrightarrow> returns (bindP m f) s"
  by (auto simp: returns_def bindP_def split: prod.splits sum.splits)

lemma returns_salt: "returns new_salt s"
  by (simp add: returns_def new_salt_run)

lemma map_err_returns: "(\<And>e. f e \<noteq> MdocNeverReturns) \<Longrightarrow> map_err f r \<noteq> Inl MdocNeverReturns"
  by (cases r) simp_all

lemma lifts_return:
  "mdoc_encode C v \<noteq> Inl MdocNeverReturns" "embed C v \<noteq> Inl MdocNeverReturns"
  "map_err MdocCose r \<noteq> Inl MdocNeverReturns" "issue_times q \<noteq> Inl MdocNeverReturns"
  by (auto simp: mdoc_encode_def embed_def bindR_Inl issue_times_def Let_def map_err_def split: sum.splits)

lemma draw_digest_id_returns:
  assumes "fair_draws (draw_at s)" and "finite ids" and "card ids < 4294967296"
  shows "returns (draw_digest_id ids) s"
proof -
  have "\<exists>i<4294967296. i \<notin> ids"
  proof (rule ccontr)
    assume "\<not> ?thesis"
    then have "{..<4294967296} \<subseteq> ids" by auto
    from card_mono [OF assms(2) this] assms(3) show False by simp
  qed
  then obtain i k where "i \<notin> ids" "draws_used s \<le> k" "draw_at s k mod 4294967296 = i"
    using assms(1) unfolding fair_draws_def by blast
  then have "\<exists>r. draw_loop ids 4294967296 (draw_at s) (draws_used s) = Some r" by (intro draw_loop_total) auto
  then show ?thesis by (auto simp: returns_def draw_digest_id_def)
qed

lemma draw_digest_id_keeps: "draw_digest_id ids s = (r, s') \<Longrightarrow> draw_at s' = draw_at s"
  by (auto simp: draw_digest_id_def split: option.splits)

lemma issue_items_returns:
  fixes s :: "'m env_scheme"
  assumes "fair_draws (draw_at s)" and "finite ids" and "card ids + length es \<le> 4294967296"
  shows "returns (issue_items L C ids es) s \<and> (\<forall>r s'. issue_items L C ids es s = (Inr r, s') \<longrightarrow> draw_at s' = draw_at s)"
  using assms
proof (induction es arbitrary: ids s)
  case Nil
  then show ?case by (auto simp: ret_Inr)
next
  case (Cons ev es)
  obtain e v where ev: "ev = (e, v)" by fastforce
  have step: "returns (issue_items L C (insert i ids) es) s4 \<and>
      (\<forall>r s'. issue_items L C (insert i ids) es s4 = (Inr r, s') \<longrightarrow> draw_at s' = draw_at s4)"
    if d: "draw_at s4 = draw_at s" for s4 :: "'m env_scheme" and i
  proof (rule Cons.IH)
    show "fair_draws (draw_at s4)" using Cons.prems(1) by (simp add: d)
    show "finite (insert i ids)" using Cons.prems(2) by simp
    have "card (insert i ids) \<le> Suc (card ids)" by (simp add: card_insert_if Cons.prems(2))
    then show "card (insert i ids) + length es \<le> 4294967296" using Cons.prems(3) by simp
  qed
  have "returns (issue_items L C ids (ev # es)) s"
    unfolding ev issue_items.simps
  proof (intro returns_bindP returns_ret)
    show "returns (draw_digest_id ids) s" by (rule draw_digest_id_returns) (use Cons.prems in simp_all)
  next
    fix i s1 r s2 item s3 b s4
    assume i: "draw_digest_id ids s = (Inr i, s1)" and r: "new_salt s1 = (Inr r, s2)"
      and e: "liftR (embed C (issuer_signed_item i r e v)) s2 = (Inr item, s3)" "liftR (mdoc_encode C item) s3 = (Inr b, s4)"
    have "s4 = s2" using e by (simp add: liftR_Inr)
    moreover have "draw_at s2 = draw_at s1" using r by (auto simp: new_salt_run)
    ultimately have "draw_at s4 = draw_at s" using draw_digest_id_keeps [OF i] by simp
    then show "returns (issue_items L C (insert i ids) es) s4"
      by (rule conjunct1 [OF step])
  qed (auto simp: returns_salt returns_liftR lifts_return split: prod.split)
  moreover have "draw_at s' = draw_at s" if r: "issue_items L C ids (ev # es) s = (Inr r, s')" for r s'
  proof -
    from r obtain i s1 s4 r' where i: "draw_digest_id ids s = (Inr i, s1)"
      and r': "issue_items L C (insert i ids) es s4 = (Inr r', s')" and s4: "draw_at s4 = draw_at s1"
      by (auto simp: ev bindP_Inr liftR_Inr ret_Inr new_salt_run split: prod.splits)
    have d: "draw_at s4 = draw_at s" by (rule trans [OF s4 draw_digest_id_keeps [OF i]])
    from step [OF d] r' have "draw_at s' = draw_at s4" by blast
    then show ?thesis by (rule trans) (rule d)
  qed
  ultimately show ?case by blast
qed

lemma issue_namespaces_return:
  assumes "fair_draws (draw_at s)" and "list_all (\<lambda>(ns, es). length es \<le> 4294967296) nss"
  shows "returns (mapP (issue_namespace L C) nss) s"
  using assms
proof (induction nss arbitrary: s)
  case Nil
  then show ?case by auto
next
  case (Cons x nss)
  obtain ns es where x: "x = (ns, es)" by fastforce
  have i: "returns (issue_items L C {} es) s \<and> (\<forall>r s'. issue_items L C {} es s = (Inr r, s') \<longrightarrow> draw_at s' = draw_at s)"
    by (rule issue_items_returns) (use Cons.prems in \<open>simp_all add: x\<close>)
  show ?case
    unfolding mapP.simps
  proof (intro returns_bindP returns_ret)
    show "returns (issue_namespace L C x) s"
      unfolding issue_namespace_def x prod.case by (intro returns_bindP) (use i in \<open>auto split: prod.split\<close>)
  next
    fix p s1
    assume "issue_namespace L C x s = (Inr p, s1)"
    then have "draw_at s1 = draw_at s" using i by (auto simp: issue_namespace_def x bindP_Inr ret_Inr)
    with Cons show "returns (mapP (issue_namespace L C) nss) s1" by simp
  qed
qed

text \<open>
  Issuing an mdoc ends: while the random source goes on to draw every \<open>u32\<close> and no namespace
  has more elements than there are digest IDs, the loops find unused IDs.
\<close>

theorem mdoc_issue_returns:
  assumes "fair_draws (draw_at s)" and "list_all (\<lambda>(ns, es). length es \<le> 4294967296) (iq_namespaces q)"
  shows "fst (mdoc_issue L C T q key s) \<noteq> Inl MdocNeverReturns"
proof -
  have n: "returns (mapP (issue_namespace L C) (iq_namespaces q)) s'" if "liftR (issue_times q) s = (Inr ts, s')" for ts s'
    using issue_namespaces_return [OF assms] that by (simp add: liftR_Inr)
  have "returns (mdoc_issue L C T q key) s"
    unfolding mdoc_issue_def by (intro returns_bindP n) (auto simp: returns_liftR lifts_return)
  then show ?thesis by (simp add: returns_def)
qed

end
