(* ===== verification/Mdl_Credential.thy ===== *)
theory Mdl_Credential
  imports Credential Mdoc_Status
begin

text \<open>
  The mDLs of the credential endpoint, from the endpoint's request to the wallet's verification.
\<close>

lemma age_names: "show_nat 18 = ''18''" "show_nat 21 = ''21''"
  by code_simp+

lemma mdl_elements_names:
  "mdl_elements M country today = Some es \<Longrightarrow> map fst es = MDL_ELEMENTS"
  by (auto simp: mdl_elements_def MDL_ELEMENTS_def Let_def bind_eq_Some_conv age_names)

lemma mdl_elements_within:
  "mdl_elements M country today = Some es \<Longrightarrow> list_all (\<lambda>(e, v). cbor_within 50 v) es"
  by (auto simp: mdl_elements_def Let_def bind_eq_Some_conv full_date_def TAG_FULL_DATE_def)

lemma mdl_request_ok:
  assumes "mdl_elements M country today = Some es" and "\<And>r. status = Some r \<Longrightarrow> sr_idx r < 18446744073709551616"
  shows "request_ok (mdl_request M k certificate es t not_after status)"
proof -
  have "distinct (map fst es)" unfolding mdl_elements_names [OF assms(1)] by (simp add: MDL_ELEMENTS_def)
  then show ?thesis using mdl_elements_within [OF assms(1)] assms(2) by (simp add: request_ok_def mdl_request_def)
qed

lemma start_of_day_seconds: "whole_seconds (start_of_day t) = start_of_day t"
  by (simp add: whole_seconds_def start_of_day_def timestamp_def second_def day_secs_def)

text \<open>When the chain of the document signer is trusted, for the day of issue and for \<open>now\<close>.\<close>

definition signer_trusted ::
    "libs \<Rightarrow> x509_libs \<Rightarrow> issuer_certificate \<Rightarrow> key_pair \<Rightarrow> bytes list \<Rightarrow> instant \<Rightarrow> instant \<Rightarrow> bool" where
  "signer_trusted L X certificate key anchors today now \<longleftrightarrow>
     (\<exists>k. validate_chain L X [xc_der certificate] anchors now = Inr k \<and> key_pair_verifies L key k) \<and>
     is_ok (validate_chain L X [xc_der certificate] anchors today)"

text \<open>Until when an mDL of \<open>today\<close> is valid: a year, or to the day the certificate expires.\<close>

definition mdl_expiry :: "instant \<Rightarrow> instant \<Rightarrow> instant" where
  "mdl_expiry today not_after = start_of_day (min (today + MSO_VALIDITY_DAYS * (day_secs * second)) not_after)"

lemma issue_mdoc_credential_Inr:
  assumes "issue_mdoc_credential L config ctx k s = (Inr credential, s')" and "ict_mdoc ctx = Some mso_signer"
  obtains country es not_after status s1 s2 bytes where
    "certificate_subject_country (ml_x509 (ict_mdoc_libs ctx)) (ms_certificate mso_signer) = Some country"
    "mdl_elements (ict_mdoc_libs ctx) country (day_number (clock_at s (clock_reads s))) = Some es"
    "certificate_not_after (ml_x509 (ict_mdoc_libs ctx)) (ms_certificate mso_signer) = Some not_after"
    "ms_allocate_status mso_signer s1 = (Inr status, s2)"
    "mdoc_issue L (ml_cbor (ict_mdoc_libs ctx)) (ml_time (ict_mdoc_libs ctx))
       (mdl_request (ict_mdoc_libs ctx) k (ms_certificate mso_signer) es (start_of_day (clock_at s (clock_reads s))) not_after status)
       (ict_issuer_key ctx) s2 = (Inr bytes, s')"
    "credential = JStr (b64url_encode L bytes)"
  using assms
  by (auto simp: issue_mdoc_credential_def Let_def bindP_Inr errP_Inr liftR_Inr ret_Inr ok_or_Inr ensure_Inr utc_now_run)

text \<open>
  C28. An mDL of the credential endpoint verifies at the wallet, from the day of its issue until
  it expires: its device key is the proved key's public part, its elements are the ones that the
  issuer's metadata advertises, its revocation entry is the one that was allocated, and its
  signing time is the start of the day.
\<close>

theorem mdl_credential_bound:
  assumes laws: "b64url_law L" "cbor_law (ml_cbor (ict_mdoc_libs ctx))" "cose_law (ml_cbor (ict_mdoc_libs ctx))"
      "time_law (ml_time (ict_mdoc_libs ctx))"
    and issue: "issue_mdoc_credential L config ctx k s = (Inr credential, s')" and mso_signer: "ict_mdoc ctx = Some mso_signer"
    and status_u64: "\<And>t t' r. ms_allocate_status mso_signer t = (Inr (Some r), t') \<Longrightarrow> sr_idx r < 18446744073709551616"
    and key: "canonical_key L k"
    and today: "today = start_of_day (clock_at s (clock_reads s))" "rfc3339_instant today"
    and not_after: "certificate_not_after (ml_x509 (ict_mdoc_libs ctx)) (ms_certificate mso_signer) = Some not_after"
    and expiry: "rfc3339_instant (mdl_expiry today not_after)"
    and trusted: "signer_trusted L (ml_x509 (ict_mdoc_libs ctx)) (ms_certificate mso_signer) (ict_issuer_key ctx) anchors today now"
    and now: "today \<le> now" "now \<le> mdl_expiry today not_after"
  shows "\<exists>encoded bytes v status s1 s2. credential = JStr encoded \<and> b64url_decode L encoded = Inr bytes \<and>
     verify_issuer_signed L (ml_cbor (ict_mdoc_libs ctx)) (ml_x509 (ict_mdoc_libs ctx)) (ml_time (ict_mdoc_libs ctx))
       bytes anchors now = Inr v \<and>
     vm_doc_type v = MDL_DOCTYPE \<and> vm_device_key v = public_part k \<and>
     ms_allocate_status mso_signer s1 = (Inr status, s2) \<and> vm_status v = status \<and> vm_signed v = today \<and>
     {e. vm_claim v MDL_NAMESPACE e \<noteq> None} = set MDL_ELEMENTS \<and>
     {ns. \<exists>e. vm_claim v ns e \<noteq> None} = {MDL_NAMESPACE}"
proof -
  let ?M = "ict_mdoc_libs ctx"
  obtain country es status s1 s2 bytes where
    es: "mdl_elements ?M country (day_number (clock_at s (clock_reads s))) = Some es"
    and status: "ms_allocate_status mso_signer s1 = (Inr status, s2)"
    and run: "mdoc_issue L (ml_cbor ?M) (ml_time ?M) (mdl_request ?M k (ms_certificate mso_signer) es today not_after status)
       (ict_issuer_key ctx) s2 = (Inr bytes, s')"
    and out: "credential = JStr (b64url_encode L bytes)"
    using issue_mdoc_credential_Inr [OF issue mso_signer] not_after unfolding today(1) by (metis option.inject)
  let ?q = "mdl_request ?M k (ms_certificate mso_signer) es today not_after status"
  have ok: "request_ok ?q" by (rule mdl_request_ok [OF es]) (use status status_u64 in blast)
  have readable: "times_readable ?q" using today(2) expiry by (simp add: times_readable_def mdl_request_def mdl_expiry_def)
  have canonical: "canonical_key L (iq_device_key ?q)" using key by (simp add: mdl_request_def)
  have w: "whole_seconds today = today" by (simp add: today(1) start_of_day_seconds)
  have trust: "issuer_trusted L (ml_x509 ?M) ?q (ict_issuer_key ctx) anchors now"
    using trusted w by (simp add: issuer_trusted_def signer_trusted_def mdl_request_def)
  have "whole_seconds (mdl_expiry today not_after) = mdl_expiry today not_after"
    by (simp add: mdl_expiry_def start_of_day_seconds)
  then have during: "valid_during ?q now"
    using now w by (auto simp: valid_during_def issue_times_def mdl_request_def Let_def mdl_expiry_def [symmetric])
  from issued_mdoc_verifies [OF laws(2-4) ok readable canonical run trust during] obtain v where
    v: "verify_issuer_signed L (ml_cbor ?M) (ml_x509 ?M) (ml_time ?M) bytes anchors now = Inr v"
      "vm_doc_type v = iq_doc_type ?q" "vm_claim v = issued_element L (ml_cbor ?M) ?q"
      "vm_device_key v = public_part (iq_device_key ?q)" "vm_status v = iq_status ?q"
      "vm_signed v = whole_seconds (iq_signed ?q)" by blast
  have "vm_claim v ns e \<noteq> None \<longleftrightarrow> ns = MDL_NAMESPACE \<and> e \<in> set MDL_ELEMENTS" for ns e
  proof -
    have "fst ` set es = set MDL_ELEMENTS" using mdl_elements_names [OF es] by (metis list.set_map)
    then have "map_of es e = None \<longleftrightarrow> e \<notin> set MDL_ELEMENTS" by (simp add: map_of_eq_None_iff)
    then show ?thesis by (cases "map_of es e") (simp_all add: v(3) issued_element_def mdl_request_def)
  qed
  moreover have "''portrait'' \<in> set MDL_ELEMENTS" by (simp add: MDL_ELEMENTS_def)
  ultimately have "{e. vm_claim v MDL_NAMESPACE e \<noteq> None} = set MDL_ELEMENTS"
    "{ns. \<exists>e. vm_claim v ns e \<noteq> None} = {MDL_NAMESPACE}" by blast+
  moreover have "vm_doc_type v = MDL_DOCTYPE" "vm_device_key v = public_part k" "vm_status v = status" "vm_signed v = today"
    using v(2,4-6) w by (simp_all add: mdl_request_def)
  moreover have "b64url_decode L (b64url_encode L bytes) = Inr bytes" by (rule b64url_round [OF laws(1)])
  ultimately show ?thesis using out v(1) status by blast
qed

end
