(* ===== verification/Sample_Cbor.thy ===== *)
theory Sample_Cbor
  imports Mdoc_Status
begin

text \<open>
  A concrete codec for the witnesses of the mdoc properties: CBOR's data model in a textual
  encoding, COSE_Sign1 as the four-element array of RFC 9052 with its signature input. It has the
  laws that the properties assume of ciborium and coset.
\<close>

section \<open>Numbers and counted strings\<close>

lemma show_nat_digits: "list_all (\<lambda>c. c \<noteq> CHR '';'' \<and> c \<noteq> CHR ''-'') (show_nat n) \<and> show_nat n \<noteq> []"
proof (induction n rule: show_nat.induct)
  case (1 n)
  have d: "char_of (48 + k) \<noteq> CHR '';'' \<and> char_of (48 + k) \<noteq> CHR ''-''" if "k < 10" for k :: nat
  proof (intro conjI notI)
    have o: "of_char (char_of (48 + k) :: char) = 48 + k" using that by simp
    show False if "char_of (48 + k) = CHR '';''"
      using o [unfolded that] \<open>k < 10\<close> by simp
    show False if "char_of (48 + k) = CHR ''-''"
      using o [unfolded that] by simp
  qed
  from 1 d show ?case by (auto simp: show_nat.simps [of n])
qed

definition write_nat :: "nat \<Rightarrow> string" where
  "write_nat n = show_nat n @ '';''"

definition scan_nat :: "string \<Rightarrow> nat \<times> string" where
  "scan_nat s = (read_nat (takeWhile (\<lambda>c. c \<noteq> CHR '';'') s), tl (dropWhile (\<lambda>c. c \<noteq> CHR '';'') s))"

lemma scan_write_nat: "scan_nat (write_nat n @ s) = (n, s)"
proof -
  have "\<forall>c\<in>set (show_nat n). c \<noteq> CHR '';''" using show_nat_digits [of n] by (simp add: list_all_iff)
  then show ?thesis
    by (simp add: scan_nat_def write_nat_def takeWhile_append2 dropWhile_append2 read_show_nat)
qed

definition write_int :: "int \<Rightarrow> string" where
  "write_int i = (if i < 0 then ''-'' else ''+'') @ write_nat (nat \<bar>i\<bar>)"

definition scan_int :: "string \<Rightarrow> int \<times> string" where
  "scan_int s = (case scan_nat (tl s) of (n, r) \<Rightarrow> (if hd s = CHR ''-'' then - int n else int n, r))"

lemma scan_write_int: "scan_int (write_int i @ s) = (i, s)"
  by (simp add: scan_int_def write_int_def scan_write_nat)

definition write_string :: "string \<Rightarrow> string" where
  "write_string b = write_nat (length b) @ b"

definition scan_string :: "string \<Rightarrow> string \<times> string" where
  "scan_string s = (case scan_nat s of (n, r) \<Rightarrow> (take n r, drop n r))"

lemma scan_write_string: "scan_string (write_string b @ s) = (b, s)"
  by (simp add: scan_string_def write_string_def scan_write_nat)

section \<open>Values\<close>

fun pairs :: "'a list \<Rightarrow> ('a \<times> 'a) list" where
  "pairs (a # b # xs) = (a, b) # pairs xs"
| "pairs _ = []"

fun write_cbor :: "cbor \<Rightarrow> string" where
  "write_cbor (CInt i) = CHR ''i'' # write_int i"
| "write_cbor (CBytes b) = CHR ''b'' # write_string b"
| "write_cbor (CFloat w) = CHR ''f'' # write_nat (unat w)"
| "write_cbor (CText s) = CHR ''t'' # write_string s"
| "write_cbor (CBool b) = (if b then ''T'' else ''F'')"
| "write_cbor CNull = ''n''"
| "write_cbor (CTag t v) = CHR ''g'' # write_nat t @ write_cbor v"
| "write_cbor (CArray vs) = CHR ''a'' # concat (map write_cbor vs) @ ''.''"
| "write_cbor (CMap kvs) = CHR ''m'' # concat (map (\<lambda>(k, v). write_cbor k @ write_cbor v) kvs) @ ''.''"

fun scan_cbor :: "nat \<Rightarrow> string \<Rightarrow> (cbor \<times> string) option"
  and scan_cbors :: "nat \<Rightarrow> string \<Rightarrow> (cbor list \<times> string) option" where
  "scan_cbor 0 s = None"
| "scan_cbor (Suc n) [] = None"
| "scan_cbor (Suc n) (c # s) =
     (if c = CHR ''i'' then Some (apfst CInt (scan_int s))
      else if c = CHR ''b'' then Some (apfst CBytes (scan_string s))
      else if c = CHR ''f'' then Some (apfst (\<lambda>k. CFloat (of_nat k)) (scan_nat s))
      else if c = CHR ''t'' then Some (apfst CText (scan_string s))
      else if c = CHR ''T'' then Some (CBool True, s)
      else if c = CHR ''F'' then Some (CBool False, s)
      else if c = CHR ''n'' then Some (CNull, s)
      else if c = CHR ''g'' then
        (case scan_nat s of (t, r) \<Rightarrow> map_option (apfst (CTag t)) (scan_cbor n r))
      else if c = CHR ''a'' then map_option (apfst CArray) (scan_cbors n s)
      else if c = CHR ''m'' then map_option (apfst (\<lambda>vs. CMap (pairs vs))) (scan_cbors n s)
      else None)"
| "scan_cbors 0 s = None"
| "scan_cbors (Suc n) s =
     (case s of
        [] \<Rightarrow> None
      | c # r \<Rightarrow>
          if c = CHR ''.'' then Some ([], r)
          else (case scan_cbor n s of
                  None \<Rightarrow> None
                | Some (v, r) \<Rightarrow> map_option (apfst ((#) v)) (scan_cbors n r)))"

text \<open>The items of a map in a row.\<close>

definition flat :: "(cbor \<times> cbor) list \<Rightarrow> cbor list" where
  "flat kvs = concat (map (\<lambda>(k, v). [k, v]) kvs)"

lemma pairs_flat [simp]: "pairs (flat kvs) = kvs"
  by (induction kvs) (auto simp: flat_def)

lemma write_map: "write_cbor (CMap kvs) = CHR ''m'' # concat (map write_cbor (flat kvs)) @ ''.''"
  by (induction kvs) (auto simp: flat_def)

lemma write_cbor_start: "\<exists>c r. write_cbor v = c # r \<and> c \<noteq> CHR ''.''"
  by (cases v) auto

lemma scan_written_list:
  assumes "\<And>v n r. v \<in> set vs \<Longrightarrow> length (write_cbor v) \<le> n \<Longrightarrow> scan_cbor n (write_cbor v @ r) = Some (v, r)"
    and "length (concat (map write_cbor vs)) < n"
  shows "scan_cbors n (concat (map write_cbor vs) @ CHR ''.'' # r) = Some (vs, r)"
  using assms
proof (induction vs arbitrary: n)
  case Nil
  then show ?case by (cases n) simp_all
next
  case (Cons v vs)
  obtain c t where c: "write_cbor v = c # t" "c \<noteq> CHR ''.''" using write_cbor_start by blast
  then obtain m where m: "n = Suc m" using Cons.prems(2) by (cases n) auto
  have "scan_cbor m (write_cbor v @ concat (map write_cbor vs) @ CHR ''.'' # r) =
      Some (v, concat (map write_cbor vs) @ CHR ''.'' # r)"
    by (rule Cons.prems(1)) (use Cons.prems(2) m in simp_all)
  moreover have "scan_cbors m (concat (map write_cbor vs) @ CHR ''.'' # r) = Some (vs, r)"
    by (rule Cons.IH) (use Cons.prems c m in auto)
  ultimately show ?case using c by (simp add: m)
qed

lemma scan_written: "length (write_cbor v) \<le> n \<Longrightarrow> scan_cbor n (write_cbor v @ r) = Some (v, r)"
proof (induction v arbitrary: n r)
  case (CTag t v)
  then obtain m where "n = Suc m" by (cases n) auto
  moreover have "0 < length (write_nat t)" by (simp add: write_nat_def)
  ultimately show ?case using CTag by (simp add: scan_write_nat)
next
  case (CArray vs)
  then obtain m where m: "n = Suc m" by (cases n) auto
  have "scan_cbors m (concat (map write_cbor vs) @ CHR ''.'' # r) = Some (vs, r)"
    by (rule scan_written_list) (use CArray m in auto)
  then show ?case by (simp add: m)
next
  case (CMap kvs)
  then obtain m where m: "n = Suc m" by (cases n) auto
  have "scan_cbors m (concat (map write_cbor (flat kvs)) @ CHR ''.'' # r) = Some (flat kvs, r)"
  proof (rule scan_written_list)
    show "length (concat (map write_cbor (flat kvs))) < m" using CMap.prems m by (simp only: write_map) simp
    show "\<And>v n r. v \<in> set (flat kvs) \<Longrightarrow> length (write_cbor v) \<le> n \<Longrightarrow> scan_cbor n (write_cbor v @ r) = Some (v, r)"
      using CMap.IH by (auto simp: flat_def fsts.simps snds.simps)
  qed
  then show ?case by (simp only: write_map m) simp
next
  case (CInt i)
  then show ?case by (cases n) (simp_all add: scan_write_int)
next
  case (CBytes b)
  then show ?case by (cases n) (simp_all add: scan_write_string)
next
  case (CFloat w)
  then show ?case by (cases n) (simp_all add: scan_write_nat)
next
  case (CText t)
  then show ?case by (cases n) (simp_all add: scan_write_string)
next
  case (CBool b)
  then show ?case by (cases n; cases b) simp_all
next
  case CNull
  then show ?case by (cases n) simp_all
qed

definition read_cbor :: "string \<Rightarrow> string + cbor" where
  "read_cbor b = (case scan_cbor (length b) b of Some (v, []) \<Rightarrow> Inr v | _ \<Rightarrow> Inl ''malformed'')"

lemma read_write_cbor: "read_cbor (write_cbor v) = Inr v"
  using scan_written [of v "length (write_cbor v)" "[]"] by (simp add: read_cbor_def)

section \<open>COSE_Sign1\<close>

fun alg_value :: "cose_alg \<Rightarrow> cbor" where
  "alg_value (AlgAssigned i) = CInt i"
| "alg_value (AlgPrivateUse i) = CInt i"
| "alg_value (AlgText s) = CText s"

fun value_alg :: "cbor \<Rightarrow> cose_alg option" where
  "value_alg (CInt i) = Some (if i < - 65536 then AlgPrivateUse i else AlgAssigned i)"
| "value_alg (CText s) = Some (AlgText s)"
| "value_alg _ = None"

fun label_cbor :: "cose_label \<Rightarrow> cbor" where
  "label_cbor (LabelInt i) = CInt i"
| "label_cbor (LabelText s) = CText s"

definition header_value :: "cose_header \<Rightarrow> (cbor \<times> cbor) list" where
  "header_value h = (case ch_alg h of Some a \<Rightarrow> [(CInt 1, alg_value a)] | None \<Rightarrow> []) @
     map (\<lambda>(i, v). (CInt i, v)) (ch_other h) @ map (\<lambda>(l, v). (label_cbor l, v)) (ch_rest h)"

fun add_parameter :: "cbor \<times> cbor \<Rightarrow> cose_header \<Rightarrow> cose_header" where
  "add_parameter (CInt i, v) h =
     (if i = 1 then h\<lparr>ch_alg := value_alg v\<rparr>
      else if 1 < i \<and> i < 8 then h\<lparr>ch_other := (i, v) # ch_other h\<rparr>
      else h\<lparr>ch_rest := (LabelInt i, v) # ch_rest h\<rparr>)"
| "add_parameter (CText s, v) h = h\<lparr>ch_rest := (LabelText s, v) # ch_rest h\<rparr>"
| "add_parameter _ h = h"

definition empty_header :: cose_header where
  "empty_header = \<lparr> ch_alg = None, ch_rest = [], ch_other = [] \<rparr>"

definition value_header :: "(cbor \<times> cbor) list \<Rightarrow> cose_header" where
  "value_header kvs = foldr add_parameter kvs empty_header"

lemma built_header_reads:
  assumes "built_header h"
  shows "value_header (header_value h) = h"
proof -
  have rest: "foldr add_parameter (map (\<lambda>(l, v). (label_cbor l, v)) vs) empty_header = empty_header\<lparr>ch_rest := vs\<rparr>"
    if "list_all (\<lambda>(l, v). (\<exists>n>7. l = LabelInt n \<and> in_i64 n) \<and> cbor_within 10 v) vs" for vs
    using that by (induction vs) (auto simp: empty_header_def)
  have a: "value_alg (alg_value (cose_algorithm a)) = Some (cose_algorithm a)" for a by (cases a) simp_all
  from assms have "list_all (\<lambda>(l, v). (\<exists>n>7. l = LabelInt n \<and> in_i64 n) \<and> cbor_within 10 v) (ch_rest h)"
    by (simp add: built_header_def)
  from rest [OF this] assms a show ?thesis
    by (cases h) (auto simp: built_header_def value_header_def header_value_def empty_header_def)
qed

definition protected_bytes :: "bytes option \<Rightarrow> cose_header \<Rightarrow> bytes" where
  "protected_bytes original h = (case original of Some d \<Rightarrow> d | None \<Rightarrow> write_cbor (CMap (header_value h)))"

definition sign1_value :: "cose_sign1 \<Rightarrow> cbor" where
  "sign1_value s = CArray [CBytes (protected_bytes (cs_original_data s) (cs_protected s)),
     CMap (header_value (cs_unprotected s)),
     (case cs_payload s of Some p \<Rightarrow> CBytes p | None \<Rightarrow> CNull), CBytes (cs_signature s)]"

definition value_sign1 :: "cbor \<Rightarrow> string + cose_sign1" where
  "value_sign1 v =
     (case v of
        CArray [CBytes d, CMap u, p, CBytes g] \<Rightarrow>
          (case read_cbor d of
             Inr (CMap h) \<Rightarrow> Inr \<lparr> cs_original_data = Some d, cs_protected = value_header h, cs_unprotected = value_header u,
               cs_payload = as_bytes p, cs_signature = g \<rparr>
           | _ \<Rightarrow> Inl ''malformed header'')
      | _ \<Rightarrow> Inl ''malformed COSE_Sign1'')"

definition signature_input :: "bytes option \<Rightarrow> cose_header \<Rightarrow> bytes \<Rightarrow> bytes" where
  "signature_input original h payload =
     write_cbor (CArray [CText ''Signature1'', CBytes (protected_bytes original h), CBytes [], CBytes payload])"

definition sample_cbor :: cbor_libs where
  "sample_cbor =
     \<lparr> cb_write = (\<lambda>v. Inr (write_cbor v)), cb_read = read_cbor, cose_value_of = (\<lambda>s. Inr (sign1_value s)),
       cose_of_value = value_sign1, cose_vec = (\<lambda>s. Inr (write_cbor (sign1_value s))),
       cose_tagged_vec = (\<lambda>s. Inr (write_cbor (CTag 18 (sign1_value s)))), cose_tbs = signature_input,
       debug_alg = (\<lambda>a. ''alg''), debug_str = (\<lambda>s. ''str''), debug_cbor_int = (\<lambda>i. ''int''), from_f64 = (\<lambda>w. None) \<rparr>"

lemma header_value_within: "built_header h \<Longrightarrow> list_all (\<lambda>(k, v). cbor_within 10 k \<and> cbor_within 10 v) (header_value h)"
proof -
  assume h: "built_header h"
  have a: "cbor_within n (alg_value (cose_algorithm a))" for n a by (cases a) simp_all
  from h a show ?thesis
    by (auto simp: built_header_def header_value_def in_i64_def list_all_iff)
qed

lemma sample_cbor_law: "cbor_law sample_cbor"
  by (simp add: cbor_law_def sample_cbor_def read_write_cbor)

lemma sample_cose_law: "cose_law sample_cbor"
proof -
  have "cbor_within 20 (sign1_value s) \<and> cose_codec sample_cbor s" if s: "built_sign1 s" for s
  proof -
    have h: "built_header (cs_protected s)" "built_header (cs_unprotected s)" "cs_original_data s = None"
      using s by (simp_all add: built_sign1_def)
    have "list_all (\<lambda>(k, v). cbor_within 18 k \<and> cbor_within 18 v) (header_value (cs_unprotected s))"
      using header_value_within [OF h(2)] by (auto simp: list_all_iff intro: cbor_within_mono)
    then have "cbor_within 20 (sign1_value s)" by (simp add: sign1_value_def split: option.split)
    moreover have "as_bytes (case cs_payload s of None \<Rightarrow> CNull | Some p \<Rightarrow> CBytes p) = cs_payload s"
      by (cases "cs_payload s") simp_all
    then have "cose_codec sample_cbor s"
      using h(3) built_header_reads [OF h(1)] built_header_reads [OF h(2)]
      by (simp add: cose_codec_def sample_cbor_def sign1_value_def value_sign1_def protected_bytes_def
          read_write_cbor signature_input_def del: write_cbor.simps)
        (intro exI [of _ "write_cbor (CMap (header_value (cs_protected s)))"], simp)
    ultimately show ?thesis ..
  qed
  then show ?thesis by (auto simp: cose_law_def sample_cbor_def read_write_cbor simp del: write_cbor.simps)
qed

end
