(* ===== verification/Mdoc_Samples.thy ===== *)
theory Mdoc_Samples
  imports Sample_Cbor
begin

text \<open>
  One mdoc, its issuer's certificate, and the properties of mdocs at it: it is issued, verified,
  presented with one of its two elements and verified again.
\<close>

section \<open>The issuer's certificate\<close>

definition sample_certificate :: certificate where
  "sample_certificate = \<lparr> ct_subject = ''issuer'', ct_issuer = ''root'', ct_subject_text = ''CN=issuer'',
     ct_subject_rdns = [[(''2.5.4.6'', Some ''DE'')]], ct_not_before = 0, ct_not_after = 4102444800,
     ct_key_algorithm = ''1.2.840.10045.2.1'', ct_key_curve = Some ''1.2.840.10045.3.1.7'',
     ct_public_key = replicate 64 (CHR ''k''), ct_extensions = [], ct_signature_algorithm = ''1.2.840.10045.4.3.2'',
     ct_signature = ''signature'', ct_tbs = Inr ''tbs'' \<rparr>"

definition sample_x509 :: x509_libs where
  "sample_x509 = \<lparr> x_parse = (\<lambda>b. if b = ''cert'' then Inr sample_certificate else Inl ''malformed''),
     x_basic_constraints = (\<lambda>b. None), x_sec1_key = (\<lambda>b. Inr b), x_der_signature = (\<lambda>b. Some b),
     b64_encode = hex_encode, b64_decode = hex_decode, x_show_time = write_int \<rparr>"

definition sample_time :: time_libs where
  "sample_time = \<lparr> t_rfc3339_secs = write_int, t_parse_rfc3339 = (\<lambda>s. Some (fst (scan_int s))), t_ymd = write_int \<rparr>"

lemma sample_time_law: "time_law sample_time"
  using scan_write_int [of _ "[]"] by (simp add: time_law_def sample_time_def)

definition sample_signer :: jwk where
  "sample_signer = \<lparr> kty = ''EC'', crv = Some ''P-256'', jwk_x = Some (hex_encode (replicate 32 (CHR ''k''))),
     jwk_y = Some (hex_encode (replicate 32 (CHR ''k''))), jwk_d = None, jwk_alg = None, jwk_kid = None, jwk_use = None \<rparr>"

lemma sample_chain:
  assumes "0 \<le> now" and "now \<le> 4102444800 * second"
  shows "validate_chain hex_libs sample_x509 [''cert''] [''cert''] now = Inr sample_signer"
  using assms
  by (simp add: validate_chain_def parse_certificate_def sample_x509_def check_cert_validity_def sample_certificate_def
      to_datetime_def from_timestamp_def wrap_i64_def anchored_by_def p256_jwk_def sample_signer_def hex_libs_def second_def)

lemma hex_es256: "es256_lawful hex_libs"
  by (simp add: es256_lawful_def hex_libs_laws)

lemma sample_signs: "key_pair_verifies hex_libs (ec_make hex_libs sk) sample_signer"
  by (rule key_pair_verifies_same [OF ec_verifies [OF hex_es256]])
    (simp_all add: sample_signer_def ec_make_def ec_key_pair_def ec_from_signing_key_def ec_build_public_jwk_def
      hex_libs_def Let_def)

section \<open>The mdoc\<close>

definition sample_request :: issue_request where
  "sample_request = \<lparr> iq_doc_type = MDL_DOCTYPE,
     iq_namespaces = [(MDL_NAMESPACE, [(''given_name'', CText ''Ann''), (''age_over_18'', CBool True)])],
     iq_device_key = kp_public_jwk (ec_make hex_libs ''wallet''), iq_signed = 0, iq_valid_from = 0,
     iq_valid_until = 86400 * second, iq_status = Some \<lparr> sr_idx = 7, sr_uri = ''https://issuer/status'' \<rparr>,
     iq_x5chain = [''cert''] \<rparr>"

lemma sample_wallet: "canonical_key hex_libs (iq_device_key sample_request)"
  "key_pair_verifies hex_libs (ec_make hex_libs ''wallet'') (iq_device_key sample_request)"
  using ec_verifies [OF hex_es256, of "''wallet''"]
  by (simp_all add: canonical_key_def canonical_coordinate_def sample_request_def ec_make_def ec_key_pair_def
      ec_from_signing_key_def ec_build_public_jwk_def hex_libs_def Let_def hex_round)

lemma sample_request_ok: "request_ok sample_request" "times_readable sample_request"
  by (simp_all add: request_ok_def times_readable_def sample_request_def rfc3339_instant_def second_def)

lemma sample_trusted: "issuer_trusted hex_libs sample_x509 sample_request (ec_make hex_libs ''sk'') [''cert''] 0"
  "valid_during sample_request 0"
  using sample_chain [of 0] sample_signs
  by (auto simp: issuer_trusted_def valid_during_def sample_request_def issue_times_def Let_def whole_seconds_def
      timestamp_def second_def split: if_splits)

abbreviation sample_transcript :: cbor where
  "sample_transcript \<equiv> CArray [CNull, CNull, CText ''session'']"

lemma sample_signature: "kp_sign (ec_make hex_libs sk) m = Inr (replicate 64 (CHR ''s''))"
  by (simp add: ec_make_def ec_key_pair_def hex_libs_def)

lemma sample_codec:
  "cb_write sample_cbor v = Inr (write_cbor v)" "cb_read sample_cbor b = read_cbor b"
  "cose_value_of sample_cbor g = Inr (sign1_value g)" "cose_of_value sample_cbor v = value_sign1 v"
  by (simp_all add: sample_cbor_def)

lemma sample_draws: "draw_loop {} 4294967296 (\<lambda>n. n) 0 = Some (0, 1)" "draw_loop {0} 4294967296 (\<lambda>n. n) (Suc 0) = Some (1, 2)"
  by (simp_all add: draw_loop.simps)

lemma sample_namespaces:
  "\<exists>items ds s'. mapP (issue_namespace hex_libs sample_cbor) (iq_namespaces sample_request) sample_env =
     (Inr [((CText MDL_NAMESPACE, CArray items), (CText MDL_NAMESPACE, CMap ds))], s')"
  by (simp add: sample_request_def issue_namespace_def bindP_def draw_digest_id_def sample_env_def sample_draws
      new_salt_run liftR_run ret_def embed_def mdoc_encode_def sample_codec del: write_cbor.simps)

lemma sample_device_key: "\<exists>dk. cose_key hex_libs sample_cbor (iq_device_key sample_request) = Inr dk"
  by (simp add: cose_key_def sample_request_def ec_make_def ec_key_pair_def ec_from_signing_key_def
      ec_build_public_jwk_def hex_libs_def Let_def key_coordinate_def hex_round)

text \<open>What the issuer wrote, and the holder's selection from it.\<close>

lemma sample_issued:
  "\<exists>bytes s' response. mdoc_issue hex_libs sample_cbor sample_time sample_request (ec_make hex_libs ''sk'') sample_env =
       (Inr bytes, s') \<and>
     mdoc_present sample_cbor bytes [(MDL_NAMESPACE, ''age_over_18'')] sample_transcript (ec_make hex_libs ''wallet'') =
       Inr response"
proof -
  obtain items ds s' where n: "mapP (issue_namespace hex_libs sample_cbor) (iq_namespaces sample_request) sample_env =
     (Inr [((CText MDL_NAMESPACE, CArray items), (CText MDL_NAMESPACE, CMap ds))], s')" using sample_namespaces by blast
  obtain dk where k: "cose_key hex_libs sample_cbor (iq_device_key sample_request) = Inr dk" using sample_device_key by blast
  have t: "issue_times sample_request = Inr (0, 0, 86400000000000)"
    by (simp add: issue_times_def sample_request_def Let_def whole_seconds_def timestamp_def second_def)
  let ?mso = "mso_value sample_time sample_request [(CText MDL_NAMESPACE, CMap ds)] dk (0, 0, 86400000000000)"
  let ?payload = "write_cbor (CTag 24 (CBytes (write_cbor ?mso)))"
  obtain auth where auth: "cose_sign sample_cbor (ec_make hex_libs ''sk'') ?payload [] [(HEADER_X5CHAIN, x5chain_value [''cert''])] = Inr auth"
    by (simp add: cose_sign_def sample_signature Let_def)
  let ?bytes = "write_cbor (CMap [(CText ''nameSpaces'', CMap [(CText MDL_NAMESPACE, CArray items)]), (CText ''issuerAuth'', sign1_value auth)])"
  have c: "iq_x5chain sample_request = [''cert'']" by (simp add: sample_request_def)
  have issue: "mdoc_issue hex_libs sample_cbor sample_time sample_request (ec_make hex_libs ''sk'') sample_env = (Inr ?bytes, s')"
    using auth
    by (simp add: mdoc_issue_def bindP_def liftR_run t n k embed_def mdoc_encode_def sample_codec cose_to_value_def
        TAG_ENCODED_CBOR_def c del: write_cbor.simps)
  have built: "built_sign1 auth"
    by (rule sign_built [OF auth]) (simp_all add: HEADER_X5CHAIN_def in_i64_def x5chain_value_within)
  then have "cose_codec sample_cbor auth" using sample_cose_law unfolding cose_law_def sample_codec(3) by blast
  then obtain d where r: "cose_from_value sample_cbor (sign1_value auth) = Inr (reread auth d)"
    by (rule cose_value_round) (auto simp: cose_to_value_def sample_codec)
  have p: "cs_payload (reread auth d) = Some ?payload" using sign_parts(1) [OF auth] by (simp add: reread_def)
  have "cbor_get ?mso ''docType'' = Some (CText MDL_DOCTYPE)"
    by (simp add: mso_value_def sample_request_def cbor_get_def)
  then have "\<exists>response. mdoc_present sample_cbor ?bytes [(MDL_NAMESPACE, ''age_over_18'')] sample_transcript (ec_make hex_libs ''wallet'') =
       Inr response"
    by (simp add: mdoc_present_def mdoc_decode_def sample_codec read_write_cbor cbor_require_def cbor_get_def r p
        unembed_def TAG_ENCODED_CBOR_def require_text_def embed_def mdoc_encode_def device_authentication_bytes_def
        cose_sign_detached_def sample_signature Let_def cose_to_value_def del: write_cbor.simps)
  with issue show ?thesis by blast
qed

text \<open>The sample codec writes every value, so issuing fails only where the draws do.\<close>

lemma sample_items_errors: "issue_items L sample_cbor ids es s = (Inl e, s') \<Longrightarrow> e = MdocNeverReturns"
proof (induction es arbitrary: ids s)
  case (Cons x es)
  obtain i v where x: "x = (i, v)" by fastforce
  from Cons show ?case
    by (auto simp: x bindP_def draw_digest_id_def new_salt_run liftR_run ret_def embed_def mdoc_encode_def sample_codec
        split: prod.splits sum.splits option.splits)
qed (simp add: ret_def)

lemma sample_issues:
  assumes "issue_times q = Inr ts" and "cose_key hex_libs sample_cbor (iq_device_key q) = Inr dk" and "fair_draws (draw_at s)"
    and "iq_namespaces q = [(ns, es)]" and "length es \<le> 4294967296"
  shows "\<exists>bytes s'. mdoc_issue hex_libs sample_cbor T q (ec_make hex_libs sk) s = (Inr bytes, s')"
proof -
  have "returns (issue_items hex_libs sample_cbor {} es) s"
    using issue_items_returns [OF assms(3), of "{}" es] assms(5) by simp
  then obtain r s' where "issue_items hex_libs sample_cbor {} es s = (Inr r, s')"
    using sample_items_errors [of hex_libs "{}" es s]
    by (cases "issue_items hex_libs sample_cbor {} es s"; cases "fst (issue_items hex_libs sample_cbor {} es s)")
      (auto simp: returns_def)
  then show ?thesis
    using assms(1,2,4)
    by (simp add: mdoc_issue_def issue_namespace_def bindP_def liftR_run ret_def embed_def mdoc_encode_def sample_codec
        cose_sign_def sample_signature Let_def cose_to_value_def split: prod.split del: write_cbor.simps)
qed

lemma sample_fair: "fair_draws (\<lambda>n. n)"
proof -
  have "\<exists>m\<ge>n. m mod 4294967296 = i" if "i < 4294967296" for n i :: nat
    using that by (intro exI [of _ "i + 4294967296 * n"]) simp
  then show ?thesis by (auto simp: fair_draws_def)
qed

section \<open>The properties at the sample\<close>

lemma mdoc_issue_verify_witness:
  "\<exists>bytes s' v. mdoc_issue hex_libs sample_cbor sample_time sample_request (ec_make hex_libs ''sk'') sample_env =
       (Inr bytes, s') \<and>
     verify_issuer_signed hex_libs sample_cbor sample_x509 sample_time bytes [''cert''] 0 = Inr v \<and>
     vm_claim v MDL_NAMESPACE ''given_name'' = Some (JStr ''Ann'')"
proof -
  obtain bytes s' where run: "mdoc_issue hex_libs sample_cbor sample_time sample_request (ec_make hex_libs ''sk'') sample_env =
       (Inr bytes, s')" using sample_issued by blast
  from mdoc_issue_verify [OF sample_cbor_law sample_cose_law sample_time_law sample_request_ok sample_wallet(1) run sample_trusted]
  obtain v where "verify_issuer_signed hex_libs sample_cbor sample_x509 sample_time bytes [''cert''] 0 = Inr v"
    "vm_claim v = issued_element hex_libs sample_cbor sample_request" by blast
  with run show ?thesis by (auto simp: issued_element_def sample_request_def)
qed

lemma mdoc_present_verify_witness:
  "\<exists>response v. verify_device_response hex_libs sample_cbor sample_x509 sample_time response sample_transcript [''cert''] 0 = Inr [v] \<and>
     vm_claim v MDL_NAMESPACE ''age_over_18'' = Some (JBool True) \<and> vm_claim v MDL_NAMESPACE ''given_name'' = None"
proof -
  obtain bytes s' response where run: "mdoc_issue hex_libs sample_cbor sample_time sample_request (ec_make hex_libs ''sk'') sample_env =
       (Inr bytes, s')"
    and p: "mdoc_present sample_cbor bytes [(MDL_NAMESPACE, ''age_over_18'')] sample_transcript (ec_make hex_libs ''wallet'') =
       Inr response" using sample_issued by blast
  from mdoc_present_verify [OF sample_cbor_law sample_cose_law sample_time_law sample_request_ok sample_wallet(1) run p
      sample_wallet(2) sample_trusted]
  obtain v where "verify_device_response hex_libs sample_cbor sample_x509 sample_time response sample_transcript [''cert''] 0 = Inr [v]"
    "vm_claim v = (\<lambda>ns e. if (ns, e) \<in> set [(MDL_NAMESPACE, ''age_over_18'')]
       then issued_element hex_libs sample_cbor sample_request ns e else None)" by blast
  then show ?thesis
    by (intro exI [of _ response] exI [of _ v]) (simp add: issued_element_def sample_request_def)
qed

lemma mdoc_presentation_sound_witness:
  "\<exists>response vs v iss. v \<in> set vs \<and>
     verify_device_response hex_libs sample_cbor sample_x509 sample_time response sample_transcript [''cert''] 0 = Inr vs \<and>
     issuer_vouches hex_libs sample_cbor sample_x509 sample_time iss [''cert''] 0 v"
proof -
  obtain bytes s' response where run: "mdoc_issue hex_libs sample_cbor sample_time sample_request (ec_make hex_libs ''sk'') sample_env =
       (Inr bytes, s')"
    and p: "mdoc_present sample_cbor bytes [(MDL_NAMESPACE, ''age_over_18'')] sample_transcript (ec_make hex_libs ''wallet'') =
       Inr response" using sample_issued by blast
  from presentation_verifies [OF sample_cbor_law sample_cose_law sample_time_law sample_request_ok sample_wallet(1) run p
      sample_wallet(2) sample_trusted]
  obtain v where v: "verify_device_response hex_libs sample_cbor sample_x509 sample_time response sample_transcript [''cert''] 0 = Inr [v]"
    by blast
  have "v \<in> set [v]" by simp
  from mdoc_presentation_sound [OF v this] v this show ?thesis by blast
qed

lemma transcript_binds_request_witness:
  "\<exists>t b. oid4vp_session_transcript hex_libs sample_cbor ''client'' ''nonce'' (Some ''thumb'') ''https://verifier'' = Inr t \<and>
     device_authentication_bytes sample_cbor t MDL_DOCTYPE CNull = Inr b \<and> ''client'' = ''client'' \<and> ''nonce'' = ''nonce'' \<and>
     Some ''thumb'' = Some ''thumb'' \<and> ''https://verifier'' = ''https://verifier'' \<and> MDL_DOCTYPE = MDL_DOCTYPE"
proof -
  obtain t b where t: "oid4vp_session_transcript hex_libs sample_cbor ''client'' ''nonce'' (Some ''thumb'') ''https://verifier'' = Inr t"
    and b: "device_authentication_bytes sample_cbor t MDL_DOCTYPE CNull = Inr b"
    by (simp add: oid4vp_session_transcript_def device_authentication_bytes_def embed_def mdoc_encode_def sample_codec)
  have "''client'' = ''client'' \<and> ''nonce'' = ''nonce'' \<and> Some ''thumb'' = Some ''thumb'' \<and>
      ''https://verifier'' = ''https://verifier'' \<and> MDL_DOCTYPE = MDL_DOCTYPE"
    by (rule transcript_binds_request [OF sample_cbor_law t t b b]) (simp_all add: hex_libs_def)
  with t b show ?thesis by blast
qed

lemma mdoc_issue_returns_witness:
  "fair_draws (draw_at sample_env) \<and>
     fst (mdoc_issue hex_libs sample_cbor sample_time sample_request (ec_make hex_libs ''sk'') sample_env) \<noteq> Inl MdocNeverReturns"
proof -
  have f: "fair_draws (draw_at sample_env)" using sample_fair by (simp add: sample_env_def)
  from mdoc_issue_returns [OF f, of sample_request] f show ?thesis by (simp add: sample_request_def)
qed

definition sample_list :: status_list_cwt where
  "sample_list = \<lparr> sl_uri = ''https://issuer/status'', sl_cwt_bits = 1, sl_lst = ''bits'', sl_iat = 0,
     sl_exp = 86400 * second, sl_ttl = Some 43200, sl_x5chain = [''cert''] \<rparr>"

lemma status_list_cwt_round_trip_witness:
  "\<exists>token. sign_status_list_cwt sample_cbor sample_list (ec_make hex_libs ''sk'') = Inr token \<and>
     verify_status_list_cwt hex_libs sample_cbor sample_x509 token [''cert''] 0 =
     Inr \<lparr> vl_uri = ''https://issuer/status'', vl_bits = 1, vl_lst = ''bits'', vl_exp = 86400 * second \<rparr>"
proof -
  have ok: "cwt_ok sample_list" by (simp add: cwt_ok_def sample_list_def rfc3339_instant_def second_def)
  obtain token where run: "sign_status_list_cwt sample_cbor sample_list (ec_make hex_libs ''sk'') = Inr token"
    by (simp add: sign_status_list_cwt_def mdoc_encode_def sample_codec cose_sign_def sample_signature Let_def
        cose_to_tagged_vec_def sample_cbor_def)
  have chain: "validate_chain hex_libs sample_x509 (sl_x5chain sample_list) [''cert''] 0 = Inr sample_signer"
    using sample_chain [of 0] by (simp add: sample_list_def second_def)
  have "0 \<le> whole_seconds (sl_exp sample_list)"
    by (simp add: sample_list_def whole_seconds_def timestamp_def second_def)
  from status_list_cwt_round_trip [OF sample_cbor_law sample_cose_law ok run chain sample_signs this] run
  show ?thesis by (simp add: sample_list_def whole_seconds_def timestamp_def second_def)
qed

definition sample_pki :: issuer_pki where
  "sample_pki = \<lparr> pki_trust_anchor = ''cert'', pki_leaf = \<lparr> xc_der = ''cert'' \<rparr>, pki_mdoc_signer = \<lparr> xc_der = ''cert'' \<rparr>,
     pki_mdoc_status_signer = \<lparr> xc_der = ''cert'' \<rparr>, pki_crl = ''crl'' \<rparr>"

lemma hex_digit_standard: "hex_digit c = Some i \<Longrightarrow> b64_char c"
  by (auto simp: hex_digit_def b64_char_def Let_def split: if_splits)

lemma hex_decode_standard: "hex_decode s = Inr b \<Longrightarrow> list_all b64_char s"
  by (induction s arbitrary: b rule: hex_decode.induct)
    (auto simp: result_inv hex_digit_standard split: option.splits)

lemma sample_b64_law: "b64_law sample_x509"
  using hex_round hex_decode_standard [OF hex_round] by (simp add: b64_law_def sample_x509_def)

end
