(* ===== verification/Credential_Samples.thy ===== *)
theory Credential_Samples
  imports Mdl_Credential Mdoc_Samples
begin

text \<open>
  Concrete issuances at the credential endpoint: an SD-JWT VC, an mDL and a whole request, with the
  properties of the endpoint at them.
\<close>

section \<open>The calendar\<close>

text \<open>Years of 365 days from 1970: enough for the dates of the samples.\<close>

definition sample_mdoc_libs :: mdoc_libs where
  "sample_mdoc_libs = \<lparr> ml_cbor = sample_cbor, ml_x509 = sample_x509, ml_time = sample_time,
     ml_parse_date = (\<lambda>s. if s = ''1990-01-01'' then Some 7305 else None),
     ml_add_months = (\<lambda>d n. Some (d + int (n * 365 div 12))),
     ml_years_since = (\<lambda>d b. if b \<le> d then Some (nat ((d - b) div 365)) else None), ml_portrait = ''jpeg'' \<rparr>"

section \<open>A concrete issuance\<close>

definition demo_issuer_config :: metadata_config where
  "demo_issuer_config = \<lparr> mf_issuer_url = ''https://issuer/'', mf_issuer_name = ''Issuer'' \<rparr>"

definition demo_holder :: jwk where
  "demo_holder = kp_public_jwk (ec_make hex_libs ''wallet'')"

definition demo_disclosure :: "nat \<Rightarrow> string \<times> json \<Rightarrow> disclosure" where
  "demo_disclosure i = (\<lambda>(name, v).
     let encoded = hex_encode (replicate i (CHR ''v''))
     in \<lparr> d_salt = hex_encode ''salt'', d_claim_name = name, d_claim_value = v,
          d_encoded = encoded, d_hash = hex_encode encoded \<rparr>)"

definition demo_disclosures :: "disclosure list" where
  "demo_disclosures = [demo_disclosure 1 (''given_name'', JStr ''John''),
     demo_disclosure 2 (''family_name'', JStr ''Doe''), demo_disclosure 3 (''birth_date'', JStr DEMO_BIRTH_DATE)]"

definition demo_vct :: string where
  "demo_vct = ''https://issuer/credentials/identity''"

definition demo_payload :: json where
  "demo_payload = issued_payload ''https://issuer'' demo_vct [] (Some (JObj [(''jwk'', JNull)])) None
     (map d_hash demo_disclosures) 0"

definition demo_proof :: json where
  "demo_proof = JObj [(''aud'', JStr ''https://issuer''), (''iat'', JInt 0), (''nonce'', JStr ''n'')]"

definition demo_proof_header :: jws_header where
  "demo_proof_header = \<lparr> h_alg = ''ES256'', h_typ = Some ''openid4vci-proof+jwt'', h_kid = None,
     h_jwk = Some demo_holder, h_x5c = None \<rparr>"

definition demo_issuer_header :: jws_header where
  "demo_issuer_header = build_header (ec_make hex_libs ''sk'') (Some ''dc+sd-jwt'')"

definition demo_libs :: libs where
  "demo_libs = table_libs [demo_proof_header, demo_issuer_header]
     (map disclosure_array demo_disclosures @ [demo_payload, demo_proof]) demo_holder"

definition demo_mdoc_signer :: "issuer_state mdoc_signer" where
  "demo_mdoc_signer = \<lparr> ms_certificate = \<lparr> xc_der = ''cert'' \<rparr>,
     ms_allocate_status = ret (Some \<lparr> sr_idx = 7, sr_uri = ''https://issuer/status'' \<rparr>) \<rparr>"

definition demo_metadata :: credential_issuer_metadata where
  "demo_metadata = the (build_metadata hex_libs demo_issuer_config)"

definition demo_context :: "issuer_state issuance_context" where
  "demo_context = \<lparr> ict_issuer_key = ec_make hex_libs ''sk'', ict_issuer_url = ''https://issuer'',
     ict_metadata = demo_metadata, ict_allocate_status = ret None,
     ict_x5c = None, ict_mdoc = Some demo_mdoc_signer, ict_mdoc_libs = sample_mdoc_libs, ict_nonce_order = (\<lambda>ns. ns), ict_claim_order = (\<lambda>kvs. kvs) \<rparr>"

lemma demo_config: "cc_vct (identity_configuration demo_issuer_config) = Some demo_vct"
  by (simp add: identity_configuration_def issuer_id_def demo_issuer_config_def trim_end_matches_def
      IDENTITY_VCT_PATH_def demo_vct_def)

lemma demo_arrays:
  "disclosure_array (demo_disclosure i (name, v)) = JArr [JStr (hex_encode ''salt''), JStr name, v]"
  by (simp add: disclosure_array_def demo_disclosure_def Let_def)

lemma demo_objects: "\<exists>kvs. demo_payload = JObj kvs" "demo_proof = JObj [(''aud'', JStr ''https://issuer''), (''iat'', JInt 0), (''nonce'', JStr ''n'')]"
  by (simp_all add: demo_payload_def demo_proof_def issued_payload_def sd_jwt_vc_claims_to_json_def)

lemma demo_disclosed:
  "disclosure_with_salt demo_libs ''salt'' ''given_name'' (JStr ''John'') = demo_disclosures ! 0"
  "disclosure_with_salt demo_libs ''salt'' ''family_name'' (JStr ''Doe'') = demo_disclosures ! 1"
  "disclosure_with_salt demo_libs ''salt'' ''birth_date'' (JStr DEMO_BIRTH_DATE) = demo_disclosures ! 2"
proof -
  have p: "json_print demo_libs v = replicate (Suc (place_in (map disclosure_array demo_disclosures @ [demo_payload, demo_proof]) v)) (CHR ''v'')"
    and e: "b64url_encode demo_libs = hex_encode" "sha256 demo_libs = (\<lambda>b. b)" for v
    by (simp_all add: demo_libs_def table_libs_def hex_libs_def)
  show "disclosure_with_salt demo_libs ''salt'' ''given_name'' (JStr ''John'') = demo_disclosures ! 0"
    "disclosure_with_salt demo_libs ''salt'' ''family_name'' (JStr ''Doe'') = demo_disclosures ! 1"
    "disclosure_with_salt demo_libs ''salt'' ''birth_date'' (JStr DEMO_BIRTH_DATE) = demo_disclosures ! 2"
    by (simp_all add: disclosure_with_salt_def p e digest_of_def demo_disclosures_def disclosure_array_def
        place_in_def Let_def demo_disclosure_def eval_nat_numeral)
qed


lemma demo_libs_laws:
  "b64url_law demo_libs" "p256_law demo_libs" "ed25519_law demo_libs" "ec_make demo_libs sk = ec_make hex_libs sk"
  "header_codec demo_libs demo_proof_header" "header_codec demo_libs demo_issuer_header"
  "json_codec demo_libs demo_payload" "json_codec demo_libs demo_proof"
  "list_all (\<lambda>d. json_codec demo_libs (disclosure_array d)) demo_disclosures"
  "json_of_jwk demo_libs k = JNull" "jwk_of_json demo_libs v = Some demo_holder"
  by (simp_all add: demo_libs_def table_libs_laws table_key list_all_iff)
    (simp_all add: table_libs_def hex_libs_def)

lemma demo_issued:
  assumes "clock_at s = (\<lambda>n. 0)" and "salt_at s = (\<lambda>n. ''salt'')"
  shows "\<exists>compact s'. issue_sd_jwt_vc_with_x5c demo_libs (ec_make hex_libs ''sk'') ''https://issuer'' demo_vct [] demo_claims
     (Some (JObj [(''jwk'', JNull)])) None None (s :: issuer_state) = (Inr (compact, demo_disclosures), s')"
  using demo_disclosed assms
  by (simp add: issue_sd_jwt_vc_with_x5c_def bindP_def disclosure_new_def new_salt_run ret_def
      utc_now_run liftR_def sign_compact_def Let_def hex_key_signs demo_claims_def demo_disclosures_def)


theorem issued_credential_bound_witness:
  "\<exists>L compact v s' t'. issue_sd_jwt_credential L (identity_configuration demo_issuer_config) demo_context demo_holder
       sample_store = (Inr (JStr compact), s') \<and>
     verify_sd_jwt_vc L compact (ec_make hex_libs ''sk'') sample_env = (Inr v, t') \<and>
     vs_holder_jwk L v = Some demo_holder \<and> map_of (vs_claims v) ''family_name'' = Some (JStr ''Doe'')"
proof -
  have salt: "salt_at sample_store = (\<lambda>n. ''salt'')"
    by (simp add: sample_store_def issuer_state_new_def env.defs issuer_state.defs sample_env_def)
  obtain compact s' where run: "issue_sd_jwt_vc_with_x5c demo_libs (ec_make hex_libs ''sk'') ''https://issuer'' demo_vct []
      demo_claims (Some (JObj [(''jwk'', JNull)])) None None sample_store = (Inr (compact, demo_disclosures), s')"
    using demo_issued [of sample_store] salt by auto
  have i: "issue_sd_jwt_credential demo_libs (identity_configuration demo_issuer_config) demo_context demo_holder
      sample_store = (Inr (JStr compact), s')"
    using run by (simp add: issue_sd_jwt_credential_def demo_config demo_context_def demo_libs_laws
        bindP_def liftR_def errP_def ret_def)
  have key: "ict_issuer_key demo_context = ec_make demo_libs ''sk''" by (simp add: demo_context_def demo_libs_laws)
  have holder: "jwk_of_json demo_libs (json_norm (json_of_jwk demo_libs demo_holder)) = Some demo_holder"
    by (simp add: demo_libs_laws)
  have order: "mset (ict_claim_order demo_context demo_claims) = mset demo_claims" by (simp add: demo_context_def)
  from issued_credential_bound [OF demo_libs_laws(1-3) disjI1 [OF key] i holder order, of sample_env]
  obtain vct ds status s1 where vct: "cc_vct (identity_configuration demo_issuer_config) = Some vct"
    and st: "ict_allocate_status demo_context sample_store = (Inr status, s1)"
    and r: "issue_sd_jwt_vc_with_x5c demo_libs (ict_issuer_key demo_context) (ict_issuer_url demo_context) vct []
        (ict_claim_order demo_context demo_claims) (Some (JObj [(''jwk'', json_of_jwk demo_libs demo_holder)])) status (ict_x5c demo_context) s1 =
        (Inr (compact, ds), s')"
    and v: "issue_codecs demo_libs ((build_header (ict_issuer_key demo_context) (Some ''dc+sd-jwt''))\<lparr>h_x5c := ict_x5c demo_context\<rparr>)
        (issued_payload (ict_issuer_url demo_context) vct [] (Some (JObj [(''jwk'', json_of_jwk demo_libs demo_holder)])) status
           (map d_hash ds) (timestamp (clock_at s1 (clock_reads s1)))) ds \<and> distinct (map d_hash ds) \<and>
      timestamp (clock_at s1 (clock_reads s1)) - timestamp (clock_at s1 (clock_reads s1)) mod day_secs
        \<le> timestamp (clock_at sample_env (clock_reads sample_env)) \<and>
      timestamp (clock_at sample_env (clock_reads sample_env)) <
        timestamp (clock_at s1 (clock_reads s1)) - timestamp (clock_at s1 (clock_reads s1)) mod day_secs + day_secs * 365 \<longrightarrow>
      (\<exists>v t'. verify_sd_jwt_vc demo_libs compact (ict_issuer_key demo_context) sample_env = (Inr v, t') \<and>
         vs_vct v = Some vct \<and> vs_holder_jwk demo_libs v = Some demo_holder \<and>
         json_get ''status'' (vs_payload v) = map_option json_norm status \<and>
         map_of (vs_claims v) = map_of demo_claims)"
    by auto
  have c: "vct = demo_vct" "status = None" "s1 = sample_store" "ict_issuer_key demo_context = ec_make hex_libs ''sk''"
    "ict_issuer_url demo_context = ''https://issuer''" "ict_x5c demo_context = None"
    "ict_claim_order demo_context demo_claims = demo_claims"
    "timestamp (clock_at sample_store n) = 0" "timestamp (clock_at sample_env n) = 0" for n
    using vct st by (simp_all add: demo_config demo_context_def ret_def timestamp_def)
  have ds: "ds = demo_disclosures" using r run c by (simp add: demo_libs_laws)
  have "(build_header (ec_make hex_libs ''sk'') (Some ''dc+sd-jwt''))\<lparr>h_x5c := None\<rparr> = demo_issuer_header"
    by (simp add: demo_issuer_header_def build_header_def)
  moreover have "distinct (map d_hash demo_disclosures)"
    by (simp add: demo_disclosures_def demo_disclosure_def Let_def hex_encode_inj eval_nat_numeral)
  ultimately obtain v t' where "verify_sd_jwt_vc demo_libs compact (ec_make hex_libs ''sk'') sample_env = (Inr v, t')"
    and "vs_holder_jwk demo_libs v = Some demo_holder" and "map_of (vs_claims v) = map_of demo_claims"
    using v unfolding c ds demo_libs_laws(10) demo_payload_def [symmetric]
    by (auto simp: issue_codecs_def demo_libs_laws day_secs_def)
  then show ?thesis using i by (intro exI [of _ demo_libs] exI [of _ compact] exI [of _ v] exI [of _ s'] exI [of _ t'])
      (simp add: demo_claims_def)
qed


text \<open>A request with one proof.\<close>

definition demo_request :: "string \<Rightarrow> credential_request" where
  "demo_request jwt = \<lparr> cq_identifier = None, cq_configuration_id = Some ''IdentityCredential_SD_JWT_VC'',
     cq_proofs = Some \<lparr> pf_jwt = Some [jwt], pf_other = [] \<rparr>, cq_proof = None, cq_response_encryption = None \<rparr>"

definition demo_store :: issuer_state where
  "demo_store = sample_store
     \<lparr> is_access_tokens := Unlocked [''t'' \<mapsto> \<lparr> te_grant = \<lparr> gt_configuration_ids = [''IdentityCredential_SD_JWT_VC''],
           gt_identifiers = Map.empty, gt_dpop_jkt = None \<rparr>, te_expires_at = 1000 \<rparr>],
       is_c_nonces := Unlocked [''n'' \<mapsto> \<lparr> ne_created_at = 0, ne_expires_in = 60 \<rparr>] \<rparr>"

lemma demo_proved:
  assumes "clock_at s = (\<lambda>n. 0)"
  shows "\<exists>jwt. verify_proof_jwt demo_libs jwt ''https://issuer'' (identity_configuration demo_issuer_config)
     (s :: issuer_state) = (Inr (demo_holder, ''n''), s\<lparr>clock_reads := Suc (clock_reads s)\<rparr>)"
proof -
  have h: "h_alg demo_proof_header = ''ES256''" by (simp add: demo_proof_header_def)
  obtain jwt d where d: "verify_with_public_jwk demo_libs jwt demo_holder = Inr d"
    "dj_header d = demo_proof_header" "dj_payload d = json_print demo_libs demo_proof"
    using table_signed [OF _ h, of "[demo_proof_header, demo_issuer_header]"
      "map disclosure_array demo_disclosures @ [demo_payload, demo_proof]" demo_holder "''wallet''" demo_proof]
    unfolding demo_libs_def [symmetric] demo_holder_def [symmetric] by auto
  have p: "json_parse demo_libs (json_print demo_libs demo_proof) = Inr demo_proof"
    using demo_libs_laws(8) by (simp add: json_codec_def demo_proof_def put_members_def)
  have adv: "alg_advertised (identity_configuration demo_issuer_config) ''ES256''"
    by (simp add: alg_advertised_def identity_configuration_def)
  have alg: "algorithm_for_jwk demo_holder = Inr ES256"
    using es256.jwk_algorithm [of hex_libs "''wallet''"] by (simp add: demo_holder_def ec_make_def ec_key_pair_def)
  have "check_proof demo_libs jwt ''https://issuer'' (identity_configuration demo_issuer_config) =
      Inr (demo_holder, demo_proof, 0)"
    using d p adv alg
    by (simp add: verify_with_public_jwk_Inr check_proof_def)
      (simp add: demo_proof_header_def demo_proof_def str_claim_def int_claim_def in_i64_def)
  then show ?thesis using assms
    by (intro exI [of _ jwt]) (simp add: verify_proof_jwt_def bindP_def liftR_def ret_def utc_now_run
      timestamp_def proof_age_ok_def abs_i64_def wrap_i64_id in_i64_def PROOF_MAX_AGE_SECS_def demo_proof_def str_claim_def)
qed

theorem credential_request_sound_witness:
  "\<exists>jwt response s' s2. process_credential_request demo_libs (demo_request jwt) ''t'' demo_context demo_store =
     (Inr response, s') \<and> proves_possession demo_libs (\<lambda>n. 0) ''https://issuer''
        (identity_configuration demo_issuer_config) jwt (demo_holder, ''n'') \<and>
     \<not> nonce_live (s2 :: issuer_state) ''n''"
proof -
  let ?c = "identity_configuration demo_issuer_config"
  obtain s0 where g: "get_access_grant ''t'' demo_store = (Inr (Some \<lparr> gt_configuration_ids = [''IdentityCredential_SD_JWT_VC''],
           gt_identifiers = Map.empty, gt_dpop_jkt = None \<rparr>), s0)" and c0: "clock_at s0 = (\<lambda>n. 0)"
    and n0: "is_c_nonces s0 = is_c_nonces demo_store" and salt0: "salt_at s0 = (\<lambda>n. ''salt'')"
    by (simp add: demo_store_def state_unfold)
      (simp add: sample_store_def issuer_state_new_def env.defs issuer_state.defs sample_env_def)
  obtain jwt where v: "verify_proof_jwt demo_libs jwt ''https://issuer'' ?c s0 =
      (Inr (demo_holder, ''n''), s0\<lparr>clock_reads := Suc (clock_reads s0)\<rparr>)"
    using demo_proved [OF c0] by blast
  have cfg: "map_of (im_configurations demo_metadata) ''IdentityCredential_SD_JWT_VC'' = Some ?c"
    by (simp add: demo_metadata_def build_metadata_def)
  obtain s2 where n: "consume_c_nonce ''n'' (s0\<lparr>clock_reads := Suc (clock_reads s0)\<rparr>) = (Inr True, s2)"
    and c2: "clock_at s2 = (\<lambda>n. 0)" "salt_at s2 = (\<lambda>n. ''salt'')"
    using c0 n0 salt0
    by (simp add: demo_store_def state_unfold as_u64_def num_seconds_def trunc_div_def)
  obtain compact s3 where i: "issue_sd_jwt_vc_with_x5c demo_libs (ec_make hex_libs ''sk'') ''https://issuer'' demo_vct []
      demo_claims (Some (JObj [(''jwk'', JNull)])) None None s2 = (Inr (compact, demo_disclosures), s3)"
    using demo_issued [OF c2] by blast
  have issued: "issue_credential demo_libs ''IdentityCredential_SD_JWT_VC'' ?c demo_context demo_holder s2 =
      (Inr \<lparr> ic_credential = JStr compact \<rparr>, s3)"
    using i by (simp add: issue_credential_def issue_sd_jwt_credential_def demo_config demo_context_def demo_libs_laws
        bindP_def liftR_def errP_def ret_def) (simp add: identity_configuration_def)
  obtain response where r: "process_credential_request demo_libs (demo_request jwt) ''t'' demo_context demo_store =
      (Inr response, s3)"
    using g v n issued cfg
    by (simp add: process_credential_request_def resolve_configuration_def requested_proofs_def demo_request_def
        bindP_def errP_def liftR_def ret_def demo_context_def demo_metadata_def build_metadata_def BATCH_SIZE_def contains_key_def)
  have "\<forall>ns. set (ict_nonce_order demo_context ns) = set ns" by (simp add: demo_context_def)
  from credential_request_sound [OF r this]
  obtain grant i config jwts verified s1' s2' s3' where
    e: "get_access_grant ''t'' demo_store = (Inr (Some grant), s1')" "i \<in> set (gt_configuration_ids grant)"
      "map_of (im_configurations (ict_metadata demo_context)) i = Some config"
      "requested_proofs (demo_request jwt) (ict_metadata demo_context) = Inr jwts"
      "mapP (\<lambda>jwt. verify_proof_jwt demo_libs jwt (ict_issuer_url demo_context) config) jwts s1' = (Inr verified, s2')"
    and p: "list_all2 (proves_possession demo_libs (clock_at s1') (ict_issuer_url demo_context) config) jwts verified"
    and l: "\<forall>nonce\<in>snd ` set verified. nonce_live s1' nonce \<and> \<not> nonce_live (s3' :: issuer_state) nonce"
    by (elim exE conjE) (rule that, assumption+)
  have c: "config = ?c" "jwts = [jwt]" "s1' = s0" "ict_issuer_url demo_context = ''https://issuer''"
    using e g cfg by (auto simp: demo_context_def demo_request_def requested_proofs_def demo_metadata_def build_metadata_def BATCH_SIZE_def)
  have "verified = [(demo_holder, ''n'')]" using e(5) v unfolding c by (simp add: bindP_def ret_def)
  with p l have "proves_possession demo_libs (\<lambda>n. 0) ''https://issuer'' ?c jwt (demo_holder, ''n'')"
    "\<not> nonce_live s3' ''n''" unfolding c by (simp_all add: c0)
  with r show ?thesis by blast
qed

section \<open>A concrete mDL\<close>

lemma demo_certificate:
  "certificate_subject_country sample_x509 \<lparr> xc_der = ''cert'' \<rparr> = Some ''DE''"
  "certificate_not_after sample_x509 \<lparr> xc_der = ''cert'' \<rparr> = Some (4102444800 * second)"
  by (simp_all add: certificate_subject_country_def certificate_not_after_def parse_certificate_def sample_x509_def
      sample_certificate_def COUNTRY_NAME_def to_datetime_def from_timestamp_def wrap_i64_def)

lemma mdl_credential_bound_witness:
  "\<exists>encoded bytes v s'. issue_mdoc_credential hex_libs mdl_configuration demo_context demo_holder sample_store =
       (Inr (JStr encoded), s') \<and> b64url_decode hex_libs encoded = Inr bytes \<and>
     verify_issuer_signed hex_libs sample_cbor sample_x509 sample_time bytes [''cert''] 0 = Inr v \<and>
     vm_device_key v = public_part demo_holder \<and> vm_claim v MDL_NAMESPACE ''portrait'' \<noteq> None"
proof -
  have c: "clock_at sample_store (clock_reads sample_store) = 0" "draw_at sample_store = (\<lambda>n. n)"
    by (simp_all add: sample_store_def issuer_state_new_def env.defs issuer_state.defs sample_env_def)
  have m: "ml_cbor (ict_mdoc_libs demo_context) = sample_cbor" "ml_x509 (ict_mdoc_libs demo_context) = sample_x509"
    "ml_time (ict_mdoc_libs demo_context) = sample_time" "ict_mdoc demo_context = Some demo_mdoc_signer"
    "ms_certificate demo_mdoc_signer = \<lparr> xc_der = ''cert'' \<rparr>" "ict_issuer_key demo_context = ec_make hex_libs ''sk''"
    "ms_allocate_status demo_mdoc_signer = ret (Some \<lparr> sr_idx = 7, sr_uri = ''https://issuer/status'' \<rparr>)"
    by (simp_all add: demo_context_def demo_mdoc_signer_def sample_mdoc_libs_def)
  have d: "start_of_day 0 = 0" "mdl_expiry 0 (4102444800 * second) = 365 * (86400 * second)"
    by (simp_all add: start_of_day_def mdl_expiry_def day_number_def MSO_VALIDITY_DAYS_def day_secs_def second_def)
  obtain es where es: "mdl_elements (ict_mdoc_libs demo_context) ''DE'' 0 = Some es" "length es = 13"
    by (simp add: mdl_elements_def demo_context_def sample_mdoc_libs_def DEMO_BIRTH_DATE_def)
  let ?s = "sample_store\<lparr>clock_reads := Suc (clock_reads sample_store)\<rparr>"
  let ?q = "mdl_request (ict_mdoc_libs demo_context) demo_holder \<lparr> xc_der = ''cert'' \<rparr> es 0 (4102444800 * second)
      (Some \<lparr> sr_idx = 7, sr_uri = ''https://issuer/status'' \<rparr>)"
  have k: "iq_device_key ?q = iq_device_key sample_request"
    by (simp add: mdl_request_def demo_holder_def sample_request_def)
  have t: "issue_times ?q = Inr (0, 0, 365 * (86400 * second))"
    using d(2) by (simp add: issue_times_def mdl_request_def whole_seconds_def timestamp_def Let_def mdl_expiry_def second_def)
  obtain dk where dk: "cose_key hex_libs sample_cbor (iq_device_key ?q) = Inr dk" using sample_device_key unfolding k by blast
  have "fair_draws (draw_at ?s)" using sample_fair by (simp add: c(2))
  moreover have "iq_namespaces ?q = [(MDL_NAMESPACE, es)]" by (simp add: mdl_request_def)
  moreover have len: "length es \<le> 4294967296" by (simp add: es(2))
  ultimately obtain bytes s' where "mdoc_issue hex_libs sample_cbor sample_time ?q (ec_make hex_libs ''sk'') ?s = (Inr bytes, s')"
    using sample_issues [OF t dk] len by blast
  then have i: "issue_mdoc_credential hex_libs mdl_configuration demo_context demo_holder sample_store =
      (Inr (JStr (hex_encode bytes)), s')"
    using es(1) c(1) d(1)
    by (simp add: issue_mdoc_credential_def Let_def bindP_def errP_def liftR_run ret_def utc_now_run m demo_certificate
        mdl_configuration_def MDL_DOCTYPE_def day_number_def hex_libs_def)
  have key: "canonical_key hex_libs demo_holder" using sample_wallet(1) by (simp add: sample_request_def demo_holder_def)
  have trusted: "signer_trusted hex_libs (ml_x509 (ict_mdoc_libs demo_context)) (ms_certificate demo_mdoc_signer)
      (ict_issuer_key demo_context) [''cert''] 0 0"
    using sample_chain [of 0] sample_signs by (auto simp: signer_trusted_def second_def m)
  have idx: "sr_idx r < 18446744073709551616"
    if "ms_allocate_status demo_mdoc_signer t = (Inr (Some r), t')" for t t' r using that by (auto simp: m ret_def)
  have laws: "b64url_law hex_libs" "cbor_law (ml_cbor (ict_mdoc_libs demo_context))" "cose_law (ml_cbor (ict_mdoc_libs demo_context))"
    "time_law (ml_time (ict_mdoc_libs demo_context))"
    by (simp_all add: hex_libs_laws m sample_cbor_law sample_cose_law sample_time_law)
  have today: "0 = start_of_day (clock_at sample_store (clock_reads sample_store))" "rfc3339_instant 0"
    by (simp_all add: c(1) d(1) rfc3339_instant_def second_def)
  have expiry: "certificate_not_after (ml_x509 (ict_mdoc_libs demo_context)) (ms_certificate demo_mdoc_signer) = Some (4102444800 * second)"
    "rfc3339_instant (mdl_expiry 0 (4102444800 * second))" "0 \<le> mdl_expiry 0 (4102444800 * second)"
    unfolding d(2) by (simp_all add: m demo_certificate rfc3339_instant_def second_def)
  have "\<exists>encoded bytes' v status s1 s2. JStr (hex_encode bytes) = JStr encoded \<and> b64url_decode hex_libs encoded = Inr bytes' \<and>
     verify_issuer_signed hex_libs (ml_cbor (ict_mdoc_libs demo_context)) (ml_x509 (ict_mdoc_libs demo_context))
       (ml_time (ict_mdoc_libs demo_context)) bytes' [''cert''] 0 = Inr v \<and>
     vm_doc_type v = MDL_DOCTYPE \<and> vm_device_key v = public_part demo_holder \<and>
     ms_allocate_status demo_mdoc_signer s1 = (Inr status, s2) \<and> vm_status v = status \<and> vm_signed v = 0 \<and>
     {e. vm_claim v MDL_NAMESPACE e \<noteq> None} = set MDL_ELEMENTS \<and>
     {ns. \<exists>e. vm_claim v ns e \<noteq> None} = {MDL_NAMESPACE}"
    by (rule mdl_credential_bound [OF laws i m(4) _ key today expiry(1,2) trusted order.refl expiry(3)]) (rule idx)
  then obtain encoded bytes' v where e: "JStr (hex_encode bytes) = JStr encoded" "b64url_decode hex_libs encoded = Inr bytes'"
    and v: "verify_issuer_signed hex_libs (ml_cbor (ict_mdoc_libs demo_context)) (ml_x509 (ict_mdoc_libs demo_context))
        (ml_time (ict_mdoc_libs demo_context)) bytes' [''cert''] 0 = Inr v"
    and k: "vm_device_key v = public_part demo_holder" "{e. vm_claim v MDL_NAMESPACE e \<noteq> None} = set MDL_ELEMENTS"
    by (elim exE conjE) (rule that, assumption+)
  have "''portrait'' \<in> set MDL_ELEMENTS" by (simp add: MDL_ELEMENTS_def)
  then have "''portrait'' \<in> {e. vm_claim v MDL_NAMESPACE e \<noteq> None}" unfolding k(2) .
  then have p: "vm_claim v MDL_NAMESPACE ''portrait'' \<noteq> None" by (rule CollectD)
  have "encoded = hex_encode bytes" using e(1) by simp
  then show ?thesis
    using i e(2) v k(1) p unfolding m
    by (intro exI [of _ encoded] exI [of _ bytes'] exI [of _ v] exI [of _ s'] conjI) simp_all
qed

end
