(* ===== verification/Server_Samples.thy ===== *)
theory Server_Samples
  imports Server_Status Issuer_Endpoints Credential_Samples
begin

text \<open>A concrete server, and the properties of the routes at concrete requests.\<close>

definition sample_platform :: platform where
  "sample_platform = \<lparr> pf_libs = hex_libs, pf_web = sample_web, pf_mdoc = sample_mdoc_libs,
     pf_nonce_order = (\<lambda>ns. ns), pf_claim_order = (\<lambda>cs. cs) \<rparr>"

definition sample_server :: server where
  "sample_server = server_new (the (build_metadata hex_libs (metadata_config_new sample_config))) sample_config (ec_make hex_libs ''sk'') (ec_make hex_libs ''sk2'') sample_pki [] ''token''"

text \<open>What axum answers to a body of another type.\<close>

definition no_form :: "payload response" where
  "no_form = \<lparr> rs_status = 415, rs_headers = [(''content-type'', ''text/plain; charset=utf-8'')],
     rs_body = TextBody ''Form requests must have `Content-Type: application/x-www-form-urlencoded`'' \<rparr>"

definition sample_decoders :: decoders where
  "sample_decoders = \<lparr> de_par_form = (\<lambda>b. Inl ''no''), de_par_json = (\<lambda>b. Inl ''no''), de_token_form = (\<lambda>b. Inl ''no''),
     de_token_json = (\<lambda>b. Inl ''no''), de_response_form = (\<lambda>b. Inl ''no''), de_response_json = (\<lambda>b. Inl ''no''),
     de_update_form = (\<lambda>b. Inr \<lparr> su_index = 5, su_format = None \<rparr>), de_update_json = (\<lambda>b. Inl ''no''),
     de_offer_query = (\<lambda>q. Inr None), de_authorize_query = (\<lambda>q. Inr (None, None)),
     de_decision_form = (\<lambda>hs b. Inl no_form), de_credential_json = (\<lambda>hs b. Inl no_form), de_segment = Inr \<rparr>"

definition admin_headers :: headers where
  "admin_headers = [(''authorization'', ''Bearer token'')]"

lemma sample_platform_fields [simp]:
  "pf_libs sample_platform = hex_libs" "pf_web sample_platform = sample_web" "pf_mdoc sample_platform = sample_mdoc_libs"
  by (simp_all add: sample_platform_def)

lemma sample_server_fields [simp]:
  "sv_admin_token sample_server = ''token''" "sv_issuer_id sample_server = ''https://issuer''"
  "sv_primary_key sample_server = ec_make hex_libs ''sk''" "sv_external_url sample_server = ''https://issuer/''"
  by (simp_all add: sample_server_def server_new_def sample_config_def config_issuer_id_def trim_end_matches_def)

section \<open>Administration\<close>

lemma sample_header:
  "header_str sample_web hs ''authorization'' = map_of hs ''authorization''"
  by (cases "map_of hs ''authorization''") (simp_all add: header_str_def sample_web_def)

lemma sample_authorized: "reject_unauthorized_admin sample_platform sample_server admin_headers = None"
  by (simp add: admin_authorized_iff sample_header admin_headers_def)

theorem admin_refused_witness:
  "\<exists>r. serve sample_platform sample_decoders sample_server (PostRevoke [] []) sample_pending_state = (Inr r, sample_pending_state) \<and>
     (rs_status r = 400 \<or> rs_status r = 401)"
  by (rule admin_refused [where hs = "[]" and b = "[]"]) (simp_all add: sample_header)

lemma start_ok: "manager_ok hex_libs (ap_status (app_state_new sample_config e))"
  by (simp add: manager_new_ok hex_libs_joins)

lemma sample_url_for: "url_for hex_libs sample_server p = Some (''https://issuer'' @ p)"
  by (simp add: url_for_def trim_end_matches_def)

lemma sample_revokes:
  "\<exists>s'. serve sample_platform sample_decoders sample_server (PostRevoke admin_headers []) (app_state_new sample_config sample_env) =
     (Inr (status_reply ''revoked'' 5), s') \<and> is_flagged Revocation 5 (ap_status s')"
proof -
  have f: "with_body sample_platform (de_update_form sample_decoders) (de_update_json sample_decoders) admin_headers [] h =
      h \<lparr> su_index = 5, su_format = None \<rparr>"
    for h :: "status_update_request \<Rightarrow> ('a, crash, payload response) prog"
    by (simp add: with_body_def form_or_json_def Let_def admin_headers_def header_str_def sample_decoders_def map_err_def)
  have "\<exists>s'. revoke_credential sample_platform sample_server admin_headers \<lparr> su_index = 5, su_format = None \<rparr>
      (app_state_new sample_config sample_env) = (Inr (status_reply ''revoked'' 5), s') \<and>
      manager_ok hex_libs (ap_status s') \<and> is_flagged Revocation 5 (ap_status s')"
    using revoke_credential_run [of sample_platform "app_state_new sample_config sample_env" "\<lparr> su_index = 5, su_format = None \<rparr>"
        sample_server admin_headers] sample_authorized start_ok
    by (simp add: LIST_CAPACITY_def is_mdoc_def)
  then show ?thesis by (auto simp: f)
qed

lemma new_not_flagged: "i < LIST_CAPACITY \<Longrightarrow> \<not> is_flagged Revocation i (manager_new u)"
  by (simp add: is_flagged_def list_of_def manager_new_def new_list_def sl_new_get)

section \<open>Revocation\<close>

lemma sample_fresh_state [simp]:
  "draw_at (app_state_new sample_config sample_env) = (\<lambda>n. n)" "draws_used (app_state_new sample_config sample_env) = 0"
  by (simp_all add: app_state_new_def issuer_state_new_def issuer_state.defs app_state.defs env.defs sample_env_def)

definition sample_list_uri :: url where
  "sample_list_uri = ''https://issuer/status/revocation/token''"

lemma sample_context:
  "\<exists>ctx. issuance_context_of sample_platform sample_server = Some ctx \<and>
     ict_allocate_status ctx = allocate_status sample_platform sample_list_uri"
  by (simp add: issuance_context_of_def sample_url_for sample_list_uri_def)

lemma sample_allocates:
  "\<exists>s'. allocate_status sample_platform sample_list_uri (app_state_new sample_config sample_env) =
     (Inr (Some (JObj [(''status_list'', JObj [(''idx'', JInt 0), (''uri'', JStr sample_list_uri)])])), s')"
proof -
  have d: "draw_index {} LIST_CAPACITY (\<lambda>n. n) 0 = Some (Inr 0, {0}, Suc 0)"
    by (simp add: draw_index_def draw_loop.simps [of "{}"] LIST_CAPACITY_def)
  have p: "parse_unsigned 18446744073709551616 (show_nat 0) = Some 0" by (rule parse_show_nat) simp
  show ?thesis
    by (simp add: allocate_status_def on_draws_def allocate_entry_def manager_new_def new_list_def d p Let_def bindP_def errP_def
        ret_def map_err_def)
qed

lemma sample_publishes:
  assumes "manager_inv (ap_status s)"
  shows "\<exists>r s'. get_token_status_list sample_platform sample_server ''revocation'' s = (Inr r, s') \<and> rs_status r = 200"
proof -
  from assms obtain ls d where ls: "sm_lists (ap_status s) = Unlocked ls" "sm_mdoc (ap_status s) = Unlocked d" "mdoc_ok d"
    "\<forall>p. ls (status_purpose_to_string p) = Some (list_of (ap_status s) p)" "\<forall>p. ml_ok p (list_of (ap_status s) p)"
    by (rule manager_invE)
  have "ls ''revocation'' = Some (list_of (ap_status s) Revocation)" using ls(4) [rule_format, of Revocation] by simp
  with ls(1) obtain pub where pub: "build_token_status_list hex_libs ''revocation'' (ap_status s) = Inr pub"
    by (simp add: build_token_status_list_def tsl_encode_def tsl_compress_def hex_libs_def)
  obtain jwt where "sign_compact hex_libs (ec_make hex_libs ''sk'') (status_list_header sample_platform sample_server)
      (status_list_claims sample_server sample_list_uri pub (timestamp (clock_at s (clock_reads s)))) = Inr jwt"
    by (simp add: sign_compact_def Let_def hex_key_signs)
  then show ?thesis
    unfolding get_token_status_list_def finish_def match_result_def
    by (simp add: bindP_def errP_def read_status_def pub utc_now_def liftR_def ret_def typed_ok_def sample_url_for sample_list_uri_def)
qed

theorem revocation_end_to_end_witness:
  "\<exists>(s2 :: app_state) s4 r s6 jwt list now t. revoke_credential sample_platform sample_server admin_headers \<lparr> su_index = 0, su_format = None \<rparr> s2 =
       (Inr (status_reply ''revoked'' 0), s4) \<and>
     get_token_status_list sample_platform sample_server ''revocation'' s4 = (Inr r, s6) \<and> rs_body r = TextBody jwt \<and>
     sign_compact hex_libs (ec_make hex_libs ''sk'') (status_list_header sample_platform sample_server)
       (status_list_claims sample_server sample_list_uri list now) = Inr jwt \<and>
     tsl_decode hex_libs (pt_lst list) LIST_CAPACITY (pt_bits list) = Inr t \<and> tsl_get_status t 0 = Inr Invalid"
proof -
  let ?q = "\<lparr> su_index = 0, su_format = None \<rparr>" and ?s1 = "app_state_new sample_config sample_env"
    and ?claim = "Some (JObj [(''status_list'', JObj [(''idx'', JInt 0), (''uri'', JStr sample_list_uri)])])"
  obtain s2 where a: "allocate_status sample_platform sample_list_uri ?s1 = (Inr ?claim, s2)" using sample_allocates by blast
  obtain ctx :: "unit app_state_scheme issuance_context" where c: "issuance_context_of sample_platform sample_server = Some ctx"
    "ict_allocate_status ctx = allocate_status sample_platform sample_list_uri"
    using sample_context by blast
  have "allocation hex_libs (ap_status ?s1) (ap_status s2)"
    using allocate_status_Inr [OF a] manager_ok_inv [OF start_ok] by auto
  from allocation_keeps [OF this start_ok] have "manager_ok hex_libs (ap_status s2)" by blast
  then obtain s4 where r: "revoke_credential sample_platform sample_server admin_headers ?q s2 = (Inr (status_reply ''revoked'' 0), s4)"
    and ok4: "manager_ok hex_libs (ap_status s4)"
    using revoke_credential_run [of sample_platform s2 ?q sample_server admin_headers] sample_authorized
    by (auto simp: LIST_CAPACITY_def is_mdoc_def)
  obtain answer s6 where g: "get_token_status_list sample_platform sample_server ''revocation'' s4 = (Inr answer, s6)"
    "rs_status answer = 200" using sample_publishes [OF manager_ok_inv [OF ok4]] by blast
  have q: "\<not> is_mdoc ?q" by (simp add: is_mdoc_def)
  have claim: "?claim = Some (JObj [(''status_list'', JObj [(''idx'', JInt (int (su_index ?q))), (''uri'', JStr sample_list_uri)])])"
    by simp
  have a': "ict_allocate_status ctx ?s1 = (Inr ?claim, s2)" by (simp add: c a)
  from revocation_end_to_end [where P = sample_platform and D = sample_decoders and sv = sample_server and before = "[]"
      and between = "[]" and afterwards = "[]" and request = ?q,
      OF _ _ _ serve_all.simps(1) [symmetric] c(1) a' claim serve_all.simps(1) [symmetric] sample_authorized q r
      serve_all.simps(1) [symmetric] g]
  obtain jwt list now t where "rs_body answer = TextBody jwt"
    "sign_compact hex_libs (ec_make hex_libs ''sk'') (status_list_header sample_platform sample_server)
       (status_list_claims sample_server sample_list_uri list now) = Inr jwt"
    "tsl_decode hex_libs (pt_lst list) LIST_CAPACITY (pt_bits list) = Inr t" "tsl_get_status t 0 = Inr Invalid"
    using hex_libs_laws hex_libs_joins by auto
  with r g show ?thesis by blast
qed

theorem suspension_not_published_witness:
  "\<exists>(s1 :: app_state) outcome s2. suspend_credential sample_platform sample_server admin_headers \<lparr> su_index = 0, su_format = None \<rparr> s1 = (outcome, s2) \<and>
     build_token_status_list hex_libs ''revocation'' (ap_status s2) = build_token_status_list hex_libs ''revocation'' (ap_status s1)"
proof -
  let ?claim = "Some (JObj [(''status_list'', JObj [(''idx'', JInt 0), (''uri'', JStr sample_list_uri)])])"
  obtain s1 where a: "allocate_status sample_platform sample_list_uri (app_state_new sample_config sample_env) = (Inr ?claim, s1)"
    using sample_allocates by blast
  obtain ctx :: "unit app_state_scheme issuance_context" where c: "issuance_context_of sample_platform sample_server = Some ctx"
    "ict_allocate_status ctx = allocate_status sample_platform sample_list_uri"
    using sample_context by blast
  have a': "ict_allocate_status ctx (app_state_new sample_config sample_env) = (Inr ?claim, s1)" by (simp add: c a)
  obtain outcome s2 where r: "suspend_credential sample_platform sample_server admin_headers \<lparr> su_index = 0, su_format = None \<rparr> s1 = (outcome, s2)"
    by (rule prod.exhaust)
  from suspension_not_published [where P = sample_platform and D = sample_decoders and sv = sample_server and before = "[]"
      and hs = admin_headers and request = "\<lparr> su_index = 0, su_format = None \<rparr>",
      OF _ serve_all.simps(1) [symmetric] c(1) a' r]
  have "build_token_status_list hex_libs ''revocation'' (ap_status s2) = build_token_status_list hex_libs ''revocation'' (ap_status s1)"
    by (simp add: hex_libs_joins)
  with r show ?thesis by blast
qed

section \<open>Consent and tokens\<close>

lemma sample_bearer:
  "authorize_resource sample_platform sample_server [(''authorization'', ''Bearer at'')] ''/credential'' sample_pending_state =
     (Inr ''at'', sample_pending_state\<lparr>clock_reads := 1\<rparr>)"
proof -
  have h: "authorization_header sample_web [(''authorization'', ''Bearer at'')] = (''Bearer'', ''at'')"
    by (simp add: authorization_header_def sample_header trim_graphic graphic_def)
  have c: "eq_ignore_ascii_case ''Bearer'' ''Bearer''" "\<not> eq_ignore_ascii_case ''Bearer'' ''DPoP''"
    by (simp_all add: eq_ignore_ascii_case_def ascii_lower_def Let_def)
  show ?thesis
    by (simp add: authorize_resource_def h c bindP_def liftR_def errP_def get_access_grant_def with_lock_def utc_now_def
        check_binding_def ret_def)
qed

theorem authorize_resource_sound_witness:
  "\<exists>grant t. get_access_grant ''at'' sample_pending_state = (Inr (Some grant), t) \<and> gt_configuration_ids grant = [''pid'']"
  using authorize_resource_sound [OF sample_bearer]
  by (auto simp: get_access_grant_def with_lock_def bindP_def utc_now_def)

lemma sample_url [simp]: "url_parse hex_libs s = Some s"
  by (simp add: hex_libs_def)

theorem denied_then_approved_witness:
  "\<exists>s1 s2. authorize_decision sample_platform sample_server \<lparr> cd_request_uri = ''urn:1'', cd_client_id = ''wallet'', cd_decision = ''deny'' \<rparr>
       sample_pending_state = (Inr (redirect_to (w_append_pairs sample_web ''https://wallet/cb'' (denial @ state_and_iss sample_server sample_pending))), s1) \<and>
     authorize_decision sample_platform sample_server \<lparr> cd_request_uri = ''urn:1'', cd_client_id = ''wallet'', cd_decision = ''approve'' \<rparr> s1 =
       (Inr (redirect_to (w_append_pairs sample_web ''https://wallet/cb'' ((''code'', show_nat 0) # state_and_iss sample_server sample_pending))), s2)"
proof -
  have p: "sn_client_id sample_pending = ''wallet''" "sn_request_uri sample_pending = ''urn:1''"
    "sn_authorization_code sample_pending = None" "sn_created_at sample_pending = 0"
    "sn_redirect_uri sample_pending = ''https://wallet/cb''" by (simp_all add: sample_pending_def)
  from denied_then_approved [where P = sample_platform and sv = sample_server and s = sample_pending_state and u = "''urn:1''"
      and session = sample_pending and base = "''https://wallet/cb''"] p
  show ?thesis by (simp add: num_milliseconds_def trunc_div_def REQUEST_URI_TTL_SECS_def)
qed

theorem decision_sound_witness:
  "\<exists>r s' session. authorize_decision sample_platform sample_server
       \<lparr> cd_request_uri = ''urn:1'', cd_client_id = ''wallet'', cd_decision = ''approve'' \<rparr> sample_pending_state = (Inr r, s') \<and>
     redirects_with_code sample_platform sample_server session (show_nat 0) r"
proof -
  let ?d = "\<lparr> cd_request_uri = ''urn:1'', cd_client_id = ''wallet'', cd_decision = ''approve'' \<rparr>"
  have r: "resolve_request_uri (Some (cd_request_uri ?d)) (Some (cd_client_id ?d)) sample_pending_state =
      (Inr sample_pending, sample_pending_state\<lparr>clock_reads := 1\<rparr>)"
    unfolding resolve_authorization_Inr by (simp add: sample_pending_def num_milliseconds_def trunc_div_def REQUEST_URI_TTL_SECS_def)
  have base: "url_parse (pf_libs sample_platform) (sn_redirect_uri sample_pending) = Some ''https://wallet/cb''"
    by (simp add: sample_pending_def)
  obtain s' where g: "generate_authorization_code (sn_request_uri sample_pending) (sample_pending_state\<lparr>clock_reads := 1\<rparr>) =
      (Inr (show_nat 0), s')" and ses: "is_sessions s' \<noteq> is_sessions sample_pending_state"
    by (simp add: generate_authorization_code_def set_authorization_code_def bindP_def errP_def new_uuid_def with_lock_def
        utc_now_def ret_def sample_pending_def fun_upd_def fun_eq_iff)
  note d = decision_resolved [OF r base, where sv = sample_server, unfolded g]
  then obtain r where run: "authorize_decision sample_platform sample_server ?d sample_pending_state = (Inr r, s')" by simp
  from decision_sound [OF run ses] run show ?thesis by auto
qed

end
