(* ===== verification/Startup_Samples.thy ===== *)
theory Startup_Samples
  imports Startup Mdoc_Samples
begin

text \<open>
  One deployment: crates that document what the start-up relies on, a configuration with a file
  for each key and for the certificates, and the properties of \<open>Startup\<close> at it.
\<close>

section \<open>Crates\<close>

definition sample_start_time :: instant where "sample_start_time = 1000 * day"

definition sample_point :: bytes where
  "sample_point = CHR 0x04 # replicate 32 (CHR ''k'') @ replicate 32 (CHR ''k'')"

text \<open>rcgen's stand-in signs what start-up asks of it at this time, and refuses the rest.\<close>

definition sample_rcgen :: rcgen_libs where
  "sample_rcgen =
     \<lparr> rg_default = \<lparr> cp_distinguished_name = ''name'', cp_subject_alt_names = [], cp_serial_number = None,
         cp_not_before = 0, cp_not_after = 0, cp_is_ca = NoCa, cp_key_usages = [],
         cp_key_identifier_method = DefaultMethod, cp_use_authority_key_identifier = False,
         cp_custom_extensions = [], cp_crl_distribution_points = [] \<rparr>,
       rg_new = (\<lambda>names. Inr \<lparr> cp_distinguished_name = ''name'', cp_subject_alt_names = names, cp_serial_number = None,
         cp_not_before = 0, cp_not_after = 0, cp_is_ca = NoCa, cp_key_usages = [],
         cp_key_identifier_method = DefaultMethod, cp_use_authority_key_identifier = False,
         cp_custom_extensions = [], cp_crl_distribution_points = [] \<rparr>),
       rg_empty_name = ''name'', rg_push = (\<lambda>n t v. ''name''), rg_printable = Inr,
       rg_generate = (\<lambda>r. Inr r), rg_key_from_pem = (\<lambda>pem. Inr pem), rg_public_key = (\<lambda>k. sample_point),
       rg_self_signed = (\<lambda>p k. if root_profile sample_start_time p \<and> cp_distinguished_name p = ''name'' then Inr ''root'' else Inl ''refused''),
       rg_signed_by = (\<lambda>p k i. if leaf_profile sample_start_time p \<and> cp_distinguished_name p = ''name'' \<and>
         cp_distinguished_name (fst i) = ''name'' then Inr ''leaf'' else Inl ''refused''),
       rg_sign_crl = (\<lambda>c i. Inr ''crl''), rg_sha1 = (\<lambda>b. ''sha1''), rg_octet_string = Inr, rg_ia5 = Inr,
       rg_der_key_identifier = Inr, rg_der_key_usage = (\<lambda>u. Inr ''eku''), rg_der_alt_name = (\<lambda>n. Inr ''ian'') \<rparr>"

definition sample_minted :: "instant \<Rightarrow> certificate" where
  "sample_minted not_after = \<lparr> ct_subject = ''name'', ct_issuer = ''name'', ct_subject_text = ''CN=name'',
     ct_subject_rdns = [], ct_not_before = nat (timestamp (sample_start_time - day)), ct_not_after = nat (timestamp not_after),
     ct_key_algorithm = ID_EC_PUBLIC_KEY, ct_key_curve = Some SECP_256_R_1, ct_public_key = sample_point, ct_extensions = [],
     ct_signature_algorithm = ECDSA_WITH_SHA_256, ct_signature = replicate 64 (CHR ''s''), ct_tbs = Inr ''tbs'' \<rparr>"

definition sample_start_x509 :: x509_libs where
  "sample_start_x509 = sample_x509
     \<lparr>x_parse := (\<lambda>b. if b = ''root'' then Inr (sample_minted (sample_start_time + 9 * 365 * day))
        else if b = ''leaf'' then Inr (sample_minted (sample_start_time + 400 * day)) else Inl ''malformed'')\<rparr>"

definition sample_codec_of_keys :: key_codec where
  "sample_codec_of_keys = \<lparr> kc_p256_random = (\<lambda>r. r), kc_p256_read = Inr, kc_p256_write = Inr,
     kc_ed25519_random = (\<lambda>r. r), kc_ed25519_read = Inr, kc_ed25519_write = Inr \<rparr>"

lemma sample_crates_lawful: "crates_lawful hex_libs sample_start_x509 sample_rcgen sample_codec_of_keys UNIV"
proof -
  have "b64_law sample_start_x509" using sample_b64_law by (simp add: sample_start_x509_def b64_law_def)
  moreover have "rcgen_law hex_libs sample_start_x509 sample_rcgen UNIV"
    by (simp add: rcgen_law_def sample_rcgen_def sample_start_x509_def sample_x509_def sample_minted_def describes_def
        leaf_profile_def root_profile_def hex_libs_def)
  moreover have "key_codec_law sample_codec_of_keys" "codecs_agree hex_libs sample_codec_of_keys sample_rcgen UNIV"
    by (simp_all add: key_codec_law_def codecs_agree_def sample_codec_of_keys_def sample_rcgen_def ec_public_key_sec1_def
        ec_from_signing_key_def sample_point_def hex_libs_def)
  ultimately show ?thesis by (simp add: crates_lawful_def)
qed

section \<open>The deployment\<close>

definition sample_persistent :: server_config where
  "sample_persistent = \<lparr> sf_host = ''127.0.0.1'', sf_port = 3000, sf_external_url = ''https://issuer/'', sf_issuer_name = ''Issuer'',
     sf_p256_key_path = Some ''p256.pem'', sf_ed25519_key_path = Some ''ed25519.pem'', sf_cert_path = Some ''certs.pem'',
     sf_trust_anchor_path = Some ''anchor.pem'', sf_client_attester_jwks_path = None, sf_admin_token = Some ''token'' \<rparr>"

definition sample_start :: startup where
  "sample_start = env.extend (sample_env\<lparr>clock_at := (\<lambda>n. sample_start_time)\<rparr>)
     (startup.fields Map.empty 420 (\<lambda>n c. None) (\<lambda>n. None) 0)"

lemma sample_start_fields [simp]:
  "clock_at sample_start = (\<lambda>n. sample_start_time)" "salt_at sample_start = (\<lambda>n. ''salt'')" "st_files sample_start = Map.empty"
  "st_fault sample_start = (\<lambda>n c. None)" "st_new_mode sample_start = 420"
  by (simp_all add: sample_start_def env.defs startup.defs)

lemma sample_persistent_paths: "persistent sample_persistent ''p256.pem'' ''certs.pem'' ''ed25519.pem''"
  by (simp add: persistent_def sample_persistent_def)

lemma sample_mints:
  fixes s :: "'x env_scheme"
  assumes "clock_at s = (\<lambda>n. sample_start_time)"
  shows "\<exists>pki s'. mint_development sample_rcgen params s = (Inr pki, s')"
proof -
  have leaf: "\<exists>p t'. leaf_params sample_rcgen now key_id cn extra t = (Inr p, t') \<and> cp_distinguished_name p = ''name''"
    for now key_id cn extra and t :: "'x env_scheme"
    by (simp add: leaf_params_def bindP_def random_serial_run liftR_run ret_def subject_name_def subject_key_identifier_def
        cert_extension_def sample_rcgen_def)
  have x5c: "\<exists>p t'. x5c_params sample_rcgen now key_id host t = (Inr p, t') \<and> cp_distinguished_name p = ''name''"
    for now key_id host and t :: "'x env_scheme"
    by (simp add: x5c_params_def bindP_def random_serial_run liftR_run ret_def sample_rcgen_def)
  have root: "\<exists>d p k t'. mint_root sample_rcgen sample_start_time alt t = (Inr (d, p, k), t') \<and> cp_distinguished_name p = ''name''"
    for alt and t :: "'x env_scheme"
    by (simp add: mint_root_def bindP_def random_serial_run new_salt_run liftR_run ret_def subject_name_def Let_def
        root_params_def root_profile_def sample_rcgen_def) blast
  have sign: "\<exists>c. sign_leaf sample_rcgen key (r, rk) p = Inr c"
    if "leaf_profile sample_start_time p" "cp_distinguished_name p = ''name''" "cp_distinguished_name r = ''name''" for key r rk p
    using that by (simp add: sign_leaf_def sample_rcgen_def)
  have leaves: "\<exists>pki t'. mint_leaves sample_rcgen params sample_start_time alt d r rk key t = (Inr pki, t')"
    if r: "cp_distinguished_name r = ''name''" for alt d r rk key and t :: "'x env_scheme"
  proof -
    let ?id = "sha1_key_id sample_rcgen (rg_public_key sample_rcgen key)"
    obtain p1 t1 where 1: "x5c_params sample_rcgen sample_start_time ?id (dp_host params) t = (Inr p1, t1)"
      "cp_distinguished_name p1 = ''name''" using x5c by blast
    obtain eku where e: "mdl_ds_eku sample_rcgen = Inr eku" by (simp add: mdl_ds_eku_def cert_extension_def sample_rcgen_def)
    obtain p2 t2 where 2: "leaf_params sample_rcgen sample_start_time ?id ''oid4vc-rs Development Document Signer'' [eku, alt] t1 = (Inr p2, t2)"
      "cp_distinguished_name p2 = ''name''" using leaf by blast
    obtain p3 t3 where 3: "leaf_params sample_rcgen sample_start_time ?id ''oid4vc-rs Development Status List Signer'' [] t2 = (Inr p3, t3)"
      "cp_distinguished_name p3 = ''name''" using leaf by blast
    let ?p2 = "p2\<lparr>cp_crl_distribution_points := [[trim_end_matches (CHR ''/'') (dp_issuer_url params) @ CRL_PATH]]\<rparr>"
    have "leaf_profile sample_start_time ?p2" using leaf_params_profile [OF 2(1)] by (simp add: leaf_profile_def)
    then obtain c1 c2 c3 where "sign_leaf sample_rcgen key (r, rk) p1 = Inr c1" "sign_leaf sample_rcgen key (r, rk) ?p2 = Inr c2"
        "sign_leaf sample_rcgen key (r, rk) p3 = Inr c3"
      using sign [OF x5c_params_profile [OF 1(1)] 1(2) r] sign [OF leaf_params_profile [OF 3(1)] 3(2) r] sign [of ?p2 r] 2(2) r
      by fastforce
    moreover have "rg_sign_crl sample_rcgen crl i = Inr ''crl''" for crl i by (simp add: sample_rcgen_def)
    ultimately show ?thesis using 1 e 2 3 by (simp add: mint_leaves_def Let_def bindP_def liftR_run ret_def)
  qed
  obtain alt where alt: "issuer_alt_name sample_rcgen (dp_issuer_url params) = Inr alt"
    by (simp add: issuer_alt_name_def cert_extension_def sample_rcgen_def)
  obtain d r k t' where m: "mint_root sample_rcgen sample_start_time alt (s\<lparr>clock_reads := Suc (clock_reads s)\<rparr>) = (Inr (d, r, k), t')"
    "cp_distinguished_name r = ''name''" using root by blast
  have "rg_key_from_pem sample_rcgen (dp_key_pkcs8_pem params) = Inr (dp_key_pkcs8_pem params)" by (simp add: sample_rcgen_def)
  then show ?thesis using leaves [OF m(2)] m(1) alt assms by (simp add: mint_development_def bindP_def utc_now_run liftR_run)
qed

text \<open>The deployment's first start succeeds.\<close>

abbreviation sample_app_new :: "(startup, string, server \<times> app_state) prog" where
  "sample_app_new \<equiv> app_new hex_libs sample_start_x509 sample_rcgen sample_codec_of_keys (\<lambda>u. None) (\<lambda>s. Inl s) sample_persistent"

lemma sample_creates:
  assumes "no_faults s" and "st_files s p = None"
  shows "\<exists>key s'. load_or_create_p256 L sample_codec_of_keys (Some p) s = (Inr key, s')"
    and "\<exists>key s'. load_or_create_ed25519 L sample_codec_of_keys (Some p) s = (Inr key, s')"
proof -
  have k: "ec_to_pkcs8_pem sample_codec_of_keys k = Inr (ec_signing_key k)" "ed_to_pkcs8_pem sample_codec_of_keys e = Inr (ed_signing_key e)"
    for k e by (simp_all add: ec_to_pkcs8_pem_def ed_to_pkcs8_pem_def sample_codec_of_keys_def)
  have "no_faults (s\<lparr>salts_used := Suc (salts_used s)\<rparr>)" using assms(1) by (simp add: no_faults_def)
  then have w: "\<exists>s'. write_key_file p pem (s\<lparr>salts_used := Suc (salts_used s)\<rparr>) = (Inr (), s')" for pem
    by (rule writes_run(1))
  let ?ec = "ec_from_signing_key L (kc_p256_random sample_codec_of_keys (salt_at s (salts_used s)))"
  let ?ed = "ed_from_signing_key L (kc_ed25519_random sample_codec_of_keys (salt_at s (salts_used s)))"
  show "\<exists>key s'. load_or_create_p256 L sample_codec_of_keys (Some p) s = (Inr key, s')"
    using assms(2) w [of "ec_signing_key ?ec"]
    by (auto simp: load_or_create_p256_def bindP_def path_exists_run errP_def generate_run liftR_run k ret_def)
  show "\<exists>key s'. load_or_create_ed25519 L sample_codec_of_keys (Some p) s = (Inr key, s')"
    using assms(2) w [of "ed_signing_key ?ed"]
    by (auto simp: load_or_create_ed25519_def bindP_def path_exists_run errP_def generate_run liftR_run k ret_def)
qed

lemma sample_creates_pki:
  assumes "no_faults s" and "clock_at s = (\<lambda>n. sample_start_time)"
  shows "\<exists>pki s'. create_pki X sample_rcgen sample_codec_of_keys h sample_persistent key s = (Inr pki, s') \<and> no_faults s'"
proof -
  let ?params = "\<lparr> dp_key_pkcs8_pem = ec_signing_key key,
    dp_host = (case h (sf_external_url sample_persistent) of Some h \<Rightarrow> h | None \<Rightarrow> ''localhost''),
    dp_issuer_url = config_issuer_id sample_persistent \<rparr>"
  obtain pki t where m: "mint_development sample_rcgen ?params s = (Inr pki, t)" using sample_mints [OF assms(2)] by blast
  have t: "no_faults t" using draws_only_faults [OF keepsD [OF mint_draws_only m]] assms(1) by simp
  obtain u where u: "write_public_file ''certs.pem'' (pki_to_pem X pki) t = (Inr (), u)" using writes_run(2) [OF t] by blast
  have "no_faults u" using write_public_file_Inr [OF u] t by (auto simp: no_faults_def)
  moreover obtain v where v: "write_public_file ''anchor.pem'' (pki_trust_anchor_pem X pki) u = (Inr (), v)"
    using writes_run(2) calculation by blast
  moreover have "no_faults v" using write_public_file_Inr [OF v] calculation(1) by (auto simp: no_faults_def)
  ultimately show ?thesis using m u
    by (simp add: create_pki_def bindP_def liftR_run errP_def ret_def ec_to_pkcs8_pem_def sample_codec_of_keys_def sample_persistent_def)
qed

lemma sample_first_start: "\<exists>sv app s'. sample_app_new sample_start = (Inr (sv, app), s')"
proof -
  have "no_faults sample_start" by (simp add: no_faults_def)
  from sample_creates(1) [OF this, of "''p256.pem''" hex_libs] obtain p256 s1 where
    1: "load_or_create_p256 hex_libs sample_codec_of_keys (Some ''p256.pem'') sample_start = (Inr p256, s1)" by auto
  from p256_created [OF 1] have s1: "no_faults s1" "clock_at s1 = (\<lambda>n. sample_start_time)" "st_files s1 ''certs.pem'' = None"
      "st_files s1 ''ed25519.pem'' = None" by (auto simp: no_faults_def)
  from sample_creates_pki [OF s1(1,2)] obtain pki s2 where s2: "no_faults s2" and
    2: "create_pki sample_start_x509 sample_rcgen sample_codec_of_keys (\<lambda>u. None) sample_persistent p256 s1 = (Inr pki, s2)" by blast
  have paths: "sf_cert_path sample_persistent = Some ''certs.pem''" "sf_trust_anchor_path sample_persistent \<noteq> Some ''certs.pem''"
      "sf_trust_anchor_path sample_persistent \<noteq> Some ''ed25519.pem''" by (simp_all add: sample_persistent_def)
  have "st_files s2 ''ed25519.pem'' = None"
    using create_pki_Inr [OF 2 paths(1,2)] paths(3) s1(4) by (elim exE conjE) simp
  from sample_creates(2) [OF s2 this] obtain ed s3 where
    3: "load_or_create_ed25519 hex_libs sample_codec_of_keys (Some ''ed25519.pem'') s2 = (Inr ed, s3)" by blast
  have "load_or_create_pki hex_libs sample_start_x509 sample_rcgen sample_codec_of_keys (\<lambda>u. None) sample_persistent p256 s1 = (Inr pki, s2)"
    using 2 pki_absent [OF paths(1) s1(3)] by simp
  then show ?thesis using 1 3
    by (simp add: app_new_def bindP_def liftR_run build_metadata_def sample_persistent_def admin_token_of_def
        load_client_attesters_def ret_def)
qed

lemma restart_same_server_witness:
  "\<exists>sv app s' app' t'. sample_app_new sample_start = (Inr (sv, app), s') \<and>
     sample_app_new (sample_start\<lparr>st_files := st_files s', clock_at := (\<lambda>n. sample_start_time + 399 * day)\<rparr>) = (Inr (sv, app'), t') \<and> st_files t' = st_files s'"
proof -
  obtain sv app s' where first: "sample_app_new sample_start = (Inr (sv, app), s')" using sample_first_start by blast
  have "\<exists>app' t'. sample_app_new (sample_start\<lparr>st_files := st_files s', clock_at := (\<lambda>n. sample_start_time + 399 * day)\<rparr>) = (Inr (sv, app'), t') \<and> st_files t' = st_files s'"
    by (rule restart_same_server [OF first sample_persistent_paths _ _ _ _ sample_crates_lawful])
      (simp_all add: sample_persistent_def sample_crates_lawful sample_start_time_def datable_def day_def second_def
        leaf_valid_def no_faults_def)
  then show ?thesis using first by blast
qed

lemma exposed_key_used_witness:
  "\<exists>s' key. load_or_create_p256 hex_libs sample_codec_of_keys (Some ''p256.pem'')
       (sample_start\<lparr>st_fault := (\<lambda>n c. case c of SetMode _ _ \<Rightarrow> Some ''denied'' | _ \<Rightarrow> None)\<rparr>) = (Inl ''denied'', s') \<and>
     ec_to_pkcs8_pem sample_codec_of_keys key = Inr ''salt'' \<and>
     st_files s' ''p256.pem'' = Some \<lparr> sd_contents = ''salt'', sd_mode = 420 \<rparr> \<and>
     (\<forall>t :: startup. no_faults t \<and> st_files t = st_files s' \<longrightarrow>
       (\<exists>t'. load_or_create_p256 hex_libs sample_codec_of_keys (Some ''p256.pem'') t = (Inr key, t') \<and>
          st_files t' ''p256.pem'' = st_files s' ''p256.pem''))"
  using exposed_key_used [of sample_codec_of_keys "''denied''"
      "sample_start\<lparr>st_fault := (\<lambda>n c. case c of SetMode _ _ \<Rightarrow> Some ''denied'' | _ \<Rightarrow> None)\<rparr>" "''p256.pem''" "''salt''" hex_libs]
  by (simp add: only_chmod_fails_def key_codec_law_def sample_codec_of_keys_def)

end
