(* ===== verification/Process_Samples.thy ===== *)
theory Process_Samples
  imports Process Server_Samples Startup_Samples
begin

text \<open>
  A process that starts from an empty environment, with keys and certificates that it keeps in
  memory, and the guard of the statuses at a revocation.
\<close>

abbreviation sample_main :: "(startup, string, server \<times> app_state) prog" where
  "sample_main \<equiv> server_main hex_libs sample_start_x509 sample_rcgen sample_codec_of_keys (\<lambda>u. None) (\<lambda>s. Inl s) (\<lambda>v. None)"

definition default_environment :: server_config where
  "default_environment = \<lparr> sf_host = ''0.0.0.0'', sf_port = 3000, sf_external_url = ''http://localhost:3000'',
     sf_issuer_name = ''OID4VC-RS Development Issuer'', sf_p256_key_path = None, sf_ed25519_key_path = None,
     sf_cert_path = None, sf_trust_anchor_path = None, sf_client_attester_jwks_path = None, sf_admin_token = None \<rparr>"

lemma digits: "(char_of (48 :: nat) :: char) = CHR ''0''" "(char_of (51 :: nat) :: char) = CHR ''3''"
  by (simp_all add: char_of_def bit_0)

lemma sample_port: "parse_unsigned 65536 ''3000'' = Some 3000" "show_nat 3000 = ''3000''"
proof -
  have s: "show_nat 3000 = ''3000''" by (simp add: show_nat.simps digits)
  then show "parse_unsigned 65536 ''3000'' = Some 3000" "show_nat 3000 = ''3000''"
    using parse_show_nat [of 3000 65536] by simp_all
qed

lemma sample_environment: "config_from_env hex_libs (\<lambda>v. None) = Some default_environment"
  by (simp add: config_from_env_def sample_port default_environment_def hex_libs_def)

lemma sample_main_runs: "\<exists>sv app s'. sample_main sample_start = (Inr (sv, app), s') \<and> sv_admin_token sv = ''0''"
proof -
  let ?key = "ec_from_signing_key hex_libs (kc_p256_random sample_codec_of_keys (salt_at sample_start (salts_used sample_start)))"
  let ?s = "sample_start\<lparr>salts_used := Suc (salts_used sample_start)\<rparr>"
  have 1: "load_or_create_p256 hex_libs sample_codec_of_keys None sample_start = (Inr ?key, ?s)"
    by (simp add: load_or_create_p256_def errP_def generate_run)
  let ?params = "\<lparr> dp_key_pkcs8_pem = ec_signing_key ?key, dp_host = ''localhost'', dp_issuer_url = config_issuer_id default_environment \<rparr>"
  obtain pki t where m: "mint_development sample_rcgen ?params ?s = (Inr pki, t)" using sample_mints [of ?s ?params] by auto
  have 2: "load_or_create_pki hex_libs sample_start_x509 sample_rcgen sample_codec_of_keys (\<lambda>u. None) default_environment ?key ?s = (Inr pki, t)"
    using m by (simp add: load_or_create_pki_def create_pki_def bindP_def ret_def liftR_run errP_def ec_to_pkcs8_pem_def
        sample_codec_of_keys_def default_environment_def)
  have t: "uuid_at t = show_nat" "uuids_used t = 0"
    using keepsD [OF mint_draws_only m] by (auto simp: draws_only_def sample_start_def env.defs startup.defs)
  let ?t = "t\<lparr>salts_used := Suc (salts_used t)\<rparr>"
  obtain ed where 3: "load_or_create_ed25519 hex_libs sample_codec_of_keys None t = (Inr ed, ?t)"
    by (simp add: load_or_create_ed25519_def errP_def generate_run)
  have "show_nat 0 = ''0''" by (simp add: show_nat.simps digits)
  then have 4: "(admin_token_of default_environment :: (startup, string, string) prog) ?t = (Inr ''0'', ?t\<lparr>uuids_used := 1\<rparr>)"
    by (simp add: admin_token_of_def default_environment_def new_uuid_run t)
  show ?thesis using 1 2 3 4
    by (simp add: server_main_def app_new_def sample_environment bindP_def liftR_run load_client_attesters_def ret_def
        default_environment_def server_new_def build_metadata_def)
qed

text \<open>The administrator's token of this process is the first UUID.\<close>

definition first_admin_headers :: headers where
  "first_admin_headers = [(''authorization'', ''Bearer 0'')]"

lemma sample_process_revokes:
  assumes "sv_admin_token sv = ''0''"
  shows "statuses (ap_status (snd (serve sample_platform sample_decoders sv (PostRevoke first_admin_headers []) (app_state_new config e)))) \<noteq>
    statuses (ap_status (app_state_new config e))"
proof -
  have authorized: "reject_unauthorized_admin sample_platform sv first_admin_headers = None"
    using assms by (simp add: admin_authorized_iff sample_header first_admin_headers_def)
  have f: "with_body sample_platform (de_update_form sample_decoders) (de_update_json sample_decoders) first_admin_headers [] h =
      h \<lparr> su_index = 5, su_format = None \<rparr>"
    for h :: "status_update_request \<Rightarrow> ('a, crash, payload response) prog"
    by (simp add: with_body_def form_or_json_def Let_def first_admin_headers_def header_str_def sample_decoders_def map_err_def)
  have ok: "manager_ok (pf_libs sample_platform) (ap_status (app_state_new config e))"
    by (simp add: manager_new_ok hex_libs_joins)
  obtain s' where run: "revoke_credential sample_platform sv first_admin_headers \<lparr> su_index = 5, su_format = None \<rparr>
      (app_state_new config e) = (Inr (status_reply ''revoked'' 5), s')" and flagged: "is_flagged Revocation 5 (ap_status s')"
    using revoke_credential_run [OF ok, of "\<lparr> su_index = 5, su_format = None \<rparr>" sv first_admin_headers] authorized
    by (auto simp: LIST_CAPACITY_def is_mdoc_def)
  have "\<not> is_flagged Revocation 5 (ap_status (app_state_new config e))"
    using new_not_flagged [of 5] by (simp add: LIST_CAPACITY_def)
  with run flagged show ?thesis by (simp add: f statuses_def fun_eq_iff del: app_state_new_status) metis
qed

lemma started_server_guards_statuses_witness:
  "\<exists>sv app s' hs b. sample_main sample_start = (Inr (sv, app), s') \<and>
     (PostRevoke first_admin_headers [] = PostRevoke hs b \<or> PostRevoke first_admin_headers [] = PostSuspend hs b \<or>
      PostRevoke first_admin_headers [] = PostReinstate hs b) \<and>
     sv_admin_token sv \<noteq> [] \<and> header_str (pf_web sample_platform) hs ''authorization'' = Some (''Bearer '' @ sv_admin_token sv)"
proof -
  obtain sv app s' where run: "sample_main sample_start = (Inr (sv, app), s')" and token: "sv_admin_token sv = ''0''"
    using sample_main_runs by blast
  have uuids: "\<And>n. uuid_at sample_start n \<noteq> []"
    by (subst sample_start_def) (simp add: env.defs startup.defs show_nat.simps)
  from started [OF run uuids hex_libs_joins(2)] obtain config e where app: "app = app_state_new config e" by blast
  have "\<exists>hs b. (PostRevoke first_admin_headers [] = PostRevoke hs b \<or> PostRevoke first_admin_headers [] = PostSuspend hs b \<or>
      PostRevoke first_admin_headers [] = PostReinstate hs b) \<and>
     sv_admin_token sv \<noteq> [] \<and> header_str (pf_web sample_platform) hs ''authorization'' = Some (''Bearer '' @ sv_admin_token sv)"
  proof (rule started_server_guards_statuses [where before = "[]"])
    show "server_main (pf_libs sample_platform) sample_start_x509 sample_rcgen sample_codec_of_keys (\<lambda>u. None) (\<lambda>s. Inl s) (\<lambda>v. None)
        sample_start = (Inr (sv, app), s')" using run by simp
    show "statuses (ap_status (snd (serve sample_platform sample_decoders sv (PostRevoke first_admin_headers [])
        (serve_all sample_platform sample_decoders sv [] app)))) \<noteq>
      statuses (ap_status (serve_all sample_platform sample_decoders sv [] app))"
      using sample_process_revokes [OF token, of config e] by (simp add: app)
  qed (rule uuids, simp add: hex_libs_joins)
  then show ?thesis using run by blast
qed

end
