(* ===== verification/Locks.thy ===== *)
theory Locks
  imports Issuer_State Session "HOL-Library.Transitive_Closure_Table"
begin

text \<open>
  The mutexes of crates/issuer/src/state.rs and crates/verifier/src/session.rs. The other theories
  run one operation at a time; here each request is a thread that takes and returns locks one by
  one. The sequence of an operation follows the guards of its source: a guard is returned at the
  end of its scope, inner guards first, and a lock that is poisoned is taken and returned at once.
\<close>

section \<open>Threads and locks\<close>

datatype 'l lock_action = Acquire 'l | Release 'l

text \<open>Who holds each lock, and what each thread has left to do.\<close>

type_synonym 'l lock_state = "('l \<rightharpoonup> nat) \<times> 'l lock_action list list"

inductive lock_step :: "'l lock_state \<Rightarrow> 'l lock_state \<Rightarrow> bool" where
  acquire: "i < length ts \<Longrightarrow> ts ! i = Acquire l # rest \<Longrightarrow> own l = None \<Longrightarrow>
    lock_step (own, ts) (own(l \<mapsto> i), ts[i := rest])"
| release: "i < length ts \<Longrightarrow> ts ! i = Release l # rest \<Longrightarrow> own l = Some i \<Longrightarrow>
    lock_step (own, ts) (own(l := None), ts[i := rest])"

inductive_cases lock_stepE: "lock_step c c'"

abbreviation lock_steps :: "'l lock_state \<Rightarrow> 'l lock_state \<Rightarrow> bool" where
  "lock_steps \<equiv> lock_step\<^sup>*\<^sup>*"

definition start :: "'l lock_action list list \<Rightarrow> 'l lock_state" where
  "start ts = (Map.empty, ts)"

text \<open>No thread can go on, and one has not finished.\<close>

definition deadlocked :: "'l lock_state \<Rightarrow> bool" where
  "deadlocked c \<longleftrightarrow> (\<nexists>c'. lock_step c c') \<and> (\<exists>t\<in>set (snd c). t \<noteq> [])"

lemma opposite_orders_deadlock:
  assumes "a \<noteq> b"
  shows "\<exists>c. lock_steps (start [Acquire a # Acquire b # xs, Acquire b # Acquire a # ys]) c \<and> deadlocked c"
proof (intro exI conjI)
  let ?own = "Map.empty(a \<mapsto> 0, b \<mapsto> Suc 0)" and ?ts = "[Acquire b # xs, Acquire a # ys]"
  have "lock_step (start [Acquire a # Acquire b # xs, Acquire b # Acquire a # ys])
      (Map.empty(a \<mapsto> 0), [Acquire b # xs, Acquire b # Acquire a # ys])"
    using acquire [of 0 "[Acquire a # Acquire b # xs, Acquire b # Acquire a # ys]" a "Acquire b # xs" Map.empty]
    by (simp add: start_def)
  moreover have "lock_step (Map.empty(a \<mapsto> 0), [Acquire b # xs, Acquire b # Acquire a # ys]) (?own, ?ts)"
    using acquire [of 1 "[Acquire b # xs, Acquire b # Acquire a # ys]" b "Acquire a # ys" "Map.empty(a \<mapsto> 0)"] assms
    by simp
  ultimately show "lock_steps (start [Acquire a # Acquire b # xs, Acquire b # Acquire a # ys]) (?own, ?ts)"
    by (meson converse_rtranclp_into_rtranclp rtranclp.rtrancl_refl)
  show "deadlocked (?own, ?ts)"
    by (auto simp: deadlocked_def less_Suc_eq nth_Cons' elim!: lock_stepE split: if_splits)
qed

section \<open>Ordered locks never block\<close>

text \<open>
  With a rank for each lock: from \<open>held\<close> on, the thread takes only locks above all that it
  holds, returns only locks that it holds, and returns all in the end.
\<close>

fun ordered :: "('l \<Rightarrow> nat) \<Rightarrow> 'l set \<Rightarrow> 'l lock_action list \<Rightarrow> bool" where
  "ordered rank held [] \<longleftrightarrow> held = {}"
| "ordered rank held (Acquire l # rest) \<longleftrightarrow> (\<forall>h\<in>held. rank h < rank l) \<and> ordered rank (insert l held) rest"
| "ordered rank held (Release l # rest) \<longleftrightarrow> l \<in> held \<and> ordered rank (held - {l}) rest"

definition held_by :: "('l \<rightharpoonup> nat) \<Rightarrow> nat \<Rightarrow> 'l set" where
  "held_by own i = {l. own l = Some i}"

definition in_order :: "('l \<Rightarrow> nat) \<Rightarrow> 'l lock_state \<Rightarrow> bool" where
  "in_order rank = (\<lambda>(own, ts). (\<forall>i<length ts. ordered rank (held_by own i) (ts ! i)) \<and>
     (\<forall>l i. own l = Some i \<longrightarrow> i < length ts))"

lemma in_order_start: "list_all (ordered rank {}) ts \<Longrightarrow> in_order rank (start ts)"
  by (auto simp: in_order_def start_def held_by_def list_all_length)

lemma in_order_update:
  assumes "in_order rank (own, ts)" and "i < length ts" and "ordered rank (held_by own' i) rest"
    and "\<And>j. j \<noteq> i \<Longrightarrow> held_by own' j = held_by own j" and "\<And>l j. own' l = Some j \<Longrightarrow> j < length ts"
  shows "in_order rank (own', ts[i := rest])"
  unfolding in_order_def prod.case
proof (intro conjI allI impI)
  fix j
  assume "j < length (ts[i := rest])"
  then show "ordered rank (held_by own' j) (ts[i := rest] ! j)"
    using assms(1-4) by (cases "j = i") (simp_all add: in_order_def)
qed (simp add: assms(5))

lemma in_order_step: "lock_step c c' \<Longrightarrow> in_order rank c \<Longrightarrow> in_order rank c'"
proof (induction rule: lock_step.induct)
  case (acquire i ts l rest own)
  have o: "ordered rank (held_by own i) (ts ! i)"
    using acquire.hyps(1) acquire.prems by (simp add: in_order_def)
  have "held_by (own(l \<mapsto> i)) i = insert l (held_by own i)" by (auto simp: held_by_def)
  with o acquire.hyps(2) have "ordered rank (held_by (own(l \<mapsto> i)) i) rest" by simp
  moreover have "held_by (own(l \<mapsto> i)) j = held_by own j" if "j \<noteq> i" for j
    using acquire.hyps(3) that by (auto simp: held_by_def)
  moreover have "j < length ts" if "(own(l \<mapsto> i)) l' = Some j" for l' j
    using that acquire.hyps(1) acquire.prems by (auto simp: in_order_def split: if_splits)
  ultimately show ?case by (rule in_order_update [OF acquire.prems acquire.hyps(1)])
next
  case (release i ts l rest own)
  have o: "ordered rank (held_by own i) (ts ! i)"
    using release.hyps(1) release.prems by (simp add: in_order_def)
  have "held_by (own(l := None)) i = held_by own i - {l}" by (auto simp: held_by_def)
  with o release.hyps(2) have "ordered rank (held_by (own(l := None)) i) rest" by simp
  moreover have "held_by (own(l := None)) j = held_by own j" if "j \<noteq> i" for j
    using release.hyps(3) that by (auto simp: held_by_def)
  moreover have "j < length ts" if "(own(l := None)) l' = Some j" for l' j
    using that release.prems by (auto simp: in_order_def split: if_splits)
  ultimately show ?case by (rule in_order_update [OF release.prems release.hyps(1)])
qed

lemma in_order_steps: "lock_steps c c' \<Longrightarrow> in_order rank c \<Longrightarrow> in_order rank c'"
  by (induction rule: rtranclp_induct) (auto intro: in_order_step)

text \<open>The lock that a thread waits for.\<close>

definition waits :: "'l lock_state \<Rightarrow> nat \<Rightarrow> 'l \<Rightarrow> bool" where
  "waits = (\<lambda>(own, ts) i l. i < length ts \<and> (\<exists>rest. ts ! i = Acquire l # rest))"

lemma blocked_waits:
  assumes "\<nexists>c'. lock_step (own, ts) c'" and "in_order rank (own, ts)" and "i < length ts" and "ts ! i \<noteq> []"
  obtains l j where "waits (own, ts) i l" "own l = Some j" "j < length ts" "ts ! j \<noteq> []"
    "\<forall>h. own h = Some i \<longrightarrow> rank h < rank l"
proof -
  have o: "ordered rank (held_by own k) (ts ! k)" if "k < length ts" for k using assms(2) that by (simp add: in_order_def)
  obtain a rest where a: "ts ! i = a # rest" using assms(4) by (cases "ts ! i") auto
  show thesis
  proof (cases a)
    case (Acquire l)
    then obtain j where j: "own l = Some j" using assms(1,3) a by (cases "own l") (auto dest: lock_step.acquire)
    then have "j < length ts" using assms(2) by (auto simp: in_order_def)
    moreover have "ts ! j \<noteq> []" using o [OF \<open>j < length ts\<close>] j by (auto simp: held_by_def)
    moreover have "rank h < rank l" if "own h = Some i" for h
      using o [OF assms(3)] a Acquire that by (auto simp: held_by_def)
    ultimately show thesis using that [of l j] a Acquire assms(3) j by (auto simp: waits_def)
  next
    case (Release l)
    then have "own l = Some i" using o [OF assms(3)] a by (auto simp: held_by_def)
    then show thesis using assms(1,3) a Release by (auto dest: lock_step.release)
  qed
qed

lemma ordered_not_deadlocked:
  assumes "in_order rank c"
  shows "\<not> deadlocked c"
proof
  assume d: "deadlocked c"
  obtain own ts where c: "c = (own, ts)" by fastforce
  from d have stuck: "\<nexists>c'. lock_step (own, ts) c'" by (simp add: deadlocked_def c)
  note w = blocked_waits [OF stuck assms [unfolded c]]
  define R where "R = {rank l |l i. waits (own, ts) i l}"
  have "R \<subseteq> (\<lambda>i. case ts ! i of Acquire l # _ \<Rightarrow> rank l | _ \<Rightarrow> 0) ` {..<length ts}"
    by (force simp: R_def waits_def)
  then have fin: "finite R" by (rule finite_subset) simp
  from d obtain i where "i < length ts" "ts ! i \<noteq> []" by (auto simp: deadlocked_def c in_set_conv_nth)
  then obtain l where "waits (own, ts) i l" using w by metis
  then have "R \<noteq> {}" by (auto simp: R_def)
  with fin have "Max R \<in> R" by (rule Max_in)
  then obtain m k where m: "waits (own, ts) k m" "rank m = Max R" by (auto simp: R_def)
  then have k: "k < length ts" "ts ! k \<noteq> []" by (auto simp: waits_def)
  obtain n j where n: "waits (own, ts) k n" and j: "own n = Some j" "j < length ts" "ts ! j \<noteq> []"
    by (rule w [OF k])
  have "n = m" using n m(1) by (auto simp: waits_def)
  obtain l' where l': "waits (own, ts) j l'" "\<forall>h. own h = Some j \<longrightarrow> rank h < rank l'" by (rule w [OF j(2,3)])
  then have "rank m < rank l'" using j(1) \<open>n = m\<close> by simp
  moreover have "rank l' \<in> R" using l'(1) by (auto simp: R_def)
  with fin have "rank l' \<le> Max R" by (rule Max_ge)
  ultimately show False using m(2) by simp
qed

section \<open>The locks of the operations\<close>

text \<open>A guard for the rest of the scope.\<close>

definition locked :: "'l \<Rightarrow> 'm mutex \<Rightarrow> ('m \<Rightarrow> 'l lock_action list) \<Rightarrow> 'l lock_action list" where
  "locked l m inner = Acquire l # (case m of Unlocked x \<Rightarrow> inner x | Poisoned \<Rightarrow> []) @ [Release l]"

datatype issuer_lock =
  Sessions | CodeToUri | PreAuthCodes | AccessTokens | TokensByCode | SeenJtis | CNonces

fun issuer_locks :: "state_op \<Rightarrow> 'x issuer_state_scheme \<Rightarrow> issuer_lock lock_action list" where
  "issuer_locks (SetCode uri code) s =
     locked Sessions (is_sessions s) (\<lambda>sessions.
       case sessions uri of None \<Rightarrow> [] | Some _ \<Rightarrow> locked CodeToUri (is_code_to_uri s) (\<lambda>_. []))"
| "issuer_locks (GetSessionByCode code) s =
     locked CodeToUri (is_code_to_uri s) (\<lambda>code_map.
       case code_map code of None \<Rightarrow> [] | Some _ \<Rightarrow> locked Sessions (is_sessions s) (\<lambda>_. []))"
| "issuer_locks (ConsumeCode code) s =
     locked CodeToUri (is_code_to_uri s) (\<lambda>code_map.
       case code_map code of None \<Rightarrow> [] | Some _ \<Rightarrow> locked Sessions (is_sessions s) (\<lambda>_. []))"
| "issuer_locks (RevokeTokens code) s =
     locked TokensByCode (is_tokens_by_code s) (\<lambda>_. []) @
     (case is_tokens_by_code s of
        Unlocked tokens \<Rightarrow>
          (case tokens code of None \<Rightarrow> [] | Some _ \<Rightarrow> locked AccessTokens (is_access_tokens s) (\<lambda>_. []))
      | Poisoned \<Rightarrow> [])"
| "issuer_locks (StoreSession _ _) s = locked Sessions (is_sessions s) (\<lambda>_. [])"
| "issuer_locks (GetSession _) s = locked Sessions (is_sessions s) (\<lambda>_. [])"
| "issuer_locks (RecordToken _ _) s = locked TokensByCode (is_tokens_by_code s) (\<lambda>_. [])"
| "issuer_locks (RecordJti _ _) s = locked SeenJtis (is_seen_jtis s) (\<lambda>_. [])"
| "issuer_locks (StorePreAuth _ _ _) s = locked PreAuthCodes (is_pre_auth_codes s) (\<lambda>_. [])"
| "issuer_locks (RedeemPreAuth _ _) s = locked PreAuthCodes (is_pre_auth_codes s) (\<lambda>_. [])"
| "issuer_locks (StoreToken _ _ _) s = locked AccessTokens (is_access_tokens s) (\<lambda>_. [])"
| "issuer_locks (GetGrant _) s = locked AccessTokens (is_access_tokens s) (\<lambda>_. [])"
| "issuer_locks (StoreNonce _ _) s = locked CNonces (is_c_nonces s) (\<lambda>_. [])"
| "issuer_locks (ConsumeNonce _) s = locked CNonces (is_c_nonces s) (\<lambda>_. [])"

text \<open>The order in which all operations but one take the issuer's locks.\<close>

fun issuer_rank :: "issuer_lock \<Rightarrow> nat" where
  "issuer_rank CodeToUri = 0"
| "issuer_rank _ = 1"

fun sets_code :: "state_op \<Rightarrow> bool" where
  "sets_code (SetCode _ _) \<longleftrightarrow> True"
| "sets_code _ \<longleftrightarrow> False"

lemma issuer_locks_ordered: "\<not> sets_code op \<Longrightarrow> ordered issuer_rank {} (issuer_locks op s)"
  by (cases "(op, s)" rule: issuer_locks.cases) (auto simp: locked_def split: mutex.split option.split)

datatype session_op = PutSession verifier_session | FindSession string | FindByState string | DropSession string

datatype verifier_lock = SessionMap | StateToId

fun verifier_locks :: "session_op \<Rightarrow> 'x verifier_state_scheme \<Rightarrow> verifier_lock lock_action list" where
  "verifier_locks (PutSession _) s =
     locked SessionMap (vr_sessions s) (\<lambda>_. locked StateToId (vr_state_to_id s) (\<lambda>_. []))"
| "verifier_locks (FindSession _) s = locked SessionMap (vr_sessions s) (\<lambda>_. [])"
| "verifier_locks (FindByState st) s =
     locked StateToId (vr_state_to_id s) (\<lambda>state_map.
       case state_map st of None \<Rightarrow> [] | Some _ \<Rightarrow> locked SessionMap (vr_sessions s) (\<lambda>_. []))"
| "verifier_locks (DropSession i) s =
     locked SessionMap (vr_sessions s) (\<lambda>sessions.
       case sessions i of None \<Rightarrow> [] | Some _ \<Rightarrow> locked StateToId (vr_state_to_id s) (\<lambda>_. []))"

text \<open>
  C33. The issuer can lock up: setting the code of a stored session takes the session lock first,
  looking up the session of a known code takes it second, and two such requests, interleaved
  between their two locks, wait for each other forever.
\<close>

theorem issuer_deadlock:
  assumes "is_sessions s = Unlocked sessions" and "sessions uri = Some session"
    and "is_code_to_uri s = Unlocked codes" and "codes code = Some uri'"
  shows "\<exists>c. lock_steps (start [issuer_locks (SetCode uri code') s, issuer_locks (GetSessionByCode code) s]) c \<and>
     deadlocked c"
  using opposite_orders_deadlock [of Sessions CodeToUri "[Release CodeToUri, Release Sessions]"
      "[Release Sessions, Release CodeToUri]"] assms
  by (simp add: locked_def)

definition sample_authorized :: authorization_session where
  "sample_authorized = \<lparr> sn_request_uri = ''u'', sn_authorization_code = Some ''c'', sn_code_challenge = ''ch'',
     sn_client_id = ''client'', sn_redirect_uri = ''https://wallet/cb'', sn_configuration_ids = [], sn_via_details = False,
     sn_issuer_state = None, sn_client_state = None, sn_created_at = 0, sn_code_issued_at = Some 0,
     sn_dpop_jkt = None, sn_consumed = False \<rparr>"

definition sample_locked_store :: issuer_state where
  "sample_locked_store = sample_store
     \<lparr> is_sessions := Unlocked [''u'' \<mapsto> sample_authorized], is_code_to_uri := Unlocked [''c'' \<mapsto> ''u''] \<rparr>"

theorem issuer_deadlock_witness:
  "\<exists>c. lock_steps (start [issuer_locks (SetCode ''u'' ''d'') sample_locked_store,
     issuer_locks (GetSessionByCode ''c'') sample_locked_store]) c \<and> deadlocked c"
proof (rule issuer_deadlock)
  show "is_sessions sample_locked_store = Unlocked [''u'' \<mapsto> sample_authorized]"
    "is_code_to_uri sample_locked_store = Unlocked [''c'' \<mapsto> ''u'']" by (simp_all add: sample_locked_store_def)
qed simp_all

text \<open>
  C34. Every other mix of requests keeps going: as long as no thread sets a code, the issuer's
  threads, whatever operations they run on whatever states, never all wait.
\<close>

theorem issuer_progress:
  assumes "list_all (\<lambda>(op, s). \<not> sets_code op) calls"
    and "lock_steps (start (map (\<lambda>(op, s). issuer_locks op s) calls)) c"
  shows "\<not> deadlocked c"
proof -
  have "list_all (ordered issuer_rank {}) (map (\<lambda>(op, s). issuer_locks op s) calls)"
    using assms(1) by (auto simp: list_all_iff intro!: issuer_locks_ordered)
  then show ?thesis by (intro ordered_not_deadlocked in_order_steps [OF assms(2)] in_order_start)
qed

theorem issuer_progress_witness:
  "\<not> deadlocked (start (map (\<lambda>(op, s). issuer_locks op s)
     [(GetSessionByCode ''c'', sample_locked_store), (ConsumeCode ''c'', sample_locked_store)]))"
  by (rule issuer_progress [OF _ rtranclp.rtrancl_refl]) simp

text \<open>The verifier's session store has the same inversion, in the look-up by state.\<close>

theorem verifier_deadlock:
  assumes "vr_sessions s = Unlocked sessions" and "sessions i = Some session"
    and "vr_state_to_id s = Unlocked ids" and "ids st = Some i'"
  shows "\<exists>c. lock_steps (start [verifier_locks (DropSession i) s, verifier_locks (FindByState st) s]) c \<and> deadlocked c"
  using opposite_orders_deadlock [of SessionMap StateToId "[Release StateToId, Release SessionMap]"
      "[Release SessionMap, Release StateToId]"] assms
  by (simp add: locked_def)

end
