(* ===== verification/Spec2Isabelle.thy ===== *)
theory Spec2Isabelle
  imports Process_Samples Locks
begin

text \<open>
  oid4vc-rs: a server that issues credentials over OID4VCI 1.0 and verifies presentations over
  OID4VP 1.0, in the HAIP 1.0 profile. This development models every crate under src/crates,
  tests apart, and proves what makes each part, and their composition, correct.

  THE PROGRAM. A wallet is authenticated by client attestation, pushes an authorization request,
  has the user approve it, trades the code (PKCE, DPoP) or a pre-authorized code for an access
  token, and gets SD-JWT VCs or mdocs for keys it proves possession of, with fresh nonces. The
  credentials carry an index of a status list, which the administrator can revoke. A verifier
  opens a session, sends a signed request with a query, and checks the presentation that comes
  back. One process serves both, with all sessions, codes, tokens and nonces in memory, behind
  one mutex per map, and its keys and certificates in files.

  THE THEORIES, bottom up, with their sources (under src/crates/).

  Shared: Prelude (results and state-passing programs with early return; the clock, UUIDs, salts
  and draws as sequences; mutexes with poisoning; wrap-around of i64; Rust's string operations),
  Externals (the functions of third-party crates as one record, \<open>libs\<close>, and their documented
  properties), Drawing (the loop that draws until a number is unused), Single_Use (the contract of
  stores whose entries are used once).

  types: Oid4vci_Types, Oid4vp_Types, Credential_Formats, Protocol_Errors (with
  server/src/middleware.rs); the status values are in Status_Lists.

  crypto: Keys and Key_Storage (keys.rs, jwk.rs), Jws (jws.rs), X509 and Minting (x509.rs), Sd_Jwt
  (sd_jwt.rs), Cose (cose.rs), Mdoc, Mdoc_Verification, Mdoc_Round_Trip, Mdoc_Status (mdoc.rs).

  status: Status_Lists (status_list_2021.rs, token_status_list.rs), Status_Manager (manager.rs).

  issuer: Issuer_State (state.rs), Dpop (dpop.rs), Client_Attestation (client_attestation.rs),
  Authorization (authorization.rs), Token (token.rs), Code_Flow (a push, an approval and a token request composed, and
  the machine of the three in any order),
  Metadata (metadata.rs, offer.rs), Credential and Mdl_Credential (credential.rs).

  verifier: Session (session.rs), Dcql (dcql.rs), Request (request.rs), Response (response.rs).

  server: Web (extract.rs and what the routes share), App_State and Startup (state.rs, config.rs),
  Issuer_Routes and Issuer_Endpoints (routes/issuer.rs), Status_Routes (routes/status.rs),
  Verifier_Routes (routes/verifier.rs, routes/well_known.rs), Server and Server_Status (lib.rs: the
  router, and what holds across all routes), Process (main.rs: from the environment to the requests), Locks (the mutexes of both state.rs and session.rs).

  Sample_Cbor, Mdoc_Samples, Credential_Samples, Server_Samples, Startup_Samples and Process_Samples
  hold concrete crates, requests and deployments at which the properties are applied.
\<close>

text \<open>
  HOW THE MODEL READS THE CODE. A function keeps its name, shortened by a prefix where HOL or
  another crate has it already. A struct is a record, an enum a datatype; field prefixes such as
  \<open>is_\<close> or \<open>sv_\<close> only keep names apart. A fallible function returns a sum (\<open>Inl\<close> the error); one
  with state is a program over a record that extends \<open>env\<close>, and \<open>?\<close> is \<open>bindP\<close>. A handler's early
  return is the error \<open>Respond\<close> of such a program, and \<open>finish\<close> gives the response in either case.
  Panics and loops that do not end are values of their own (\<open>StatePanic\<close>, \<open>ManagerPanic\<close>,
  \<open>MdocNeverReturns\<close>, \<open>Crash\<close> and others, each named in its theory), so that no property holds because
  a failure was left out. Where a panic is caught by nothing, the mutex that was held is poisoned.
  \<open>Url::join\<close> may fail: \<open>url_for\<close>, \<open>build_metadata\<close> and the status manager then panic as the source
  does, at the start, in a handler or with the lists' mutex held. \<open>joins L u\<close> says that a URL takes the
  program's paths; the start succeeds with no other (\<open>started\<close>), given \<open>url_law\<close>.
  Arithmetic on i64 and u64 that can overflow wraps as in a release build, and is written out.

  Third-party code is a parameter: \<open>libs\<close> (base64ct, sha2, serde_json with the derived
  implementations, p256, ed25519-dalek, flate2, url, chrono's printer), \<open>cbor_libs\<close> (ciborium,
  coset), \<open>x509_libs\<close> (x509-cert), \<open>rcgen_libs\<close>, \<open>key_codec\<close>, \<open>time_libs\<close> and \<open>web_libs\<close>. The laws a property needs
  (\<open>b64url_law\<close>, \<open>p256_law\<close>, \<open>url_law\<close>, \<open>cbor_law\<close>, \<open>rcgen_law\<close> and so on) are documented behaviour of these crates,
  and are shown of concrete instances in the sample theories. Hashes are parameters without laws:
  where a property would need them to be collision-free it concludes equality of digests instead.
  Requests reach the server as headers, bytes, queries and path segments; serde's decoders and
  axum's extractors, each with its value or its rejection, are the record \<open>decoders\<close>.

  INTERFACES. The locale \<open>signer\<close> is the contract of the KeyPair trait, interpreted by both key
  types; JWS, SD-JWT and DPoP round trips are proved once in it. \<open>status_array\<close> is the contract of
  the two status formats, \<open>single_use\<close> (and \<open>single_use_under\<close>, with an invariant) that of nonces, codes
  and sessions, interpreted by the issuer's store, the code flow and the verifier. Properties rest on the interpretations' facts.

  BOUNDS. No fuel is used. The drawing loops are partial functions, \<open>None\<close> when no draw ever hits an
  unused number; that they return when there is room and the draws reach it is proved. Every other
  recursion is on the data or has a measure. Codecs of CBOR are used up to a nesting depth that the
  crate guarantees, and the values built here stay below it.
\<close>

text \<open>
  WHAT IS SHOWN.

  Cryptographic formats: what verifies was signed, over exactly the claims, digests, nonces and
  transcripts that are returned; what the issuer makes verifies at the wallet and, after a selection,
  at the verifier; when a certificate chain is accepted, and that a bundle written to PEM loads.

  Status: the formats agree at every index in every reachable state, an index is handed out once,
  allocation ends; across all requests of the server an allocated index, once revoked, is invalid
  in every list published later, a request without the admin token changes nothing, and from the
  start of the process on, in any environment, only requests with it change a status.

  Issuance: each grant checks client, PKCE, DPoP and transaction code before it mints; codes are
  redeemed once, replaying one revokes its token, and a client that follows the flow gets its
  token; protected resources need a live token with its proof; credentials are issued only for
  granted configurations and freshly proved keys, and they verify and name those keys; what the
  consent page does and where it redirects.

  Presentation: what an accepted presentation is, that honest presentations are accepted, and
  that a session is presented to once.

  Server: a request that an extractor of axum rejects gets that rejection and changes nothing, and
  every other response of every route is well formed (a status that fits the kind of body and the
  error code, registered codes, the characters of descriptions); a deployment with configured files comes back after a restart as the same server.

  Interleaving: with the locks taken one by one, two requests can hand out two tokens for one code
  or accept two presentations for one session; one operation of the issuer's store can deadlock with
  others, and no mix of the remaining ones can.

  WHAT IT TURNED UP. The manifest's findings list where the code differs from its comments or from
  its purpose, among them: the lock order of the issuer's and the verifier's store; codes and
  sessions that are checked and spent in two locked steps; JWTs of the issuer that are accepted as
  presentations without key binding; the part of a query that is not evaluated; suspension, which
  no issued credential shows; the record of a DPoP proof that ends before the proof does; and
  key files that are protected only after they are written.
\<close>

text \<open>
  NOT MODELLED. Of server/src/main.rs: loading the .env file, installing the tracing subscriber,
  binding the socket and handing the router to axum. The CORS and tracing layers of the router, which add headers for browsers and log, and
  axum's own answers to paths and methods that are not in the routing table. Log messages. The derived serde readers and writers of message types, except where their shape matters
  (mdoc credentials, signed requests, published lists): they are parameters. Directories of the
  file system, whose creation can only fail here. The time crate's limit of the year 9999. Tests,
  and the scripts under src/conformance.

  Requests are served one after another in the theories of the routes, as each handler sees the
  stores between its own steps unless another request interleaves; the steps at which it can are
  looked at in Token, Response and Locks. A panic inside a store is a value that its callers pass on to
  the handler, which then gives no response (\<open>Crash\<close>).
\<close>

end
